(* ===== verification/Prelude.thy ===== *)
theory Prelude
  imports Main "HOL-Library.Word"
begin

text \<open>
  Shared vocabulary of the development: Rust's integer types as words, Rust's \<open>Result\<close> with
  panics made explicit, the combinators the sources use on it (\<open>?\<close>, \<open>map_err\<close>,
  \<open>ok_or\<close>, \<open>unwrap\<close>, \<open>collect::<Result<Vec<_>, _>>\<close>), and big-endian byte strings.
  The collection \<open>result_simps\<close> carries the equations of the combinators, \<open>bytes_simps\<close>
  those of the byte strings.
\<close>

named_theorems result_simps \<open>equations of the Result combinators\<close>
named_theorems bytes_simps \<open>equations of big-endian byte strings\<close>

section \<open>Machine integers\<close>

type_synonym u8 = "8 word"
type_synonym u32 = "32 word"
type_synonym u64 = "64 word"
type_synonym u128 = "128 word"
type_synonym u256 = "256 word"
type_synonym byte = "8 word"
type_synonym bytes = "8 word list"

section \<open>Results and panics\<close>

text \<open>
  \<open>Ok\<close> and \<open>Err\<close> are Rust's; \<open>Panic\<close> is the outcome of a failed
  \<open>unwrap\<close>, \<open>expect\<close>, \<open>assert!\<close>, slice index or checked arithmetic operation.
\<close>

datatype ('a, 'e) result = Ok 'a | Err 'e | Panic

fun and_then :: "('a, 'e) result \<Rightarrow> ('a \<Rightarrow> ('b, 'e) result) \<Rightarrow> ('b, 'e) result" where
  "and_then (Ok x) k = k x"
| "and_then (Err e) k = Err e"
| "and_then Panic k = Panic"

fun map_ok :: "('a \<Rightarrow> 'b) \<Rightarrow> ('a, 'e) result \<Rightarrow> ('b, 'e) result" where
  "map_ok f (Ok x) = Ok (f x)"
| "map_ok f (Err e) = Err e"
| "map_ok f Panic = Panic"

fun map_err :: "('e \<Rightarrow> 'f) \<Rightarrow> ('a, 'e) result \<Rightarrow> ('a, 'f) result" where
  "map_err f (Ok x) = Ok x"
| "map_err f (Err e) = Err (f e)"
| "map_err f Panic = Panic"

fun ok_or :: "'e \<Rightarrow> 'a option \<Rightarrow> ('a, 'e) result" where
  "ok_or e (Some x) = Ok x"
| "ok_or e None = Err e"

fun unwrap :: "('a, 'e) result \<Rightarrow> ('a, 'f) result" where
  "unwrap (Ok x) = Ok x"
| "unwrap (Err e) = Panic"
| "unwrap Panic = Panic"

fun unwrap_opt :: "'a option \<Rightarrow> ('a, 'e) result" where
  "unwrap_opt (Some x) = Ok x"
| "unwrap_opt None = Panic"

definition is_ok :: "('a, 'e) result \<Rightarrow> bool" where
  "is_ok r = (case r of Ok _ \<Rightarrow> True | _ \<Rightarrow> False)"

text \<open>\<open>iter().map(f).collect::<Result<Vec<_>, _>>()\<close>: stops at the first failure.\<close>

fun collect_results :: "('a \<Rightarrow> ('b, 'e) result) \<Rightarrow> 'a list \<Rightarrow> ('b list, 'e) result" where
  "collect_results f [] = Ok []"
| "collect_results f (x # xs) =
     and_then (f x) (\<lambda>y. and_then (collect_results f xs) (\<lambda>ys. Ok (y # ys)))"

lemmas result_simps_base [result_simps] =
  and_then.simps map_ok.simps map_err.simps ok_or.simps unwrap.simps unwrap_opt.simps

lemma and_then_Ok_iff [simp]:
  "and_then r k = Ok y \<longleftrightarrow> (\<exists>x. r = Ok x \<and> k x = Ok y)"
  by (cases r) auto

lemma and_then_Err_iff [simp]:
  "and_then r k = Err e \<longleftrightarrow> r = Err e \<or> (\<exists>x. r = Ok x \<and> k x = Err e)"
  by (cases r) auto

lemma and_then_Panic_iff [simp]:
  "and_then r k = Panic \<longleftrightarrow> r = Panic \<or> (\<exists>x. r = Ok x \<and> k x = Panic)"
  by (cases r) auto

lemma map_ok_Ok_iff [simp]: "map_ok f r = Ok y \<longleftrightarrow> (\<exists>x. r = Ok x \<and> f x = y)"
  by (cases r) auto

lemma map_ok_Err_iff [simp]: "map_ok f r = Err e \<longleftrightarrow> r = Err e"
  by (cases r) auto

lemma map_ok_Panic_iff [simp]: "map_ok f r = Panic \<longleftrightarrow> r = Panic"
  by (cases r) auto

lemma map_err_Ok_iff [simp]: "map_err f r = Ok y \<longleftrightarrow> r = Ok y"
  by (cases r) auto

lemma map_err_Err_iff [simp]: "map_err f r = Err e \<longleftrightarrow> (\<exists>e'. r = Err e' \<and> f e' = e)"
  by (cases r) auto

lemma map_err_Panic_iff [simp]: "map_err f r = Panic \<longleftrightarrow> r = Panic"
  by (cases r) auto

lemma ok_or_Ok_iff [simp]: "ok_or e r = Ok y \<longleftrightarrow> r = Some y"
  by (cases r) auto

lemma ok_or_Err_iff [simp]: "ok_or e r = Err e' \<longleftrightarrow> r = None \<and> e = e'"
  by (cases r) auto

lemma ok_or_Panic [simp]: "ok_or e r \<noteq> Panic"
  by (cases r) auto

lemma unwrap_Ok_iff [simp]: "unwrap r = Ok y \<longleftrightarrow> r = Ok y"
  by (cases r) auto

lemma unwrap_Err [simp]: "unwrap r \<noteq> Err e"
  by (cases r) auto

lemma unwrap_opt_Ok_iff [simp]: "unwrap_opt r = Ok y \<longleftrightarrow> r = Some y"
  by (cases r) auto

lemma unwrap_opt_Err [simp]: "unwrap_opt r \<noteq> Err e"
  by (cases r) auto

lemma is_ok_iff [simp]: "is_ok r \<longleftrightarrow> (\<exists>x. r = Ok x)"
  by (cases r) (auto simp: is_ok_def)

lemma collect_results_all_Ok:
  assumes "\<forall>x \<in> set xs. f x = Ok (g x)"
  shows "collect_results f xs = Ok (map g xs)"
  using assms by (induction xs) auto

lemma collect_results_Ok_iff:
  "collect_results f xs = Ok ys \<longleftrightarrow> list_all2 (\<lambda>x y. f x = Ok y) xs ys"
  by (induction xs arbitrary: ys) (auto simp: list_all2_Cons1)

lemma collect_results_ErrD:
  "collect_results f xs = Err e \<Longrightarrow> \<exists>x \<in> set xs. f x = Err e"
  by (induction xs) auto

section \<open>Arithmetic out of range\<close>

text \<open>
  What a build makes of \<open>+\<close> and \<open>-\<close> on unsigned integers: with overflow checks (the profile
  \<^verbatim>\<open>dev\<close>) a value that leaves the type is a panic, without them (\<^verbatim>\<open>release\<close> and what inherits
  from it, where the workspace's \<^verbatim>\<open>Cargo.toml\<close> does not turn them on) it wraps around. The width
  of \<open>usize\<close> is 64 bits natively and 32 bits in the Wasm runtime.
\<close>

record build =
  overflow_checks :: bool
  usize_bits :: nat

definition machine_int :: "bool \<Rightarrow> nat \<Rightarrow> int \<Rightarrow> (nat, 'e) result" where
  "machine_int checks w z =
     (if 0 \<le> z \<and> z < 2 ^ w then Ok (nat z) else if checks then Panic else Ok (nat (z mod 2 ^ w)))"

lemma machine_int_in_range [simp]: "0 \<le> z \<Longrightarrow> z < 2 ^ w \<Longrightarrow> machine_int checks w z = Ok (nat z)"
  by (simp add: machine_int_def)

lemma machine_int_diff [simp]: "b \<le> a \<Longrightarrow> a < 2 ^ w \<Longrightarrow> machine_int checks w (int a - int b) = Ok (a - b)"
  by (auto simp: machine_int_def of_nat_diff [symmetric] simp del: of_nat_diff)

lemma machine_int_not_Err [simp]: "machine_int checks w z \<noteq> Err e"
  by (simp add: machine_int_def)

lemma machine_int_checked_Ok: "machine_int True w z = Ok n \<longleftrightarrow> 0 \<le> z \<and> z < 2 ^ w \<and> n = nat z"
  by (auto simp: machine_int_def)

section \<open>Stateful computations\<close>

text \<open>
  A call with a \<open>&mut\<close> state: the outcome and the state it leaves, which is also there when the
  call fails. \<open>bind_st\<close> is \<open>?\<close> on such calls.
\<close>

type_synonym ('a, 'e, 's) st = "'s \<Rightarrow> ('a, 'e) result \<times> 's"

definition bind_st :: "('a, 'e, 's) st \<Rightarrow> ('a \<Rightarrow> ('b, 'e, 's) st) \<Rightarrow> ('b, 'e, 's) st" where
  "bind_st m k s =
     (case m s of
        (Ok x, s') \<Rightarrow> k x s'
      | (Err e, s') \<Rightarrow> (Err e, s')
      | (Panic, s') \<Rightarrow> (Panic, s'))"

definition ret_st :: "('a, 'e) result \<Rightarrow> ('a, 'e, 's) st" where
  "ret_st r s = (r, s)"

definition get_st :: "('s, 'e, 's) st" where
  "get_st s = (Ok s, s)"

definition map_err_st :: "('e \<Rightarrow> 'f) \<Rightarrow> ('a, 'e, 's) st \<Rightarrow> ('a, 'f, 's) st" where
  "map_err_st f m s = (case m s of (r, s') \<Rightarrow> (map_err f r, s'))"

text \<open>
  A failure kept as a value (only a panic goes through), and the map of a fallible call over a vector,
  which stops at the first failure.
\<close>

definition attempt_st :: "('a, 'e, 's) st \<Rightarrow> (('a, 'e) result, 'f, 's) st" where
  "attempt_st m s = (case m s of (Panic, s') \<Rightarrow> (Panic, s') | (r, s') \<Rightarrow> (Ok r, s'))"

fun traverse_st :: "('a \<Rightarrow> ('b, 'e, 's) st) \<Rightarrow> 'a list \<Rightarrow> ('b list, 'e, 's) st" where
  "traverse_st f [] = ret_st (Ok [])"
| "traverse_st f (x # xs) = bind_st (f x) (\<lambda>y. bind_st (traverse_st f xs) (\<lambda>ys. ret_st (Ok (y # ys))))"

lemma bind_st_Ok_iff:
  "bind_st m k s = (Ok y, s'') \<longleftrightarrow> (\<exists>x s'. m s = (Ok x, s') \<and> k x s' = (Ok y, s''))"
  by (auto simp: bind_st_def split: prod.splits result.splits)

lemma bind_st_ret [simp]: "bind_st (ret_st (Ok x)) k = k x" "bind_st (ret_st (Err e)) k = ret_st (Err e)"
  "bind_st (ret_st Panic) k = ret_st Panic"
  by (auto simp: bind_st_def ret_st_def fun_eq_iff)

lemma snd_ret_st [simp]: "snd (ret_st r s) = s" "fst (ret_st r s) = r"
  by (simp_all add: ret_st_def)

lemma snd_map_err_st [simp]: "snd (map_err_st f m s) = snd (m s)" "fst (map_err_st f m s) = map_err f (fst (m s))"
  by (simp_all add: map_err_st_def split: prod.split)

lemma bind_get_st [simp]: "bind_st get_st k s = k s s"
  by (simp add: bind_st_def get_st_def)

lemma map_err_st_Ok_iff: "map_err_st f m s = (Ok y, s') \<longleftrightarrow> m s = (Ok y, s')"
  by (auto simp: map_err_st_def split: prod.splits)

lemma bind_st_assoc: "bind_st (bind_st m f) k = bind_st m (\<lambda>x. bind_st (f x) k)"
  by (auto simp: bind_st_def fun_eq_iff split: prod.split result.split)

lemma attempt_st_Ok_iff: "attempt_st m s = (Ok r, s') \<longleftrightarrow> m s = (r, s') \<and> r \<noteq> Panic"
  by (auto simp: attempt_st_def split: prod.splits result.splits)

lemma attempt_st_no_Err [simp]: "attempt_st m s \<noteq> (Err e, s')"
  by (auto simp: attempt_st_def split: prod.splits result.splits)

lemma traverse_st_length: "traverse_st f xs s = (Ok ys, s') \<Longrightarrow> length ys = length xs"
  by (induction xs arbitrary: s ys) (auto simp: bind_st_Ok_iff ret_st_def)

lemma Max_insert_max:
  "finite A \<Longrightarrow> Max (insert (max a b) A) = Max (insert a (insert (b :: 'a :: linorder) A))"
  by (cases "A = {}") (auto simp: max.assoc)

text \<open>Computations that leave a part of the state as it was.\<close>

named_theorems preserves_intros \<open>computations that leave a part of the state\<close>

definition preserves :: "('s \<Rightarrow> 'b) \<Rightarrow> ('a, 'e, 's) st \<Rightarrow> bool" where
  "preserves part m \<longleftrightarrow> (\<forall>s. part (snd (m s)) = part s)"

lemma preservesD: "preserves part m \<Longrightarrow> m s = (r, s') \<Longrightarrow> part s' = part s"
  by (metis preserves_def snd_conv)

lemma preserves_ret [preserves_intros]: "preserves part (ret_st r)" "preserves part get_st"
  by (simp_all add: preserves_def ret_st_def get_st_def)

lemma preserves_map_err [preserves_intros]: "preserves part m \<Longrightarrow> preserves part (map_err_st f m)"
  by (auto simp: preserves_def map_err_st_def split: prod.split) (metis snd_conv)

lemma preserves_bind [preserves_intros]:
  "preserves part m \<Longrightarrow> (\<And>x. preserves part (k x)) \<Longrightarrow> preserves part (bind_st m k)"
  unfolding preserves_def bind_st_def by (auto split: prod.split result.split) (metis snd_conv)+

lemma preserves_if [preserves_intros]:
  "(b \<Longrightarrow> preserves part m) \<Longrightarrow> (\<not> b \<Longrightarrow> preserves part m') \<Longrightarrow> preserves part (if b then m else m')"
  by simp

lemma preserves_prod [preserves_intros]: "(\<And>a b. preserves part (f a b)) \<Longrightarrow> preserves part (case p of (a, b) \<Rightarrow> f a b)"
  by (cases p) simp

section \<open>Big-endian byte strings\<close>

fun be_val :: "bytes \<Rightarrow> nat" where
  "be_val [] = 0"
| "be_val (b # bs) = unat b * 256 ^ length bs + be_val bs"

fun be_bytes :: "nat \<Rightarrow> nat \<Rightarrow> bytes" where
  "be_bytes 0 v = []"
| "be_bytes (Suc n) v = be_bytes n (v div 256) @ [word_of_nat (v mod 256)]"

lemma unat_word_of_nat_byte [bytes_simps]: "unat (word_of_nat (v mod 256) :: byte) = v mod 256"
  by (simp add: unat_of_nat)

lemma length_be_bytes [simp, bytes_simps]: "length (be_bytes n v) = n"
  by (induction n arbitrary: v) auto

lemma be_val_append [bytes_simps]: "be_val (xs @ ys) = be_val xs * 256 ^ length ys + be_val ys"
  by (induction xs) (auto simp: power_add algebra_simps)

lemma unat_lt: "unat (w :: 'w :: len word) < 2 ^ LENGTH('w)"
  by (fact unsigned_less)

lemma unat_eq_iff: "unat a = unat b \<longleftrightarrow> a = (b :: 'w :: len word)"
  by (auto intro: unsigned_word_eqI)

lemma byte_bound: "unat (b :: byte) < 256"
  using unat_lt [of b] by simp

lemma be_val_bound: "be_val bs < 256 ^ length bs"
proof (induction bs)
  case Nil
  then show ?case by simp
next
  case (Cons b bs)
  have "unat b * 256 ^ length bs + be_val bs < (unat b + 1) * 256 ^ length bs"
    using Cons by (simp add: algebra_simps)
  also have "\<dots> \<le> 256 * 256 ^ length bs"
    using byte_bound [of b] by (intro mult_right_mono) auto
  finally show ?case by simp
qed

lemma be_val_be_bytes [bytes_simps]: "be_val (be_bytes n v) = v mod 256 ^ n"
proof (induction n arbitrary: v)
  case 0
  then show ?case by simp
next
  case (Suc n)
  have "be_val (be_bytes (Suc n) v) = (v div 256) mod 256 ^ n * 256 + v mod 256"
    by (simp add: be_val_append Suc.IH unat_word_of_nat_byte)
  also have "\<dots> = v mod 256 ^ Suc n"
    by (simp add: mod_mult2_eq mult.commute)
  finally show ?case .
qed

lemma be_bytes_be_val: "be_bytes (length bs) (be_val bs) = bs"
proof (induction bs rule: rev_induct)
  case Nil
  then show ?case by simp
next
  case (snoc b bs)
  have b: "unat b < 256"
    by (rule byte_bound)
  have "be_val (bs @ [b]) div 256 = be_val bs" "be_val (bs @ [b]) mod 256 = unat b"
    using b by (simp_all add: be_val_append)
  then show ?case
    using snoc.IH by simp
qed

lemma be_val_inj: "length xs = length ys \<Longrightarrow> be_val xs = be_val ys \<Longrightarrow> xs = ys"
  by (metis be_bytes_be_val)

lemma be_val_zeros [bytes_simps]: "be_val (replicate n 0 @ bs) = be_val bs"
  by (induction n) auto

end
