(* ===== verification/Felt.thy ===== *)
theory Felt
  imports Prelude
begin

text \<open>
  The crate \<^verbatim>\<open>mp-felt\<close> (\<^verbatim>\<open>crates/primitives/felt\<close>): \<open>Felt252Wrapper\<close>, its
  conversions from and to bytes, machine integers, \<open>U256\<close>, \<open>H256\<close>, \<open>Felt252\<close> and
  \<open>StarkFelt\<close>, and its SCALE codec.

  A \<open>FieldElement\<close> is its canonical representative, a number below \<open>felt_prime\<close>; the
  wrapper is a transparent newtype, so it is the same type. A \<open>StarkFelt\<close> and an \<open>H256\<close> are
  the byte arrays they wrap, a \<open>U256\<close> is a 256-bit word. The arithmetic libraries
  (starknet-ff, starknet-api, cairo-felt, primitive-types) are not part of the repository: their
  functions are the fields of the record \<open>ff_api\<close>, an argument of every definition that calls
  them, and \<open>ff_laws\<close> states their documented behaviour.
\<close>

section \<open>The arithmetic libraries\<close>

type_synonym felt = nat
type_synonym felt252_wrapper = felt
type_synonym stark_felt = bytes
type_synonym h256 = bytes

definition felt_prime :: nat where
  "felt_prime = 2 ^ 251 + 17 * 2 ^ 192 + 1"

datatype FromByteSliceError = SliceInvalidLength | SliceOutOfRange

datatype FromStrError = StrInvalidCharacter | StrOutOfRange

record ff_api =
  ff_from_bytes_be :: "bytes \<Rightarrow> felt option"
  ff_from_byte_slice_be :: "bytes \<Rightarrow> (felt, FromByteSliceError) result"
  ff_to_bytes_be :: "felt \<Rightarrow> bytes"
  ff_from_hex_be :: "string \<Rightarrow> (felt, FromStrError) result"
  ff_from_dec_str :: "string \<Rightarrow> (felt, FromStrError) result"
  ff_from_u64 :: "u64 \<Rightarrow> felt"
  ff_from_u32 :: "u32 \<Rightarrow> felt"
  ff_from_u8 :: "u8 \<Rightarrow> felt"
  ff_from_u128 :: "u128 \<Rightarrow> felt"
  ff_from_eth_address :: "bytes \<Rightarrow> felt"
  ff_try_u64 :: "felt \<Rightarrow> u64 option"
  ff_try_u128 :: "felt \<Rightarrow> u128 option"
  ff_add :: "felt \<Rightarrow> felt \<Rightarrow> felt"
  ff_sub :: "felt \<Rightarrow> felt \<Rightarrow> felt"
  ff_rem :: "felt \<Rightarrow> felt \<Rightarrow> felt"
  ff_from_mont :: "u64 list \<Rightarrow> felt"
  u256_from_big_endian :: "bytes \<Rightarrow> u256"
  u256_to_big_endian :: "u256 \<Rightarrow> bytes"
  u256_from_u128 :: "u128 \<Rightarrow> u256"
  stark_felt_new :: "bytes \<Rightarrow> stark_felt option"
  felt252_from_bytes_be :: "bytes \<Rightarrow> nat"
  felt252_to_be_bytes :: "nat \<Rightarrow> bytes"

text \<open>
  The documented behaviour the crate relies on: big-endian byte strings read and written at
  width 32, range checks against the field's modulus, field arithmetic, and Montgomery limbs
  (\<open>from_mont l\<close> is the element whose product with \<open>2^256\<close> is the number the four
  little-endian limbs spell).
\<close>

definition limbs_val :: "u64 list \<Rightarrow> nat" where
  "limbs_val l = foldr (\<lambda>w acc. unat w + 2 ^ 64 * acc) l 0"

definition ff_laws :: "ff_api \<Rightarrow> bool" where
  "ff_laws ff \<longleftrightarrow>
     (\<forall>x. x < felt_prime \<longrightarrow> length (ff_to_bytes_be ff x) = 32 \<and> be_val (ff_to_bytes_be ff x) = x) \<and>
     (\<forall>bs. length bs = 32 \<longrightarrow>
        ff_from_bytes_be ff bs = (if be_val bs < felt_prime then Some (be_val bs) else None)) \<and>
     (\<forall>bs. ff_from_byte_slice_be ff bs =
        (if length bs > 32 then Err SliceInvalidLength
         else if be_val bs < felt_prime then Ok (be_val bs) else Err SliceOutOfRange)) \<and>
     (\<forall>w. ff_from_u64 ff w = unat w) \<and> (\<forall>w. ff_from_u32 ff w = unat w) \<and>
     (\<forall>w. ff_from_u8 ff w = unat w) \<and> (\<forall>w. ff_from_u128 ff w = unat w) \<and>
     (\<forall>a. length a = 20 \<longrightarrow> ff_from_eth_address ff a = be_val a) \<and>
     (\<forall>x. x < felt_prime \<longrightarrow> ff_try_u64 ff x = (if x < 2 ^ 64 then Some (word_of_nat x) else None)) \<and>
     (\<forall>x. x < felt_prime \<longrightarrow> ff_try_u128 ff x = (if x < 2 ^ 128 then Some (word_of_nat x) else None)) \<and>
     (\<forall>x y. x < felt_prime \<longrightarrow> y < felt_prime \<longrightarrow> ff_add ff x y = (x + y) mod felt_prime) \<and>
     (\<forall>x y. x < felt_prime \<longrightarrow> y < felt_prime \<longrightarrow> ff_sub ff x y = (x + (felt_prime - y)) mod felt_prime) \<and>
     (\<forall>x y. x < felt_prime \<longrightarrow> 0 < y \<longrightarrow> y < felt_prime \<longrightarrow> ff_rem ff x y = x mod y) \<and>
     (\<forall>l. length l = 4 \<longrightarrow> limbs_val l < felt_prime \<longrightarrow>
        ff_from_mont ff l < felt_prime \<and> (ff_from_mont ff l * 2 ^ 256) mod felt_prime = limbs_val l) \<and>
     (\<forall>bs. length bs \<le> 32 \<longrightarrow> u256_from_big_endian ff bs = word_of_nat (be_val bs)) \<and>
     (\<forall>w. u256_to_big_endian ff w = be_bytes 32 (unat w)) \<and>
     (\<forall>w. u256_from_u128 ff w = word_of_nat (unat w)) \<and>
     (\<forall>bs. length bs = 32 \<longrightarrow> stark_felt_new ff bs = (if be_val bs < felt_prime then Some bs else None)) \<and>
     (\<forall>bs. felt252_from_bytes_be ff bs = be_val bs mod felt_prime) \<and>
     (\<forall>x. x < felt_prime \<longrightarrow> felt252_to_be_bytes ff x = be_bytes 32 x)"

section \<open>Constants and errors\<close>

definition ZERO :: felt252_wrapper where "ZERO = 0"
definition ONE :: felt252_wrapper where "ONE = 1"
definition TWO :: felt252_wrapper where "TWO = 2"
definition THREE :: felt252_wrapper where "THREE = 3"
definition MAX_felt :: felt252_wrapper where "MAX_felt = felt_prime - 1"

datatype Felt252WrapperError =
  FromArrayError | InvalidLength | InvalidCharacter | OutOfRange | ValueTooLarge

fun felt_error_string :: "Felt252WrapperError \<Rightarrow> string" where
  "felt_error_string FromArrayError = ''input array invalid''"
| "felt_error_string InvalidCharacter = ''invalid character''"
| "felt_error_string OutOfRange = ''number out of range''"
| "felt_error_string InvalidLength = ''invalid length''"
| "felt_error_string ValueTooLarge = ''felt252 value too large''"

fun felt_error_from_str_error :: "FromStrError \<Rightarrow> Felt252WrapperError" where
  "felt_error_from_str_error StrInvalidCharacter = InvalidCharacter"
| "felt_error_from_str_error StrOutOfRange = OutOfRange"

section \<open>Strings\<close>

definition from_hex_be :: "ff_api \<Rightarrow> string \<Rightarrow> (felt252_wrapper, Felt252WrapperError) result" where
  "from_hex_be ff value = map_err felt_error_from_str_error (ff_from_hex_be ff value)"

definition from_dec_str :: "ff_api \<Rightarrow> string \<Rightarrow> (felt252_wrapper, Felt252WrapperError) result" where
  "from_dec_str ff value = map_err felt_error_from_str_error (ff_from_dec_str ff value)"

text \<open>
  \<open>str::from_utf8\<close> of the standard library accepts exactly the well-formed UTF-8 sequences
  (shortest forms, no surrogates, at most U+10FFFF); the string is its bytes.
\<close>

definition utf8_cont :: "byte \<Rightarrow> bool" where
  "utf8_cont b \<longleftrightarrow> 0x80 \<le> b \<and> b \<le> 0xBF"

fun utf8_valid :: "bytes \<Rightarrow> bool" where
  "utf8_valid [] = True"
| "utf8_valid (b0 # bs) =
     (if b0 < 0x80 then utf8_valid bs
      else if 0xC2 \<le> b0 \<and> b0 \<le> 0xDF then
        (case bs of b1 # r \<Rightarrow> utf8_cont b1 \<and> utf8_valid r | _ \<Rightarrow> False)
      else if 0xE0 \<le> b0 \<and> b0 \<le> 0xEF then
        (case bs of b1 # b2 # r \<Rightarrow>
           (if b0 = 0xE0 then 0xA0 \<le> b1 \<and> b1 \<le> 0xBF
            else if b0 = 0xED then 0x80 \<le> b1 \<and> b1 \<le> 0x9F else utf8_cont b1)
           \<and> utf8_cont b2 \<and> utf8_valid r
         | _ \<Rightarrow> False)
      else if 0xF0 \<le> b0 \<and> b0 \<le> 0xF4 then
        (case bs of b1 # b2 # b3 # r \<Rightarrow>
           (if b0 = 0xF0 then 0x90 \<le> b1 \<and> b1 \<le> 0xBF
            else if b0 = 0xF4 then 0x80 \<le> b1 \<and> b1 \<le> 0x8F else utf8_cont b1)
           \<and> utf8_cont b2 \<and> utf8_cont b3 \<and> utf8_valid r
         | _ \<Rightarrow> False)
      else False)"

definition from_utf8 :: "ff_api \<Rightarrow> felt252_wrapper \<Rightarrow> (bytes, Felt252WrapperError) result" where
  "from_utf8 ff self =
     (let s = ff_to_bytes_be ff self
      in if utf8_valid s then Ok (dropWhile (\<lambda>b. b = 0) s) else Err InvalidCharacter)"

section \<open>Byte arrays and machine integers\<close>

definition bytes_from_felt :: "ff_api \<Rightarrow> felt252_wrapper \<Rightarrow> bytes" where
  "bytes_from_felt ff self = ff_to_bytes_be ff self"

definition felt_try_from_array :: "ff_api \<Rightarrow> bytes \<Rightarrow> (felt252_wrapper, Felt252WrapperError) result" where
  "felt_try_from_array ff bs =
     (case ff_from_bytes_be ff bs of Some v \<Rightarrow> Ok v | None \<Rightarrow> Err FromArrayError)"

definition felt_try_from_slice :: "ff_api \<Rightarrow> bytes \<Rightarrow> (felt252_wrapper, Felt252WrapperError) result" where
  "felt_try_from_slice ff bs =
     (case ff_from_byte_slice_be ff bs of
        Ok v \<Rightarrow> Ok v
      | Err SliceInvalidLength \<Rightarrow> Err InvalidLength
      | Err SliceOutOfRange \<Rightarrow> Err OutOfRange
      | Panic \<Rightarrow> Panic)"

definition felt_from_eth_address :: "ff_api \<Rightarrow> bytes \<Rightarrow> felt252_wrapper" where
  "felt_from_eth_address ff v = ff_from_eth_address ff v"

definition felt_from_u64 :: "ff_api \<Rightarrow> u64 \<Rightarrow> felt252_wrapper" where
  "felt_from_u64 ff v = ff_from_u64 ff v"

definition felt_from_u32 :: "ff_api \<Rightarrow> u32 \<Rightarrow> felt252_wrapper" where
  "felt_from_u32 ff v = ff_from_u32 ff v"

definition felt_from_u8 :: "ff_api \<Rightarrow> u8 \<Rightarrow> felt252_wrapper" where
  "felt_from_u8 ff v = ff_from_u8 ff v"

definition felt_try_from_u256 :: "ff_api \<Rightarrow> u256 \<Rightarrow> (felt252_wrapper, Felt252WrapperError) result" where
  "felt_try_from_u256 ff u = felt_try_from_array ff (u256_to_big_endian ff u)"

definition felt_from_u128 :: "ff_api \<Rightarrow> u128 \<Rightarrow> (felt252_wrapper, Felt252WrapperError) result" where
  "felt_from_u128 ff v = unwrap (felt_try_from_u256 ff (u256_from_u128 ff v))"

definition u64_try_from_felt :: "ff_api \<Rightarrow> felt252_wrapper \<Rightarrow> (u64, Felt252WrapperError) result" where
  "u64_try_from_felt ff v = ok_or ValueTooLarge (ff_try_u64 ff v)"

definition u128_try_from_felt :: "ff_api \<Rightarrow> felt252_wrapper \<Rightarrow> (u128, Felt252WrapperError) result" where
  "u128_try_from_felt ff v = ok_or ValueTooLarge (ff_try_u128 ff v)"

definition u256_from_felt :: "ff_api \<Rightarrow> felt252_wrapper \<Rightarrow> u256" where
  "u256_from_felt ff self = u256_from_big_endian ff (ff_to_bytes_be ff self)"

definition felt_try_from_h256 :: "ff_api \<Rightarrow> h256 \<Rightarrow> (felt252_wrapper, Felt252WrapperError) result" where
  "felt_try_from_h256 ff h = felt_try_from_slice ff h"

definition h256_from_felt :: "ff_api \<Rightarrow> felt252_wrapper \<Rightarrow> h256" where
  "h256_from_felt ff self = bytes_from_felt ff self"

definition felt_from_felt252 :: "ff_api \<Rightarrow> nat \<Rightarrow> (felt252_wrapper, Felt252WrapperError) result" where
  "felt_from_felt252 ff v = unwrap (felt_try_from_array ff (felt252_to_be_bytes ff v))"

definition felt252_from_felt :: "ff_api \<Rightarrow> felt252_wrapper \<Rightarrow> nat" where
  "felt252_from_felt ff self = felt252_from_bytes_be ff (bytes_from_felt ff self)"

definition felt_from_stark_felt :: "ff_api \<Rightarrow> stark_felt \<Rightarrow> (felt252_wrapper, Felt252WrapperError) result" where
  "felt_from_stark_felt ff v = unwrap (felt_try_from_slice ff v)"

definition stark_felt_from_felt :: "ff_api \<Rightarrow> felt252_wrapper \<Rightarrow> (stark_felt, Felt252WrapperError) result" where
  "stark_felt_from_felt ff self = unwrap_opt (stark_felt_new ff (bytes_from_felt ff self))"

section \<open>SCALE codec\<close>

text \<open>
  The input of the SCALE decoder is a library trait with one method, \<open>read\<close>, which fills a
  buffer of a given length and fails when the input is too short.
\<close>

definition scale_encode :: "ff_api \<Rightarrow> felt252_wrapper \<Rightarrow> bytes" where
  "scale_encode ff self = ff_to_bytes_be ff self"

definition max_encoded_len :: nat where
  "max_encoded_len = 32"

datatype ScaleError = NotEnoughData | BadFieldElement bytes Felt252WrapperError

definition scale_decode ::
    "ff_api \<Rightarrow> ('i \<Rightarrow> nat \<Rightarrow> (bytes \<times> 'i) option) \<Rightarrow> 'i \<Rightarrow> (felt252_wrapper \<times> 'i, ScaleError) result" where
  "scale_decode ff read input =
     (case read input 32 of
        None \<Rightarrow> Err NotEnoughData
      | Some (buf, input') \<Rightarrow>
          (case felt_try_from_array ff buf of
             Ok v \<Rightarrow> Ok (v, input')
           | Err e \<Rightarrow> Err (BadFieldElement buf e)
           | Panic \<Rightarrow> Panic))"

text \<open>The \<open>Input\<close> of a byte slice: \<open>read\<close> splits off a prefix of the given length.\<close>

definition read_slice :: "bytes \<Rightarrow> nat \<Rightarrow> (bytes \<times> bytes) option" where
  "read_slice bs n = (if n \<le> length bs then Some (take n bs, drop n bs) else None)"

section \<open>The conversions under the libraries' laws\<close>

text \<open>
  The interface of the arithmetic libraries: the record of their functions and its documented
  behaviour. The lemmas of the crate are proved once for every such record.
\<close>

locale field_libs =
  fixes ff :: ff_api
  assumes laws: "ff_laws ff"
begin

lemma to_bytes_be: "x < felt_prime \<Longrightarrow> length (ff_to_bytes_be ff x) = 32 \<and> be_val (ff_to_bytes_be ff x) = x"
  using laws by (simp add: ff_laws_def)

lemma from_bytes_be:
  "length bs = 32 \<Longrightarrow> ff_from_bytes_be ff bs = (if be_val bs < felt_prime then Some (be_val bs) else None)"
  using laws by (simp add: ff_laws_def)

lemma from_byte_slice_be:
  "ff_from_byte_slice_be ff bs =
     (if length bs > 32 then Err SliceInvalidLength
      else if be_val bs < felt_prime then Ok (be_val bs) else Err SliceOutOfRange)"
  using laws by (simp add: ff_laws_def)

lemma from_words:
  "ff_from_u64 ff a = unat a" "ff_from_u32 ff b = unat b" "ff_from_u8 ff c = unat c"
  "ff_from_u128 ff d = unat d"
  using laws by (simp_all add: ff_laws_def)

lemma try_words:
  assumes "x < felt_prime"
  shows "ff_try_u64 ff x = (if x < 2 ^ 64 then Some (word_of_nat x) else None)"
    and "ff_try_u128 ff x = (if x < 2 ^ 128 then Some (word_of_nat x) else None)"
  using laws assms by (simp_all add: ff_laws_def)

lemma field_ops:
  assumes "x < felt_prime" "y < felt_prime"
  shows "ff_add ff x y = (x + y) mod felt_prime"
    and "ff_sub ff x y = (x + (felt_prime - y)) mod felt_prime"
    and "0 < y \<Longrightarrow> ff_rem ff x y = x mod y"
  using laws assms by (simp_all add: ff_laws_def)

lemma from_mont:
  assumes "length l = 4" "limbs_val l < felt_prime"
  shows "ff_from_mont ff l < felt_prime" "(ff_from_mont ff l * 2 ^ 256) mod felt_prime = limbs_val l"
  using laws assms by (simp_all add: ff_laws_def)

lemma u256_bytes:
  "length bs \<le> 32 \<Longrightarrow> u256_from_big_endian ff bs = word_of_nat (be_val bs)"
  "u256_to_big_endian ff w = be_bytes 32 (unat w)"
  "u256_from_u128 ff v = word_of_nat (unat v)"
  using laws by (simp_all add: ff_laws_def)

lemma stark_felt_new_eq:
  "length bs = 32 \<Longrightarrow> stark_felt_new ff bs = (if be_val bs < felt_prime then Some bs else None)"
  using laws by (simp add: ff_laws_def)

lemma felt252_bytes:
  "felt252_from_bytes_be ff bs = be_val bs mod felt_prime"
  "x < felt_prime \<Longrightarrow> felt252_to_be_bytes ff x = be_bytes 32 x"
  using laws by (simp_all add: ff_laws_def)

lemma to_bytes_be_eq: "x < felt_prime \<Longrightarrow> ff_to_bytes_be ff x = be_bytes 32 x"
  by (metis to_bytes_be be_bytes_be_val)

end

lemma felt_prime_le: "felt_prime < 256 ^ 32"
  by (simp add: felt_prime_def)

lemma felt_prime_pos [simp]: "0 < felt_prime"
  by (simp add: felt_prime_def)

lemma u128_lt_prime: "unat (w :: u128) < felt_prime"
  using unat_lt [of w] by (simp add: felt_prime_def)

lemma u64_lt_prime: "unat (w :: u64) < felt_prime"
  using unat_lt [of w] by (simp add: felt_prime_def)

lemma u256_lt: "unat (w :: u256) < 256 ^ 32"
  using unat_lt [of w] by simp

context field_libs
begin

lemma try_from_array_eq:
  "length bs = 32 \<Longrightarrow>
     felt_try_from_array ff bs = (if be_val bs < felt_prime then Ok (be_val bs) else Err FromArrayError)"
  by (simp add: felt_try_from_array_def from_bytes_be)

lemma try_from_slice_eq:
  "felt_try_from_slice ff bs =
     (if length bs > 32 then Err InvalidLength
      else if be_val bs < felt_prime then Ok (be_val bs) else Err OutOfRange)"
  by (simp add: felt_try_from_slice_def from_byte_slice_be)

lemma try_from_u256_eq:
  "felt_try_from_u256 ff u = (if unat u < felt_prime then Ok (unat u) else Err FromArrayError)"
  using u256_lt [of u] by (simp add: felt_try_from_u256_def try_from_array_eq u256_bytes be_val_be_bytes)

lemma u256_from_felt_eq: "x < felt_prime \<Longrightarrow> u256_from_felt ff x = word_of_nat x"
  by (simp add: u256_from_felt_def u256_bytes to_bytes_be)

lemma unat_u256_from_felt: "x < felt_prime \<Longrightarrow> unat (u256_from_felt ff x) = x"
  using felt_prime_le by (simp add: u256_from_felt_eq unat_of_nat felt_prime_def)

lemma felt_from_u128_eq: "felt_from_u128 ff v = Ok (unat v)"
proof -
  have "unat (word_of_nat (unat v) :: u256) = unat v"
    using unat_lt [of v] by (simp add: unat_of_nat del: of_nat_unat)
  then show ?thesis
    using u128_lt_prime [of v] by (simp add: felt_from_u128_def u256_bytes try_from_u256_eq)
qed

lemma stark_felt_roundtrip:
  assumes "x < felt_prime"
  shows "stark_felt_from_felt ff x = Ok (be_bytes 32 x)"
    and "felt_from_stark_felt ff (be_bytes 32 x) = Ok x"
  using assms felt_prime_le
  by (simp_all add: stark_felt_from_felt_def felt_from_stark_felt_def bytes_from_felt_def
      to_bytes_be_eq stark_felt_new_eq try_from_slice_eq be_val_be_bytes)

lemma felt252_roundtrip:
  assumes "x < felt_prime"
  shows "felt252_from_felt ff x = x" and "felt_from_felt252 ff x = Ok x"
  using assms felt_prime_le
  by (simp_all add: felt252_from_felt_def felt_from_felt252_def bytes_from_felt_def
      to_bytes_be_eq felt252_bytes try_from_array_eq be_val_be_bytes)

lemma h256_roundtrip:
  "x < felt_prime \<Longrightarrow> felt_try_from_h256 ff (h256_from_felt ff x) = Ok x"
  by (simp add: felt_try_from_h256_def h256_from_felt_def bytes_from_felt_def try_from_slice_eq to_bytes_be)

lemma scale_decode_iff:
  "scale_decode ff read_slice bs = Ok (x, rest) \<longleftrightarrow> x < felt_prime \<and> bs = scale_encode ff x @ rest"
proof
  assume "scale_decode ff read_slice bs = Ok (x, rest)"
  then have len: "32 \<le> length bs" and rest: "rest = drop 32 bs"
    and arr: "felt_try_from_array ff (take 32 bs) = Ok x"
    by (auto simp: scale_decode_def read_slice_def split: if_splits result.splits)
  from arr have lt: "x < felt_prime" and x: "x = be_val (take 32 bs)"
    using len by (auto simp: try_from_array_eq split: if_splits)
  have "scale_encode ff x = take 32 bs"
    using len x lt be_bytes_be_val [of "take 32 bs"] by (simp add: scale_encode_def to_bytes_be_eq)
  then show "x < felt_prime \<and> bs = scale_encode ff x @ rest"
    using lt rest by simp
next
  assume "x < felt_prime \<and> bs = scale_encode ff x @ rest"
  then show "scale_decode ff read_slice bs = Ok (x, rest)"
    by (simp add: scale_decode_def read_slice_def scale_encode_def to_bytes_be try_from_array_eq)
qed

lemma words_from_felt:
  assumes "x < felt_prime"
  shows "if x < 2 ^ 64 then \<exists>y. u64_try_from_felt ff x = Ok y \<and> unat y = x
      else u64_try_from_felt ff x = Err ValueTooLarge"
    and "if x < 2 ^ 128 then \<exists>y. u128_try_from_felt ff x = Ok y \<and> unat y = x
      else u128_try_from_felt ff x = Err ValueTooLarge"
  using assms
  by (simp_all add: u64_try_from_felt_def u128_try_from_felt_def try_words unsigned_of_nat take_bit_eq_mod)

lemma word_roundtrip:
  "u64_try_from_felt ff (felt_from_u64 ff w) = Ok w"
  "and_then (felt_from_u128 ff v) (u128_try_from_felt ff) = Ok v"
  using u64_lt_prime [of w] u128_lt_prime [of v] unat_lt [of w] unat_lt [of v]
  by (simp_all add: u64_try_from_felt_def felt_from_u64_def from_words try_words felt_from_u128_eq
      u128_try_from_felt_def)

end

section \<open>A reference instance of the libraries\<close>

text \<open>
  The documented behaviour as executable functions: what the witnesses instantiate the libraries
  with. \<open>MONT_R_INV\<close> is the inverse of \<open>2^256\<close> modulo the prime.
\<close>

definition MONT_R_INV :: nat where
  "MONT_R_INV = 113078212145816603762751633895895194930089271709401121343797004406777446400"

definition ff_ref :: ff_api where
  "ff_ref = \<lparr>
     ff_from_bytes_be = (\<lambda>bs. if be_val bs < felt_prime then Some (be_val bs) else None),
     ff_from_byte_slice_be = (\<lambda>bs.
        if length bs > 32 then Err SliceInvalidLength
        else if be_val bs < felt_prime then Ok (be_val bs) else Err SliceOutOfRange),
     ff_to_bytes_be = be_bytes 32,
     ff_from_hex_be = (\<lambda>s. Err StrInvalidCharacter),
     ff_from_dec_str = (\<lambda>s. Err StrInvalidCharacter),
     ff_from_u64 = unat, ff_from_u32 = unat, ff_from_u8 = unat, ff_from_u128 = unat,
     ff_from_eth_address = be_val,
     ff_try_u64 = (\<lambda>x. if x < 2 ^ 64 then Some (word_of_nat x) else None),
     ff_try_u128 = (\<lambda>x. if x < 2 ^ 128 then Some (word_of_nat x) else None),
     ff_add = (\<lambda>x y. (x + y) mod felt_prime),
     ff_sub = (\<lambda>x y. (x + (felt_prime - y)) mod felt_prime),
     ff_rem = (\<lambda>x y. x mod y),
     ff_from_mont = (\<lambda>l. (limbs_val l * MONT_R_INV) mod felt_prime),
     u256_from_big_endian = (\<lambda>bs. word_of_nat (be_val bs)),
     u256_to_big_endian = (\<lambda>w. be_bytes 32 (unat w)),
     u256_from_u128 = (\<lambda>w. word_of_nat (unat w)),
     stark_felt_new = (\<lambda>bs. if be_val bs < felt_prime then Some bs else None),
     felt252_from_bytes_be = (\<lambda>bs. be_val bs mod felt_prime),
     felt252_to_be_bytes = be_bytes 32\<rparr>"

lemma mont_r_inv: "(MONT_R_INV * 2 ^ 256) mod felt_prime = 1"
  by (simp add: MONT_R_INV_def felt_prime_def)

lemma mod_mult_inverse:
  fixes p :: nat
  assumes "(a * b) mod p = 1" "v < p"
  shows "((v * a) mod p * b) mod p = v"
proof -
  have "((v * a) mod p * b) mod p = (v * ((a * b) mod p)) mod p"
    by (simp add: mod_mult_left_eq mod_mult_right_eq mult.assoc)
  then show ?thesis
    using assms by simp
qed

lemma ff_ref_laws: "ff_laws ff_ref"
  using felt_prime_le mod_mult_inverse [OF mont_r_inv]
  by (simp add: ff_laws_def ff_ref_def be_val_be_bytes)

interpretation ref: field_libs ff_ref
  by unfold_locales (rule ff_ref_laws)

section \<open>Properties\<close>

text \<open>
  C37. The SCALE codec of \<open>Felt252Wrapper\<close> is exact: decoding a byte slice yields the felt
  \<open>x\<close> and the remaining bytes precisely when the slice is the encoding of \<open>x\<close> followed by
  those bytes and \<open>x\<close> is below the prime. So non-canonical encodings (32 bytes spelling the
  prime or more) are refused, and encoding is injective.
\<close>

theorem felt_scale_exact:
  assumes "ff_laws ff"
  shows "scale_decode ff read_slice bs = Ok (x, rest) \<longleftrightarrow> x < felt_prime \<and> bs = scale_encode ff x @ rest"
proof -
  have "field_libs ff" using assms by unfold_locales
  from field_libs.scale_decode_iff [OF this] show ?thesis .
qed

theorem felt_scale_exact_witness:
  "scale_decode ff_ref read_slice (be_bytes 32 258 @ [7]) = Ok (258, [7])"
  by (subst felt_scale_exact [OF ff_ref_laws])
    (simp add: felt_prime_def scale_encode_def ff_ref_def)



end
