(* ===== verification/Messages.thy ===== *)
theory Messages
  imports Felt
begin

text \<open>
  The message types of \<^verbatim>\<open>mp-messages\<close> (\<^verbatim>\<open>crates/primitives/messages\<close>) and the parts of
  starknet-api they rest on. Contract addresses, nonces and selectors are newtypes around
  \<open>StarkFelt\<close>; an \<open>EthAddress\<close> is the 20 bytes of an \<open>H160\<close>. The conversions between
  \<open>StarkFelt\<close>, \<open>u64\<close> and \<open>EthAddress\<close> belong to starknet-api: they are the fields of
  \<open>sf_api\<close>, with their documented behaviour in \<open>sf_laws\<close>.
\<close>

type_synonym contract_address = stark_felt
type_synonym nonce = stark_felt
type_synonym eth_address = bytes

record sf_api =
  sf_from_u8 :: "u8 \<Rightarrow> stark_felt"
  sf_from_u64 :: "u64 \<Rightarrow> stark_felt"
  sf_from_u128 :: "u128 \<Rightarrow> stark_felt"
  sf_try_u64 :: "stark_felt \<Rightarrow> u64 option"
  eth_address_try_from :: "stark_felt \<Rightarrow> eth_address option"
  patricia_key_try_from :: "stark_felt \<Rightarrow> contract_address option"

definition sf_laws :: "sf_api \<Rightarrow> bool" where
  "sf_laws sf \<longleftrightarrow>
     (\<forall>w. length (sf_from_u8 sf w) = 32 \<and> be_val (sf_from_u8 sf w) = unat w) \<and>
     (\<forall>w. length (sf_from_u128 sf w) = 32 \<and> be_val (sf_from_u128 sf w) = unat w) \<and>
     (\<forall>w. length (sf_from_u64 sf w) = 32 \<and> be_val (sf_from_u64 sf w) = unat w \<and>
        sf_try_u64 sf (sf_from_u64 sf w) = Some w) \<and>
     (\<forall>f w. length f = 32 \<longrightarrow> sf_try_u64 sf f = Some w \<longrightarrow> f = sf_from_u64 sf w) \<and>
     (\<forall>f. length f = 32 \<longrightarrow>
        eth_address_try_from sf f = (if take 12 f = replicate 12 0 then Some (drop 12 f) else None)) \<and>
     (\<forall>f. patricia_key_try_from sf f = (if be_val f < 2 ^ 251 then Some f else None))"

definition sf_ref :: sf_api where
  "sf_ref = \<lparr>
     sf_from_u8 = (\<lambda>w. be_bytes 32 (unat w)),
     sf_from_u64 = (\<lambda>w. be_bytes 32 (unat w)),
     sf_from_u128 = (\<lambda>w. be_bytes 32 (unat w)),
     sf_try_u64 = (\<lambda>f. if be_val f < 2 ^ 64 then Some (word_of_nat (be_val f)) else None),
     eth_address_try_from = (\<lambda>f. if take 12 f = replicate 12 0 then Some (drop 12 f) else None),
     patricia_key_try_from = (\<lambda>f. if be_val f < 2 ^ 251 then Some f else None)\<rparr>"

lemma sf_ref_laws: "sf_laws sf_ref"
proof -
  have bound: "unat (w :: u64) < 256 ^ 32" "unat (v :: u128) < 256 ^ 32" "unat (b :: u8) < 256 ^ 32"
    for w v b
    using unat_lt [of w] unat_lt [of v] unat_lt [of b] by simp_all
  have inv: "f = be_bytes 32 (be_val f)" if "length f = 32" for f
    using be_bytes_be_val [of f] that by simp
  show ?thesis
    using bound inv unat_lt [where 'w = 64]
    by (auto simp: sf_laws_def sf_ref_def be_val_be_bytes unat_of_nat split: if_splits)
qed

section \<open>Messages between the layers\<close>

record MessageL2ToL1 =
  l2l1_from_address :: contract_address
  l2l1_to_address :: eth_address
  l2l1_payload :: "stark_felt list"

record MessageL1ToL2 =
  l1l2_from_address :: contract_address
  l1l2_to_address :: contract_address
  l1l2_nonce :: nonce
  l1l2_selector :: stark_felt
  l1l2_payload :: "stark_felt list"

text \<open>
  \<open>bytes[12..32].copy_from_slice(eth_address.0.as_bytes())\<close> on a zeroed array: an \<open>H160\<close>
  has 20 bytes by its type, so the copy fills the array from index 12 to its end.
\<close>

definition eth_address_to_felt :: "eth_address \<Rightarrow> stark_felt" where
  "eth_address_to_felt a = replicate 12 0 @ a"

locale stark_felt_libs =
  fixes sf :: sf_api
  assumes laws: "sf_laws sf"
begin

lemma length_from_u64 [simp]: "length (sf_from_u64 sf w) = 32"
  using laws by (simp add: sf_laws_def)

lemma be_val_from_words:
  "be_val (sf_from_u8 sf b) = unat b" "be_val (sf_from_u64 sf w) = unat w"
  "be_val (sf_from_u128 sf v) = unat v" "length (sf_from_u128 sf v) = 32"
  using laws by (simp_all add: sf_laws_def)

lemma length_from_u8 [simp]: "length (sf_from_u8 sf b) = 32"
  using laws by (simp add: sf_laws_def)

lemma try_from_u64 [simp]: "sf_try_u64 sf (sf_from_u64 sf w) = Some w"
  using laws by (simp add: sf_laws_def)

lemma try_u64_Some: "length f = 32 \<Longrightarrow> sf_try_u64 sf f = Some w \<Longrightarrow> f = sf_from_u64 sf w"
  using laws by (simp add: sf_laws_def)

lemma eth_try_from:
  "length f = 32 \<Longrightarrow>
     eth_address_try_from sf f = (if take 12 f = replicate 12 0 then Some (drop 12 f) else None)"
  using laws by (simp add: sf_laws_def)

end

interpretation ref_sf: stark_felt_libs sf_ref
  by unfold_locales (rule sf_ref_laws)

end
