(* ===== verification/State.thy ===== *)
theory State
  imports Messages "HOL-Library.AList"
begin

text \<open>
  The contract state: the five storage maps of the pallet that hold it
  (\<^verbatim>\<open>crates/pallets/starknet/src/lib.rs\<close>), the adapter that gives blockifier its
  \<open>State\<close> interface on them (\<^verbatim>\<open>blockifier_state_adapter.rs\<close>), and the map-based
  \<open>StateReader\<close> of \<^verbatim>\<open>crates/primitives/state\<close>. Every write of the interface is a step of
  \<open>state_op\<close>; code that holds a \<open>&mut dyn State\<close> moves along such steps only.
\<close>

type_synonym class_hash = stark_felt
type_synonym compiled_class_hash = stark_felt
type_synonym storage_key = stark_felt
type_synonym contract_storage_key = "contract_address \<times> storage_key"

definition felt_default :: stark_felt where
  "felt_default = replicate 32 0"

section \<open>Storage\<close>

record 'c contract_storage =
  StorageView :: "contract_storage_key \<rightharpoonup> stark_felt"
  Nonces :: "contract_address \<rightharpoonup> nonce"
  ContractClassHashes :: "contract_address \<rightharpoonup> class_hash"
  ContractClasses :: "class_hash \<rightharpoonup> 'c"
  CompiledClassHashes :: "class_hash \<rightharpoonup> compiled_class_hash"

text \<open>Getters: \<open>ValueQuery\<close> items return the default where nothing is stored.\<close>

definition unwrap_or_default :: "stark_felt option \<Rightarrow> stark_felt" where
  "unwrap_or_default v = (case v of Some x \<Rightarrow> x | None \<Rightarrow> felt_default)"

definition pallet_storage :: "'c contract_storage \<Rightarrow> contract_storage_key \<Rightarrow> stark_felt" where
  "pallet_storage p k = unwrap_or_default (StorageView p k)"

definition pallet_nonce :: "'c contract_storage \<Rightarrow> contract_address \<Rightarrow> nonce" where
  "pallet_nonce p a = unwrap_or_default (Nonces p a)"

definition contract_class_hash_by_address :: "'c contract_storage \<Rightarrow> contract_address \<Rightarrow> class_hash" where
  "contract_class_hash_by_address p a = unwrap_or_default (ContractClassHashes p a)"

section \<open>The adapter\<close>

text \<open>
  \<open>storage_update\<close> is a map from keys to values; an association list without repeated keys.
\<close>

record BlockifierStateAdapter =
  storage_update :: "(contract_storage_key \<times> stark_felt) list"
  class_hash_update :: nat
  compiled_class_hash_update :: nat

definition adapter_default :: BlockifierStateAdapter where
  "adapter_default = \<lparr>storage_update = [], class_hash_update = 0, compiled_class_hash_update = 0\<rparr>"

record StateChangesCount =
  n_modified_contracts :: nat
  n_storage_updates :: nat
  n_class_hash_updates :: nat
  n_compiled_class_hash_updates :: nat

definition count_state_changes :: "BlockifierStateAdapter \<Rightarrow> StateChangesCount" where
  "count_state_changes self =
     (let keys = map fst (storage_update self)
      in \<lparr>n_modified_contracts = length (remdups (map fst keys)),
          n_storage_updates = length keys,
          n_class_hash_updates = class_hash_update self,
          n_compiled_class_hash_updates = compiled_class_hash_update self\<rparr>)"

text \<open>What a transaction executes on: the pallet's storage and the adapter's bookkeeping.\<close>

record 'c bstate =
  bs_pallet :: "'c contract_storage"
  bs_adapter :: BlockifierStateAdapter

datatype StateError = UndeclaredClassHash class_hash

definition get_storage_at :: "'c bstate \<Rightarrow> contract_address \<Rightarrow> storage_key \<Rightarrow> (stark_felt, StateError) result" where
  "get_storage_at s contract_address key = Ok (pallet_storage (bs_pallet s) (contract_address, key))"

definition get_nonce_at :: "'c bstate \<Rightarrow> contract_address \<Rightarrow> (nonce, StateError) result" where
  "get_nonce_at s contract_address = Ok (pallet_nonce (bs_pallet s) contract_address)"

definition get_class_hash_at :: "'c bstate \<Rightarrow> contract_address \<Rightarrow> (class_hash, StateError) result" where
  "get_class_hash_at s contract_address = Ok (contract_class_hash_by_address (bs_pallet s) contract_address)"

definition get_compiled_contract_class :: "'c bstate \<Rightarrow> class_hash \<Rightarrow> ('c, StateError) result" where
  "get_compiled_contract_class s ch = ok_or (UndeclaredClassHash ch) (ContractClasses (bs_pallet s) ch)"

definition get_compiled_class_hash :: "'c bstate \<Rightarrow> class_hash \<Rightarrow> (compiled_class_hash, StateError) result" where
  "get_compiled_class_hash s ch = ok_or (UndeclaredClassHash ch) (CompiledClassHashes (bs_pallet s) ch)"

definition set_storage_at :: "contract_address \<Rightarrow> storage_key \<Rightarrow> stark_felt \<Rightarrow> 'c bstate \<Rightarrow> 'c bstate" where
  "set_storage_at contract_address key v s =
     (let k = (contract_address, key); p = bs_pallet s; a = bs_adapter s
      in s\<lparr>bs_adapter := a\<lparr>storage_update := AList.update k v (storage_update a)\<rparr>,
           bs_pallet := p\<lparr>StorageView := (StorageView p)(k \<mapsto> v)\<rparr>\<rparr>)"

definition increment_nonce :: "ff_api \<Rightarrow> contract_address \<Rightarrow> (unit, StateError, 'c bstate) st" where
  "increment_nonce ff contract_address s =
     (let p = bs_pallet s
      in case and_then (felt_from_stark_felt ff (pallet_nonce p contract_address)) (\<lambda>current_nonce.
                stark_felt_from_felt ff (ff_add ff current_nonce 1)) of
           Ok new_nonce \<Rightarrow>
             (Ok (), s\<lparr>bs_pallet := p\<lparr>Nonces := (Nonces p)(contract_address \<mapsto> new_nonce)\<rparr>\<rparr>)
         | _ \<Rightarrow> (Panic, s))"

definition set_class_hash_at :: "contract_address \<Rightarrow> class_hash \<Rightarrow> (unit, StateError, 'c bstate) st" where
  "set_class_hash_at contract_address ch s =
     (let p = bs_pallet s; a = bs_adapter s
      in (Ok (), s\<lparr>bs_adapter := a\<lparr>class_hash_update := class_hash_update a + 1\<rparr>,
           bs_pallet := p\<lparr>ContractClassHashes := (ContractClassHashes p)(contract_address \<mapsto> ch)\<rparr>\<rparr>))"

definition set_contract_class :: "class_hash \<Rightarrow> 'c \<Rightarrow> (unit, StateError, 'c bstate) st" where
  "set_contract_class ch contract_class s =
     (let p = bs_pallet s
      in (Ok (), s\<lparr>bs_pallet := p\<lparr>ContractClasses := (ContractClasses p)(ch \<mapsto> contract_class)\<rparr>\<rparr>))"

definition set_compiled_class_hash :: "class_hash \<Rightarrow> compiled_class_hash \<Rightarrow> (unit, StateError, 'c bstate) st" where
  "set_compiled_class_hash ch compiled s =
     (let p = bs_pallet s; a = bs_adapter s
      in (Ok (), s\<lparr>bs_adapter := a\<lparr>compiled_class_hash_update := compiled_class_hash_update a + 1\<rparr>,
           bs_pallet := p\<lparr>CompiledClassHashes := (CompiledClassHashes p)(ch \<mapsto> compiled)\<rparr>\<rparr>))"

text \<open>\<open>to_state_diff\<close> returns four empty maps whatever the state.\<close>

record CommitmentStateDiff =
  address_to_class_hash :: "(contract_address \<times> class_hash) list"
  address_to_nonce :: "(contract_address \<times> nonce) list"
  storage_updates :: "(contract_address \<times> (storage_key \<times> stark_felt) list) list"
  class_hash_to_compiled_class_hash :: "(class_hash \<times> compiled_class_hash) list"

definition to_state_diff :: "'c bstate \<Rightarrow> CommitmentStateDiff" where
  "to_state_diff s = \<lparr>address_to_class_hash = [], address_to_nonce = [], storage_updates = [],
     class_hash_to_compiled_class_hash = []\<rparr>"

section \<open>The map-based reader\<close>

record 'c DictStateReader =
  storage_view :: "contract_storage_key \<rightharpoonup> stark_felt"
  dict_address_to_nonce :: "contract_address \<rightharpoonup> nonce"
  dict_address_to_class_hash :: "contract_address \<rightharpoonup> class_hash"
  class_hash_to_class :: "class_hash \<rightharpoonup> 'c"

definition dict_get_storage_at :: "'c DictStateReader \<Rightarrow> contract_address \<Rightarrow> storage_key \<Rightarrow> (stark_felt, StateError) result" where
  "dict_get_storage_at d a k = Ok (unwrap_or_default (storage_view d (a, k)))"

definition dict_get_nonce_at :: "'c DictStateReader \<Rightarrow> contract_address \<Rightarrow> (nonce, StateError) result" where
  "dict_get_nonce_at d a = Ok (unwrap_or_default (dict_address_to_nonce d a))"

definition dict_get_compiled_contract_class :: "'c DictStateReader \<Rightarrow> class_hash \<Rightarrow> ('c, StateError) result" where
  "dict_get_compiled_contract_class d ch =
     (case class_hash_to_class d ch of Some c \<Rightarrow> Ok c | None \<Rightarrow> Err (UndeclaredClassHash ch))"

definition dict_get_compiled_class_hash :: "'c DictStateReader \<Rightarrow> class_hash \<Rightarrow> (compiled_class_hash, StateError) result" where
  "dict_get_compiled_class_hash d ch = Ok felt_default"

definition dict_get_class_hash_at :: "'c DictStateReader \<Rightarrow> contract_address \<Rightarrow> (class_hash, StateError) result" where
  "dict_get_class_hash_at d a = Ok (unwrap_or_default (dict_address_to_class_hash d a))"

section \<open>The reader and writer contracts\<close>

text \<open>
  A \<open>StateReader\<close> answers from an abstract storage \<open>view s\<close>; a \<open>State\<close> moreover updates
  that storage point-wise. The adapter views the pallet's storage directly, the map-based reader
  views its maps (with every class declared with the default compiled class hash).
\<close>

locale state_reader =
  fixes view :: "'s \<Rightarrow> 'c contract_storage"
    and rd_storage :: "'s \<Rightarrow> contract_address \<Rightarrow> storage_key \<Rightarrow> (stark_felt, StateError) result"
    and rd_nonce :: "'s \<Rightarrow> contract_address \<Rightarrow> (nonce, StateError) result"
    and rd_class_hash :: "'s \<Rightarrow> contract_address \<Rightarrow> (class_hash, StateError) result"
    and rd_class :: "'s \<Rightarrow> class_hash \<Rightarrow> ('c, StateError) result"
    and rd_compiled :: "'s \<Rightarrow> class_hash \<Rightarrow> (compiled_class_hash, StateError) result"
  assumes rd_storage: "rd_storage s a k = Ok (unwrap_or_default (StorageView (view s) (a, k)))"
    and rd_nonce: "rd_nonce s a = Ok (unwrap_or_default (Nonces (view s) a))"
    and rd_class_hash: "rd_class_hash s a = Ok (unwrap_or_default (ContractClassHashes (view s) a))"
    and rd_class: "rd_class s ch = ok_or (UndeclaredClassHash ch) (ContractClasses (view s) ch)"
    and rd_compiled: "rd_compiled s ch = ok_or (UndeclaredClassHash ch) (CompiledClassHashes (view s) ch)"

locale state_writer = state_reader view rd_storage rd_nonce rd_class_hash rd_class rd_compiled
  for view :: "'s \<Rightarrow> 'c contract_storage" and rd_storage rd_nonce rd_class_hash rd_class rd_compiled +
  fixes wr_storage :: "contract_address \<Rightarrow> storage_key \<Rightarrow> stark_felt \<Rightarrow> 's \<Rightarrow> 's"
    and wr_class_hash :: "contract_address \<Rightarrow> class_hash \<Rightarrow> (unit, StateError, 's) st"
    and wr_class :: "class_hash \<Rightarrow> 'c \<Rightarrow> (unit, StateError, 's) st"
    and wr_compiled :: "class_hash \<Rightarrow> compiled_class_hash \<Rightarrow> (unit, StateError, 's) st"
  assumes wr_storage: "view (wr_storage a k v s) =
        (view s)\<lparr>StorageView := (StorageView (view s))((a, k) \<mapsto> v)\<rparr>"
    and wr_class_hash: "\<exists>s'. wr_class_hash a ch s = (Ok (), s') \<and>
        view s' = (view s)\<lparr>ContractClassHashes := (ContractClassHashes (view s))(a \<mapsto> ch)\<rparr>"
    and wr_class: "\<exists>s'. wr_class ch c s = (Ok (), s') \<and>
        view s' = (view s)\<lparr>ContractClasses := (ContractClasses (view s))(ch \<mapsto> c)\<rparr>"
    and wr_compiled: "\<exists>s'. wr_compiled ch h s = (Ok (), s') \<and>
        view s' = (view s)\<lparr>CompiledClassHashes := (CompiledClassHashes (view s))(ch \<mapsto> h)\<rparr>"
begin

lemma read_own_write:
  "rd_storage (wr_storage a k v s) b j = (if (b, j) = (a, k) then Ok v else rd_storage s b j)"
  by (simp add: rd_storage wr_storage unwrap_or_default_def)

lemma write_frame: "rd_nonce (wr_storage a k v s) b = rd_nonce s b"
    "rd_class_hash (wr_storage a k v s) b = rd_class_hash s b"
  by (simp_all add: rd_nonce rd_class_hash wr_storage)

end

interpretation adapter: state_writer bs_pallet get_storage_at get_nonce_at get_class_hash_at
    get_compiled_contract_class get_compiled_class_hash set_storage_at set_class_hash_at
    set_contract_class set_compiled_class_hash
  by unfold_locales
    (simp_all add: get_storage_at_def pallet_storage_def get_nonce_at_def pallet_nonce_def
      get_class_hash_at_def contract_class_hash_by_address_def get_compiled_contract_class_def
      get_compiled_class_hash_def set_storage_at_def set_class_hash_at_def set_contract_class_def
      set_compiled_class_hash_def Let_def)

definition dict_view :: "'c DictStateReader \<Rightarrow> 'c contract_storage" where
  "dict_view d = \<lparr>StorageView = storage_view d, Nonces = dict_address_to_nonce d,
     ContractClassHashes = dict_address_to_class_hash d, ContractClasses = class_hash_to_class d,
     CompiledClassHashes = (\<lambda>_. Some felt_default)\<rparr>"

interpretation dict: state_reader dict_view dict_get_storage_at dict_get_nonce_at
    dict_get_class_hash_at dict_get_compiled_contract_class dict_get_compiled_class_hash
  by unfold_locales
    (simp_all add: dict_view_def dict_get_storage_at_def dict_get_nonce_at_def
      dict_get_class_hash_at_def dict_get_compiled_contract_class_def
      dict_get_compiled_class_hash_def split: option.split)

section \<open>Steps of the interface\<close>

inductive state_op :: "ff_api \<Rightarrow> 'c bstate \<Rightarrow> 'c bstate \<Rightarrow> bool" for ff where
  op_storage: "state_op ff s (set_storage_at a k v s)"
| op_nonce: "increment_nonce ff a s = (Ok (), s') \<Longrightarrow> state_op ff s s'"
| op_class_hash: "set_class_hash_at a ch s = (Ok (), s') \<Longrightarrow> state_op ff s s'"
| op_class: "set_contract_class ch c s = (Ok (), s') \<Longrightarrow> state_op ff s s'"
| op_compiled: "set_compiled_class_hash ch h s = (Ok (), s') \<Longrightarrow> state_op ff s s'"

abbreviation state_ops :: "ff_api \<Rightarrow> 'c bstate \<Rightarrow> 'c bstate \<Rightarrow> bool" where
  "state_ops ff \<equiv> (state_op ff)\<^sup>*\<^sup>*"

text \<open>
  \<open>tracks p0 s\<close>: the adapter's record of writes is a map, and overriding the storage view of
  \<open>p0\<close> with it gives the current one; deployed contracts and declared classes stay so.
\<close>

definition tracks :: "'c contract_storage \<Rightarrow> 'c bstate \<Rightarrow> bool" where
  "tracks p0 s \<longleftrightarrow>
     distinct (map fst (storage_update (bs_adapter s))) \<and>
     StorageView (bs_pallet s) = StorageView p0 ++ map_of (storage_update (bs_adapter s)) \<and>
     dom (ContractClassHashes p0) \<subseteq> dom (ContractClassHashes (bs_pallet s)) \<and>
     dom (ContractClasses p0) \<subseteq> dom (ContractClasses (bs_pallet s)) \<and>
     dom (Nonces p0) \<subseteq> dom (Nonces (bs_pallet s))"

lemma increment_nonce_OkD:
  "increment_nonce ff a s = (Ok (), s') \<Longrightarrow>
     \<exists>n. s' = s\<lparr>bs_pallet := (bs_pallet s)\<lparr>Nonces := (Nonces (bs_pallet s))(a \<mapsto> n)\<rparr>\<rparr>"
  by (auto simp: increment_nonce_def Let_def split: result.splits)

lemma tracks_state_op:
  assumes "state_op ff s s'" "tracks p0 s"
  shows "tracks p0 s'"
  using assms
proof (cases rule: state_op.cases)
  case (op_storage a k v)
  with assms(2) show ?thesis
    by (auto simp: tracks_def set_storage_at_def Let_def distinct_update update_conv')
next
  case (op_nonce a)
  with assms(2) show ?thesis
    by (auto simp: tracks_def dest!: increment_nonce_OkD)
qed (use assms(2) in \<open>auto simp: tracks_def set_class_hash_at_def set_contract_class_def
      set_compiled_class_hash_def Let_def\<close>)

lemma tracks_state_ops: "state_ops ff s s' \<Longrightarrow> tracks p0 s \<Longrightarrow> tracks p0 s'"
  by (induction rule: rtranclp_induct) (auto intro: tracks_state_op)

lemma tracks_init: "tracks p \<lparr>bs_pallet = p, bs_adapter = adapter_default\<rparr>"
  by (simp add: tracks_def adapter_default_def)

section \<open>Properties\<close>

text \<open>
  C7. However a transaction drives the \<open>State\<close> interface, the adapter's bookkeeping is exact: the
  storage view differs from the one at the start precisely by the recorded writes, the counts
  handed to fee computation are the number of distinct storage cells written and the number of
  distinct contracts among them, and no step removes a deployed contract, a declared class or a
  nonce.
\<close>

theorem adapter_tracks_writes:
  assumes "state_ops ff \<lparr>bs_pallet = p, bs_adapter = adapter_default\<rparr> s"
  shows "StorageView (bs_pallet s) = StorageView p ++ map_of (storage_update (bs_adapter s)) \<and>
    n_storage_updates (count_state_changes (bs_adapter s)) =
      card (dom (map_of (storage_update (bs_adapter s)))) \<and>
    n_modified_contracts (count_state_changes (bs_adapter s)) =
      card (fst ` dom (map_of (storage_update (bs_adapter s)))) \<and>
    dom (ContractClassHashes p) \<subseteq> dom (ContractClassHashes (bs_pallet s)) \<and>
    dom (ContractClasses p) \<subseteq> dom (ContractClasses (bs_pallet s)) \<and>
    dom (Nonces p) \<subseteq> dom (Nonces (bs_pallet s))"
proof -
  have t: "tracks p s" using tracks_state_ops [OF assms tracks_init] .
  then have "length (map fst (storage_update (bs_adapter s))) =
      card (set (map fst (storage_update (bs_adapter s))))"
    by (metis tracks_def distinct_card)
  then show ?thesis
    using t by (auto simp: tracks_def count_state_changes_def Let_def dom_map_of_conv_image_fst
        length_remdups_card_conv)
qed

definition empty_storage :: "'c contract_storage" where
  "empty_storage = \<lparr>StorageView = (\<lambda>_. None), Nonces = (\<lambda>_. None), ContractClassHashes = (\<lambda>_. None),
     ContractClasses = (\<lambda>_. None), CompiledClassHashes = (\<lambda>_. None)\<rparr>"

theorem adapter_tracks_writes_witness:
  "n_storage_updates (count_state_changes (bs_adapter
      (set_storage_at [1] [2] [9] (set_storage_at [1] [3] [7] (set_storage_at [1] [2] [8]
         \<lparr>bs_pallet = empty_storage :: nat contract_storage, bs_adapter = adapter_default\<rparr>))))) = 2"
proof -
  let ?s0 = "\<lparr>bs_pallet = empty_storage :: nat contract_storage, bs_adapter = adapter_default\<rparr>"
  let ?s1 = "set_storage_at [1] [2] [8] ?s0"
  let ?s2 = "set_storage_at [1] [3] [7] ?s1"
  let ?s3 = "set_storage_at [1] [2] [9] ?s2"
  have "state_ops ff_ref ?s0 ?s3"
    by (rule rtranclp_trans [where y = ?s2], rule rtranclp_trans [where y = ?s1])
      (auto intro: op_storage)
  from adapter_tracks_writes [OF this] show ?thesis
    by (simp add: set_storage_at_def Let_def adapter_default_def card_insert_if)
qed

end
