(* ===== verification/Constants.thy ===== *)
theory Constants
  imports Felt
begin

text \<open>
  The felt constants the sources write as Montgomery limbs: chain ids
  (\<^verbatim>\<open>crates/primitives/chain-id\<close>), the Starknet OS program hash
  (\<^verbatim>\<open>crates/primitives/program-hash\<close>), the simulation offset of transaction versions and the
  two constants of contract address computation (\<^verbatim>\<open>crates/primitives/transactions\<close>).
\<close>

definition SN_GOERLI_CHAIN_ID :: "ff_api \<Rightarrow> felt252_wrapper" where
  "SN_GOERLI_CHAIN_ID ff = ff_from_mont ff
     [3753493103916128178, 18446744073709548950, 18446744073709551615, 398700013197595345]"

definition SN_MAIN_CHAIN_ID :: "ff_api \<Rightarrow> felt252_wrapper" where
  "SN_MAIN_CHAIN_ID ff = ff_from_mont ff
     [17696389056366564951, 18446744073709551615, 18446744073709551615, 502562008147966918]"

definition MADARA_CHAIN_ID :: "ff_api \<Rightarrow> felt252_wrapper" where
  "MADARA_CHAIN_ID ff = ff_from_mont ff
     [18444025906882525153, 18446744073709551615, 18446744073709551615, 530251916243973616]"

definition SN_OS_PROGRAM_HASH :: "ff_api \<Rightarrow> felt252_wrapper" where
  "SN_OS_PROGRAM_HASH ff = ff_from_mont ff
     [6431315658044554931, 6518314672963632076, 7993178465604693533, 95212460539797968]"

definition SIMULATE_TX_VERSION_OFFSET :: "ff_api \<Rightarrow> felt" where
  "SIMULATE_TX_VERSION_OFFSET ff = ff_from_mont ff
     [18446744073700081665, 17407, 18446744073709551584, 576460752142434320]"

definition PREFIX_CONTRACT_ADDRESS :: "ff_api \<Rightarrow> felt" where
  "PREFIX_CONTRACT_ADDRESS ff = ff_from_mont ff
     [3829237882463328880, 17289941567720117366, 8635008616843941496, 533439743893157637]"

definition ADDR_BOUND :: "ff_api \<Rightarrow> felt" where
  "ADDR_BOUND ff = ff_from_mont ff
     [18446743986131443745, 160989183, 18446744073709255680, 576459263475590224]"

section \<open>Their values\<close>

text \<open>A byte string literal \<open>b"..."\<close>, and the felt a short string stands for.\<close>

definition ascii :: "string \<Rightarrow> bytes" where
  "ascii s = map of_char s"

lemma mod_cancel_inverse:
  fixes p :: nat
  assumes "(a * b) mod p = 1" "x < p"
  shows "((x * b) mod p * a) mod p = x"
  using mod_mult_inverse [of b a p x] assms by (simp add: mult.commute)

context field_libs
begin

lemma from_mont_eq:
  assumes "length l = 4" "limbs_val l < felt_prime"
  shows "ff_from_mont ff l = (limbs_val l * MONT_R_INV) mod felt_prime"
  using mod_cancel_inverse [OF mont_r_inv from_mont(1) [OF assms]] from_mont(2) [OF assms]
  by simp

lemma mont_constants:
  "SIMULATE_TX_VERSION_OFFSET ff = 2 ^ 128"
  "ADDR_BOUND ff = 2 ^ 251 - 256"
  "PREFIX_CONTRACT_ADDRESS ff = be_val (ascii ''STARKNET_CONTRACT_ADDRESS'')"
  "SN_GOERLI_CHAIN_ID ff = be_val (ascii ''SN_GOERLI'')"
  "SN_MAIN_CHAIN_ID ff = be_val (ascii ''SN_MAIN'')"
  "MADARA_CHAIN_ID ff = be_val (ascii ''MADARA'')"
  "SN_OS_PROGRAM_HASH ff = 0x41fc2a467ef8649580631912517edcab7674173f1dbfa2e9b64fbcd82bc4d79"
  by (simp_all add: SIMULATE_TX_VERSION_OFFSET_def ADDR_BOUND_def PREFIX_CONTRACT_ADDRESS_def
      SN_GOERLI_CHAIN_ID_def SN_MAIN_CHAIN_ID_def MADARA_CHAIN_ID_def SN_OS_PROGRAM_HASH_def
      from_mont_eq limbs_val_def felt_prime_def MONT_R_INV_def ascii_def)

end

end
