(* ===== verification/Hashers.thy ===== *)
theory Hashers
  imports Felt
begin

text \<open>
  The crate \<^verbatim>\<open>mp-hashers\<close>: the trait \<open>HasherT\<close> (\<^verbatim>\<open>lib.rs\<close>) and its two
  implementations, \<open>PedersenHasher\<close> (\<^verbatim>\<open>pedersen.rs\<close>) and \<open>PoseidonHasher\<close>
  (\<^verbatim>\<open>poseidon.rs\<close>). The hash permutations come from starknet-crypto and the list hash from
  starknet-core; they are the fields of \<open>crypto_api\<close>. The trait is the record \<open>hasher\<close> with
  the locale \<open>hasher_t\<close> as its contract; both implementations are instances.
\<close>

section \<open>The cryptographic libraries\<close>

record crypto_api =
  pedersen_hash :: "felt \<Rightarrow> felt \<Rightarrow> felt"
  core_compute_hash_on_elements :: "felt list \<Rightarrow> felt"
  poseidon_hash :: "felt \<Rightarrow> felt \<Rightarrow> felt"
  poseidon_hash_many :: "felt list \<Rightarrow> felt"

text \<open>
  What the libraries document: every hash is a field element, and the list hash of
  starknet-core is the Pedersen chain \<open>h(... h(h(0, x_1), x_2) ..., n)\<close>.
\<close>

definition crypto_laws :: "crypto_api \<Rightarrow> bool" where
  "crypto_laws cr \<longleftrightarrow>
     (\<forall>a b. pedersen_hash cr a b < felt_prime) \<and> (\<forall>a b. poseidon_hash cr a b < felt_prime) \<and>
     (\<forall>xs. poseidon_hash_many cr xs < felt_prime) \<and>
     (\<forall>xs. core_compute_hash_on_elements cr xs =
        pedersen_hash cr (foldl (pedersen_hash cr) 0 xs) (length xs))"

section \<open>The trait and its implementations\<close>

record hasher =
  hash_bytes :: "bytes \<Rightarrow> (felt252_wrapper, unit) result"
  compute_hash_on_wrappers :: "felt252_wrapper list \<Rightarrow> felt252_wrapper"
  hash_elements :: "felt \<Rightarrow> felt \<Rightarrow> felt"
  compute_hash_on_elements :: "felt list \<Rightarrow> felt"

text \<open>\<open>slice::chunks\<close>: pieces of length \<open>n\<close>, the last one possibly shorter.\<close>

function chunks :: "nat \<Rightarrow> 'a list \<Rightarrow> 'a list list" where
  "chunks n xs = (if n = 0 \<or> xs = [] then [] else take n xs # chunks n (drop n xs))"
  by pat_completeness auto
termination by (relation "measure (\<lambda>(n, xs). length xs)") auto

declare chunks.simps [simp del]

definition CHUNK_SIZE :: nat where
  "CHUNK_SIZE = 31"

fun pedersen_chunk_loop :: "ff_api \<Rightarrow> crypto_api \<Rightarrow> felt \<Rightarrow> bytes list \<Rightarrow> (felt, unit) result" where
  "pedersen_chunk_loop ff cr hash_value [] = Ok hash_value"
| "pedersen_chunk_loop ff cr hash_value (chunk # rest) =
     and_then (unwrap (ff_from_byte_slice_be ff chunk)) (\<lambda>field_element.
       pedersen_chunk_loop ff cr (pedersen_hash cr hash_value field_element) rest)"

definition pedersen_hash_bytes :: "ff_api \<Rightarrow> crypto_api \<Rightarrow> bytes \<Rightarrow> (felt252_wrapper, unit) result" where
  "pedersen_hash_bytes ff cr data = pedersen_chunk_loop ff cr 0 (chunks CHUNK_SIZE data)"

definition pedersen_compute_hash_on_wrappers :: "crypto_api \<Rightarrow> felt252_wrapper list \<Rightarrow> felt252_wrapper" where
  "pedersen_compute_hash_on_wrappers cr data = core_compute_hash_on_elements cr (map (\<lambda>x. x) data)"

definition pedersen_hash_elements :: "crypto_api \<Rightarrow> felt \<Rightarrow> felt \<Rightarrow> felt" where
  "pedersen_hash_elements cr a b = pedersen_hash cr a b"

definition pedersen_compute_hash_on_elements :: "crypto_api \<Rightarrow> felt list \<Rightarrow> felt" where
  "pedersen_compute_hash_on_elements cr elements = core_compute_hash_on_elements cr elements"

definition PedersenHasher :: "ff_api \<Rightarrow> crypto_api \<Rightarrow> hasher" where
  "PedersenHasher ff cr = \<lparr>
     hash_bytes = pedersen_hash_bytes ff cr,
     compute_hash_on_wrappers = pedersen_compute_hash_on_wrappers cr,
     hash_elements = pedersen_hash_elements cr,
     compute_hash_on_elements = pedersen_compute_hash_on_elements cr\<rparr>"

definition poseidon_hash_bytes :: "ff_api \<Rightarrow> crypto_api \<Rightarrow> bytes \<Rightarrow> (felt252_wrapper, unit) result" where
  "poseidon_hash_bytes ff cr data =
     map_ok (poseidon_hash_many cr)
       (collect_results (\<lambda>chunk. unwrap (ff_from_byte_slice_be ff chunk)) (chunks CHUNK_SIZE data))"

definition poseidon_compute_hash_on_wrappers :: "crypto_api \<Rightarrow> felt252_wrapper list \<Rightarrow> felt252_wrapper" where
  "poseidon_compute_hash_on_wrappers cr data = poseidon_hash_many cr (map (\<lambda>x. x) data)"

definition poseidon_hash_elements :: "crypto_api \<Rightarrow> felt \<Rightarrow> felt \<Rightarrow> felt" where
  "poseidon_hash_elements cr a b = poseidon_hash cr a b"

definition poseidon_compute_hash_on_elements :: "crypto_api \<Rightarrow> felt list \<Rightarrow> felt" where
  "poseidon_compute_hash_on_elements cr elements = poseidon_hash_many cr elements"

definition PoseidonHasher :: "ff_api \<Rightarrow> crypto_api \<Rightarrow> hasher" where
  "PoseidonHasher ff cr = \<lparr>
     hash_bytes = poseidon_hash_bytes ff cr,
     compute_hash_on_wrappers = poseidon_compute_hash_on_wrappers cr,
     hash_elements = poseidon_hash_elements cr,
     compute_hash_on_elements = poseidon_compute_hash_on_elements cr\<rparr>"

section \<open>The contract\<close>

text \<open>
  What the clients of the trait rely on: hashing bytes always returns (no \<open>unwrap\<close> fails),
  every hash is canonical, and hashing wrappers is hashing the elements they wrap.
\<close>

locale hasher_t =
  fixes H :: hasher
  assumes hash_bytes_total: "\<exists>x < felt_prime. hash_bytes H d = Ok x"
    and elements_canonical: "compute_hash_on_elements H xs < felt_prime"
    and pair_canonical: "hash_elements H a b < felt_prime"
    and wrappers_eq: "compute_hash_on_wrappers H xs = compute_hash_on_elements H xs"

locale crypto_libs = field_libs ff for ff :: ff_api +
  fixes cr :: crypto_api
  assumes crypto: "crypto_laws cr"

lemma chunks_length: "c \<in> set (chunks n xs) \<Longrightarrow> length c \<le> n"
  by (induction n xs rule: chunks.induct) (subst (asm) (2) chunks.simps, auto split: if_splits)

lemma concat_chunks: "0 < n \<Longrightarrow> concat (chunks n xs) = xs"
  by (induction n xs rule: chunks.induct) (subst chunks.simps, auto)

lemma chunks_Nil_iff: "0 < n \<Longrightarrow> chunks n xs = [] \<longleftrightarrow> xs = []"
  by (simp add: chunks.simps [of n xs])

lemma chunks_shape:
  "0 < n \<Longrightarrow> list_all (\<lambda>c. length c = n) (butlast (chunks n xs)) \<and>
     list_all (\<lambda>c. c \<noteq> [] \<and> length c \<le> n) (chunks n xs)"
proof (induction n xs rule: chunks.induct)
  case (1 n xs)
  then show ?case
    by (cases "xs = []") (simp_all add: chunks.simps [of n] chunks_Nil_iff)
qed

lemma two_chunks:
  assumes "concat cs = a @ b" "list_all (\<lambda>c. length c = n) (butlast cs)" "list_all (\<lambda>c. c \<noteq> [] \<and> length c \<le> n) cs"
    and "length a = n" "b \<noteq> []" "length b \<le> n"
  shows "cs = [a, b]"
proof -
  have "cs \<noteq> []" using assms(1,5) by auto
  then obtain c cs' where cs: "cs = c # cs'" by (cases cs) auto
  have "cs' \<noteq> []" using assms(1,3,4,5) cs by auto
  then obtain c' cs'' where cs': "cs' = c' # cs''" by (cases cs') auto
  have c: "c = a" "c' @ concat cs'' = b"
    using assms(1,2,4) cs cs' by auto
  have "cs'' = []"
  proof (rule ccontr)
    assume "cs'' \<noteq> []"
    then obtain d ds where "cs'' = d # ds" by (cases cs'') auto
    then show False using c(2) assms(2,3,6) cs cs' by auto
  qed
  then show ?thesis using c cs cs' by simp
qed

context crypto_libs
begin

lemma chunk_to_felt:
  assumes "c \<in> set (chunks CHUNK_SIZE d)"
  shows "ff_from_byte_slice_be ff c = Ok (be_val c)" "be_val c < felt_prime"
proof -
  have len: "length c \<le> 31"
    using chunks_length [OF assms] by (simp add: CHUNK_SIZE_def)
  have "be_val c < 256 ^ length c"
    by (rule be_val_bound)
  also have "\<dots> \<le> 256 ^ 31"
    by (rule power_increasing) (use len in auto)
  also have "\<dots> < felt_prime"
    by (simp add: felt_prime_def)
  finally show "be_val c < felt_prime" .
  then show "ff_from_byte_slice_be ff c = Ok (be_val c)"
    using len by (simp add: from_byte_slice_be)
qed

lemma pedersen_loop_eq:
  "\<forall>c \<in> set cs. ff_from_byte_slice_be ff c = Ok (be_val c) \<Longrightarrow>
     pedersen_chunk_loop ff cr h cs = Ok (foldl (pedersen_hash cr) h (map be_val cs))"
  by (induction cs arbitrary: h) auto

lemma pedersen_hash_bytes_eq:
  "pedersen_hash_bytes ff cr d = Ok (foldl (pedersen_hash cr) 0 (map be_val (chunks CHUNK_SIZE d)))"
  unfolding pedersen_hash_bytes_def by (rule pedersen_loop_eq) (simp add: chunk_to_felt)

lemma poseidon_hash_bytes_eq:
  "poseidon_hash_bytes ff cr d = Ok (poseidon_hash_many cr (map be_val (chunks CHUNK_SIZE d)))"
proof -
  have "collect_results (\<lambda>chunk. unwrap (ff_from_byte_slice_be ff chunk)) (chunks CHUNK_SIZE d) =
      (Ok (map be_val (chunks CHUNK_SIZE d)) :: (nat list, unit) result)"
    by (rule collect_results_all_Ok) (simp add: chunk_to_felt)
  then show ?thesis by (simp add: poseidon_hash_bytes_def)
qed

lemma foldl_pedersen_canonical: "h < felt_prime \<Longrightarrow> foldl (pedersen_hash cr) h xs < felt_prime"
  using crypto by (induction xs arbitrary: h) (auto simp: crypto_laws_def)

end

sublocale crypto_libs \<subseteq> pedersen: hasher_t "PedersenHasher ff cr"
  using crypto foldl_pedersen_canonical [of 0]
  by unfold_locales
    (simp_all add: PedersenHasher_def pedersen_hash_bytes_eq pedersen_compute_hash_on_wrappers_def
      pedersen_compute_hash_on_elements_def pedersen_hash_elements_def crypto_laws_def)

sublocale crypto_libs \<subseteq> poseidon: hasher_t "PoseidonHasher ff cr"
  using crypto
  by unfold_locales
    (simp_all add: PoseidonHasher_def poseidon_hash_bytes_eq poseidon_compute_hash_on_wrappers_def
      poseidon_compute_hash_on_elements_def poseidon_hash_elements_def crypto_laws_def)

context crypto_libs
begin

lemmas pedersen_hasher = pedersen.hasher_t_axioms

lemmas poseidon_hasher = poseidon.hasher_t_axioms

end

section \<open>A reference instance\<close>

text \<open>A toy mixing function in the shape of the libraries, for concrete evaluations.\<close>

definition mix_ref :: "felt \<Rightarrow> felt \<Rightarrow> felt" where
  "mix_ref a b = (3 * a + 5 * b + 7) mod felt_prime"

definition crypto_ref :: crypto_api where
  "crypto_ref = \<lparr>
     pedersen_hash = mix_ref,
     core_compute_hash_on_elements = (\<lambda>xs. mix_ref (foldl mix_ref 0 xs) (length xs)),
     poseidon_hash = mix_ref,
     poseidon_hash_many = foldl mix_ref 1\<rparr>"

lemma mix_ref_canonical: "mix_ref a b < felt_prime"
  by (simp add: mix_ref_def)

lemma crypto_ref_laws: "crypto_laws crypto_ref"
proof -
  have "foldl mix_ref h xs < felt_prime" if "h < felt_prime" for h xs
    using that by (induction xs arbitrary: h) (auto simp: mix_ref_canonical)
  moreover have "1 < felt_prime" by (simp add: felt_prime_def)
  ultimately show ?thesis
    by (simp add: crypto_laws_def crypto_ref_def mix_ref_canonical)
qed

interpretation ref_cr: crypto_libs ff_ref crypto_ref
  by unfold_locales (rule crypto_ref_laws)

section \<open>Properties\<close>

text \<open>
  C35. Hashing bytes cuts the data into chunks of 31 bytes (only the last one may be shorter, none is
  empty) that together are the data, and no chunk overflows the field: for every input both hashers
  return the hash of the chunks read as big-endian numbers, Pedersen as a chain from zero and Poseidon
  in one sponge. The \<open>unwrap\<close> the comment in the source argues about never panics.
\<close>

theorem hash_bytes_chunks:
  assumes "ff_laws ff" "crypto_laws cr"
  shows "\<exists>cs. concat cs = d \<and> list_all (\<lambda>c. length c = 31) (butlast cs) \<and>
    list_all (\<lambda>c. c \<noteq> [] \<and> length c \<le> 31) cs \<and>
    hash_bytes (PedersenHasher ff cr) d = Ok (foldl (pedersen_hash cr) 0 (map be_val cs)) \<and>
    hash_bytes (PoseidonHasher ff cr) d = Ok (poseidon_hash_many cr (map be_val cs))"
proof -
  have "crypto_libs ff cr" using assms by unfold_locales
  then show ?thesis
    using concat_chunks [of CHUNK_SIZE d] chunks_shape [of CHUNK_SIZE d]
    by (intro exI [of _ "chunks CHUNK_SIZE d"])
      (simp add: PedersenHasher_def PoseidonHasher_def crypto_libs.pedersen_hash_bytes_eq
        crypto_libs.poseidon_hash_bytes_eq CHUNK_SIZE_def)
qed

text \<open>The 32 bytes are hashed as the chunks \<open>1\<close> and \<open>9\<close>; chunks of another size give another hash.\<close>

theorem hash_bytes_chunks_witness:
  "hash_bytes (PedersenHasher ff_ref crypto_ref) (replicate 30 0 @ [1, 9]) = Ok 88"
proof -
  obtain cs where cs: "concat cs = replicate 30 0 @ [1, 9 :: byte]" "list_all (\<lambda>c. length c = 31) (butlast cs)"
      "list_all (\<lambda>c. c \<noteq> [] \<and> length c \<le> 31) cs"
      "hash_bytes (PedersenHasher ff_ref crypto_ref) (replicate 30 0 @ [1, 9]) =
        Ok (foldl (pedersen_hash crypto_ref) 0 (map be_val cs))"
    using hash_bytes_chunks [OF ff_ref_laws crypto_ref_laws, of "replicate 30 0 @ [1, 9]"] by blast
  have "cs = [replicate 30 0 @ [1], [9]]"
    using two_chunks [of cs "replicate 30 0 @ [1]" "[9]" 31] cs(1-3) by simp
  then show ?thesis
    using cs(4) be_val_zeros [of 30 "[1]"]
    by (simp add: crypto_ref_def mix_ref_def felt_prime_def)
qed

end
