(* ===== verification/Transactions.thy ===== *)
theory Transactions
  imports Constants Hashers
begin

text \<open>
  The transaction types of \<^verbatim>\<open>mp-transactions\<close> (\<^verbatim>\<open>lib.rs\<close>), their getters
  (\<^verbatim>\<open>getters.rs\<close>) and the computation of transaction hashes and account addresses
  (\<^verbatim>\<open>compute_hash.rs\<close>). The contract class a declare transaction carries is a type of
  blockifier and stays the type parameter \<open>'c\<close>.
\<close>

section \<open>Types\<close>

type_synonym Fee = u128

datatype TxType = TxInvoke | TxDeclare | TxDeployAccount | TxL1Handler

text \<open>\<open>TransactionType\<close> of blockifier: the variants \<open>From<TxType>\<close> maps to.\<close>

datatype TransactionType = TT_InvokeFunction | TT_Declare | TT_DeployAccount | TT_L1Handler

record InvokeTransactionV0 =
  i0_max_fee :: u128
  i0_signature :: "felt252_wrapper list"
  i0_contract_address :: felt252_wrapper
  i0_entry_point_selector :: felt252_wrapper
  i0_calldata :: "felt252_wrapper list"

record InvokeTransactionV1 =
  i1_max_fee :: u128
  i1_signature :: "felt252_wrapper list"
  i1_nonce :: felt252_wrapper
  i1_sender_address :: felt252_wrapper
  i1_calldata :: "felt252_wrapper list"
  i1_offset_version :: bool

datatype InvokeTransaction = InvokeV0 InvokeTransactionV0 | InvokeV1 InvokeTransactionV1

record DeclareTransactionV0 =
  d0_max_fee :: u128
  d0_signature :: "felt252_wrapper list"
  d0_nonce :: felt252_wrapper
  d0_class_hash :: felt252_wrapper
  d0_sender_address :: felt252_wrapper

record DeclareTransactionV1 =
  d1_max_fee :: u128
  d1_signature :: "felt252_wrapper list"
  d1_nonce :: felt252_wrapper
  d1_class_hash :: felt252_wrapper
  d1_sender_address :: felt252_wrapper
  d1_offset_version :: bool

record DeclareTransactionV2 =
  d2_max_fee :: u128
  d2_signature :: "felt252_wrapper list"
  d2_nonce :: felt252_wrapper
  d2_class_hash :: felt252_wrapper
  d2_sender_address :: felt252_wrapper
  d2_compiled_class_hash :: felt252_wrapper
  d2_offset_version :: bool

datatype DeclareTransaction =
  DeclareV0 DeclareTransactionV0 | DeclareV1 DeclareTransactionV1 | DeclareV2 DeclareTransactionV2

record DeployAccountTransaction =
  da_max_fee :: u128
  da_signature :: "felt252_wrapper list"
  da_nonce :: felt252_wrapper
  da_contract_address_salt :: felt252_wrapper
  da_constructor_calldata :: "felt252_wrapper list"
  da_class_hash :: felt252_wrapper
  da_offset_version :: bool

record HandleL1MessageTransaction =
  l1_nonce :: u64
  l1_contract_address :: felt252_wrapper
  l1_entry_point_selector :: felt252_wrapper
  l1_calldata :: "felt252_wrapper list"

datatype 'c UserTransaction =
  UserDeclare DeclareTransaction 'c | UserDeployAccount DeployAccountTransaction
| UserInvoke InvokeTransaction

datatype Transaction =
  TDeclare DeclareTransaction | TDeployAccount DeployAccountTransaction
| TInvoke InvokeTransaction | TL1Handler HandleL1MessageTransaction

datatype 'c UserOrL1HandlerTransaction =
  UOLUser "'c UserTransaction" | UOLL1Handler HandleL1MessageTransaction Fee

fun transaction_type_from_tx_type :: "TxType \<Rightarrow> TransactionType" where
  "transaction_type_from_tx_type TxInvoke = TT_InvokeFunction"
| "transaction_type_from_tx_type TxDeclare = TT_Declare"
| "transaction_type_from_tx_type TxDeployAccount = TT_DeployAccount"
| "transaction_type_from_tx_type TxL1Handler = TT_L1Handler"

fun tx_type_from_user :: "'c UserTransaction \<Rightarrow> TxType" where
  "tx_type_from_user (UserDeclare _ _) = TxDeclare"
| "tx_type_from_user (UserDeployAccount _) = TxDeployAccount"
| "tx_type_from_user (UserInvoke _) = TxInvoke"

fun tx_type_from_user_or_l1 :: "'c UserOrL1HandlerTransaction \<Rightarrow> TxType" where
  "tx_type_from_user_or_l1 (UOLUser tx) = tx_type_from_user tx"
| "tx_type_from_user_or_l1 (UOLL1Handler _ _) = TxL1Handler"

text \<open>
  \<open>MsgFromL1\<close> of starknet-core; the sender is the 20 bytes of an Ethereum address.
\<close>

record MsgFromL1 =
  msg_from_address :: bytes
  msg_to_address :: felt
  msg_entry_point_selector :: felt
  msg_payload :: "felt list"

definition l1_transaction_from_msg :: "ff_api \<Rightarrow> MsgFromL1 \<Rightarrow> HandleL1MessageTransaction" where
  "l1_transaction_from_msg ff msg = \<lparr>
     l1_nonce = 0,
     l1_contract_address = msg_to_address msg,
     l1_entry_point_selector = msg_entry_point_selector msg,
     l1_calldata = felt_from_eth_address ff (msg_from_address msg) # map (\<lambda>f. f) (msg_payload msg)\<rparr>"

section \<open>Getters of declare and invoke transactions\<close>

fun declare_sender_address :: "DeclareTransaction \<Rightarrow> felt252_wrapper" where
  "declare_sender_address (DeclareV0 tx) = d0_sender_address tx"
| "declare_sender_address (DeclareV1 tx) = d1_sender_address tx"
| "declare_sender_address (DeclareV2 tx) = d2_sender_address tx"

fun declare_signature :: "DeclareTransaction \<Rightarrow> felt252_wrapper list" where
  "declare_signature (DeclareV0 tx) = d0_signature tx"
| "declare_signature (DeclareV1 tx) = d1_signature tx"
| "declare_signature (DeclareV2 tx) = d2_signature tx"

fun declare_max_fee :: "DeclareTransaction \<Rightarrow> u128" where
  "declare_max_fee (DeclareV0 tx) = d0_max_fee tx"
| "declare_max_fee (DeclareV1 tx) = d1_max_fee tx"
| "declare_max_fee (DeclareV2 tx) = d2_max_fee tx"

fun declare_nonce :: "DeclareTransaction \<Rightarrow> felt252_wrapper" where
  "declare_nonce (DeclareV0 tx) = d0_nonce tx"
| "declare_nonce (DeclareV1 tx) = d1_nonce tx"
| "declare_nonce (DeclareV2 tx) = d2_nonce tx"

fun declare_class_hash :: "DeclareTransaction \<Rightarrow> felt252_wrapper" where
  "declare_class_hash (DeclareV0 tx) = d0_class_hash tx"
| "declare_class_hash (DeclareV1 tx) = d1_class_hash tx"
| "declare_class_hash (DeclareV2 tx) = d2_class_hash tx"

fun declare_compiled_class_hash :: "DeclareTransaction \<Rightarrow> felt252_wrapper option" where
  "declare_compiled_class_hash (DeclareV0 _) = None"
| "declare_compiled_class_hash (DeclareV1 _) = None"
| "declare_compiled_class_hash (DeclareV2 tx) = Some (d2_compiled_class_hash tx)"

fun declare_offset_version :: "DeclareTransaction \<Rightarrow> bool" where
  "declare_offset_version (DeclareV0 _) = False"
| "declare_offset_version (DeclareV1 tx) = d1_offset_version tx"
| "declare_offset_version (DeclareV2 tx) = d2_offset_version tx"

fun invoke_sender_address :: "InvokeTransaction \<Rightarrow> felt252_wrapper" where
  "invoke_sender_address (InvokeV0 tx) = i0_contract_address tx"
| "invoke_sender_address (InvokeV1 tx) = i1_sender_address tx"

fun invoke_signature :: "InvokeTransaction \<Rightarrow> felt252_wrapper list" where
  "invoke_signature (InvokeV0 tx) = i0_signature tx"
| "invoke_signature (InvokeV1 tx) = i1_signature tx"

fun invoke_max_fee :: "InvokeTransaction \<Rightarrow> u128" where
  "invoke_max_fee (InvokeV0 tx) = i0_max_fee tx"
| "invoke_max_fee (InvokeV1 tx) = i1_max_fee tx"

fun invoke_calldata :: "InvokeTransaction \<Rightarrow> felt252_wrapper list" where
  "invoke_calldata (InvokeV0 tx) = i0_calldata tx"
| "invoke_calldata (InvokeV1 tx) = i1_calldata tx"

fun invoke_nonce :: "InvokeTransaction \<Rightarrow> felt252_wrapper option" where
  "invoke_nonce (InvokeV0 _) = None"
| "invoke_nonce (InvokeV1 tx) = Some (i1_nonce tx)"

fun invoke_offset_version :: "InvokeTransaction \<Rightarrow> bool" where
  "invoke_offset_version (InvokeV0 _) = False"
| "invoke_offset_version (InvokeV1 tx) = i1_offset_version tx"

section \<open>Transaction hashes\<close>

definition DECLARE_PREFIX :: bytes where "DECLARE_PREFIX = ascii ''declare''"
definition DEPLOY_ACCOUNT_PREFIX :: bytes where "DEPLOY_ACCOUNT_PREFIX = ascii ''deploy_account''"
definition INVOKE_PREFIX :: bytes where "INVOKE_PREFIX = ascii ''invoke''"
definition L1_HANDLER_PREFIX :: bytes where "L1_HANDLER_PREFIX = ascii ''l1_handler''"

text \<open>\<open>Felt252Wrapper\<close> is a transparent wrapper: the slice is reinterpreted in place.\<close>

definition convert_calldata :: "felt252_wrapper list \<Rightarrow> felt list" where
  "convert_calldata data = data"

definition invoke_v0_compute_hash ::
    "ff_api \<Rightarrow> crypto_api \<Rightarrow> hasher \<Rightarrow> InvokeTransactionV0 \<Rightarrow> felt252_wrapper \<Rightarrow> bool
      \<Rightarrow> (felt252_wrapper, unit) result" where
  "invoke_v0_compute_hash ff cr H self chain_id offset_version =
     and_then (unwrap (ff_from_byte_slice_be ff INVOKE_PREFIX)) (\<lambda>pfx.
       (let version = (if offset_version then SIMULATE_TX_VERSION_OFFSET ff else 0);
            calldata_hash = core_compute_hash_on_elements cr (convert_calldata (i0_calldata self));
            max_fee = ff_from_u128 ff (i0_max_fee self)
        in Ok (compute_hash_on_elements H
             [pfx, version, i0_contract_address self, i0_entry_point_selector self, calldata_hash,
              max_fee, chain_id])))"

definition invoke_v1_compute_hash ::
    "ff_api \<Rightarrow> crypto_api \<Rightarrow> hasher \<Rightarrow> InvokeTransactionV1 \<Rightarrow> felt252_wrapper \<Rightarrow> bool
      \<Rightarrow> (felt252_wrapper, unit) result" where
  "invoke_v1_compute_hash ff cr H self chain_id offset_version =
     and_then (unwrap (ff_from_byte_slice_be ff INVOKE_PREFIX)) (\<lambda>pfx.
       (let version = (if offset_version then ff_add ff (SIMULATE_TX_VERSION_OFFSET ff) 1 else 1);
            entrypoint_selector = 0;
            calldata_hash = core_compute_hash_on_elements cr (convert_calldata (i1_calldata self));
            max_fee = ff_from_u128 ff (i1_max_fee self)
        in Ok (compute_hash_on_elements H
             [pfx, version, i1_sender_address self, entrypoint_selector, calldata_hash,
              max_fee, chain_id, i1_nonce self])))"

fun invoke_compute_hash ::
    "ff_api \<Rightarrow> crypto_api \<Rightarrow> hasher \<Rightarrow> InvokeTransaction \<Rightarrow> felt252_wrapper \<Rightarrow> bool
      \<Rightarrow> (felt252_wrapper, unit) result" where
  "invoke_compute_hash ff cr H (InvokeV0 tx) chain_id offset_version =
     invoke_v0_compute_hash ff cr H tx chain_id offset_version"
| "invoke_compute_hash ff cr H (InvokeV1 tx) chain_id offset_version =
     invoke_v1_compute_hash ff cr H tx chain_id offset_version"

definition declare_v0_compute_hash ::
    "ff_api \<Rightarrow> crypto_api \<Rightarrow> hasher \<Rightarrow> DeclareTransactionV0 \<Rightarrow> felt252_wrapper \<Rightarrow> bool
      \<Rightarrow> (felt252_wrapper, unit) result" where
  "declare_v0_compute_hash ff cr H self chain_id offset_version =
     and_then (unwrap (ff_from_byte_slice_be ff DECLARE_PREFIX)) (\<lambda>pfx.
       (let version = (if offset_version then SIMULATE_TX_VERSION_OFFSET ff else 0);
            entrypoint_selector = 0;
            alignment_placeholder = core_compute_hash_on_elements cr [];
            max_fee = ff_from_u128 ff (d0_max_fee self)
        in Ok (compute_hash_on_elements H
             [pfx, version, d0_sender_address self, entrypoint_selector, alignment_placeholder,
              max_fee, chain_id, d0_class_hash self])))"

definition declare_v1_compute_hash ::
    "ff_api \<Rightarrow> crypto_api \<Rightarrow> hasher \<Rightarrow> DeclareTransactionV1 \<Rightarrow> felt252_wrapper \<Rightarrow> bool
      \<Rightarrow> (felt252_wrapper, unit) result" where
  "declare_v1_compute_hash ff cr H self chain_id offset_version =
     and_then (unwrap (ff_from_byte_slice_be ff DECLARE_PREFIX)) (\<lambda>pfx.
       (let version = (if offset_version then ff_add ff (SIMULATE_TX_VERSION_OFFSET ff) 1 else 1);
            entrypoint_selector = 0;
            calldata = core_compute_hash_on_elements cr [d1_class_hash self];
            max_fee = ff_from_u128 ff (d1_max_fee self)
        in Ok (compute_hash_on_elements H
             [pfx, version, d1_sender_address self, entrypoint_selector, calldata,
              max_fee, chain_id, d1_nonce self])))"

definition declare_v2_compute_hash ::
    "ff_api \<Rightarrow> crypto_api \<Rightarrow> hasher \<Rightarrow> DeclareTransactionV2 \<Rightarrow> felt252_wrapper \<Rightarrow> bool
      \<Rightarrow> (felt252_wrapper, unit) result" where
  "declare_v2_compute_hash ff cr H self chain_id offset_version =
     and_then (unwrap (ff_from_byte_slice_be ff DECLARE_PREFIX)) (\<lambda>pfx.
       (let version = (if offset_version then ff_add ff (SIMULATE_TX_VERSION_OFFSET ff) 2 else 2);
            entrypoint_selector = 0;
            calldata = core_compute_hash_on_elements cr [d2_class_hash self];
            max_fee = ff_from_u128 ff (d2_max_fee self)
        in Ok (compute_hash_on_elements H
             [pfx, version, d2_sender_address self, entrypoint_selector, calldata,
              max_fee, chain_id, d2_nonce self, d2_compiled_class_hash self])))"

fun declare_compute_hash ::
    "ff_api \<Rightarrow> crypto_api \<Rightarrow> hasher \<Rightarrow> DeclareTransaction \<Rightarrow> felt252_wrapper \<Rightarrow> bool
      \<Rightarrow> (felt252_wrapper, unit) result" where
  "declare_compute_hash ff cr H (DeclareV0 tx) chain_id offset_version =
     declare_v0_compute_hash ff cr H tx chain_id offset_version"
| "declare_compute_hash ff cr H (DeclareV1 tx) chain_id offset_version =
     declare_v1_compute_hash ff cr H tx chain_id offset_version"
| "declare_compute_hash ff cr H (DeclareV2 tx) chain_id offset_version =
     declare_v2_compute_hash ff cr H tx chain_id offset_version"

text \<open>
  \<open>%\<close> of \<open>FieldElement\<close> divides the canonical representatives.
\<close>

definition calculate_contract_address ::
    "ff_api \<Rightarrow> crypto_api \<Rightarrow> felt \<Rightarrow> felt \<Rightarrow> felt list \<Rightarrow> felt" where
  "calculate_contract_address ff cr contract_address_salt class_hash constructor_calldata =
     ff_rem ff
       (core_compute_hash_on_elements cr
          [PREFIX_CONTRACT_ADDRESS ff, 0, contract_address_salt, class_hash,
           core_compute_hash_on_elements cr constructor_calldata])
       (ADDR_BOUND ff)"

definition get_account_address :: "ff_api \<Rightarrow> crypto_api \<Rightarrow> DeployAccountTransaction \<Rightarrow> felt" where
  "get_account_address ff cr self =
     calculate_contract_address ff cr (da_contract_address_salt self) (da_class_hash self)
       (convert_calldata (da_constructor_calldata self))"

definition compute_hash_given_contract_address ::
    "ff_api \<Rightarrow> crypto_api \<Rightarrow> hasher \<Rightarrow> DeployAccountTransaction \<Rightarrow> felt \<Rightarrow> felt \<Rightarrow> bool
      \<Rightarrow> (felt, unit) result" where
  "compute_hash_given_contract_address ff cr H self chain_id contract_address offset_version =
     and_then (unwrap (ff_from_byte_slice_be ff DEPLOY_ACCOUNT_PREFIX)) (\<lambda>pfx.
       (let version = (if offset_version then ff_add ff (SIMULATE_TX_VERSION_OFFSET ff) 1 else 1);
            entrypoint_selector = 0;
            calldata = da_class_hash self # da_contract_address_salt self
              # convert_calldata (da_constructor_calldata self);
            calldata_hash = core_compute_hash_on_elements cr calldata;
            max_fee = ff_from_u128 ff (da_max_fee self);
            elements = [pfx, version, contract_address, entrypoint_selector, calldata_hash, max_fee,
              chain_id, da_nonce self]
        in Ok (compute_hash_on_elements H elements)))"

definition deploy_account_compute_hash ::
    "ff_api \<Rightarrow> crypto_api \<Rightarrow> hasher \<Rightarrow> DeployAccountTransaction \<Rightarrow> felt252_wrapper \<Rightarrow> bool
      \<Rightarrow> (felt252_wrapper, unit) result" where
  "deploy_account_compute_hash ff cr H self chain_id offset_version =
     compute_hash_given_contract_address ff cr H self chain_id (get_account_address ff cr self)
       offset_version"

definition l1_compute_hash ::
    "ff_api \<Rightarrow> crypto_api \<Rightarrow> hasher \<Rightarrow> HandleL1MessageTransaction \<Rightarrow> felt252_wrapper \<Rightarrow> bool
      \<Rightarrow> (felt252_wrapper, unit) result" where
  "l1_compute_hash ff cr H self chain_id offset_version =
     and_then (unwrap (ff_from_byte_slice_be ff L1_HANDLER_PREFIX)) (\<lambda>pfx.
       (let version = (if offset_version then SIMULATE_TX_VERSION_OFFSET ff else 0);
            calldata_hash = core_compute_hash_on_elements cr (convert_calldata (l1_calldata self));
            nonce = ff_from_u64 ff (l1_nonce self)
        in Ok (compute_hash_on_elements H
             [pfx, version, l1_contract_address self, l1_entry_point_selector self, calldata_hash,
              chain_id, nonce])))"

fun tx_compute_hash ::
    "ff_api \<Rightarrow> crypto_api \<Rightarrow> hasher \<Rightarrow> Transaction \<Rightarrow> felt252_wrapper \<Rightarrow> bool
      \<Rightarrow> (felt252_wrapper, unit) result" where
  "tx_compute_hash ff cr H (TDeclare tx) chain_id off = declare_compute_hash ff cr H tx chain_id off"
| "tx_compute_hash ff cr H (TDeployAccount tx) chain_id off = deploy_account_compute_hash ff cr H tx chain_id off"
| "tx_compute_hash ff cr H (TInvoke tx) chain_id off = invoke_compute_hash ff cr H tx chain_id off"
| "tx_compute_hash ff cr H (TL1Handler tx) chain_id off = l1_compute_hash ff cr H tx chain_id off"

fun user_compute_hash ::
    "ff_api \<Rightarrow> crypto_api \<Rightarrow> hasher \<Rightarrow> 'c UserTransaction \<Rightarrow> felt252_wrapper \<Rightarrow> bool
      \<Rightarrow> (felt252_wrapper, unit) result" where
  "user_compute_hash ff cr H (UserDeclare tx _) chain_id off = declare_compute_hash ff cr H tx chain_id off"
| "user_compute_hash ff cr H (UserDeployAccount tx) chain_id off = deploy_account_compute_hash ff cr H tx chain_id off"
| "user_compute_hash ff cr H (UserInvoke tx) chain_id off = invoke_compute_hash ff cr H tx chain_id off"

fun user_or_l1_compute_hash ::
    "ff_api \<Rightarrow> crypto_api \<Rightarrow> hasher \<Rightarrow> 'c UserOrL1HandlerTransaction \<Rightarrow> felt252_wrapper \<Rightarrow> bool
      \<Rightarrow> (felt252_wrapper, unit) result" where
  "user_or_l1_compute_hash ff cr H (UOLUser tx) chain_id off = user_compute_hash ff cr H tx chain_id off"
| "user_or_l1_compute_hash ff cr H (UOLL1Handler tx _) chain_id off = l1_compute_hash ff cr H tx chain_id off"

section \<open>Getters of the remaining types\<close>

definition deploy_signature :: "DeployAccountTransaction \<Rightarrow> felt252_wrapper list" where
  "deploy_signature self = da_signature self"

definition deploy_max_fee :: "DeployAccountTransaction \<Rightarrow> u128" where
  "deploy_max_fee self = da_max_fee self"

definition deploy_calldata :: "DeployAccountTransaction \<Rightarrow> felt252_wrapper list" where
  "deploy_calldata self = da_constructor_calldata self"

definition deploy_nonce :: "DeployAccountTransaction \<Rightarrow> felt252_wrapper" where
  "deploy_nonce self = da_nonce self"

definition deploy_account_address :: "ff_api \<Rightarrow> crypto_api \<Rightarrow> DeployAccountTransaction \<Rightarrow> felt252_wrapper" where
  "deploy_account_address ff cr self = get_account_address ff cr self"

definition deploy_class_hash :: "DeployAccountTransaction \<Rightarrow> felt252_wrapper" where
  "deploy_class_hash self = da_class_hash self"

definition deploy_offset_version :: "DeployAccountTransaction \<Rightarrow> bool" where
  "deploy_offset_version self = da_offset_version self"

fun tx_signature :: "Transaction \<Rightarrow> felt252_wrapper list" where
  "tx_signature (TDeclare tx) = declare_signature tx"
| "tx_signature (TDeployAccount tx) = deploy_signature tx"
| "tx_signature (TInvoke tx) = invoke_signature tx"
| "tx_signature (TL1Handler _) = []"

fun user_sender_address :: "ff_api \<Rightarrow> crypto_api \<Rightarrow> 'c UserTransaction \<Rightarrow> felt252_wrapper" where
  "user_sender_address ff cr (UserDeclare tx _) = declare_sender_address tx"
| "user_sender_address ff cr (UserDeployAccount tx) = deploy_account_address ff cr tx"
| "user_sender_address ff cr (UserInvoke tx) = invoke_sender_address tx"

fun user_signature :: "'c UserTransaction \<Rightarrow> felt252_wrapper list" where
  "user_signature (UserDeclare tx _) = declare_signature tx"
| "user_signature (UserDeployAccount tx) = deploy_signature tx"
| "user_signature (UserInvoke tx) = invoke_signature tx"

fun user_max_fee :: "'c UserTransaction \<Rightarrow> u128" where
  "user_max_fee (UserDeclare tx _) = declare_max_fee tx"
| "user_max_fee (UserDeployAccount tx) = deploy_max_fee tx"
| "user_max_fee (UserInvoke tx) = invoke_max_fee tx"

fun user_calldata :: "'c UserTransaction \<Rightarrow> felt252_wrapper list option" where
  "user_calldata (UserDeclare _ _) = None"
| "user_calldata (UserDeployAccount tx) = Some (deploy_calldata tx)"
| "user_calldata (UserInvoke tx) = Some (invoke_calldata tx)"

fun user_nonce :: "'c UserTransaction \<Rightarrow> felt252_wrapper option" where
  "user_nonce (UserDeclare tx _) = Some (declare_nonce tx)"
| "user_nonce (UserDeployAccount tx) = Some (deploy_nonce tx)"
| "user_nonce (UserInvoke tx) = invoke_nonce tx"

fun user_offset_version :: "'c UserTransaction \<Rightarrow> bool" where
  "user_offset_version (UserDeclare tx _) = declare_offset_version tx"
| "user_offset_version (UserDeployAccount tx) = deploy_offset_version tx"
| "user_offset_version (UserInvoke tx) = invoke_offset_version tx"

fun declare_version :: "DeclareTransaction \<Rightarrow> u8" where
  "declare_version (DeclareV0 _) = 0"
| "declare_version (DeclareV1 _) = 1"
| "declare_version (DeclareV2 _) = 2"

fun invoke_version :: "InvokeTransaction \<Rightarrow> u8" where
  "invoke_version (InvokeV0 _) = 0"
| "invoke_version (InvokeV1 _) = 1"

definition deploy_version :: "DeployAccountTransaction \<Rightarrow> u8" where
  "deploy_version _ = 1"

definition l1_version :: "HandleL1MessageTransaction \<Rightarrow> u8" where
  "l1_version _ = 0"

fun user_version :: "'c UserTransaction \<Rightarrow> u8" where
  "user_version (UserDeclare tx _) = declare_version tx"
| "user_version (UserDeployAccount tx) = deploy_version tx"
| "user_version (UserInvoke tx) = invoke_version tx"

fun tx_version :: "Transaction \<Rightarrow> u8" where
  "tx_version (TDeclare tx) = declare_version tx"
| "tx_version (TDeployAccount tx) = deploy_version tx"
| "tx_version (TInvoke tx) = invoke_version tx"
| "tx_version (TL1Handler tx) = l1_version tx"

fun user_or_l1_version :: "'c UserOrL1HandlerTransaction \<Rightarrow> u8" where
  "user_or_l1_version (UOLUser tx) = user_version tx"
| "user_or_l1_version (UOLL1Handler tx _) = l1_version tx"

section \<open>What a transaction hash binds\<close>

text \<open>
  The list of felts that is hashed, as one function of the transaction, its chain and the
  simulation flag; and the part of a transaction it determines: everything but the signature,
  with the calldata (for declarations the class hash, for deployments class hash, salt and
  calldata together) known by its hash. The nonce of a version 0 declaration is not bound.
\<close>

definition version_felt :: "u8 \<Rightarrow> bool \<Rightarrow> felt" where
  "version_felt v off = unat v + (if off then 2 ^ 128 else 0)"

fun tx_preimage :: "ff_api \<Rightarrow> crypto_api \<Rightarrow> Transaction \<Rightarrow> felt \<Rightarrow> bool \<Rightarrow> felt list" where
  "tx_preimage ff cr (TInvoke (InvokeV0 t)) chain off =
     [be_val INVOKE_PREFIX, version_felt 0 off, i0_contract_address t, i0_entry_point_selector t,
      core_compute_hash_on_elements cr (i0_calldata t), unat (i0_max_fee t), chain]"
| "tx_preimage ff cr (TInvoke (InvokeV1 t)) chain off =
     [be_val INVOKE_PREFIX, version_felt 1 off, i1_sender_address t, 0,
      core_compute_hash_on_elements cr (i1_calldata t), unat (i1_max_fee t), chain, i1_nonce t]"
| "tx_preimage ff cr (TDeclare (DeclareV0 t)) chain off =
     [be_val DECLARE_PREFIX, version_felt 0 off, d0_sender_address t, 0,
      core_compute_hash_on_elements cr [], unat (d0_max_fee t), chain, d0_class_hash t]"
| "tx_preimage ff cr (TDeclare (DeclareV1 t)) chain off =
     [be_val DECLARE_PREFIX, version_felt 1 off, d1_sender_address t, 0,
      core_compute_hash_on_elements cr [d1_class_hash t], unat (d1_max_fee t), chain, d1_nonce t]"
| "tx_preimage ff cr (TDeclare (DeclareV2 t)) chain off =
     [be_val DECLARE_PREFIX, version_felt 2 off, d2_sender_address t, 0,
      core_compute_hash_on_elements cr [d2_class_hash t], unat (d2_max_fee t), chain, d2_nonce t,
      d2_compiled_class_hash t]"
| "tx_preimage ff cr (TDeployAccount t) chain off =
     [be_val DEPLOY_ACCOUNT_PREFIX, version_felt 1 off, get_account_address ff cr t, 0,
      core_compute_hash_on_elements cr
        (da_class_hash t # da_contract_address_salt t # da_constructor_calldata t),
      unat (da_max_fee t), chain, da_nonce t]"
| "tx_preimage ff cr (TL1Handler t) chain off =
     [be_val L1_HANDLER_PREFIX, version_felt 0 off, l1_contract_address t, l1_entry_point_selector t,
      core_compute_hash_on_elements cr (l1_calldata t), chain, unat (l1_nonce t)]"

fun bound_part :: "crypto_api \<Rightarrow> Transaction \<Rightarrow> Transaction" where
  "bound_part cr (TInvoke (InvokeV0 t)) = TInvoke (InvokeV0
     (t\<lparr>i0_signature := [], i0_calldata := [core_compute_hash_on_elements cr (i0_calldata t)]\<rparr>))"
| "bound_part cr (TInvoke (InvokeV1 t)) = TInvoke (InvokeV1
     (t\<lparr>i1_signature := [], i1_calldata := [core_compute_hash_on_elements cr (i1_calldata t)],
        i1_offset_version := False\<rparr>))"
| "bound_part cr (TDeclare (DeclareV0 t)) = TDeclare (DeclareV0
     (t\<lparr>d0_signature := [], d0_nonce := 0\<rparr>))"
| "bound_part cr (TDeclare (DeclareV1 t)) = TDeclare (DeclareV1
     (t\<lparr>d1_signature := [], d1_class_hash := core_compute_hash_on_elements cr [d1_class_hash t],
        d1_offset_version := False\<rparr>))"
| "bound_part cr (TDeclare (DeclareV2 t)) = TDeclare (DeclareV2
     (t\<lparr>d2_signature := [], d2_class_hash := core_compute_hash_on_elements cr [d2_class_hash t],
        d2_offset_version := False\<rparr>))"
| "bound_part cr (TDeployAccount t) = TDeployAccount
     (t\<lparr>da_signature := [], da_contract_address_salt := 0, da_constructor_calldata := [],
        da_class_hash := core_compute_hash_on_elements cr
          (da_class_hash t # da_contract_address_salt t # da_constructor_calldata t),
        da_offset_version := False\<rparr>)"
| "bound_part cr (TL1Handler t) = TL1Handler
     (t\<lparr>l1_calldata := [core_compute_hash_on_elements cr (l1_calldata t)]\<rparr>)"

lemmas prefix_defs = INVOKE_PREFIX_def DECLARE_PREFIX_def DEPLOY_ACCOUNT_PREFIX_def
  L1_HANDLER_PREFIX_def

lemma prefix_values [simp]:
  "be_val INVOKE_PREFIX = 115923154332517" "be_val DECLARE_PREFIX = 28258975365558885"
  "be_val DEPLOY_ACCOUNT_PREFIX = 2036277798190617858034555652763252"
  "be_val L1_HANDLER_PREFIX = 510926345461491391292786"
  "length INVOKE_PREFIX = 6" "length DECLARE_PREFIX = 7" "length DEPLOY_ACCOUNT_PREFIX = 14"
  "length L1_HANDLER_PREFIX = 10"
  by (simp_all add: prefix_defs ascii_def)

lemma version_felt_inj:
  assumes "v \<in> {0, 1, 2}" "w \<in> {0, 1, 2}"
  shows "version_felt v o1 = version_felt w o2 \<longleftrightarrow> v = w \<and> o1 = o2"
  using assms by (auto simp: version_felt_def)

lemma version_felt_values:
  "version_felt 0 off = (if off then 2 ^ 128 else 0)"
  "version_felt 1 off = (if off then 2 ^ 128 + 1 else 1)"
  "version_felt 2 off = (if off then 2 ^ 128 + 2 else 2)"
  by (simp_all add: version_felt_def)

lemma tx_preimage_bound_part:
  "tx_preimage ff cr t1 c1 o1 = tx_preimage ff cr t2 c2 o2 \<Longrightarrow>
     c1 = c2 \<and> o1 = o2 \<and> bound_part cr t1 = bound_part cr t2"
  by (cases "(cr, t1)" rule: bound_part.cases; cases "(cr, t2)" rule: bound_part.cases)
    (auto simp: version_felt_inj unat_eq_iff
      intro!: InvokeTransactionV0.equality InvokeTransactionV1.equality DeclareTransactionV0.equality
        DeclareTransactionV1.equality DeclareTransactionV2.equality DeployAccountTransaction.equality
        HandleL1MessageTransaction.equality)

context field_libs
begin

lemma prefix_felts:
  "ff_from_byte_slice_be ff INVOKE_PREFIX = Ok (be_val INVOKE_PREFIX)"
  "ff_from_byte_slice_be ff DECLARE_PREFIX = Ok (be_val DECLARE_PREFIX)"
  "ff_from_byte_slice_be ff DEPLOY_ACCOUNT_PREFIX = Ok (be_val DEPLOY_ACCOUNT_PREFIX)"
  "ff_from_byte_slice_be ff L1_HANDLER_PREFIX = Ok (be_val L1_HANDLER_PREFIX)"
  by (simp_all add: from_byte_slice_be felt_prime_def)

lemmas compute_hash_defs = invoke_v0_compute_hash_def invoke_v1_compute_hash_def
  declare_v0_compute_hash_def declare_v1_compute_hash_def declare_v2_compute_hash_def
  deploy_account_compute_hash_def compute_hash_given_contract_address_def l1_compute_hash_def

lemma tx_compute_hash_preimage:
  "tx_compute_hash ff cr H tx chain off = Ok (compute_hash_on_elements H (tx_preimage ff cr tx chain off))"
proof (cases "(cr, tx)" rule: bound_part.cases)
qed (simp_all add: compute_hash_defs prefix_felts mont_constants(1) field_ops(1) felt_prime_def from_words
    version_felt_values convert_calldata_def Let_def)

end

lemma user_compute_hash_tx:
  "user_compute_hash ff cr H tx chain off =
     tx_compute_hash ff cr H (case tx of UserDeclare t _ \<Rightarrow> TDeclare t
       | UserDeployAccount t \<Rightarrow> TDeployAccount t | UserInvoke t \<Rightarrow> TInvoke t) chain off"
  by (cases tx) simp_all

context crypto_libs
begin

lemma account_address_eq:
  "get_account_address ff cr tx =
     core_compute_hash_on_elements cr
       [be_val (ascii ''STARKNET_CONTRACT_ADDRESS''), 0, da_contract_address_salt tx, da_class_hash tx,
        core_compute_hash_on_elements cr (da_constructor_calldata tx)] mod (2 ^ 251 - 256)"
proof -
  have "core_compute_hash_on_elements cr xs < felt_prime" for xs
    using crypto by (simp add: crypto_laws_def)
  then show ?thesis
    unfolding get_account_address_def calculate_contract_address_def convert_calldata_def mont_constants
    by (subst field_ops(3)) (simp_all add: felt_prime_def)
qed

end

section \<open>Properties\<close>

text \<open>
  C6. A transaction hash is the hash of one list of felts, and that list determines the chain, the
  simulation flag, the kind and version of the transaction and every field of it except the
  signature: two transactions of any kinds share it only if they agree on all of these, calldata
  being compared by its Pedersen hash. Invoke, declare, deploy-account and L1-handler transactions
  of all versions are kept apart, and a simulated transaction never shares its preimage with a
  real one.
\<close>

theorem tx_hash_binds:
  assumes "ff_laws ff"
  shows "tx_compute_hash ff cr H t1 c1 o1 = Ok (compute_hash_on_elements H (tx_preimage ff cr t1 c1 o1)) \<and>
    (tx_preimage ff cr t1 c1 o1 = tx_preimage ff cr t2 c2 o2 \<longrightarrow>
       c1 = c2 \<and> o1 = o2 \<and> bound_part cr t1 = bound_part cr t2)"
proof -
  have "field_libs ff" using assms by unfold_locales
  then show ?thesis
    using field_libs.tx_compute_hash_preimage tx_preimage_bound_part by blast
qed

definition sample_invoke :: "felt list \<Rightarrow> InvokeTransactionV1" where
  "sample_invoke sig = \<lparr>i1_max_fee = 100, i1_signature = sig, i1_nonce = 4, i1_sender_address = 17,
     i1_calldata = [1, 2, 3], i1_offset_version = False\<rparr>"

theorem tx_hash_binds_witness:
  "tx_compute_hash ff_ref crypto_ref (PedersenHasher ff_ref crypto_ref)
       (TInvoke (InvokeV1 (sample_invoke [5]))) 9 False =
     tx_compute_hash ff_ref crypto_ref (PedersenHasher ff_ref crypto_ref)
       (TInvoke (InvokeV1 (sample_invoke [6]))) 9 False \<and>
   tx_preimage ff_ref crypto_ref (TInvoke (InvokeV1 (sample_invoke [5]))) 9 False \<noteq>
     tx_preimage ff_ref crypto_ref (TInvoke (InvokeV1 (sample_invoke [5]))) 9 True \<and>
   bound_part crypto_ref (TInvoke (InvokeV1 (sample_invoke [5]))) =
     bound_part crypto_ref (TInvoke (InvokeV1 (sample_invoke [6])))"
proof -
  let ?t = "\<lambda>sig. TInvoke (InvokeV1 (sample_invoke sig))"
  have eq: "tx_preimage ff_ref crypto_ref (?t [5]) 9 False = tx_preimage ff_ref crypto_ref (?t [6]) 9 False"
    by (simp add: sample_invoke_def)
  note b = tx_hash_binds [OF ff_ref_laws]
  show ?thesis
    using b [of crypto_ref "PedersenHasher ff_ref crypto_ref" "?t [5]" 9 False "?t [6]" 9 False]
      b [of crypto_ref "PedersenHasher ff_ref crypto_ref" "?t [6]" 9 False "?t [5]" 9 False]
      b [of crypto_ref "PedersenHasher ff_ref crypto_ref" "?t [5]" 9 False "?t [5]" 9 True] eq
    by metis
qed

text \<open>
  C36. The address of a deployed account is the Pedersen hash of the documented five elements (the
  short string \<open>STARKNET_CONTRACT_ADDRESS\<close>, the deployer zero, the salt, the class hash and the
  hash of the constructor calldata) reduced modulo \<open>2^251 - 256\<close>, so it always lies in the range
  of contract addresses.
\<close>

theorem account_address_in_range:
  assumes "ff_laws ff" "crypto_laws cr"
  shows "get_account_address ff cr tx =
     core_compute_hash_on_elements cr
       [be_val (ascii ''STARKNET_CONTRACT_ADDRESS''), 0, da_contract_address_salt tx, da_class_hash tx,
        core_compute_hash_on_elements cr (da_constructor_calldata tx)] mod (2 ^ 251 - 256) \<and>
   get_account_address ff cr tx < 2 ^ 251 - 256"
proof -
  have "crypto_libs ff cr" using assms by unfold_locales
  from crypto_libs.account_address_eq [OF this, of tx] show ?thesis by simp
qed

theorem account_address_in_range_witness:
  "get_account_address ff_ref crypto_ref
     \<lparr>da_max_fee = 0, da_signature = [], da_nonce = 0, da_contract_address_salt = 3,
      da_constructor_calldata = [8], da_class_hash = 4, da_offset_version = False\<rparr> < 2 ^ 251 - 256"
  using account_address_in_range [OF ff_ref_laws crypto_ref_laws] by simp

end
