(* ===== verification/Blockifier.thy ===== *)
theory Blockifier
  imports State Transactions
begin

text \<open>
  The interface to blockifier and starknet-api as the sources use it: the data types they build
  and take apart (field by field as in the sources), and the functions they call, which are the
  fields of \<open>bf_api\<close>. \<open>'c\<close> is blockifier's contract class, \<open>'r\<close> its
  \<open>ExecutionResources\<close> and \<open>'x\<close> the part of an execution context that the sources never look
  into. Code that runs contracts holds a \<open>&mut dyn State\<close>, so it reaches the state only through
  the steps of \<open>state_op\<close>; that is the law \<open>bf_laws\<close>.
\<close>

section \<open>Contexts and calls\<close>

record BlockContext =
  bc_block_number :: u64
  bc_block_timestamp :: u64
  bc_chain_id :: bytes
  bc_sequencer_address :: contract_address
  bc_fee_token_address :: contract_address
  bc_vm_resource_fee_cost :: "(string \<times> nat) list"
  bc_invoke_tx_max_n_steps :: u32
  bc_validate_max_n_steps :: u32
  bc_gas_price :: u128
  bc_max_recursion_depth :: u32

record AccountTransactionContext =
  atc_transaction_hash :: stark_felt
  atc_max_fee :: Fee
  atc_version :: stark_felt
  atc_signature :: "stark_felt list"
  atc_nonce :: nonce
  atc_sender_address :: contract_address

record 'x EntryPointExecutionContext =
  ectx_account_tx_context :: AccountTransactionContext
  ectx_rest :: 'x

datatype EntryPointType = EP_Constructor | EP_External | EP_L1Handler

datatype CallType = CT_Call | CT_Delegate

record CallEntryPoint =
  cep_class_hash :: "class_hash option"
  cep_code_address :: "contract_address option"
  cep_entry_point_type :: EntryPointType
  cep_entry_point_selector :: stark_felt
  cep_calldata :: "stark_felt list"
  cep_storage_address :: contract_address
  cep_caller_address :: contract_address
  cep_call_type :: CallType
  cep_initial_gas :: u64

record EventContent =
  ec_keys :: "stark_felt list"
  ec_data :: "stark_felt list"

record MessageContent =
  mc_to_address :: eth_address
  mc_payload :: "stark_felt list"

text \<open>A call info: the call, what it returned, its ordered events and messages, its inner calls.\<close>

datatype CallInfo =
  CallInfo (ci_call: CallEntryPoint) (ci_retdata: "stark_felt list")
    (ci_events: "(nat \<times> EventContent) list") (ci_l2_to_l1_messages: "(nat \<times> MessageContent) list")
    (ci_inner_calls: "CallInfo list")

type_synonym ResourcesMapping = "(string \<times> u64) list"

datatype EntryPointExecutionError =
  UninitializedStorageAddress contract_address | OtherEntryPointError string

datatype TransactionExecutionError =
  ValidateTransactionError EntryPointExecutionError
| EntryPointError EntryPointExecutionError
| TxStateError StateError
| InvalidNonce contract_address nonce nonce
| MaxFeeExceedsBalance Fee stark_felt stark_felt
| FeeTransferError Fee Fee
| InsufficientL1Fee Fee Fee
| FixedPointConversion
| CairoResourcesNotContainedInFeeCosts
| OtherTransactionError string

section \<open>Executable transactions\<close>

record st_DeclareTransactionV0V1 =
  sd01_max_fee :: Fee
  sd01_signature :: "stark_felt list"
  sd01_nonce :: nonce
  sd01_class_hash :: class_hash
  sd01_sender_address :: contract_address

record st_DeclareTransactionV2 =
  sd2_max_fee :: Fee
  sd2_signature :: "stark_felt list"
  sd2_nonce :: nonce
  sd2_class_hash :: class_hash
  sd2_compiled_class_hash :: compiled_class_hash
  sd2_sender_address :: contract_address

datatype st_DeclareTransaction =
  StDeclareV0 st_DeclareTransactionV0V1 | StDeclareV1 st_DeclareTransactionV0V1
| StDeclareV2 st_DeclareTransactionV2

record st_InvokeTransactionV0 =
  si0_max_fee :: Fee
  si0_signature :: "stark_felt list"
  si0_contract_address :: contract_address
  si0_entry_point_selector :: stark_felt
  si0_calldata :: "stark_felt list"

record st_InvokeTransactionV1 =
  si1_max_fee :: Fee
  si1_signature :: "stark_felt list"
  si1_nonce :: nonce
  si1_calldata :: "stark_felt list"
  si1_sender_address :: contract_address

datatype st_InvokeTransaction = StInvokeV0 st_InvokeTransactionV0 | StInvokeV1 st_InvokeTransactionV1

record st_DeployAccountTransaction =
  sda_max_fee :: Fee
  sda_version :: stark_felt
  sda_signature :: "stark_felt list"
  sda_nonce :: nonce
  sda_class_hash :: class_hash
  sda_contract_address_salt :: stark_felt
  sda_constructor_calldata :: "stark_felt list"

record st_L1HandlerTransaction =
  sl1_version :: stark_felt
  sl1_nonce :: nonce
  sl1_contract_address :: contract_address
  sl1_entry_point_selector :: stark_felt
  sl1_calldata :: "stark_felt list"

record btx_InvokeTransaction =
  bi_tx :: st_InvokeTransaction
  bi_tx_hash :: stark_felt

record 'c btx_DeclareTransaction =
  bd_tx :: st_DeclareTransaction
  bd_tx_hash :: stark_felt
  bd_contract_class :: 'c

record btx_DeployAccountTransaction =
  bda_tx :: st_DeployAccountTransaction
  bda_tx_hash :: stark_felt
  bda_contract_address :: contract_address

record btx_L1HandlerTransaction =
  bl_tx :: st_L1HandlerTransaction
  bl_paid_fee_on_l1 :: Fee
  bl_tx_hash :: stark_felt

section \<open>Functions\<close>

text \<open>What an execution carries along: the state, the resources used, the context, the gas left.\<close>

record ('c, 'r, 'x) exec_env =
  ee_state :: "'c bstate"
  ee_resources :: 'r
  ee_context :: "'x EntryPointExecutionContext"
  ee_gas :: u64

type_synonym ('a, 'e, 'c, 'r, 'x) exec = "('a, 'e, ('c, 'r, 'x) exec_env) st"

record ('c, 'r, 'x) bf_api =
  bf_declare_new :: "st_DeclareTransaction \<Rightarrow> stark_felt \<Rightarrow> 'c
    \<Rightarrow> ('c btx_DeclareTransaction, TransactionExecutionError) result"
  bf_new_context :: "BlockContext \<Rightarrow> AccountTransactionContext \<Rightarrow> u32 \<Rightarrow> 'x EntryPointExecutionContext"
  bf_error_trace :: "'x EntryPointExecutionContext \<Rightarrow> string"
  bf_resources_default :: 'r
  bf_execute_call :: "CallEntryPoint \<Rightarrow> (CallInfo, EntryPointExecutionError, 'c, 'r, 'x) exec"
  bf_run_invoke :: "btx_InvokeTransaction \<Rightarrow> (CallInfo option, TransactionExecutionError, 'c, 'r, 'x) exec"
  bf_run_declare :: "'c btx_DeclareTransaction \<Rightarrow> (CallInfo option, TransactionExecutionError, 'c, 'r, 'x) exec"
  bf_run_deploy :: "btx_DeployAccountTransaction \<Rightarrow> (CallInfo option, TransactionExecutionError, 'c, 'r, 'x) exec"
  bf_run_l1 :: "btx_L1HandlerTransaction \<Rightarrow> (CallInfo option, TransactionExecutionError, 'c, 'r, 'x) exec"
  bf_verify_no_calls_to_other_contracts :: "CallInfo \<Rightarrow> string \<Rightarrow> (unit, TransactionExecutionError) result"
  bf_update_remaining_gas :: "u64 \<Rightarrow> CallInfo \<Rightarrow> u64"
  bf_selector_from_name :: "string \<Rightarrow> stark_felt"
  bf_is_v0 :: "AccountTransactionContext \<Rightarrow> bool"
  bf_VALIDATE_ENTRY_POINT_NAME :: string
  bf_VALIDATE_DECLARE_ENTRY_POINT_NAME :: string
  bf_VALIDATE_DEPLOY_ENTRY_POINT_NAME :: string
  bf_calculate_l1_gas_usage :: "CallInfo list \<Rightarrow> StateChangesCount \<Rightarrow> nat option
    \<Rightarrow> (nat, TransactionExecutionError) result"
  bf_calculate_tx_resources :: "'r \<Rightarrow> nat \<Rightarrow> TransactionType \<Rightarrow> (ResourcesMapping, TransactionExecutionError) result"
  bf_get_fee_token_balance :: "'c bstate \<Rightarrow> BlockContext \<Rightarrow> contract_address
    \<Rightarrow> (stark_felt \<times> stark_felt, StateError) result"
  bf_INITIAL_GAS_COST :: u64
  bf_TRANSACTION_GAS_COST :: u64

definition runs_on_state :: "ff_api \<Rightarrow> ('a, 'e, 'c, 'r, 'x) exec \<Rightarrow> bool" where
  "runs_on_state ff m \<longleftrightarrow> (\<forall>e. state_ops ff (ee_state e) (ee_state (snd (m e))))"

definition bf_laws :: "ff_api \<Rightarrow> ('c, 'r, 'x) bf_api \<Rightarrow> bool" where
  "bf_laws ff bf \<longleftrightarrow>
     (\<forall>call. runs_on_state ff (bf_execute_call bf call)) \<and>
     (\<forall>tx. runs_on_state ff (bf_run_invoke bf tx)) \<and>
     (\<forall>tx. runs_on_state ff (bf_run_declare bf tx)) \<and>
     (\<forall>tx. runs_on_state ff (bf_run_deploy bf tx)) \<and>
     (\<forall>tx. runs_on_state ff (bf_run_l1 bf tx)) \<and>
     (\<forall>bc atc n. ectx_account_tx_context (bf_new_context bf bc atc n) = atc) \<and>
     (\<forall>tx h c b. bf_declare_new bf tx h c = Ok b \<longrightarrow> bd_tx b = tx \<and> bd_tx_hash b = h)"

text \<open>
  Account nonces belong to transactions: no system call of a contract writes one, and blockifier leaves
  the increment to the code around the execution of a transaction, here to \<open>handle_nonce\<close>.
\<close>

abbreviation env_nonces :: "('c, 'r, 'x) exec_env \<Rightarrow> contract_address \<rightharpoonup> nonce" where
  "env_nonces e \<equiv> Nonces (bs_pallet (ee_state e))"

definition bf_keeps_nonces :: "('c, 'r, 'x) bf_api \<Rightarrow> bool" where
  "bf_keeps_nonces bf \<longleftrightarrow>
     (\<forall>call. preserves env_nonces (bf_execute_call bf call)) \<and>
     (\<forall>tx. preserves env_nonces (bf_run_invoke bf tx)) \<and>
     (\<forall>tx. preserves env_nonces (bf_run_declare bf tx)) \<and>
     (\<forall>tx. preserves env_nonces (bf_run_deploy bf tx))"

lemma runs_on_stateD: "runs_on_state ff m \<Longrightarrow> m e = (r, e') \<Longrightarrow> state_ops ff (ee_state e) (ee_state e')"
  by (metis runs_on_state_def snd_conv)

text \<open>Calls that move the contract state along the interface compose.\<close>

named_theorems by_ops_intros \<open>state changes go through the contract state interface\<close>

definition by_ops :: "ff_api \<Rightarrow> ('a, 'e, 'c bstate) st \<Rightarrow> bool" where
  "by_ops ff m \<longleftrightarrow> (\<forall>s. state_ops ff s (snd (m s)))"

lemma by_opsD: "by_ops ff m \<Longrightarrow> m s = (r, s') \<Longrightarrow> state_ops ff s s'"
  by (metis by_ops_def snd_conv)

lemma by_ops_ret [by_ops_intros]: "by_ops ff (ret_st r)"
  by (simp add: by_ops_def)

lemma by_ops_map_err [by_ops_intros]: "by_ops ff m \<Longrightarrow> by_ops ff (map_err_st f m)"
  by (simp add: by_ops_def)

lemma by_ops_bind [by_ops_intros]:
  assumes "by_ops ff m" "\<And>x. by_ops ff (k x)"
  shows "by_ops ff (bind_st m k)"
  unfolding by_ops_def
proof
  fix s
  obtain r s1 where m: "m s = (r, s1)" by fastforce
  then have "state_ops ff s s1" using assms(1) by (metis by_opsD)
  moreover have "state_ops ff s1 (snd (k x s1))" for x
    using assms(2) by (simp add: by_ops_def)
  ultimately show "state_ops ff s (snd (bind_st m k s))"
    using m by (cases r) (auto simp: bind_st_def intro: rtranclp_trans)
qed

lemma by_ops_if [by_ops_intros]: "by_ops ff m \<Longrightarrow> by_ops ff n \<Longrightarrow> by_ops ff (if b then m else n)"
  by simp

lemma runs_ret [by_ops_intros]: "runs_on_state ff (ret_st r)"
  by (simp add: runs_on_state_def)

lemma runs_bind [by_ops_intros]:
  assumes "runs_on_state ff m" "\<And>x. runs_on_state ff (k x)"
  shows "runs_on_state ff (bind_st m k)"
  unfolding runs_on_state_def
proof
  fix e
  obtain r e1 where m: "m e = (r, e1)" by fastforce
  then have "state_ops ff (ee_state e) (ee_state e1)" using assms(1) by (metis runs_on_stateD)
  moreover have "state_ops ff (ee_state e1) (ee_state (snd (k x e1)))" for x
    using assms(2) by (simp add: runs_on_state_def)
  ultimately show "state_ops ff (ee_state e) (ee_state (snd (bind_st m k e)))"
    using m by (cases r) (auto simp: bind_st_def intro: rtranclp_trans)
qed

lemma runs_map_err [by_ops_intros]: "runs_on_state ff m \<Longrightarrow> runs_on_state ff (map_err_st f m)"
  by (simp add: runs_on_state_def)

lemma runs_if [by_ops_intros]:
  "runs_on_state ff m \<Longrightarrow> runs_on_state ff n \<Longrightarrow> runs_on_state ff (if b then m else n)"
  by simp

lemma bf_laws_runs [by_ops_intros]:
  assumes "bf_laws ff bf"
  shows "runs_on_state ff (bf_execute_call bf call)" "runs_on_state ff (bf_run_invoke bf ti)"
    "runs_on_state ff (bf_run_declare bf td)" "runs_on_state ff (bf_run_deploy bf tda)"
    "runs_on_state ff (bf_run_l1 bf th)"
  using assms by (simp_all add: bf_laws_def)

section \<open>A reference instance\<close>

text \<open>
  An executor for concrete evaluations: a call writes its first calldata element to the cell of its
  selector, and a call without calldata fails after having written zero there.
\<close>

definition ref_call :: "contract_address \<Rightarrow> stark_felt \<Rightarrow> stark_felt list \<Rightarrow> CallEntryPoint" where
  "ref_call addr sel calldata = \<lparr>cep_class_hash = None, cep_code_address = None,
     cep_entry_point_type = EP_External, cep_entry_point_selector = sel, cep_calldata = calldata,
     cep_storage_address = addr, cep_caller_address = felt_default, cep_call_type = CT_Call,
     cep_initial_gas = 0\<rparr>"

definition ref_execute :: "'e \<Rightarrow> CallEntryPoint \<Rightarrow> (CallInfo, 'e, nat, unit, unit) exec" where
  "ref_execute err call e =
     (case cep_calldata call of
        [] \<Rightarrow> (Err err, e\<lparr>ee_state := set_storage_at (cep_storage_address call)
                (cep_entry_point_selector call) felt_default (ee_state e)\<rparr>)
      | v # _ \<Rightarrow> (Ok (CallInfo call [] [] [] []), e\<lparr>ee_state := set_storage_at (cep_storage_address call)
                (cep_entry_point_selector call) v (ee_state e)\<rparr>))"

definition ref_run :: "CallEntryPoint \<Rightarrow> (CallInfo option, TransactionExecutionError, nat, unit, unit) exec" where
  "ref_run call e = (case ref_execute (OtherTransactionError ''failed'') call e of (r, e') \<Rightarrow> (map_ok Some r, e'))"

fun ref_invoke_call :: "st_InvokeTransaction \<Rightarrow> CallEntryPoint" where
  "ref_invoke_call (StInvokeV0 tx) = ref_call (si0_contract_address tx) (si0_entry_point_selector tx) (si0_calldata tx)"
| "ref_invoke_call (StInvokeV1 tx) = ref_call (si1_sender_address tx) felt_default (si1_calldata tx)"

definition bf_ref :: "(nat, unit, unit) bf_api" where
  "bf_ref = \<lparr>
     bf_declare_new = (\<lambda>tx h c. Ok \<lparr>bd_tx = tx, bd_tx_hash = h, bd_contract_class = c\<rparr>),
     bf_new_context = (\<lambda>bc atc n. \<lparr>ectx_account_tx_context = atc, ectx_rest = ()\<rparr>),
     bf_error_trace = (\<lambda>_. ''failed''),
     bf_resources_default = (),
     bf_execute_call = ref_execute (OtherEntryPointError ''failed''),
     bf_run_invoke = (\<lambda>tx. ref_run (ref_invoke_call (bi_tx tx))),
     bf_run_declare = (\<lambda>tx. ref_run (ref_call felt_default felt_default [])),
     bf_run_deploy = (\<lambda>tx. ref_run (ref_call (bda_contract_address tx) felt_default [bda_tx_hash tx])),
     bf_run_l1 = (\<lambda>tx. ref_run (ref_call (sl1_contract_address (bl_tx tx))
        (sl1_entry_point_selector (bl_tx tx)) (sl1_calldata (bl_tx tx)))),
     bf_verify_no_calls_to_other_contracts = (\<lambda>_ _. Ok ()),
     bf_update_remaining_gas = (\<lambda>g _. g),
     bf_selector_from_name = (\<lambda>_. felt_default),
     bf_is_v0 = (\<lambda>atc. atc_version atc = felt_default),
     bf_VALIDATE_ENTRY_POINT_NAME = ''__validate__'',
     bf_VALIDATE_DECLARE_ENTRY_POINT_NAME = ''__validate_declare__'',
     bf_VALIDATE_DEPLOY_ENTRY_POINT_NAME = ''__validate_deploy__'',
     bf_calculate_l1_gas_usage = (\<lambda>cis cnt payload. Ok (n_storage_updates cnt)),
     bf_calculate_tx_resources = (\<lambda>_ g _. Ok [(''l1_gas_usage'', word_of_nat g), (''n_steps'', 100)]),
     bf_get_fee_token_balance = (\<lambda>_ _ _. Ok (felt_default, be_bytes 32 1)),
     bf_INITIAL_GAS_COST = 1000000,
     bf_TRANSACTION_GAS_COST = 1000\<rparr>"

lemma ref_execute_runs: "runs_on_state ff (ref_execute err call)"
  by (auto simp: runs_on_state_def ref_execute_def split: list.split intro: op_storage)

lemma ref_run_runs: "runs_on_state ff (ref_run call)"
  using ref_execute_runs [of ff "OtherTransactionError ''failed''" call]
  by (auto simp: runs_on_state_def ref_run_def split: prod.split) (metis snd_conv)

lemma bf_ref_laws: "bf_laws ff bf_ref"
  by (simp add: bf_laws_def bf_ref_def ref_execute_runs ref_run_runs)

lemma ref_preserves_nonces:
  "preserves env_nonces (ref_execute err call)" "preserves env_nonces (ref_run call)"
  by (auto simp: preserves_def ref_run_def ref_execute_def set_storage_at_def Let_def split: list.split prod.split)

lemma bf_ref_keeps_nonces: "bf_keeps_nonces bf_ref"
  by (simp add: bf_keeps_nonces_def bf_ref_def ref_preserves_nonces)

end
