(* ===== verification/Conversions.thy ===== *)
theory Conversions
  imports Blockifier
begin

text \<open>
  From Madara's transaction types to executable ones (\<^verbatim>\<open>mp-transactions/conversions.rs\<close>), and
  from transactions to L1 messages (\<^verbatim>\<open>mp-messages/conversions.rs\<close>). A felt becomes a
  \<open>StarkFelt\<close> newtype (nonce, class hash, address, selector, salt, hash) by
  \<open>stark_felt_from_felt\<close>, whose \<open>unwrap\<close> is a possible panic.
\<close>

section \<open>Executable transactions\<close>

definition vec_of_felt_to_signature :: "ff_api \<Rightarrow> felt252_wrapper list \<Rightarrow> (stark_felt list, 'e) result" where
  "vec_of_felt_to_signature ff felts = collect_results (\<lambda>f. unwrap (stark_felt_from_felt ff f)) felts"

definition vec_of_felt_to_calldata :: "ff_api \<Rightarrow> felt252_wrapper list \<Rightarrow> (stark_felt list, 'e) result" where
  "vec_of_felt_to_calldata ff felts = collect_results (\<lambda>f. unwrap (stark_felt_from_felt ff f)) felts"

definition felt_into :: "ff_api \<Rightarrow> felt252_wrapper \<Rightarrow> (stark_felt, 'e) result" where
  "felt_into ff f = unwrap (stark_felt_from_felt ff f)"

definition declare_v0_try_into_executable ::
    "ff_api \<Rightarrow> crypto_api \<Rightarrow> hasher \<Rightarrow> ('c, 'r, 'x) bf_api \<Rightarrow> DeclareTransactionV0 \<Rightarrow> felt252_wrapper \<Rightarrow> 'c \<Rightarrow> bool
      \<Rightarrow> ('c btx_DeclareTransaction, TransactionExecutionError) result" where
  "declare_v0_try_into_executable ff cr H bf self chain_id contract_class offset_version =
     and_then (unwrap (declare_v0_compute_hash ff cr H self chain_id offset_version)) (\<lambda>transaction_hash.
     and_then (vec_of_felt_to_signature ff (d0_signature self)) (\<lambda>signature.
     and_then (felt_into ff (d0_nonce self)) (\<lambda>nonce.
     and_then (felt_into ff (d0_class_hash self)) (\<lambda>class_hash.
     and_then (felt_into ff (d0_sender_address self)) (\<lambda>sender_address.
     and_then (felt_into ff transaction_hash) (\<lambda>hash.
       bf_declare_new bf
         (StDeclareV0 \<lparr>sd01_max_fee = d0_max_fee self, sd01_signature = signature, sd01_nonce = nonce,
            sd01_class_hash = class_hash, sd01_sender_address = sender_address\<rparr>)
         hash contract_class))))))"

definition declare_v1_try_into_executable ::
    "ff_api \<Rightarrow> crypto_api \<Rightarrow> hasher \<Rightarrow> ('c, 'r, 'x) bf_api \<Rightarrow> DeclareTransactionV1 \<Rightarrow> felt252_wrapper \<Rightarrow> 'c \<Rightarrow> bool
      \<Rightarrow> ('c btx_DeclareTransaction, TransactionExecutionError) result" where
  "declare_v1_try_into_executable ff cr H bf self chain_id contract_class offset_version =
     and_then (unwrap (declare_v1_compute_hash ff cr H self chain_id offset_version)) (\<lambda>transaction_hash.
     and_then (vec_of_felt_to_signature ff (d1_signature self)) (\<lambda>signature.
     and_then (felt_into ff (d1_nonce self)) (\<lambda>nonce.
     and_then (felt_into ff (d1_class_hash self)) (\<lambda>class_hash.
     and_then (felt_into ff (d1_sender_address self)) (\<lambda>sender_address.
     and_then (felt_into ff transaction_hash) (\<lambda>hash.
       bf_declare_new bf
         (StDeclareV1 \<lparr>sd01_max_fee = d1_max_fee self, sd01_signature = signature, sd01_nonce = nonce,
            sd01_class_hash = class_hash, sd01_sender_address = sender_address\<rparr>)
         hash contract_class))))))"

definition declare_v2_try_into_executable ::
    "ff_api \<Rightarrow> crypto_api \<Rightarrow> hasher \<Rightarrow> ('c, 'r, 'x) bf_api \<Rightarrow> DeclareTransactionV2 \<Rightarrow> felt252_wrapper \<Rightarrow> 'c \<Rightarrow> bool
      \<Rightarrow> ('c btx_DeclareTransaction, TransactionExecutionError) result" where
  "declare_v2_try_into_executable ff cr H bf self chain_id contract_class offset_version =
     and_then (unwrap (declare_v2_compute_hash ff cr H self chain_id offset_version)) (\<lambda>transaction_hash.
     and_then (vec_of_felt_to_signature ff (d2_signature self)) (\<lambda>signature.
     and_then (felt_into ff (d2_nonce self)) (\<lambda>nonce.
     and_then (felt_into ff (d2_class_hash self)) (\<lambda>class_hash.
     and_then (felt_into ff (d2_compiled_class_hash self)) (\<lambda>compiled_class_hash.
     and_then (felt_into ff (d2_sender_address self)) (\<lambda>sender_address.
     and_then (felt_into ff transaction_hash) (\<lambda>hash.
       bf_declare_new bf
         (StDeclareV2 \<lparr>sd2_max_fee = d2_max_fee self, sd2_signature = signature, sd2_nonce = nonce,
            sd2_class_hash = class_hash, sd2_compiled_class_hash = compiled_class_hash,
            sd2_sender_address = sender_address\<rparr>)
         hash contract_class)))))))"

fun declare_try_into_executable ::
    "ff_api \<Rightarrow> crypto_api \<Rightarrow> hasher \<Rightarrow> ('c, 'r, 'x) bf_api \<Rightarrow> DeclareTransaction \<Rightarrow> felt252_wrapper \<Rightarrow> 'c \<Rightarrow> bool
      \<Rightarrow> ('c btx_DeclareTransaction, TransactionExecutionError) result" where
  "declare_try_into_executable ff cr H bf (DeclareV0 tx) chain_id contract_class offset_version =
     declare_v0_try_into_executable ff cr H bf tx chain_id contract_class offset_version"
| "declare_try_into_executable ff cr H bf (DeclareV1 tx) chain_id contract_class offset_version =
     declare_v1_try_into_executable ff cr H bf tx chain_id contract_class offset_version"
| "declare_try_into_executable ff cr H bf (DeclareV2 tx) chain_id contract_class offset_version =
     declare_v2_try_into_executable ff cr H bf tx chain_id contract_class offset_version"

definition invoke_v0_into_executable ::
    "ff_api \<Rightarrow> crypto_api \<Rightarrow> hasher \<Rightarrow> InvokeTransactionV0 \<Rightarrow> felt252_wrapper \<Rightarrow> bool
      \<Rightarrow> (btx_InvokeTransaction, 'e) result" where
  "invoke_v0_into_executable ff cr H self chain_id offset_version =
     and_then (unwrap (invoke_v0_compute_hash ff cr H self chain_id offset_version)) (\<lambda>transaction_hash.
     and_then (vec_of_felt_to_signature ff (i0_signature self)) (\<lambda>signature.
     and_then (felt_into ff (i0_contract_address self)) (\<lambda>contract_address.
     and_then (felt_into ff (i0_entry_point_selector self)) (\<lambda>entry_point_selector.
     and_then (vec_of_felt_to_calldata ff (i0_calldata self)) (\<lambda>calldata.
     and_then (felt_into ff transaction_hash) (\<lambda>hash.
       Ok \<lparr>bi_tx = StInvokeV0 \<lparr>si0_max_fee = i0_max_fee self, si0_signature = signature,
              si0_contract_address = contract_address, si0_entry_point_selector = entry_point_selector,
              si0_calldata = calldata\<rparr>,
           bi_tx_hash = hash\<rparr>))))))"

definition invoke_v1_into_executable ::
    "ff_api \<Rightarrow> crypto_api \<Rightarrow> hasher \<Rightarrow> InvokeTransactionV1 \<Rightarrow> felt252_wrapper \<Rightarrow> bool
      \<Rightarrow> (btx_InvokeTransaction, 'e) result" where
  "invoke_v1_into_executable ff cr H self chain_id offset_version =
     and_then (unwrap (invoke_v1_compute_hash ff cr H self chain_id offset_version)) (\<lambda>transaction_hash.
     and_then (vec_of_felt_to_signature ff (i1_signature self)) (\<lambda>signature.
     and_then (felt_into ff (i1_nonce self)) (\<lambda>nonce.
     and_then (vec_of_felt_to_calldata ff (i1_calldata self)) (\<lambda>calldata.
     and_then (felt_into ff (i1_sender_address self)) (\<lambda>sender_address.
     and_then (felt_into ff transaction_hash) (\<lambda>hash.
       Ok \<lparr>bi_tx = StInvokeV1 \<lparr>si1_max_fee = i1_max_fee self, si1_signature = signature,
              si1_nonce = nonce, si1_calldata = calldata, si1_sender_address = sender_address\<rparr>,
           bi_tx_hash = hash\<rparr>))))))"

fun invoke_into_executable ::
    "ff_api \<Rightarrow> crypto_api \<Rightarrow> hasher \<Rightarrow> InvokeTransaction \<Rightarrow> felt252_wrapper \<Rightarrow> bool
      \<Rightarrow> (btx_InvokeTransaction, 'e) result" where
  "invoke_into_executable ff cr H (InvokeV0 tx) chain_id offset_version =
     invoke_v0_into_executable ff cr H tx chain_id offset_version"
| "invoke_into_executable ff cr H (InvokeV1 tx) chain_id offset_version =
     invoke_v1_into_executable ff cr H tx chain_id offset_version"

text \<open>\<open>StarkFelt::from(1u128)\<close> is the version of every deploy-account transaction.\<close>

definition deploy_into_executable ::
    "ff_api \<Rightarrow> crypto_api \<Rightarrow> sf_api \<Rightarrow> hasher \<Rightarrow> DeployAccountTransaction \<Rightarrow> felt252_wrapper \<Rightarrow> bool
      \<Rightarrow> (btx_DeployAccountTransaction, 'e) result" where
  "deploy_into_executable ff cr sf H self chain_id offset_version =
     (let account_address = get_account_address ff cr self in
     and_then (unwrap (compute_hash_given_contract_address ff cr H self chain_id account_address
         offset_version)) (\<lambda>transaction_hash.
     and_then (vec_of_felt_to_signature ff (da_signature self)) (\<lambda>signature.
     and_then (felt_into ff (da_nonce self)) (\<lambda>nonce.
     and_then (felt_into ff (da_class_hash self)) (\<lambda>class_hash.
     and_then (felt_into ff (da_contract_address_salt self)) (\<lambda>salt.
     and_then (vec_of_felt_to_calldata ff (da_constructor_calldata self)) (\<lambda>constructor_calldata.
     and_then (felt_into ff transaction_hash) (\<lambda>hash.
     and_then (felt_into ff account_address) (\<lambda>contract_address.
       Ok \<lparr>bda_tx = \<lparr>sda_max_fee = da_max_fee self, sda_version = sf_from_u128 sf 1,
              sda_signature = signature, sda_nonce = nonce, sda_class_hash = class_hash,
              sda_contract_address_salt = salt, sda_constructor_calldata = constructor_calldata\<rparr>,
           bda_tx_hash = hash, bda_contract_address = contract_address\<rparr>)))))))))"

definition l1_into_executable ::
    "ff_api \<Rightarrow> crypto_api \<Rightarrow> sf_api \<Rightarrow> hasher \<Rightarrow> HandleL1MessageTransaction \<Rightarrow> felt252_wrapper \<Rightarrow> Fee \<Rightarrow> bool
      \<Rightarrow> (btx_L1HandlerTransaction, 'e) result" where
  "l1_into_executable ff cr sf H self chain_id paid_fee_on_l1 offset_version =
     and_then (unwrap (l1_compute_hash ff cr H self chain_id offset_version)) (\<lambda>transaction_hash.
     and_then (felt_into ff (l1_contract_address self)) (\<lambda>contract_address.
     and_then (felt_into ff (l1_entry_point_selector self)) (\<lambda>entry_point_selector.
     and_then (vec_of_felt_to_calldata ff (l1_calldata self)) (\<lambda>calldata.
     and_then (felt_into ff transaction_hash) (\<lambda>hash.
       Ok \<lparr>bl_tx = \<lparr>sl1_version = sf_from_u8 sf 0, sl1_nonce = sf_from_u64 sf (l1_nonce self),
              sl1_contract_address = contract_address,
              sl1_entry_point_selector = entry_point_selector, sl1_calldata = calldata\<rparr>,
           bl_paid_fee_on_l1 = paid_fee_on_l1, bl_tx_hash = hash\<rparr>)))))"

section \<open>Messages\<close>

text \<open>\<open>MessageToL1\<close> of starknet-api.\<close>

record MessageToL1 =
  ml1_from_address :: contract_address
  ml1_to_address :: eth_address
  ml1_payload :: "stark_felt list"

definition message_l2l1_from :: "MessageToL1 \<Rightarrow> MessageL2ToL1" where
  "message_l2l1_from m = \<lparr>l2l1_from_address = ml1_from_address m, l2l1_to_address = ml1_to_address m,
     l2l1_payload = ml1_payload m\<rparr>"

text \<open>
  \<open>calldata.remove(0)\<close> panics on an empty vector; the nonce goes from \<open>u64\<close> to
  \<open>StarkFelt\<close> directly.
\<close>

definition message_l1l2_from_tx ::
    "ff_api \<Rightarrow> sf_api \<Rightarrow> HandleL1MessageTransaction \<Rightarrow> (MessageL1ToL2, 'e) result" where
  "message_l1l2_from_tx ff sf tx =
     (case l1_calldata tx of
        [] \<Rightarrow> Panic
      | first # calldata \<Rightarrow>
          and_then (felt_into ff first) (\<lambda>from_address.
          and_then (felt_into ff (l1_contract_address tx)) (\<lambda>to_address.
          and_then (felt_into ff (l1_entry_point_selector tx)) (\<lambda>selector.
          and_then (collect_results (felt_into ff) calldata) (\<lambda>payload.
            Ok \<lparr>l1l2_from_address = from_address, l1l2_to_address = to_address,
                l1l2_nonce = sf_from_u64 sf (l1_nonce tx), l1l2_selector = selector,
                l1l2_payload = payload\<rparr>)))))"

section \<open>Canonical transactions convert without panic\<close>

abbreviation canonical :: "felt \<Rightarrow> bool" where
  "canonical x \<equiv> x < felt_prime"

definition felts_canonical :: "felt list \<Rightarrow> bool" where
  "felts_canonical xs \<longleftrightarrow> (\<forall>x \<in> set xs. canonical x)"

abbreviation sfelt :: "felt \<Rightarrow> stark_felt" where
  "sfelt x \<equiv> be_bytes 32 x"

fun invoke_canonical :: "InvokeTransaction \<Rightarrow> bool" where
  "invoke_canonical (InvokeV0 tx) \<longleftrightarrow> felts_canonical (i0_signature tx) \<and>
     canonical (i0_contract_address tx) \<and> canonical (i0_entry_point_selector tx) \<and>
     felts_canonical (i0_calldata tx)"
| "invoke_canonical (InvokeV1 tx) \<longleftrightarrow> felts_canonical (i1_signature tx) \<and> canonical (i1_nonce tx) \<and>
     canonical (i1_sender_address tx) \<and> felts_canonical (i1_calldata tx)"

definition l1_canonical :: "HandleL1MessageTransaction \<Rightarrow> bool" where
  "l1_canonical tx \<longleftrightarrow> canonical (l1_contract_address tx) \<and> canonical (l1_entry_point_selector tx) \<and>
     felts_canonical (l1_calldata tx)"

fun invoke_executable_tx :: "InvokeTransaction \<Rightarrow> st_InvokeTransaction" where
  "invoke_executable_tx (InvokeV0 tx) = StInvokeV0 \<lparr>si0_max_fee = i0_max_fee tx,
     si0_signature = map sfelt (i0_signature tx), si0_contract_address = sfelt (i0_contract_address tx),
     si0_entry_point_selector = sfelt (i0_entry_point_selector tx),
     si0_calldata = map sfelt (i0_calldata tx)\<rparr>"
| "invoke_executable_tx (InvokeV1 tx) = StInvokeV1 \<lparr>si1_max_fee = i1_max_fee tx,
     si1_signature = map sfelt (i1_signature tx), si1_nonce = sfelt (i1_nonce tx),
     si1_calldata = map sfelt (i1_calldata tx), si1_sender_address = sfelt (i1_sender_address tx)\<rparr>"

context field_libs
begin

lemma felt_into_eq: "canonical x \<Longrightarrow> felt_into ff x = Ok (sfelt x)"
  by (simp add: felt_into_def stark_felt_roundtrip)

lemma felts_into_eq:
  "felts_canonical xs \<Longrightarrow> vec_of_felt_to_signature ff xs = Ok (map sfelt xs)"
  "felts_canonical xs \<Longrightarrow> vec_of_felt_to_calldata ff xs = Ok (map sfelt xs)"
  "felts_canonical xs \<Longrightarrow> collect_results (felt_into ff) xs = Ok (map sfelt xs)"
  unfolding vec_of_felt_to_signature_def vec_of_felt_to_calldata_def felts_canonical_def
  by (auto intro!: collect_results_all_Ok simp: stark_felt_roundtrip felt_into_def)

lemma message_l1l2_from_tx_eq:
  assumes "l1_canonical tx" "l1_calldata tx = first # payload"
  shows "message_l1l2_from_tx ff sf tx = Ok \<lparr>l1l2_from_address = sfelt first,
     l1l2_to_address = sfelt (l1_contract_address tx), l1l2_nonce = sf_from_u64 sf (l1_nonce tx),
     l1l2_selector = sfelt (l1_entry_point_selector tx), l1l2_payload = map sfelt payload\<rparr>"
  using assms by (simp add: message_l1l2_from_tx_def l1_canonical_def felts_canonical_def felt_into_eq
      felts_into_eq)

end

context crypto_libs
begin

lemma invoke_into_executable_eq:
  assumes "hasher_t H" "invoke_canonical tx"
  shows "invoke_into_executable ff cr H tx chain off =
     Ok \<lparr>bi_tx = invoke_executable_tx tx,
         bi_tx_hash = sfelt (compute_hash_on_elements H (tx_preimage ff cr (TInvoke tx) chain off))\<rparr>"
proof -
  note h = hasher_t.elements_canonical [OF assms(1)]
  have hash: "invoke_compute_hash ff cr H tx chain off =
      Ok (compute_hash_on_elements H (tx_preimage ff cr (TInvoke tx) chain off))"
    using tx_compute_hash_preimage [of cr H "TInvoke tx" chain off] by simp
  show ?thesis
    using assms(2) hash h
    by (cases tx) (simp_all add: invoke_v0_into_executable_def invoke_v1_into_executable_def
        felt_into_eq felts_into_eq)
qed

end

lemma eth_address_canonical: "length a = 20 \<Longrightarrow> be_val a < felt_prime"
  using be_val_bound [of a] by (simp add: felt_prime_def)

lemma eth_address_to_felt_eq: "length a = 20 \<Longrightarrow> sfelt (be_val a) = eth_address_to_felt a"
  by (rule be_val_inj) (use eth_address_canonical [of a] felt_prime_le in
      \<open>simp_all add: eth_address_to_felt_def be_val_be_bytes be_val_zeros\<close>)

section \<open>Properties\<close>

text \<open>
  C33. An invoke transaction of canonical felts always becomes an executable one, without any panic:
  every field is carried over (felts as their 32 big-endian bytes, calldata and signature element
  by element, the fee unchanged) and the executable's hash is the transaction hash.
\<close>

theorem invoke_executable_faithful:
  assumes "ff_laws ff" "crypto_laws cr" "invoke_canonical tx"
  shows "invoke_into_executable ff cr (PedersenHasher ff cr) tx chain off =
     Ok \<lparr>bi_tx = invoke_executable_tx tx,
         bi_tx_hash = sfelt (compute_hash_on_elements (PedersenHasher ff cr)
           (tx_preimage ff cr (TInvoke tx) chain off))\<rparr> \<and>
    tx_compute_hash ff cr (PedersenHasher ff cr) (TInvoke tx) chain off =
      Ok (compute_hash_on_elements (PedersenHasher ff cr) (tx_preimage ff cr (TInvoke tx) chain off))"
proof -
  have c: "crypto_libs ff cr" using assms by unfold_locales
  then have "hasher_t (PedersenHasher ff cr)" by (rule crypto_libs.pedersen_hasher)
  moreover have "field_libs ff" using assms(1) by unfold_locales
  ultimately show ?thesis
    using crypto_libs.invoke_into_executable_eq [OF c _ assms(3)] field_libs.tx_compute_hash_preimage
    by blast
qed

theorem invoke_executable_faithful_witness:
  "\<exists>h. invoke_into_executable ff_ref crypto_ref (PedersenHasher ff_ref crypto_ref)
     (InvokeV1 (sample_invoke [5])) 9 False =
   Ok \<lparr>bi_tx = StInvokeV1 \<lparr>si1_max_fee = 100, si1_signature = [sfelt 5], si1_nonce = sfelt 4,
         si1_calldata = [sfelt 1, sfelt 2, sfelt 3], si1_sender_address = sfelt 17\<rparr>,
       bi_tx_hash = h\<rparr>"
proof -
  have "invoke_canonical (InvokeV1 (sample_invoke [5]))"
    by (simp add: sample_invoke_def felts_canonical_def felt_prime_def)
  from invoke_executable_faithful [OF ff_ref_laws crypto_ref_laws this, of 9 False] show ?thesis
    by (auto simp: sample_invoke_def)
qed

text \<open>
  C34. A message sent from L1 survives the way into the chain and back out: turning it into a handler
  transaction and that transaction into the L1-to-L2 message of the program output never panics (the
  sender is always the first calldata element, so \<open>calldata.remove(0)\<close> has one to remove), and the
  result has the padded Ethereum sender, the target, the selector and the payload of the message.
\<close>

theorem l1_message_roundtrip:
  assumes "ff_laws ff" "length (msg_from_address msg) = 20" "canonical (msg_to_address msg)"
    and "canonical (msg_entry_point_selector msg)" "felts_canonical (msg_payload msg)"
  shows "message_l1l2_from_tx ff sf (l1_transaction_from_msg ff msg) =
     Ok \<lparr>l1l2_from_address = eth_address_to_felt (msg_from_address msg),
         l1l2_to_address = sfelt (msg_to_address msg), l1l2_nonce = sf_from_u64 sf 0,
         l1l2_selector = sfelt (msg_entry_point_selector msg),
         l1l2_payload = map sfelt (msg_payload msg)\<rparr>"
proof -
  have f: "field_libs ff" using assms(1) by unfold_locales
  have eth: "ff_from_eth_address ff (msg_from_address msg) = be_val (msg_from_address msg)"
    using assms(1,2) by (simp add: ff_laws_def)
  note msg_def = l1_transaction_from_msg_def felt_from_eth_address_def
  show ?thesis
    using field_libs.message_l1l2_from_tx_eq [OF f, of "l1_transaction_from_msg ff msg"
        "be_val (msg_from_address msg)" "msg_payload msg" sf] assms(2-5) eth
    by (simp add: msg_def l1_canonical_def felts_canonical_def eth_address_canonical
        eth_address_to_felt_eq)
qed

theorem l1_message_roundtrip_witness:
  "message_l1l2_from_tx ff_ref sf_ref (l1_transaction_from_msg ff_ref
     \<lparr>msg_from_address = replicate 20 7, msg_to_address = 3, msg_entry_point_selector = 4,
      msg_payload = [5]\<rparr>) =
   Ok \<lparr>l1l2_from_address = replicate 12 0 @ replicate 20 7, l1l2_to_address = sfelt 3,
       l1l2_nonce = sf_from_u64 sf_ref 0, l1l2_selector = sfelt 4, l1l2_payload = [sfelt 5]\<rparr>"
  by (subst l1_message_roundtrip [OF ff_ref_laws])
    (simp_all add: felt_prime_def felts_canonical_def eth_address_to_felt_def)

end
