(* ===== verification/Broadcast.thy ===== *)
theory Broadcast
  imports Conversions
begin

text \<open>
  Transactions as the JSON-RPC interface has them: the conversion of broadcast transactions to user
  transactions (\<^verbatim>\<open>from_broadcasted_transactions.rs\<close>), the classes they carry
  (\<^verbatim>\<open>utils.rs\<close>), and the conversion of stored transactions back to the types of starknet-core
  (\<^verbatim>\<open>to_starknet_core_transaction.rs\<close>). Decompression, JSON, the class hashes, the Cairo VM's
  programs and the Sierra compiler are third-party and fields of \<open>class_api\<close>; their types are type
  parameters: \<open>'j\<close> a JSON program, \<open>'a\<close> an ABI entry of the RPC types, \<open>'b\<close> one of the legacy
  classes, \<open>'m\<close> a program of the VM, \<open>'v\<close> blockifier's class of version 1.
\<close>

section \<open>Classes\<close>

record LegacyContractEntryPoint =
  lep_offset :: u64
  lep_selector :: felt

record 'e ByType =
  bt_constructor :: "'e list"
  bt_external :: "'e list"
  bt_l1_handler :: "'e list"

record 'a CompressedLegacyContractClass =
  clc_program :: bytes
  clc_entry_points_by_type :: "LegacyContractEntryPoint ByType"
  clc_abi :: "'a list option"

datatype LegacyEntrypointOffset = U64AsInt u64

record RawLegacyEntryPoint =
  raw_offset :: LegacyEntrypointOffset
  raw_selector :: felt

record ('j, 'b) LegacyContractClass =
  lcc_program :: 'j
  lcc_abi :: "'b list"
  lcc_entry_points_by_type :: "RawLegacyEntryPoint ByType"

record SierraEntryPoint =
  sep_selector :: felt
  sep_function_idx :: u64

record FlattenedSierraClass =
  fs_sierra_program :: "felt list"
  fs_contract_class_version :: string
  fs_entry_points_by_type :: "SierraEntryPoint ByType"
  fs_abi :: string

text \<open>\<open>BigUint\<close> is a natural number; \<open>usize\<close> has 64 bits.\<close>

record ContractEntryPoint =
  cte_selector :: nat
  cte_function_idx :: u64

record SierraContractClass =
  scc_sierra_program :: "nat list"
  scc_contract_class_version :: string
  scc_entry_points_by_type :: "ContractEntryPoint ByType"

record CasmContractEntryPoint =
  casm_selector :: nat
  casm_offset :: u64
  casm_builtins :: "string list"

record CasmContractClass =
  casm_prime :: nat
  casm_compiler_version :: string
  casm_bytecode :: "nat list"
  casm_entry_points_by_type :: "CasmContractEntryPoint ByType"

record CompiledClassEntrypoint =
  cce_selector :: felt
  cce_offset :: u64
  cce_builtins :: "string list"

record CompiledClass =
  cc_prime :: string
  cc_compiler_version :: string
  cc_bytecode :: "felt list"
  cc_entry_points_by_type :: "CompiledClassEntrypoint ByType"

record EntryPoint =
  ep_selector :: stark_felt
  ep_offset :: u64

datatype ('m, 'v) ContractClass = ClassV0 'm "EntryPoint ByType" | ClassV1 'v

record ('j, 'a, 'b, 'm, 'v) class_api =
  gz_decode :: "bytes \<Rightarrow> bytes option"
  json_program :: "bytes \<Rightarrow> 'j option"
  abi_entry_into :: "'a \<Rightarrow> 'b"
  legacy_class_hash :: "('j, 'b) LegacyContractClass \<Rightarrow> felt option"
  program_from_bytes :: "bytes \<Rightarrow> 'm option"
  sierra_class_hash :: "FlattenedSierraClass \<Rightarrow> felt"
  into_casm_contract_class :: "SierraContractClass \<Rightarrow> CasmContractClass option"
  compiled_class_hash_of :: "CompiledClass \<Rightarrow> felt option"
  class_v1_try_from :: "CasmContractClass \<Rightarrow> 'v option"

datatype BroadcastedTransactionConversionError =
  MaxFeeTooBig | ProgramDecompressionFailed | ProgramDeserializationFailed | ClassHashComputationFailed
| CasmContractClassConversionFailed | InvalidCompiledClassHash | SierraCompilationFailed
| UnsuportedTransactionVersion

definition map_by_type :: "('e \<Rightarrow> 'f) \<Rightarrow> 'e ByType \<Rightarrow> 'f ByType" where
  "map_by_type f b = \<lparr>bt_constructor = map f (bt_constructor b), bt_external = map f (bt_external b),
     bt_l1_handler = map f (bt_l1_handler b)\<rparr>"

definition to_raw_legacy_entry_point :: "LegacyContractEntryPoint \<Rightarrow> RawLegacyEntryPoint" where
  "to_raw_legacy_entry_point entry_point =
     \<lparr>raw_offset = U64AsInt (lep_offset entry_point), raw_selector = lep_selector entry_point\<rparr>"

definition to_raw_legacy_entry_points :: "LegacyContractEntryPoint ByType \<Rightarrow> RawLegacyEntryPoint ByType" where
  "to_raw_legacy_entry_points entry_points = map_by_type to_raw_legacy_entry_point entry_points"

definition instantiate_blockifier_contract_class ::
    "ff_api \<Rightarrow> ('j, 'a, 'b, 'm, 'v) class_api \<Rightarrow> 'a CompressedLegacyContractClass \<Rightarrow> bytes
      \<Rightarrow> (('m, 'v) ContractClass, BroadcastedTransactionConversionError) result" where
  "instantiate_blockifier_contract_class ff ca contract_class program_decompressed_bytes =
     and_then (ok_or ProgramDeserializationFailed (program_from_bytes ca program_decompressed_bytes)) (\<lambda>program.
       Ok (ClassV0 program (map_by_type (\<lambda>entry_point.
         \<lparr>ep_selector = ff_to_bytes_be ff (lep_selector entry_point), ep_offset = lep_offset entry_point\<rparr>)
         (clc_entry_points_by_type contract_class))))"

definition field_element_to_big_uint :: "ff_api \<Rightarrow> felt \<Rightarrow> nat" where
  "field_element_to_big_uint ff f = be_val (ff_to_bytes_be ff f)"

definition entry_points_by_type_to_contract_entry_points ::
    "ff_api \<Rightarrow> SierraEntryPoint ByType \<Rightarrow> ContractEntryPoint ByType" where
  "entry_points_by_type_to_contract_entry_points ff b =
     map_by_type (\<lambda>x. \<lparr>cte_selector = field_element_to_big_uint ff (sep_selector x),
       cte_function_idx = sep_function_idx x\<rparr>) b"

definition flattened_sierra_to_casm_contract_class ::
    "ff_api \<Rightarrow> ('j, 'a, 'b, 'm, 'v) class_api \<Rightarrow> FlattenedSierraClass \<Rightarrow> CasmContractClass option" where
  "flattened_sierra_to_casm_contract_class ff ca flattened_sierra =
     into_casm_contract_class ca
       \<lparr>scc_sierra_program = map (field_element_to_big_uint ff) (fs_sierra_program flattened_sierra),
        scc_contract_class_version = fs_contract_class_version flattened_sierra,
        scc_entry_points_by_type =
          entry_points_by_type_to_contract_entry_points ff (fs_entry_points_by_type flattened_sierra)\<rparr>"

text \<open>\<open>BigUint::to_bytes_be\<close>: the shortest big-endian digits, one zero byte for zero.\<close>

fun biguint_to_bytes_be :: "nat \<Rightarrow> bytes" where
  "biguint_to_bytes_be n =
     (if n < 256 then [word_of_nat n] else biguint_to_bytes_be (n div 256) @ [word_of_nat (n mod 256)])"

declare biguint_to_bytes_be.simps [simp del]

definition biguint_to_field_element :: "ff_api \<Rightarrow> nat \<Rightarrow> (felt, 'e) result" where
  "biguint_to_field_element ff v = unwrap (ff_from_byte_slice_be ff (biguint_to_bytes_be v))"

definition casm_entry_point_to_compiled_entry_point ::
    "ff_api \<Rightarrow> CasmContractEntryPoint \<Rightarrow> (CompiledClassEntrypoint, 'e) result" where
  "casm_entry_point_to_compiled_entry_point ff v =
     and_then (biguint_to_field_element ff (casm_selector v)) (\<lambda>selector.
       Ok \<lparr>cce_selector = selector, cce_offset = casm_offset v, cce_builtins = casm_builtins v\<rparr>)"

definition casm_entry_points_to_compiled_entry_points ::
    "ff_api \<Rightarrow> CasmContractEntryPoint ByType \<Rightarrow> (CompiledClassEntrypoint ByType, 'e) result" where
  "casm_entry_points_to_compiled_entry_points ff v =
     and_then (collect_results (casm_entry_point_to_compiled_entry_point ff) (bt_external v)) (\<lambda>external.
     and_then (collect_results (casm_entry_point_to_compiled_entry_point ff) (bt_l1_handler v)) (\<lambda>l1_handler.
     and_then (collect_results (casm_entry_point_to_compiled_entry_point ff) (bt_constructor v)) (\<lambda>constructor.
       Ok \<lparr>bt_constructor = constructor, bt_external = external, bt_l1_handler = l1_handler\<rparr>)))"

text \<open>\<open>BigUint::to_string\<close>.\<close>

fun decimal :: "nat \<Rightarrow> string" where
  "decimal n = (if n < 10 then [char_of (48 + n)] else decimal (n div 10) @ [char_of (48 + n mod 10)])"

declare decimal.simps [simp del]

definition casm_contract_class_to_compiled_class ::
    "ff_api \<Rightarrow> CasmContractClass \<Rightarrow> (CompiledClass, 'e) result" where
  "casm_contract_class_to_compiled_class ff casm =
     and_then (collect_results (biguint_to_field_element ff) (casm_bytecode casm)) (\<lambda>bytecode.
     and_then (casm_entry_points_to_compiled_entry_points ff (casm_entry_points_by_type casm)) (\<lambda>entry_points.
       Ok \<lparr>cc_prime = decimal (casm_prime casm), cc_compiler_version = casm_compiler_version casm, cc_bytecode = bytecode,
           cc_entry_points_by_type = entry_points\<rparr>))"

definition get_casm_cotract_class_hash ::
    "ff_api \<Rightarrow> ('j, 'a, 'b, 'm, 'v) class_api \<Rightarrow> CasmContractClass \<Rightarrow> (felt, 'e) result" where
  "get_casm_cotract_class_hash ff ca casm =
     and_then (casm_contract_class_to_compiled_class ff casm) (\<lambda>compiled_class.
       unwrap_opt (compiled_class_hash_of ca compiled_class))"

section \<open>Broadcast transactions\<close>

record 'a BroadcastedDeclareTransactionV1 =
  bd1_max_fee :: felt
  bd1_signature :: "felt list"
  bd1_nonce :: felt
  bd1_contract_class :: "'a CompressedLegacyContractClass"
  bd1_sender_address :: felt
  bd1_is_query :: bool

record BroadcastedDeclareTransactionV2 =
  bd2_max_fee :: felt
  bd2_signature :: "felt list"
  bd2_nonce :: felt
  bd2_contract_class :: FlattenedSierraClass
  bd2_sender_address :: felt
  bd2_compiled_class_hash :: felt
  bd2_is_query :: bool

record BroadcastedInvokeTransaction =
  bri_max_fee :: felt
  bri_signature :: "felt list"
  bri_nonce :: felt
  bri_sender_address :: felt
  bri_calldata :: "felt list"
  bri_is_query :: bool

record BroadcastedDeployAccountTransaction =
  bra_max_fee :: felt
  bra_signature :: "felt list"
  bra_nonce :: felt
  bra_contract_address_salt :: felt
  bra_constructor_calldata :: "felt list"
  bra_class_hash :: felt
  bra_is_query :: bool

datatype 'a BroadcastedTransaction =
  BInvoke BroadcastedInvokeTransaction | BDeclareV1 "'a BroadcastedDeclareTransactionV1"
| BDeclareV2 BroadcastedDeclareTransactionV2 | BDeployAccount BroadcastedDeployAccountTransaction

text \<open>The cast of a vector of field elements keeps the memory: the wrapper is transparent.\<close>

definition cast_vec_of_field_elements :: "felt list \<Rightarrow> felt252_wrapper list" where
  "cast_vec_of_field_elements data = data"

definition max_fee_try_into :: "ff_api \<Rightarrow> felt \<Rightarrow> (u128, BroadcastedTransactionConversionError) result" where
  "max_fee_try_into ff max_fee = ok_or MaxFeeTooBig (ff_try_u128 ff max_fee)"

definition try_from_declare_v1 ::
    "ff_api \<Rightarrow> ('j, 'a, 'b, 'm, 'v) class_api \<Rightarrow> 'a BroadcastedDeclareTransactionV1
      \<Rightarrow> (('m, 'v) ContractClass UserTransaction, BroadcastedTransactionConversionError) result" where
  "try_from_declare_v1 ff ca tx =
     (let contract_class = bd1_contract_class tx in
     and_then (ok_or ProgramDecompressionFailed (gz_decode ca (clc_program contract_class))) (\<lambda>decompressed_bytes.
     and_then (ok_or ProgramDeserializationFailed (json_program ca decompressed_bytes)) (\<lambda>program.
     and_then (ok_or ClassHashComputationFailed (legacy_class_hash ca
         \<lparr>lcc_program = program,
          lcc_abi = (case clc_abi contract_class of Some abi \<Rightarrow> map (abi_entry_into ca) abi | None \<Rightarrow> []),
          lcc_entry_points_by_type = to_raw_legacy_entry_points (clc_entry_points_by_type contract_class)\<rparr>))
       (\<lambda>class_hash.
     and_then (max_fee_try_into ff (bd1_max_fee tx)) (\<lambda>max_fee.
     and_then (instantiate_blockifier_contract_class ff ca contract_class decompressed_bytes) (\<lambda>class.
       Ok (UserDeclare (DeclareV1 \<lparr>d1_max_fee = max_fee,
         d1_signature = cast_vec_of_field_elements (bd1_signature tx), d1_nonce = bd1_nonce tx,
         d1_class_hash = class_hash, d1_sender_address = bd1_sender_address tx,
         d1_offset_version = bd1_is_query tx\<rparr>) class)))))))"

definition try_from_declare_v2 ::
    "ff_api \<Rightarrow> ('j, 'a, 'b, 'm, 'v) class_api \<Rightarrow> BroadcastedDeclareTransactionV2
      \<Rightarrow> (('m, 'v) ContractClass UserTransaction, BroadcastedTransactionConversionError) result" where
  "try_from_declare_v2 ff ca tx =
     and_then (max_fee_try_into ff (bd2_max_fee tx)) (\<lambda>max_fee.
     and_then (ok_or SierraCompilationFailed
         (flattened_sierra_to_casm_contract_class ff ca (bd2_contract_class tx))) (\<lambda>casm_contract_class.
     and_then (get_casm_cotract_class_hash ff ca casm_contract_class) (\<lambda>hash.
       if hash \<noteq> bd2_compiled_class_hash tx then Err InvalidCompiledClassHash
       else and_then (ok_or CasmContractClassConversionFailed (class_v1_try_from ca casm_contract_class)) (\<lambda>class.
         Ok (UserDeclare (DeclareV2 \<lparr>d2_max_fee = max_fee,
           d2_signature = cast_vec_of_field_elements (bd2_signature tx), d2_nonce = bd2_nonce tx,
           d2_class_hash = sierra_class_hash ca (bd2_contract_class tx),
           d2_sender_address = bd2_sender_address tx, d2_compiled_class_hash = bd2_compiled_class_hash tx,
           d2_offset_version = bd2_is_query tx\<rparr>) (ClassV1 class))))))"

definition try_from_invoke ::
    "ff_api \<Rightarrow> BroadcastedInvokeTransaction \<Rightarrow> ('c UserTransaction, BroadcastedTransactionConversionError) result" where
  "try_from_invoke ff tx =
     and_then (max_fee_try_into ff (bri_max_fee tx)) (\<lambda>max_fee.
       Ok (UserInvoke (InvokeV1 \<lparr>i1_max_fee = max_fee,
         i1_signature = cast_vec_of_field_elements (bri_signature tx), i1_nonce = bri_nonce tx,
         i1_sender_address = bri_sender_address tx,
         i1_calldata = cast_vec_of_field_elements (bri_calldata tx), i1_offset_version = bri_is_query tx\<rparr>)))"

definition try_from_deploy_account ::
    "ff_api \<Rightarrow> BroadcastedDeployAccountTransaction
      \<Rightarrow> ('c UserTransaction, BroadcastedTransactionConversionError) result" where
  "try_from_deploy_account ff tx =
     and_then (max_fee_try_into ff (bra_max_fee tx)) (\<lambda>max_fee.
       Ok (UserDeployAccount \<lparr>da_max_fee = max_fee,
         da_signature = cast_vec_of_field_elements (bra_signature tx), da_nonce = bra_nonce tx,
         da_contract_address_salt = bra_contract_address_salt tx,
         da_constructor_calldata = cast_vec_of_field_elements (bra_constructor_calldata tx),
         da_class_hash = bra_class_hash tx, da_offset_version = bra_is_query tx\<rparr>))"

fun try_from_broadcasted ::
    "ff_api \<Rightarrow> ('j, 'a, 'b, 'm, 'v) class_api \<Rightarrow> 'a BroadcastedTransaction
      \<Rightarrow> (('m, 'v) ContractClass UserTransaction, BroadcastedTransactionConversionError) result" where
  "try_from_broadcasted ff ca (BInvoke tx) = try_from_invoke ff tx"
| "try_from_broadcasted ff ca (BDeclareV1 tx) = try_from_declare_v1 ff ca tx"
| "try_from_broadcasted ff ca (BDeclareV2 tx) = try_from_declare_v2 ff ca tx"
| "try_from_broadcasted ff ca (BDeployAccount tx) = try_from_deploy_account ff tx"

section \<open>Classes of starknet-api\<close>

datatype EntryPointTypeKey = KeyConstructor | KeyExternal | KeyL1Handler

record ApiEntryPoint =
  aep_function_idx :: u64
  aep_selector :: stark_felt

record ApiContractClass =
  acc_sierra_program :: "stark_felt list"
  acc_entry_point_by_type :: "EntryPointTypeKey \<rightharpoonup> ApiEntryPoint list"

definition starknet_api_entry_point_to_contract_entry_point :: "ApiEntryPoint \<Rightarrow> ContractEntryPoint" where
  "starknet_api_entry_point_to_contract_entry_point v =
     \<lparr>cte_selector = be_val (aep_selector v), cte_function_idx = aep_function_idx v\<rparr>"

definition sierra_to_casm_contract_class ::
    "('j, 'a, 'b, 'm, 'v) class_api \<Rightarrow> ApiContractClass \<Rightarrow> CasmContractClass option" where
  "sierra_to_casm_contract_class ca contract_class =
     (let entry_points = (\<lambda>k. map starknet_api_entry_point_to_contract_entry_point
            (case acc_entry_point_by_type contract_class k of Some l \<Rightarrow> l | None \<Rightarrow> []))
      in into_casm_contract_class ca
           \<lparr>scc_sierra_program = map be_val (acc_sierra_program contract_class),
            scc_contract_class_version = ''0.1.0'',
            scc_entry_points_by_type = \<lparr>bt_constructor = entry_points KeyConstructor,
              bt_external = entry_points KeyExternal, bt_l1_handler = entry_points KeyL1Handler\<rparr>\<rparr>)"

section \<open>Transactions of starknet-core\<close>

record core_DeclareTransactionV0 =
  cd0_transaction_hash :: felt
  cd0_max_fee :: felt
  cd0_signature :: "felt list"
  cd0_class_hash :: felt
  cd0_sender_address :: felt

record core_DeclareTransactionV1 =
  cd1_transaction_hash :: felt
  cd1_max_fee :: felt
  cd1_signature :: "felt list"
  cd1_nonce :: felt
  cd1_class_hash :: felt
  cd1_sender_address :: felt

record core_DeclareTransactionV2 =
  cd2_transaction_hash :: felt
  cd2_max_fee :: felt
  cd2_signature :: "felt list"
  cd2_nonce :: felt
  cd2_class_hash :: felt
  cd2_sender_address :: felt
  cd2_compiled_class_hash :: felt

record core_DeployAccountTransaction =
  cda_transaction_hash :: felt
  cda_max_fee :: felt
  cda_signature :: "felt list"
  cda_nonce :: felt
  cda_contract_address_salt :: felt
  cda_constructor_calldata :: "felt list"
  cda_class_hash :: felt

record core_InvokeTransactionV0 =
  ci0_transaction_hash :: felt
  ci0_max_fee :: felt
  ci0_signature :: "felt list"
  ci0_contract_address :: felt
  ci0_entry_point_selector :: felt
  ci0_calldata :: "felt list"

record core_InvokeTransactionV1 =
  ci1_transaction_hash :: felt
  ci1_max_fee :: felt
  ci1_signature :: "felt list"
  ci1_nonce :: felt
  ci1_sender_address :: felt
  ci1_calldata :: "felt list"

record core_L1HandlerTransaction =
  cl1_transaction_hash :: felt
  cl1_version :: u64
  cl1_nonce :: u64
  cl1_contract_address :: felt
  cl1_entry_point_selector :: felt
  cl1_calldata :: "felt list"

datatype core_Transaction =
  CoreDeclareV0 core_DeclareTransactionV0 | CoreDeclareV1 core_DeclareTransactionV1
| CoreDeclareV2 core_DeclareTransactionV2 | CoreDeployAccount core_DeployAccountTransaction
| CoreInvokeV0 core_InvokeTransactionV0 | CoreInvokeV1 core_InvokeTransactionV1
| CoreL1Handler core_L1HandlerTransaction

definition cast_vec_of_felt_252_wrappers :: "felt252_wrapper list \<Rightarrow> felt list" where
  "cast_vec_of_felt_252_wrappers data = data"

fun to_starknet_core_tx :: "ff_api \<Rightarrow> Transaction \<Rightarrow> felt \<Rightarrow> core_Transaction" where
  "to_starknet_core_tx ff (TDeclare (DeclareV0 tx)) transaction_hash =
     CoreDeclareV0 \<lparr>cd0_transaction_hash = transaction_hash, cd0_max_fee = ff_from_u128 ff (d0_max_fee tx),
       cd0_signature = cast_vec_of_felt_252_wrappers (d0_signature tx), cd0_class_hash = d0_class_hash tx,
       cd0_sender_address = d0_sender_address tx\<rparr>"
| "to_starknet_core_tx ff (TDeclare (DeclareV1 tx)) transaction_hash =
     CoreDeclareV1 \<lparr>cd1_transaction_hash = transaction_hash, cd1_max_fee = ff_from_u128 ff (d1_max_fee tx),
       cd1_signature = cast_vec_of_felt_252_wrappers (d1_signature tx), cd1_nonce = d1_nonce tx,
       cd1_class_hash = d1_class_hash tx, cd1_sender_address = d1_sender_address tx\<rparr>"
| "to_starknet_core_tx ff (TDeclare (DeclareV2 tx)) transaction_hash =
     CoreDeclareV2 \<lparr>cd2_transaction_hash = transaction_hash, cd2_max_fee = ff_from_u128 ff (d2_max_fee tx),
       cd2_signature = cast_vec_of_felt_252_wrappers (d2_signature tx), cd2_nonce = d2_nonce tx,
       cd2_class_hash = d2_class_hash tx, cd2_sender_address = d2_sender_address tx,
       cd2_compiled_class_hash = d2_compiled_class_hash tx\<rparr>"
| "to_starknet_core_tx ff (TDeployAccount tx) transaction_hash =
     CoreDeployAccount \<lparr>cda_transaction_hash = transaction_hash, cda_max_fee = ff_from_u128 ff (da_max_fee tx),
       cda_signature = cast_vec_of_felt_252_wrappers (da_signature tx), cda_nonce = da_nonce tx,
       cda_contract_address_salt = da_contract_address_salt tx,
       cda_constructor_calldata = cast_vec_of_felt_252_wrappers (da_constructor_calldata tx),
       cda_class_hash = da_class_hash tx\<rparr>"
| "to_starknet_core_tx ff (TInvoke (InvokeV0 tx)) transaction_hash =
     CoreInvokeV0 \<lparr>ci0_transaction_hash = transaction_hash, ci0_max_fee = ff_from_u128 ff (i0_max_fee tx),
       ci0_signature = cast_vec_of_felt_252_wrappers (i0_signature tx),
       ci0_contract_address = i0_contract_address tx, ci0_entry_point_selector = i0_entry_point_selector tx,
       ci0_calldata = cast_vec_of_felt_252_wrappers (i0_calldata tx)\<rparr>"
| "to_starknet_core_tx ff (TInvoke (InvokeV1 tx)) transaction_hash =
     CoreInvokeV1 \<lparr>ci1_transaction_hash = transaction_hash, ci1_max_fee = ff_from_u128 ff (i1_max_fee tx),
       ci1_signature = cast_vec_of_felt_252_wrappers (i1_signature tx), ci1_nonce = i1_nonce tx,
       ci1_sender_address = i1_sender_address tx,
       ci1_calldata = cast_vec_of_felt_252_wrappers (i1_calldata tx)\<rparr>"
| "to_starknet_core_tx ff (TL1Handler tx) transaction_hash =
     CoreL1Handler \<lparr>cl1_transaction_hash = transaction_hash, cl1_version = 0, cl1_nonce = l1_nonce tx,
       cl1_contract_address = l1_contract_address tx, cl1_entry_point_selector = l1_entry_point_selector tx,
       cl1_calldata = cast_vec_of_felt_252_wrappers (l1_calldata tx)\<rparr>"

section \<open>Big integers and field elements\<close>

lemma be_val_biguint [simp]: "be_val (biguint_to_bytes_be n) = n"
proof (induction n rule: biguint_to_bytes_be.induct)
  case (1 n)
  have "unat (word_of_nat n :: byte) = n" if "n < 256"
    using unat_word_of_nat_byte [of n] that by simp
  then show ?case
    using 1 by (subst biguint_to_bytes_be.simps) (auto simp: be_val_append unat_word_of_nat_byte)
qed

lemma length_biguint: "n < 256 ^ Suc k \<Longrightarrow> length (biguint_to_bytes_be n) \<le> Suc k"
proof (induction k arbitrary: n)
  case 0
  then show ?case by (simp add: biguint_to_bytes_be.simps)
next
  case (Suc k)
  have "n div 256 < 256 ^ Suc k" using Suc.prems by (simp add: less_mult_imp_div_less)
  then show ?case using Suc.IH [of "n div 256"] by (subst biguint_to_bytes_be.simps) auto
qed

context field_libs
begin

lemma biguint_to_field_element_eq:
  "biguint_to_field_element ff n = (if n < felt_prime then Ok n else Panic)"
proof -
  have "n < felt_prime \<Longrightarrow> length (biguint_to_bytes_be n) \<le> 32"
    using length_biguint [of n 31] felt_prime_le by simp
  then show ?thesis
    by (auto simp: biguint_to_field_element_def from_byte_slice_be)
qed

lemma field_element_to_big_uint_eq: "f < felt_prime \<Longrightarrow> field_element_to_big_uint ff f = f"
  by (simp add: field_element_to_big_uint_def to_bytes_be)

lemma max_fee_eq: "f < felt_prime \<Longrightarrow> max_fee_try_into ff f = (if f < 2 ^ 128 then Ok (word_of_nat f) else Err MaxFeeTooBig)"
  by (simp add: max_fee_try_into_def try_words)

lemma compiled_class_eq:
  assumes "list_all (\<lambda>x. x < felt_prime) (casm_bytecode casm)"
    and "list_all (\<lambda>e. casm_selector e < felt_prime) (bt_constructor (casm_entry_points_by_type casm)
      @ bt_external (casm_entry_points_by_type casm) @ bt_l1_handler (casm_entry_points_by_type casm))"
  shows "casm_contract_class_to_compiled_class ff casm = Ok \<lparr>cc_prime = decimal (casm_prime casm),
    cc_compiler_version = casm_compiler_version casm, cc_bytecode = casm_bytecode casm,
    cc_entry_points_by_type = map_by_type (\<lambda>e. \<lparr>cce_selector = casm_selector e, cce_offset = casm_offset e,
      cce_builtins = casm_builtins e\<rparr>) (casm_entry_points_by_type casm)\<rparr>"
proof -
  let ?g = "\<lambda>e. \<lparr>cce_selector = casm_selector e, cce_offset = casm_offset e, cce_builtins = casm_builtins e\<rparr>"
  have b: "collect_results (biguint_to_field_element ff) (casm_bytecode casm) = Ok (map (\<lambda>x. x) (casm_bytecode casm))"
    by (rule collect_results_all_Ok) (use assms(1) in \<open>simp add: biguint_to_field_element_eq list_all_iff\<close>)
  have e: "collect_results (casm_entry_point_to_compiled_entry_point ff) es = Ok (map ?g es)"
    if "list_all (\<lambda>e. casm_selector e < felt_prime) es" for es
    by (rule collect_results_all_Ok)
       (use that in \<open>simp add: casm_entry_point_to_compiled_entry_point_def biguint_to_field_element_eq list_all_iff\<close>)
  show ?thesis
    using assms(2) by (simp add: casm_contract_class_to_compiled_class_def
        casm_entry_points_to_compiled_entry_points_def b e map_by_type_def)
qed

lemma max_fee_back: "f < 2 ^ 128 \<Longrightarrow> ff_from_u128 ff (word_of_nat f) = f"
  using from_words(4) [of "word_of_nat f"] by (simp add: unat_of_nat)

end

section \<open>Properties\<close>

fun broadcast_max_fee :: "'a BroadcastedTransaction \<Rightarrow> felt" where
  "broadcast_max_fee (BInvoke tx) = bri_max_fee tx"
| "broadcast_max_fee (BDeclareV1 tx) = bd1_max_fee tx"
| "broadcast_max_fee (BDeclareV2 tx) = bd2_max_fee tx"
| "broadcast_max_fee (BDeployAccount tx) = bra_max_fee tx"

fun broadcast_is_query :: "'a BroadcastedTransaction \<Rightarrow> bool" where
  "broadcast_is_query (BInvoke tx) = bri_is_query tx"
| "broadcast_is_query (BDeclareV1 tx) = bd1_is_query tx"
| "broadcast_is_query (BDeclareV2 tx) = bd2_is_query tx"
| "broadcast_is_query (BDeployAccount tx) = bra_is_query tx"

text \<open>The transaction the RPC interface should report: the broadcast fields under the hash, with the class hash.\<close>

fun broadcast_core :: "'a BroadcastedTransaction \<Rightarrow> felt \<Rightarrow> felt \<Rightarrow> core_Transaction" where
  "broadcast_core (BInvoke tx) _ h = CoreInvokeV1 \<lparr>ci1_transaction_hash = h, ci1_max_fee = bri_max_fee tx,
     ci1_signature = bri_signature tx, ci1_nonce = bri_nonce tx, ci1_sender_address = bri_sender_address tx,
     ci1_calldata = bri_calldata tx\<rparr>"
| "broadcast_core (BDeclareV1 tx) ch h = CoreDeclareV1 \<lparr>cd1_transaction_hash = h, cd1_max_fee = bd1_max_fee tx,
     cd1_signature = bd1_signature tx, cd1_nonce = bd1_nonce tx, cd1_class_hash = ch,
     cd1_sender_address = bd1_sender_address tx\<rparr>"
| "broadcast_core (BDeclareV2 tx) ch h = CoreDeclareV2 \<lparr>cd2_transaction_hash = h, cd2_max_fee = bd2_max_fee tx,
     cd2_signature = bd2_signature tx, cd2_nonce = bd2_nonce tx, cd2_class_hash = ch,
     cd2_sender_address = bd2_sender_address tx, cd2_compiled_class_hash = bd2_compiled_class_hash tx\<rparr>"
| "broadcast_core (BDeployAccount tx) _ h = CoreDeployAccount \<lparr>cda_transaction_hash = h, cda_max_fee = bra_max_fee tx,
     cda_signature = bra_signature tx, cda_nonce = bra_nonce tx,
     cda_contract_address_salt = bra_contract_address_salt tx,
     cda_constructor_calldata = bra_constructor_calldata tx, cda_class_hash = bra_class_hash tx\<rparr>"

fun user_transaction :: "'c UserTransaction \<Rightarrow> Transaction" where
  "user_transaction (UserDeclare tx _) = TDeclare tx"
| "user_transaction (UserDeployAccount tx) = TDeployAccount tx"
| "user_transaction (UserInvoke tx) = TInvoke tx"

text \<open>The class of a declaration of version 2 is the compiled one, and has the hash the user signed.\<close>

definition declared_class ::
    "ff_api \<Rightarrow> ('j, 'a, 'b, 'm, 'v) class_api \<Rightarrow> BroadcastedDeclareTransactionV2 \<Rightarrow> ('m, 'v) ContractClass UserTransaction
      \<Rightarrow> felt \<Rightarrow> bool" where
  "declared_class ff ca t u ch \<longleftrightarrow> ch = sierra_class_hash ca (bd2_contract_class t) \<and>
     (\<exists>casm c d. flattened_sierra_to_casm_contract_class ff ca (bd2_contract_class t) = Some casm \<and>
        get_casm_cotract_class_hash ff ca casm =
          (Ok (bd2_compiled_class_hash t) :: (_, BroadcastedTransactionConversionError) result) \<and>
        class_v1_try_from ca casm = Some c \<and> u = UserDeclare d (ClassV1 c))"

lemma declared_class_hash: "declared_class ff ca t u ch \<Longrightarrow> ch = sierra_class_hash ca (bd2_contract_class t)"
  by (simp add: declared_class_def)

text \<open>
  C22. A broadcast transaction that is accepted comes back unchanged. Its maximal fee fits in 128 bits;
  reporting the accepted transaction gives every field the user broadcast, under the given hash and
  with the class hash of the declared class; it is a query transaction exactly when it was broadcast
  as one. The class of a declaration of version 2 is the one compiled from the broadcast Sierra class,
  and the hash of this compilation is the one the user signed. An invoke or account deployment is
  rejected exactly when its maximal fee does not fit.
\<close>

theorem broadcast_roundtrip:
  assumes "ff_laws ff" "canonical (broadcast_max_fee tx)"
  shows "(try_from_broadcasted ff ca tx = Ok u \<longrightarrow>
      broadcast_max_fee tx < 2 ^ 128 \<and> user_offset_version u = broadcast_is_query tx \<and>
      (\<exists>ch. to_starknet_core_tx ff (user_transaction u) h = broadcast_core tx ch h \<and>
         (\<forall>t. tx = BDeclareV2 t \<longrightarrow> declared_class ff ca t u ch))) \<and>
    (\<forall>t. tx = BInvoke t \<longrightarrow> try_from_broadcasted ff ca tx = Err MaxFeeTooBig \<longleftrightarrow> 2 ^ 128 \<le> bri_max_fee t) \<and>
    (\<forall>t. tx = BDeployAccount t \<longrightarrow> try_from_broadcasted ff ca tx = Err MaxFeeTooBig \<longleftrightarrow> 2 ^ 128 \<le> bra_max_fee t)"
proof -
  have f: "field_libs ff" using assms(1) by unfold_locales
  note defs = field_libs.max_fee_eq [OF f] field_libs.max_fee_back [OF f] cast_vec_of_field_elements_def
    cast_vec_of_felt_252_wrappers_def
  show ?thesis
  proof (cases tx)
    case (BInvoke t)
    then show ?thesis using assms(2) by (auto simp: try_from_invoke_def defs)
  next
    case (BDeclareV1 t)
    then show ?thesis using assms(2) by (auto simp: try_from_declare_v1_def Let_def defs split: if_splits)
  next
    case (BDeclareV2 t)
    then show ?thesis
      using assms(2) by (auto simp: try_from_declare_v2_def declared_class_def defs split: if_splits)
  next
    case (BDeployAccount t)
    then show ?thesis using assms(2) by (auto simp: try_from_deploy_account_def deploy_offset_version_def defs)
  qed
qed

subsection \<open>A sample declaration\<close>

definition class_ref :: "(unit, unit, unit, unit, nat list) class_api" where
  "class_ref = \<lparr>gz_decode = Some, json_program = (\<lambda>_. Some ()), abi_entry_into = (\<lambda>_. ()),
     legacy_class_hash = (\<lambda>_. Some 1), program_from_bytes = (\<lambda>_. Some ()),
     sierra_class_hash = (\<lambda>c. length (fs_sierra_program c)),
     into_casm_contract_class = (\<lambda>c. Some \<lparr>casm_prime = felt_prime, casm_compiler_version = ''2.4.0'',
       casm_bytecode = scc_sierra_program c, casm_entry_points_by_type = \<lparr>bt_constructor = [], bt_external = [],
       bt_l1_handler = []\<rparr>\<rparr>),
     compiled_class_hash_of = (\<lambda>c. Some (sum_list (cc_bytecode c))),
     class_v1_try_from = (\<lambda>c. Some (casm_bytecode c))\<rparr>"

definition sample_declare :: "felt \<Rightarrow> BroadcastedDeclareTransactionV2" where
  "sample_declare hash = \<lparr>bd2_max_fee = 100, bd2_signature = [4], bd2_nonce = 2,
     bd2_contract_class = \<lparr>fs_sierra_program = [5, 6], fs_contract_class_version = ''0.1.0'',
       fs_entry_points_by_type = \<lparr>bt_constructor = [], bt_external = [], bt_l1_handler = []\<rparr>, fs_abi = []\<rparr>,
     bd2_sender_address = 17, bd2_compiled_class_hash = hash, bd2_is_query = True\<rparr>"

lemma sample_declare_converted:
  "try_from_broadcasted ff_ref class_ref (BDeclareV2 (sample_declare 11)) =
     Ok (UserDeclare (DeclareV2 \<lparr>d2_max_fee = 100, d2_signature = [4], d2_nonce = 2, d2_class_hash = 2,
       d2_sender_address = 17, d2_compiled_class_hash = 11, d2_offset_version = True\<rparr>) (ClassV1 [5, 6]))"
proof -
  have c: "canonical 5" "canonical 6" "canonical 100" by (simp_all add: felt_prime_def)
  have casm: "flattened_sierra_to_casm_contract_class ff_ref class_ref (bd2_contract_class (sample_declare 11)) =
      Some \<lparr>casm_prime = felt_prime, casm_compiler_version = ''2.4.0'', casm_bytecode = [5, 6],
        casm_entry_points_by_type = \<lparr>bt_constructor = [], bt_external = [], bt_l1_handler = []\<rparr>\<rparr>"
    using c by (simp add: flattened_sierra_to_casm_contract_class_def class_ref_def sample_declare_def
        ref.field_element_to_big_uint_eq)
  then show ?thesis
    using c ref.max_fee_eq [of 100]
    by (simp add: try_from_declare_v2_def casm get_casm_cotract_class_hash_def ref.compiled_class_eq)
       (simp add: sample_declare_def class_ref_def cast_vec_of_field_elements_def)
qed

theorem broadcast_roundtrip_witness:
  "\<exists>u. try_from_broadcasted ff_ref class_ref (BDeclareV2 (sample_declare 11)) = Ok u \<and>
     to_starknet_core_tx ff_ref (user_transaction u) 9 = broadcast_core (BDeclareV2 (sample_declare 11) :: unit BroadcastedTransaction) 2 9"
proof -
  have "canonical (broadcast_max_fee (BDeclareV2 (sample_declare 11) :: unit BroadcastedTransaction))"
    by (simp add: sample_declare_def felt_prime_def)
  note rt = broadcast_roundtrip [OF ff_ref_laws this, of class_ref _ 9, THEN conjunct1, THEN mp,
      OF sample_declare_converted, THEN conjunct2, THEN conjunct2]
  have "sierra_class_hash class_ref (bd2_contract_class (sample_declare 11)) = 2"
    by (simp add: class_ref_def sample_declare_def)
  moreover obtain ch where ch: "to_starknet_core_tx ff_ref (user_transaction (UserDeclare (DeclareV2 \<lparr>d2_max_fee = 100,
       d2_signature = [4], d2_nonce = 2, d2_class_hash = 2, d2_sender_address = 17, d2_compiled_class_hash = 11,
       d2_offset_version = True\<rparr>) (ClassV1 [5, 6] :: (unit, nat list) ContractClass))) 9 =
      broadcast_core (BDeclareV2 (sample_declare 11) :: unit BroadcastedTransaction) ch 9"
    "ch = sierra_class_hash class_ref (bd2_contract_class (sample_declare 11))"
    using rt declared_class_hash by blast
  ultimately show ?thesis
    using ch sample_declare_converted by (intro exI conjI) (assumption, simp)
qed

end
