(* ===== verification/Fee.thy ===== *)
theory Fee
  imports Blockifier
begin

text \<open>
  Fees, \<^verbatim>\<open>crates/primitives/fee/src/lib.rs\<close>: the price of a transaction from the resources it used
  (\<open>calculate_tx_fee\<close> and its parts), and charging it (\<open>charge_fee\<close>,
  \<open>execute_fee_transfer\<close>). The fixed-point type \<open>FixedU128\<close> is sp-arithmetic's: a number with
  18 decimals, held as its inner integer; its operations are the fields of \<open>fx_api\<close>.
\<close>

section \<open>Fixed-point numbers\<close>

type_synonym fixed = nat

definition DIV :: nat where
  "DIV = 10 ^ 18"

record fx_api =
  fx_checked_from_integer :: "nat \<Rightarrow> fixed option"
  fx_mul :: "fixed \<Rightarrow> fixed \<Rightarrow> fixed"
  fx_add :: "fixed \<Rightarrow> fixed \<Rightarrow> fixed"
  fx_ceil :: "fixed \<Rightarrow> fixed"
  fx_checked_mul_int :: "fixed \<Rightarrow> nat \<Rightarrow> nat option"

text \<open>
  Documented behaviour, on the arguments the sources use: conversion from an integer fails exactly
  when the inner value leaves 128 bits; multiplication by an integer-valued number, addition and
  rounding up are exact as long as the result fits; multiplication with an integer is checked.
\<close>

definition fx_laws :: "fx_api \<Rightarrow> bool" where
  "fx_laws fx \<longleftrightarrow>
     (\<forall>n. fx_checked_from_integer fx n = (if n * DIV < 2 ^ 128 then Some (n * DIV) else None)) \<and>
     (\<forall>a n. n * DIV < 2 ^ 128 \<longrightarrow> a * n < 2 ^ 128 \<longrightarrow> fx_mul fx a (n * DIV) = a * n) \<and>
     (\<forall>a b. a + b < 2 ^ 128 \<longrightarrow> fx_add fx a b = a + b) \<and>
     (\<forall>a. (a + DIV - 1) div DIV * DIV < 2 ^ 128 \<longrightarrow> fx_ceil fx a = (a + DIV - 1) div DIV * DIV) \<and>
     (\<forall>n k. fx_checked_mul_int fx (n * DIV) k = (if n * k < 2 ^ 128 then Some (n * k) else None))"

section \<open>Constants\<close>

definition INITIAL_GAS :: u64 where
  "INITIAL_GAS = - 1"

definition FEE_TRANSFER_N_STORAGE_CHANGES :: u8 where
  "FEE_TRANSFER_N_STORAGE_CHANGES = 2"

definition FEE_TRANSFER_N_STORAGE_CHANGES_TO_CHARGE :: u8 where
  "FEE_TRANSFER_N_STORAGE_CHANGES_TO_CHARGE = FEE_TRANSFER_N_STORAGE_CHANGES - 1"

definition VM_RESOURCE_FEE_COSTS :: "(string \<times> fixed) list" where
  "VM_RESOURCE_FEE_COSTS =
     [(''n_steps'', 10000000000000000),
      (''pedersen_builtin'', 320000000000000000),
      (''range_check_builtin'', 160000000000000000),
      (''ecdsa_builtin'', 20480000000000000000),
      (''bitwise_builtin'', 640000000000000000),
      (''poseidon_builtin'', 320000000000000000),
      (''ec_op_builtin'', 10240000000000000000)]"

definition TRANSFER_SELECTOR_HASH :: bytes where
  "TRANSFER_SELECTOR_HASH =
     [0, 131, 175, 211, 244, 202, 237, 198, 238, 191, 68, 36, 111, 229, 78, 56, 201, 94, 49, 121, 165,
      236, 158, 168, 23, 64, 236, 165, 180, 130, 209, 46]"

text \<open>\<open>GAS_USAGE\<close> of blockifier: the key of the L1 gas in a resources mapping.\<close>

definition GAS_USAGE :: string where
  "GAS_USAGE = ''l1_gas_usage''"

record ResourcePrice =
  price_in_strk :: "u64 option"
  price_in_wei :: u128

record CoreResourcePrice =
  core_price_in_strk :: "u64 option"
  core_price_in_wei :: u64

text \<open>\<open>price_in_wei as u64\<close> keeps the low 64 bits.\<close>

definition core_resource_price_from :: "ResourcePrice \<Rightarrow> CoreResourcePrice" where
  "core_resource_price_from item =
     \<lparr>core_price_in_strk = price_in_strk item, core_price_in_wei = ucast (price_in_wei item)\<rparr>"

section \<open>The price of a transaction\<close>

definition compute_transaction_resources ::
    "('c, 'r, 'x) bf_api \<Rightarrow> 'c bstate \<Rightarrow> CallInfo option \<Rightarrow> CallInfo option \<Rightarrow> 'r \<Rightarrow> TransactionType
      \<Rightarrow> nat option \<Rightarrow> (ResourcesMapping, TransactionExecutionError) result" where
  "compute_transaction_resources bf state execute_call_info validate_call_info execution_resources
       tx_type l1_handler_payload_size =
     (let state_changes_count = count_state_changes (bs_adapter state);
          non_optional_call_infos = concat (map (case_option [] (\<lambda>c. [c])) [execute_call_info, validate_call_info])
      in and_then (bf_calculate_l1_gas_usage bf non_optional_call_infos state_changes_count
             l1_handler_payload_size) (\<lambda>l1_gas_usage.
           bf_calculate_tx_resources bf execution_resources l1_gas_usage tx_type))"

text \<open>\<open>remove\<close> on a hash map: the entry of a key leaves, the others stay; \<open>expect\<close> panics.\<close>

definition extract_l1_gas_and_vm_usage :: "ResourcesMapping \<Rightarrow> (u64 \<times> ResourcesMapping, 'e) result" where
  "extract_l1_gas_and_vm_usage resources =
     (case map_of resources GAS_USAGE of
        None \<Rightarrow> Panic
      | Some l1_gas_usage \<Rightarrow> Ok (l1_gas_usage, filter (\<lambda>(k, _). k \<noteq> GAS_USAGE) resources))"

fun vm_usage_fold :: "fx_api \<Rightarrow> ResourcesMapping \<Rightarrow> fixed \<Rightarrow> (fixed, TransactionExecutionError) result" where
  "vm_usage_fold fx [] accum = Ok accum"
| "vm_usage_fold fx ((key, v) # rest) accum =
     and_then (ok_or FixedPointConversion (fx_checked_from_integer fx (unat v))) (\<lambda>f.
     and_then (unwrap_opt (map_of VM_RESOURCE_FEE_COSTS key)) (\<lambda>cost.
       vm_usage_fold fx rest (max (fx_mul fx cost f) accum)))"

definition calculate_l1_gas_by_vm_usage ::
    "fx_api \<Rightarrow> ResourcesMapping \<Rightarrow> (fixed, TransactionExecutionError) result" where
  "calculate_l1_gas_by_vm_usage fx vm_resource_usage =
     (if list_ex (\<lambda>(key, _). map_of VM_RESOURCE_FEE_COSTS key = None) vm_resource_usage
      then Err CairoResourcesNotContainedInFeeCosts
      else vm_usage_fold fx vm_resource_usage 0)"

definition calculate_tx_fee ::
    "fx_api \<Rightarrow> ResourcesMapping \<Rightarrow> BlockContext \<Rightarrow> (Fee, TransactionExecutionError) result" where
  "calculate_tx_fee fx resources block_context =
     and_then (extract_l1_gas_and_vm_usage resources) (\<lambda>(l1_gas_usage, vm_resources).
     and_then (calculate_l1_gas_by_vm_usage fx vm_resources) (\<lambda>l1_gas_by_vm_usage.
     and_then (ok_or FixedPointConversion (fx_checked_from_integer fx (unat l1_gas_usage))) (\<lambda>g.
       (let total_l1_gas_usage = fx_add fx g l1_gas_by_vm_usage
        in and_then (ok_or FixedPointConversion
               (fx_checked_mul_int fx (fx_ceil fx total_l1_gas_usage) (unat (bc_gas_price block_context))))
             (\<lambda>tx_fee. Ok (word_of_nat tx_fee))))))"

section \<open>Charging\<close>

text \<open>
  The fee transfer is a call of the fee token contract, on fresh resources and a fresh context; what
  the caller sees of it is the state.
\<close>

definition execute_fee_transfer ::
    "ff_api \<Rightarrow> sf_api \<Rightarrow> ('c, 'r, 'x) bf_api \<Rightarrow> BlockContext \<Rightarrow> AccountTransactionContext \<Rightarrow> Fee
      \<Rightarrow> (CallInfo, TransactionExecutionError, 'c bstate) st" where
  "execute_fee_transfer ff sf bf block_context account_tx_context actual_fee state =
     (let max_fee = atc_max_fee account_tx_context in
      if actual_fee > max_fee then (Err (FeeTransferError max_fee actual_fee), state)
      else
        (let lsb_amount = sf_from_u128 sf actual_fee;
             msb_amount = sf_from_u64 sf 0;
             storage_address = bc_fee_token_address block_context
         in case stark_felt_new ff TRANSFER_SELECTOR_HASH of
              None \<Rightarrow> (Panic, state)
            | Some selector \<Rightarrow>
                (let fee_transfer_call = \<lparr>cep_class_hash = None, cep_code_address = None,
                       cep_entry_point_type = EP_External, cep_entry_point_selector = selector,
                       cep_calldata = [bc_sequencer_address block_context, lsb_amount, msb_amount],
                       cep_storage_address = storage_address,
                       cep_caller_address = atc_sender_address account_tx_context,
                       cep_call_type = CT_Call, cep_initial_gas = INITIAL_GAS\<rparr>;
                     max_steps = bc_invoke_tx_max_n_steps block_context;
                     context = bf_new_context bf block_context account_tx_context max_steps;
                     (r, env) = bf_execute_call bf fee_transfer_call
                       \<lparr>ee_state = state, ee_resources = bf_resources_default bf, ee_context = context,
                        ee_gas = INITIAL_GAS\<rparr>
                 in (map_err EntryPointError r, ee_state env))))"

definition charge_fee ::
    "ff_api \<Rightarrow> sf_api \<Rightarrow> fx_api \<Rightarrow> ('c, 'r, 'x) bf_api \<Rightarrow> BlockContext \<Rightarrow> AccountTransactionContext
      \<Rightarrow> ResourcesMapping \<Rightarrow> bool \<Rightarrow> bool \<Rightarrow> bool
      \<Rightarrow> (Fee \<times> CallInfo option, TransactionExecutionError, 'c bstate) st" where
  "charge_fee ff sf fx bf block_context account_tx_context resources
       disable_transaction_fee disable_fee_charge is_query =
     (if disable_transaction_fee then ret_st (Ok (0, None))
      else bind_st (ret_st (calculate_tx_fee fx resources block_context)) (\<lambda>actual_fee.
        if disable_fee_charge \<or> is_query then ret_st (Ok (actual_fee, None))
        else bind_st (execute_fee_transfer ff sf bf block_context account_tx_context actual_fee)
          (\<lambda>fee_transfer_call_info. ret_st (Ok (actual_fee, Some fee_transfer_call_info)))))"

section \<open>The price in exact arithmetic\<close>

text \<open>
  The heaviest resource: the largest product of a usage and its cost, in \<open>1 / DIV\<close> units of gas.
  It depends on the set of entries only, not on the order the hash map is walked in.
\<close>

definition vm_cost :: "string \<times> u64 \<Rightarrow> nat" where
  "vm_cost e = (case map_of VM_RESOURCE_FEE_COSTS (fst e) of Some c \<Rightarrow> c * unat (snd e) | None \<Rightarrow> 0)"

definition heaviest :: "ResourcesMapping \<Rightarrow> nat" where
  "heaviest rs = Max (insert 0 (vm_cost ` set rs))"

definition ceil_units :: "nat \<Rightarrow> nat" where
  "ceil_units a = (a + DIV - 1) div DIV"

definition vm_part :: "ResourcesMapping \<Rightarrow> ResourcesMapping" where
  "vm_part rs = filter (\<lambda>(k, _). k \<noteq> GAS_USAGE) rs"

locale fixed_point =
  fixes fx :: fx_api
  assumes laws: "fx_laws fx"
begin

lemma u64_fits: "unat (v :: u64) * DIV < 2 ^ 128"
proof -
  have "unat v * DIV < 2 ^ 64 * DIV"
    using unat_lt [of v] by (simp add: DIV_def)
  also have "\<dots> < 2 ^ 128" by (simp add: DIV_def)
  finally show ?thesis .
qed

lemma from_integer: "fx_checked_from_integer fx (unat (v :: u64)) = Some (unat v * DIV)"
  using laws u64_fits [of v] by (simp add: fx_laws_def)

lemma mul_exact: "a * unat (v :: u64) < 2 ^ 128 \<Longrightarrow> fx_mul fx a (unat v * DIV) = a * unat v"
  using laws u64_fits [of v] by (simp add: fx_laws_def)

lemma mul_int: "fx_checked_mul_int fx (n * DIV) k = (if n * k < 2 ^ 128 then Some (n * k) else None)"
  using laws by (simp add: fx_laws_def)

lemma vm_usage_fold_eq:
  assumes "\<forall>e \<in> set rs. map_of VM_RESOURCE_FEE_COSTS (fst e) \<noteq> None" "\<forall>e \<in> set rs. vm_cost e < 2 ^ 128"
  shows "vm_usage_fold fx rs acc = Ok (Max (insert acc (vm_cost ` set rs)))"
  using assms
proof (induction rs arbitrary: acc)
  case (Cons e rs)
  obtain k v where e: "e = (k, v)" by (cases e)
  with Cons.prems obtain c where c: "map_of VM_RESOURCE_FEE_COSTS k = Some c" by auto
  with Cons.prems e have "vm_cost e = c * unat v" "c * unat v < 2 ^ 128"
    by (auto simp: vm_cost_def)
  with Cons c e show ?case
    by (simp add: from_integer mul_exact Max_insert_max insert_commute del: Max_insert)
qed simp

lemma calculate_tx_fee_eq:
  assumes "map_of rs GAS_USAGE = Some g"
    and known: "\<forall>e \<in> set (vm_part rs). map_of VM_RESOURCE_FEE_COSTS (fst e) \<noteq> None"
    and fits: "ceil_units (unat g * DIV + heaviest (vm_part rs)) * DIV < 2 ^ 128"
  shows "calculate_tx_fee fx rs bc =
    (let units = ceil_units (unat g * DIV + heaviest (vm_part rs)) in
     if units * unat (bc_gas_price bc) < 2 ^ 128
     then Ok (word_of_nat (units * unat (bc_gas_price bc))) else Err FixedPointConversion)"
proof -
  let ?t = "unat g * DIV + heaviest (vm_part rs)"
  have le: "a \<le> ceil_units a * DIV" for a
    unfolding ceil_units_def DIV_def by simp
  from le [of ?t] fits have t: "?t < 2 ^ 128" by linarith
  have "\<forall>e \<in> set (vm_part rs). vm_cost e \<le> heaviest (vm_part rs)"
    unfolding heaviest_def by simp
  with t have small: "\<forall>e \<in> set (vm_part rs). vm_cost e < 2 ^ 128"
    by (metis add_lessD1 add.commute le_less_trans)
  have vm: "calculate_l1_gas_by_vm_usage fx (vm_part rs) = Ok (heaviest (vm_part rs))"
    using known by (auto simp: calculate_l1_gas_by_vm_usage_def list_ex_iff heaviest_def
        vm_usage_fold_eq [OF known small] split_beta)
  have add: "fx_add fx (unat g * DIV) (heaviest (vm_part rs)) = ?t"
    using laws t by (simp add: fx_laws_def)
  have ceil: "fx_ceil fx ?t = ceil_units ?t * DIV"
    using laws fits by (simp add: fx_laws_def ceil_units_def)
  show ?thesis
    using assms(1) vm
    by (simp add: calculate_tx_fee_def extract_l1_gas_and_vm_usage_def vm_part_def from_integer
        add [unfolded vm_part_def] ceil [unfolded vm_part_def] mul_int Let_def)
qed

end

definition fx_ref :: fx_api where
  "fx_ref = \<lparr>
     fx_checked_from_integer = (\<lambda>n. if n * DIV < 2 ^ 128 then Some (n * DIV) else None),
     fx_mul = (\<lambda>a b. a * b div DIV),
     fx_add = (\<lambda>a b. a + b),
     fx_ceil = (\<lambda>a. (a + DIV - 1) div DIV * DIV),
     fx_checked_mul_int = (\<lambda>a k. if a * k div DIV < 2 ^ 128 then Some (a * k div DIV) else None)\<rparr>"

lemma fx_ref_laws: "fx_laws fx_ref"
proof -
  have "n * DIV * k div DIV = n * k" "a * (n * DIV) div DIV = a * n" for n k a
    by (simp_all add: DIV_def)
  then show ?thesis by (simp add: fx_laws_def fx_ref_def)
qed

interpretation ref_fx: fixed_point fx_ref
  by unfold_locales (rule fx_ref_laws)

lemma charge_fee_cases:
  "fst (charge_fee ff sf fx bf bc atc rs True dfc q s) = Ok (0, None)"
  "fst (charge_fee ff sf fx bf bc atc rs False True q s) = map_ok (\<lambda>fee. (fee, None)) (calculate_tx_fee fx rs bc)"
  "snd (charge_fee ff sf fx bf bc atc rs True dfc q s) = s"
  "snd (charge_fee ff sf fx bf bc atc rs False True q s) = s"
  "charge_fee ff sf fx bf bc atc rs False dfc True = charge_fee ff sf fx bf bc atc rs False True q'"
  by (cases "calculate_tx_fee fx rs bc"; simp add: charge_fee_def ret_st_def bind_st_def fun_eq_iff)+

lemma execute_fee_transfer_le:
  "execute_fee_transfer ff sf bf bc atc fee s = (Ok ci, s') \<Longrightarrow> fee \<le> atc_max_fee atc"
  by (auto simp: execute_fee_transfer_def Let_def split: if_splits)

lemma execute_fee_transfer_ops [by_ops_intros]:
  assumes "bf_laws ff bf"
  shows "by_ops ff (execute_fee_transfer ff sf bf bc atc fee)"
  unfolding by_ops_def
proof
  fix s
  have "runs_on_state ff (bf_execute_call bf call)" for call
    using bf_laws_runs [OF assms] by blast
  from runs_on_stateD [OF this] show "state_ops ff s (snd (execute_fee_transfer ff sf bf bc atc fee s))"
    by (fastforce simp: execute_fee_transfer_def Let_def split: option.split prod.split)
qed

lemma charge_fee_ops [by_ops_intros]:
  "bf_laws ff bf \<Longrightarrow> by_ops ff (charge_fee ff sf fx bf bc atc rs dtf dfc q)"
  unfolding charge_fee_def by (intro by_ops_intros)

section \<open>Properties\<close>

text \<open>
  C17. The fee is the documented one, in exact arithmetic: with the L1 gas \<open>g\<close> and the heaviest of
  the Cairo resources (usage times cost), rounded up to whole units of gas and multiplied by the gas
  price; if only the last product leaves 128 bits the result is the error
  \<open>FixedPointConversion\<close>. The value depends on the set of resources only, so the iteration order of
  the hash map never matters, and nothing is lost in the 18-decimals intermediate values.
\<close>

theorem tx_fee_exact:
  assumes "fx_laws fx" "map_of rs GAS_USAGE = Some g"
    and "\<forall>e \<in> set (vm_part rs). map_of VM_RESOURCE_FEE_COSTS (fst e) \<noteq> None"
    and "ceil_units (unat g * DIV + heaviest (vm_part rs)) * DIV < 2 ^ 128"
  shows "calculate_tx_fee fx rs bc =
    (let units = ceil_units (unat g * DIV + heaviest (vm_part rs)) in
     if units * unat (bc_gas_price bc) < 2 ^ 128
     then Ok (word_of_nat (units * unat (bc_gas_price bc))) else Err FixedPointConversion)"
proof -
  have "fixed_point fx" using assms(1) by unfold_locales
  from fixed_point.calculate_tx_fee_eq [OF this assms(2-4)] show ?thesis .
qed

definition sample_context :: BlockContext where
  "sample_context = \<lparr>bc_block_number = 1, bc_block_timestamp = 0, bc_chain_id = [],
     bc_sequencer_address = felt_default, bc_fee_token_address = felt_default,
     bc_vm_resource_fee_cost = [], bc_invoke_tx_max_n_steps = 1000, bc_validate_max_n_steps = 1000,
     bc_gas_price = 10, bc_max_recursion_depth = 50\<rparr>"

theorem tx_fee_exact_witness:
  "calculate_tx_fee fx_ref [(''n_steps'', 150), (GAS_USAGE, 7), (''pedersen_builtin'', 3)] sample_context
     = Ok 90"
proof -
  let ?rs = "[(''n_steps'', 150), (GAS_USAGE, 7), (''pedersen_builtin'', 3)] :: ResourcesMapping"
  have part: "vm_part ?rs = [(''n_steps'', 150), (''pedersen_builtin'', 3)]"
    by (simp add: vm_part_def GAS_USAGE_def)
  have h: "heaviest (vm_part ?rs) = 1500000000000000000"
    by (simp add: part heaviest_def vm_cost_def VM_RESOURCE_FEE_COSTS_def)
  have u: "ceil_units (unat (7 :: u64) * DIV + heaviest (vm_part ?rs)) = 9"
    by (simp add: h ceil_units_def DIV_def)
  have gas: "map_of ?rs GAS_USAGE = Some 7"
    by (simp add: GAS_USAGE_def)
  have known: "\<forall>e \<in> set (vm_part ?rs). map_of VM_RESOURCE_FEE_COSTS (fst e) \<noteq> None"
    by (simp add: part VM_RESOURCE_FEE_COSTS_def)
  have fits: "ceil_units (unat (7 :: u64) * DIV + heaviest (vm_part ?rs)) * DIV < 2 ^ 128"
    unfolding u by (simp add: DIV_def)
  show ?thesis
    unfolding tx_fee_exact [OF fx_ref_laws gas known fits] u by (simp add: sample_context_def)
qed

text \<open>
  C8. Charging is safe on every branch: with fees disabled the fee is zero; in query mode or with
  charging disabled the computed fee is reported; in these cases the state is untouched. Otherwise a
  successful charge never exceeds the transaction's maximal fee, an excessive fee is refused with
  \<open>FeeTransferError\<close> before anything is written, and the state changes only by steps of the
  contract state interface.
\<close>

theorem charge_fee_safe:
  assumes "bf_laws ff bf" "charge_fee ff sf fx bf bc atc rs dtf dfc q s = (r, s')"
  shows "(dtf \<longrightarrow> r = Ok (0, None) \<and> s' = s) \<and>
    (\<not> dtf \<and> (dfc \<or> q) \<longrightarrow> r = map_ok (\<lambda>fee. (fee, None)) (calculate_tx_fee fx rs bc) \<and> s' = s) \<and>
    (\<not> dtf \<and> \<not> dfc \<and> \<not> q \<longrightarrow>
       (\<forall>fee ci. r = Ok (fee, ci) \<longrightarrow> fee \<le> atc_max_fee atc \<and> calculate_tx_fee fx rs bc = Ok fee) \<and>
       (\<forall>fee. calculate_tx_fee fx rs bc = Ok fee \<and> fee > atc_max_fee atc \<longrightarrow>
          r = Err (FeeTransferError (atc_max_fee atc) fee) \<and> s' = s)) \<and>
    state_ops ff s s'"
proof -
  have "state_ops ff s s'"
    using charge_fee_ops [OF assms(1)] assms(2) by (rule by_opsD)
  moreover have "dtf \<longrightarrow> r = Ok (0, None) \<and> s' = s"
    using assms(2) by (auto simp: charge_fee_def ret_st_def)
  moreover have "\<not> dtf \<and> (dfc \<or> q) \<longrightarrow>
      r = map_ok (\<lambda>fee. (fee, None)) (calculate_tx_fee fx rs bc) \<and> s' = s"
    using assms(2) by (cases "calculate_tx_fee fx rs bc") (auto simp: charge_fee_def ret_st_def)
  moreover have "\<not> dtf \<and> \<not> dfc \<and> \<not> q \<longrightarrow>
      (\<forall>fee ci. r = Ok (fee, ci) \<longrightarrow> fee \<le> atc_max_fee atc \<and> calculate_tx_fee fx rs bc = Ok fee)"
    using assms(2) by (auto simp: charge_fee_def bind_st_Ok_iff ret_st_def dest: execute_fee_transfer_le)
  moreover have "\<not> dtf \<and> \<not> dfc \<and> \<not> q \<longrightarrow>
      (\<forall>fee. calculate_tx_fee fx rs bc = Ok fee \<and> fee > atc_max_fee atc \<longrightarrow>
         r = Err (FeeTransferError (atc_max_fee atc) fee) \<and> s' = s)"
    using assms(2) by (auto simp: charge_fee_def bind_st_def execute_fee_transfer_def Let_def)
  ultimately show ?thesis by blast
qed

definition sample_atc :: AccountTransactionContext where
  "sample_atc = \<lparr>atc_transaction_hash = felt_default, atc_max_fee = 80, atc_version = felt_default,
     atc_signature = [], atc_nonce = felt_default, atc_sender_address = felt_default\<rparr>"

theorem charge_fee_safe_witness:
  "fst (charge_fee ff_ref sf_ref fx_ref bf_ref sample_context sample_atc
      [(''n_steps'', 150), (GAS_USAGE, 7), (''pedersen_builtin'', 3)] False False False
      \<lparr>bs_pallet = empty_storage, bs_adapter = adapter_default\<rparr>) = Err (FeeTransferError 80 90)"
proof -
  let ?rs = "[(''n_steps'', 150), (GAS_USAGE, 7), (''pedersen_builtin'', 3)] :: ResourcesMapping"
  let ?c = "charge_fee ff_ref sf_ref fx_ref bf_ref sample_context sample_atc ?rs False False False
      \<lparr>bs_pallet = empty_storage, bs_adapter = adapter_default\<rparr>"
  have fee: "calculate_tx_fee fx_ref ?rs sample_context = Ok 90"
    by (simp add: calculate_tx_fee_def extract_l1_gas_and_vm_usage_def GAS_USAGE_def
        calculate_l1_gas_by_vm_usage_def VM_RESOURCE_FEE_COSTS_def fx_ref_def DIV_def sample_context_def)
  obtain r s' where c: "?c = (r, s')" by fastforce
  from charge_fee_safe [OF bf_ref_laws c] have
    "\<forall>fee. calculate_tx_fee fx_ref ?rs sample_context = Ok fee \<and> fee > atc_max_fee sample_atc \<longrightarrow>
       r = Err (FeeTransferError (atc_max_fee sample_atc) fee)"
    by blast
  with fee have "r = Err (FeeTransferError 80 90)"
    by (simp add: sample_atc_def)
  with c show ?thesis by simp
qed

end
