(* ===== verification/Execution.thy ===== *)
theory Execution
  imports Conversions Fee
begin

text \<open>
  Execution of transactions, \<^verbatim>\<open>mp-transactions/src/execution.rs\<close>: account contexts, validation,
  the nonce and balance checks, the execution of the four kinds of transactions and the fee. The
  traits \<open>Validate\<close> and \<open>Execute\<close> have default methods, which are higher-order functions here;
  each \<open>impl\<close> passes its own parts. The configuration builder of the pallet
  (\<^verbatim>\<open>execution_config.rs\<close>) and the simulation flags (\<^verbatim>\<open>mp-simulations\<close>) are here as well.
\<close>

section \<open>Configuration\<close>

record ExecutionConfig =
  is_query :: bool
  offset_version :: bool
  disable_transaction_fee :: bool
  disable_fee_charge :: bool
  disable_nonce_validation :: bool
  disable_validation :: bool

definition set_offset_version :: "bool \<Rightarrow> ExecutionConfig \<Rightarrow> ExecutionConfig" where
  "set_offset_version v self = self\<lparr>offset_version := v\<rparr>"

datatype SimulationFlag = SkipValidate | SkipFeeCharge

record SimulationFlags =
  skip_validate :: bool
  skip_fee_charge :: bool

fun simulation_flags_loop :: "SimulationFlag list \<Rightarrow> bool \<Rightarrow> bool \<Rightarrow> bool \<times> bool" where
  "simulation_flags_loop [] v c = (v, c)"
| "simulation_flags_loop (flag # rest) v c =
     (let v = (case flag of SkipValidate \<Rightarrow> True | SkipFeeCharge \<Rightarrow> v);
          c = (case flag of SkipValidate \<Rightarrow> c | SkipFeeCharge \<Rightarrow> True)
      in if v \<and> c then (v, c) else simulation_flags_loop rest v c)"

definition simulation_flags_from :: "SimulationFlag list \<Rightarrow> SimulationFlags" where
  "simulation_flags_from flags =
     (case simulation_flags_loop flags False False of
        (v, c) \<Rightarrow> \<lparr>skip_validate = v, skip_fee_charge = c\<rparr>)"

definition config_builder_new :: "bool \<Rightarrow> bool \<Rightarrow> ExecutionConfig" where
  "config_builder_new T_DisableNonceValidation T_DisableTransactionFee =
     \<lparr>is_query = False, offset_version = False, disable_transaction_fee = T_DisableTransactionFee,
      disable_fee_charge = False, disable_nonce_validation = T_DisableNonceValidation,
      disable_validation = False\<rparr>"

definition with_query_mode :: "ExecutionConfig \<Rightarrow> ExecutionConfig" where
  "with_query_mode self = self\<lparr>is_query := True\<rparr>"

definition with_simulation_mode :: "SimulationFlags \<Rightarrow> ExecutionConfig \<Rightarrow> ExecutionConfig" where
  "with_simulation_mode flags self =
     self\<lparr>disable_fee_charge := skip_fee_charge flags, disable_validation := skip_validate flags\<rparr>"

definition with_disable_nonce_validation :: "ExecutionConfig \<Rightarrow> ExecutionConfig" where
  "with_disable_nonce_validation self = self\<lparr>disable_nonce_validation := True\<rparr>"

definition with_offset_version :: "ExecutionConfig \<Rightarrow> ExecutionConfig" where
  "with_offset_version self = self\<lparr>offset_version := True\<rparr>"

section \<open>Account contexts\<close>

text \<open>Accessors of starknet-api's transaction types.\<close>

fun st_declare_version :: "sf_api \<Rightarrow> st_DeclareTransaction \<Rightarrow> stark_felt" where
  "st_declare_version sf (StDeclareV0 _) = sf_from_u8 sf 0"
| "st_declare_version sf (StDeclareV1 _) = sf_from_u8 sf 1"
| "st_declare_version sf (StDeclareV2 _) = sf_from_u8 sf 2"

fun st_declare_max_fee :: "st_DeclareTransaction \<Rightarrow> Fee" where
  "st_declare_max_fee (StDeclareV0 t) = sd01_max_fee t"
| "st_declare_max_fee (StDeclareV1 t) = sd01_max_fee t"
| "st_declare_max_fee (StDeclareV2 t) = sd2_max_fee t"

fun st_declare_signature :: "st_DeclareTransaction \<Rightarrow> stark_felt list" where
  "st_declare_signature (StDeclareV0 t) = sd01_signature t"
| "st_declare_signature (StDeclareV1 t) = sd01_signature t"
| "st_declare_signature (StDeclareV2 t) = sd2_signature t"

fun st_declare_nonce :: "st_DeclareTransaction \<Rightarrow> nonce" where
  "st_declare_nonce (StDeclareV0 t) = sd01_nonce t"
| "st_declare_nonce (StDeclareV1 t) = sd01_nonce t"
| "st_declare_nonce (StDeclareV2 t) = sd2_nonce t"

fun st_declare_sender_address :: "st_DeclareTransaction \<Rightarrow> contract_address" where
  "st_declare_sender_address (StDeclareV0 t) = sd01_sender_address t"
| "st_declare_sender_address (StDeclareV1 t) = sd01_sender_address t"
| "st_declare_sender_address (StDeclareV2 t) = sd2_sender_address t"

fun st_declare_class_hash :: "st_DeclareTransaction \<Rightarrow> class_hash" where
  "st_declare_class_hash (StDeclareV0 t) = sd01_class_hash t"
| "st_declare_class_hash (StDeclareV1 t) = sd01_class_hash t"
| "st_declare_class_hash (StDeclareV2 t) = sd2_class_hash t"

fun st_invoke_max_fee :: "st_InvokeTransaction \<Rightarrow> Fee" where
  "st_invoke_max_fee (StInvokeV0 t) = si0_max_fee t"
| "st_invoke_max_fee (StInvokeV1 t) = si1_max_fee t"

fun st_invoke_signature :: "st_InvokeTransaction \<Rightarrow> stark_felt list" where
  "st_invoke_signature (StInvokeV0 t) = si0_signature t"
| "st_invoke_signature (StInvokeV1 t) = si1_signature t"

fun st_invoke_calldata :: "st_InvokeTransaction \<Rightarrow> stark_felt list" where
  "st_invoke_calldata (StInvokeV0 t) = si0_calldata t"
| "st_invoke_calldata (StInvokeV1 t) = si1_calldata t"

definition apply_simulate_tx_version_offset :: "ff_api \<Rightarrow> stark_felt \<Rightarrow> (stark_felt, 'e) result" where
  "apply_simulate_tx_version_offset ff self =
     and_then (unwrap (felt_from_stark_felt ff self)) (\<lambda>v.
       felt_into ff (ff_add ff v (SIMULATE_TX_VERSION_OFFSET ff)))"

definition offset_if :: "ff_api \<Rightarrow> bool \<Rightarrow> stark_felt \<Rightarrow> (stark_felt, 'e) result" where
  "offset_if ff off version = (if off then apply_simulate_tx_version_offset ff version else Ok version)"

definition declare_account_context ::
    "ff_api \<Rightarrow> sf_api \<Rightarrow> 'c btx_DeclareTransaction \<Rightarrow> bool \<Rightarrow> (AccountTransactionContext, 'e) result" where
  "declare_account_context ff sf self off =
     and_then (offset_if ff off (st_declare_version sf (bd_tx self))) (\<lambda>version.
       Ok \<lparr>atc_transaction_hash = bd_tx_hash self, atc_max_fee = st_declare_max_fee (bd_tx self),
           atc_version = version, atc_signature = st_declare_signature (bd_tx self),
           atc_nonce = st_declare_nonce (bd_tx self),
           atc_sender_address = st_declare_sender_address (bd_tx self)\<rparr>)"

definition deploy_account_context ::
    "ff_api \<Rightarrow> btx_DeployAccountTransaction \<Rightarrow> bool \<Rightarrow> (AccountTransactionContext, 'e) result" where
  "deploy_account_context ff self off =
     and_then (offset_if ff off (sda_version (bda_tx self))) (\<lambda>version.
       Ok \<lparr>atc_transaction_hash = bda_tx_hash self, atc_max_fee = sda_max_fee (bda_tx self),
           atc_version = version, atc_signature = sda_signature (bda_tx self),
           atc_nonce = sda_nonce (bda_tx self), atc_sender_address = bda_contract_address self\<rparr>)"

definition invoke_account_context ::
    "ff_api \<Rightarrow> sf_api \<Rightarrow> btx_InvokeTransaction \<Rightarrow> bool \<Rightarrow> (AccountTransactionContext, 'e) result" where
  "invoke_account_context ff sf self off =
     (let version = (case bi_tx self of StInvokeV0 _ \<Rightarrow> sf_from_u8 sf 0 | StInvokeV1 _ \<Rightarrow> sf_from_u8 sf 1) in
     and_then (offset_if ff off version) (\<lambda>version.
       (let nonce = (case bi_tx self of StInvokeV0 _ \<Rightarrow> felt_default | StInvokeV1 tx \<Rightarrow> si1_nonce tx);
            sender_address = (case bi_tx self of
               StInvokeV0 tx \<Rightarrow> si0_contract_address tx | StInvokeV1 tx \<Rightarrow> si1_sender_address tx)
        in Ok \<lparr>atc_transaction_hash = bi_tx_hash self, atc_max_fee = st_invoke_max_fee (bi_tx self),
               atc_version = version, atc_signature = st_invoke_signature (bi_tx self),
               atc_nonce = nonce, atc_sender_address = sender_address\<rparr>)))"

definition l1_account_context ::
    "ff_api \<Rightarrow> btx_L1HandlerTransaction \<Rightarrow> bool \<Rightarrow> (AccountTransactionContext, 'e) result" where
  "l1_account_context ff self off =
     and_then (offset_if ff off (sl1_version (bl_tx self))) (\<lambda>version.
       Ok \<lparr>atc_transaction_hash = bl_tx_hash self, atc_max_fee = 0, atc_version = version,
           atc_signature = [], atc_nonce = sl1_nonce (bl_tx self),
           atc_sender_address = sl1_contract_address (bl_tx self)\<rparr>)"

section \<open>Calldata of the validation entry points\<close>

definition declare_calldata :: "'c btx_DeclareTransaction \<Rightarrow> stark_felt list" where
  "declare_calldata self = [st_declare_class_hash (bd_tx self)]"

definition deploy_account_calldata :: "btx_DeployAccountTransaction \<Rightarrow> stark_felt list" where
  "deploy_account_calldata self =
     [sda_class_hash (bda_tx self), sda_contract_address_salt (bda_tx self)]
     @ sda_constructor_calldata (bda_tx self)"

definition invoke_tx_calldata :: "btx_InvokeTransaction \<Rightarrow> stark_felt list" where
  "invoke_tx_calldata self = st_invoke_calldata (bi_tx self)"

definition l1_tx_calldata :: "btx_L1HandlerTransaction \<Rightarrow> stark_felt list" where
  "l1_tx_calldata self = sl1_calldata (bl_tx self)"

section \<open>Validation\<close>

definition put_gas :: "u64 \<Rightarrow> (unit, 'e, 'c, 'r, 'x) exec" where
  "put_gas g e = (Ok (), e\<lparr>ee_gas := g\<rparr>)"

definition put_context :: "'x EntryPointExecutionContext \<Rightarrow> (unit, 'e, 'c, 'r, 'x) exec" where
  "put_context c e = (Ok (), e\<lparr>ee_context := c\<rparr>)"

definition validate_tx_inner ::
    "('c, 'r, 'x) bf_api \<Rightarrow> string \<Rightarrow> stark_felt list
      \<Rightarrow> (CallInfo option, TransactionExecutionError, 'c, 'r, 'x) exec" where
  "validate_tx_inner bf VALIDATE_TX_ENTRY_POINT_NAME calldata =
     bind_st get_st (\<lambda>e.
       if bf_is_v0 bf (ectx_account_tx_context (ee_context e)) then ret_st (Ok None)
       else
         (let storage_address = atc_sender_address (ectx_account_tx_context (ee_context e));
              validate_call = \<lparr>cep_class_hash = None, cep_code_address = None,
                cep_entry_point_type = EP_External,
                cep_entry_point_selector = bf_selector_from_name bf VALIDATE_TX_ENTRY_POINT_NAME,
                cep_calldata = calldata, cep_storage_address = storage_address,
                cep_caller_address = felt_default, cep_call_type = CT_Call, cep_initial_gas = ee_gas e\<rparr>
          in bind_st (map_err_st ValidateTransactionError (bf_execute_call bf validate_call)) (\<lambda>validate_call_info.
             bind_st (ret_st (bf_verify_no_calls_to_other_contracts bf validate_call_info
                 (bf_VALIDATE_ENTRY_POINT_NAME bf))) (\<lambda>_.
             bind_st get_st (\<lambda>e'.
             bind_st (put_gas (bf_update_remaining_gas bf (ee_gas e') validate_call_info)) (\<lambda>_.
               ret_st (Ok (Some validate_call_info))))))))"

text \<open>
  \<open>validate_tx\<close>, used for the pool: a fresh context for the account, whose last argument is the
  simulation offset of the version.
\<close>

definition validate_tx ::
    "('c, 'r, 'x) bf_api \<Rightarrow> string \<Rightarrow> stark_felt list \<Rightarrow> (bool \<Rightarrow> (AccountTransactionContext, TransactionExecutionError) result)
      \<Rightarrow> BlockContext \<Rightarrow> bool \<Rightarrow> (CallInfo option, TransactionExecutionError, 'c, 'r, 'x) exec" where
  "validate_tx bf ep_name calldata account_context block_context off =
     bind_st (ret_st (account_context off)) (\<lambda>account_tx_context.
     bind_st (put_context (bf_new_context bf block_context account_tx_context
         (bc_invoke_tx_max_n_steps block_context))) (\<lambda>_.
       validate_tx_inner bf ep_name calldata))"

section \<open>Nonce and balance\<close>

definition state_st :: "(unit, StateError, 'c bstate) st \<Rightarrow> (unit, TransactionExecutionError, 'c bstate) st" where
  "state_st m = map_err_st TxStateError m"

definition handle_nonce ::
    "ff_api \<Rightarrow> sf_api \<Rightarrow> AccountTransactionContext \<Rightarrow> (unit, TransactionExecutionError, 'c bstate) st" where
  "handle_nonce ff sf account_tx_context =
     (if atc_version account_tx_context = sf_from_u8 sf 0 then ret_st (Ok ())
      else
        (let address = atc_sender_address account_tx_context in
         bind_st get_st (\<lambda>s.
         bind_st (ret_st (map_err TxStateError (get_nonce_at s address))) (\<lambda>current_nonce.
           if current_nonce \<noteq> atc_nonce account_tx_context
           then ret_st (Err (InvalidNonce address current_nonce (atc_nonce account_tx_context)))
           else state_st (increment_nonce ff address)))))"

text \<open>The order of \<open>StarkFelt\<close> is the one of its 32 big-endian bytes.\<close>

definition felt_lt :: "stark_felt \<Rightarrow> stark_felt \<Rightarrow> bool" where
  "felt_lt a b \<longleftrightarrow> be_val a < be_val b"

definition handle_nonce_and_check_fee_balance ::
    "ff_api \<Rightarrow> sf_api \<Rightarrow> ('c, 'r, 'x) bf_api \<Rightarrow> BlockContext \<Rightarrow> AccountTransactionContext \<Rightarrow> ExecutionConfig
      \<Rightarrow> (unit, TransactionExecutionError, 'c bstate) st" where
  "handle_nonce_and_check_fee_balance ff sf bf block_context account_tx_context execution_config =
     bind_st (if \<not> disable_nonce_validation execution_config
              then handle_nonce ff sf account_tx_context else ret_st (Ok ())) (\<lambda>_.
       if atc_max_fee account_tx_context \<noteq> 0 \<and> \<not> disable_fee_charge execution_config
          \<and> \<not> disable_transaction_fee execution_config \<and> \<not> is_query execution_config
       then bind_st get_st (\<lambda>s.
            bind_st (ret_st (map_err TxStateError (bf_get_fee_token_balance bf s block_context
                (atc_sender_address account_tx_context)))) (\<lambda>(balance_low, balance_high).
              if \<not> felt_lt (sf_from_u8 sf 0) balance_high
                 \<and> felt_lt balance_low (sf_from_u128 sf (atc_max_fee account_tx_context))
              then ret_st (Err (MaxFeeExceedsBalance (atc_max_fee account_tx_context)
                balance_low balance_high))
              else ret_st (Ok ())))
       else ret_st (Ok ()))"

section \<open>The four kinds of transactions\<close>

record ValidateExecuteCallInfo =
  ve_validate_call_info :: "CallInfo option"
  ve_execute_call_info :: "CallInfo option"
  ve_revert_error :: "string option"

definition new_accepted :: "CallInfo option \<Rightarrow> CallInfo option \<Rightarrow> ValidateExecuteCallInfo" where
  "new_accepted v e = \<lparr>ve_validate_call_info = v, ve_execute_call_info = e, ve_revert_error = None\<rparr>"

definition new_reverted :: "CallInfo option \<Rightarrow> string \<Rightarrow> ValidateExecuteCallInfo" where
  "new_reverted v err = \<lparr>ve_validate_call_info = v, ve_execute_call_info = None, ve_revert_error = Some err\<rparr>"

text \<open>
  \<open>match self.run_execute(..)\<close>: a failed execution is not an error but a reverted outcome; the
  state stays as the failed execution left it.
\<close>

definition or_reverted ::
    "('c, 'r, 'x) bf_api \<Rightarrow> CallInfo option \<Rightarrow> (CallInfo option, TransactionExecutionError, 'c, 'r, 'x) exec
      \<Rightarrow> (ValidateExecuteCallInfo, TransactionExecutionError, 'c, 'r, 'x) exec" where
  "or_reverted bf validate_call_info run e =
     (case run e of
        (Ok execute_call_info, e') \<Rightarrow> (Ok (new_accepted validate_call_info execute_call_info), e')
      | (Err err, e') \<Rightarrow> (Ok (new_reverted validate_call_info (bf_error_trace bf (ee_context e'))), e')
      | (Panic, e') \<Rightarrow> (Panic, e'))"

definition fresh_context ::
    "('c, 'r, 'x) bf_api \<Rightarrow> BlockContext \<Rightarrow> AccountTransactionContext \<Rightarrow> 'x EntryPointExecutionContext" where
  "fresh_context bf block_context account_tx_context =
     bf_new_context bf block_context account_tx_context (bc_invoke_tx_max_n_steps block_context)"

definition invoke_execute_inner ::
    "('c, 'r, 'x) bf_api \<Rightarrow> btx_InvokeTransaction \<Rightarrow> BlockContext \<Rightarrow> AccountTransactionContext \<Rightarrow> bool
      \<Rightarrow> (ValidateExecuteCallInfo, TransactionExecutionError, 'c, 'r, 'x) exec" where
  "invoke_execute_inner bf self block_context account_tx_context no_validation =
     bind_st (put_context (fresh_context bf block_context account_tx_context)) (\<lambda>_.
     bind_st (if \<not> no_validation
              then validate_tx_inner bf (bf_VALIDATE_ENTRY_POINT_NAME bf) (invoke_tx_calldata self)
              else ret_st (Ok None)) (\<lambda>validate_call_info.
       (case bi_tx self of
          StInvokeV0 _ \<Rightarrow>
            bind_st (bf_run_invoke bf self) (\<lambda>execute_call_info.
              ret_st (Ok (new_accepted validate_call_info execute_call_info)))
        | StInvokeV1 _ \<Rightarrow> or_reverted bf validate_call_info (bf_run_invoke bf self))))"

definition declare_execute_inner ::
    "('c, 'r, 'x) bf_api \<Rightarrow> 'c btx_DeclareTransaction \<Rightarrow> BlockContext \<Rightarrow> AccountTransactionContext \<Rightarrow> bool
      \<Rightarrow> (ValidateExecuteCallInfo, TransactionExecutionError, 'c, 'r, 'x) exec" where
  "declare_execute_inner bf self block_context account_tx_context no_validation =
     bind_st (put_context (fresh_context bf block_context account_tx_context)) (\<lambda>_.
     bind_st (if \<not> no_validation
              then validate_tx_inner bf (bf_VALIDATE_DECLARE_ENTRY_POINT_NAME bf) (declare_calldata self)
              else ret_st (Ok None)) (\<lambda>validate_call_info.
       (case bd_tx self of
          StDeclareV0 _ \<Rightarrow>
            bind_st (bf_run_declare bf self) (\<lambda>execute_call_info.
              ret_st (Ok (new_accepted validate_call_info execute_call_info)))
        | _ \<Rightarrow> or_reverted bf validate_call_info (bf_run_declare bf self))))"

definition deploy_execute_inner ::
    "('c, 'r, 'x) bf_api \<Rightarrow> btx_DeployAccountTransaction \<Rightarrow> BlockContext \<Rightarrow> AccountTransactionContext \<Rightarrow> bool
      \<Rightarrow> (ValidateExecuteCallInfo, TransactionExecutionError, 'c, 'r, 'x) exec" where
  "deploy_execute_inner bf self block_context account_tx_context no_validation =
     bind_st (put_context (fresh_context bf block_context account_tx_context)) (\<lambda>_.
     bind_st (bf_run_deploy bf self) (\<lambda>execute_call_info.
     bind_st (if \<not> no_validation
              then validate_tx_inner bf (bf_VALIDATE_DEPLOY_ENTRY_POINT_NAME bf) (deploy_account_calldata self)
              else ret_st (Ok None)) (\<lambda>validate_call_info.
       ret_st (Ok (new_accepted validate_call_info execute_call_info)))))"

definition l1_execute_inner ::
    "('c, 'r, 'x) bf_api \<Rightarrow> btx_L1HandlerTransaction \<Rightarrow> BlockContext \<Rightarrow> AccountTransactionContext \<Rightarrow> bool
      \<Rightarrow> (ValidateExecuteCallInfo, TransactionExecutionError, 'c, 'r, 'x) exec" where
  "l1_execute_inner bf self block_context account_tx_context no_validation =
     bind_st (put_context (fresh_context bf block_context account_tx_context)) (\<lambda>_.
     bind_st (bf_run_l1 bf self) (\<lambda>execute_call_info.
       ret_st (Ok (new_accepted None execute_call_info))))"

section \<open>Fees and the whole execution\<close>

type_synonym fee_outcome = "Fee \<times> CallInfo option \<times> ResourcesMapping"

definition handle_fee ::
    "ff_api \<Rightarrow> sf_api \<Rightarrow> fx_api \<Rightarrow> ('c, 'r, 'x) bf_api \<Rightarrow> TransactionType \<Rightarrow> CallInfo option \<Rightarrow> CallInfo option \<Rightarrow> 'r
      \<Rightarrow> BlockContext \<Rightarrow> AccountTransactionContext \<Rightarrow> ExecutionConfig
      \<Rightarrow> (fee_outcome, TransactionExecutionError, 'c bstate) st" where
  "handle_fee ff sf fx bf tx_type execute_call_info validate_call_info execution_resources block_context
       account_tx_context execution_config =
     bind_st get_st (\<lambda>s.
     bind_st (ret_st (compute_transaction_resources bf s execute_call_info validate_call_info
         execution_resources tx_type None)) (\<lambda>actual_resources.
     bind_st (charge_fee ff sf fx bf block_context account_tx_context actual_resources
         (disable_transaction_fee execution_config) (disable_fee_charge execution_config)
         (is_query execution_config)) (\<lambda>(actual_fee, fee_transfer_call_info).
       ret_st (Ok (actual_fee, fee_transfer_call_info, actual_resources)))))"

text \<open>
  L1 handlers pay nothing on L2, but some fee must have been paid on L1. \<open>calldata.len() - 1\<close>
  leaves its type on empty calldata; the build decides what that is.
\<close>

definition l1_handle_fee ::
    "build \<Rightarrow> fx_api \<Rightarrow> ('c, 'r, 'x) bf_api \<Rightarrow> btx_L1HandlerTransaction \<Rightarrow> CallInfo option \<Rightarrow> CallInfo option \<Rightarrow> 'r
      \<Rightarrow> BlockContext \<Rightarrow> (fee_outcome, TransactionExecutionError, 'c bstate) st" where
  "l1_handle_fee b fx bf self execute_call_info validate_call_info execution_resources block_context =
     bind_st (ret_st (machine_int (overflow_checks b) (usize_bits b) (int (length (l1_tx_calldata self)) - 1)))
       (\<lambda>l1_handler_payload_size.
     bind_st get_st (\<lambda>s.
     bind_st (ret_st (compute_transaction_resources bf s execute_call_info validate_call_info
         execution_resources TT_L1Handler (Some l1_handler_payload_size))) (\<lambda>actual_resources.
     bind_st (ret_st (calculate_tx_fee fx actual_resources block_context)) (\<lambda>actual_fee.
       (let paid_fee = bl_paid_fee_on_l1 self in
        if paid_fee = 0 then ret_st (Err (InsufficientL1Fee paid_fee actual_fee))
        else ret_st (Ok (0, None, actual_resources)))))))"

record TransactionExecutionInfo =
  tei_validate_call_info :: "CallInfo option"
  tei_execute_call_info :: "CallInfo option"
  tei_fee_transfer_call_info :: "CallInfo option"
  tei_actual_fee :: Fee
  tei_actual_resources :: ResourcesMapping
  tei_revert_error :: "string option"

definition TX_INITIAL_AVAILABLE_GAS :: "('c, 'r, 'x) bf_api \<Rightarrow> u64" where
  "TX_INITIAL_AVAILABLE_GAS bf = bf_INITIAL_GAS_COST bf - bf_TRANSACTION_GAS_COST bf"

text \<open>Runs an execution on the state with default resources; the resources used are returned.\<close>

definition with_env ::
    "('c, 'r, 'x) bf_api \<Rightarrow> 'x EntryPointExecutionContext \<Rightarrow> ('a, 'e, 'c, 'r, 'x) exec
      \<Rightarrow> ('a \<times> 'r, 'e, 'c bstate) st" where
  "with_env bf ctx m s =
     (case m \<lparr>ee_state = s, ee_resources = bf_resources_default bf, ee_context = ctx,
             ee_gas = TX_INITIAL_AVAILABLE_GAS bf\<rparr> of
        (r, e) \<Rightarrow> (map_ok (\<lambda>x. (x, ee_resources e)) r, ee_state e))"

definition execute_tx ::
    "ff_api \<Rightarrow> sf_api \<Rightarrow> ('c, 'r, 'x) bf_api
      \<Rightarrow> (bool \<Rightarrow> (AccountTransactionContext, TransactionExecutionError) result)
      \<Rightarrow> (BlockContext \<Rightarrow> AccountTransactionContext \<Rightarrow> bool
           \<Rightarrow> (ValidateExecuteCallInfo, TransactionExecutionError, 'c, 'r, 'x) exec)
      \<Rightarrow> (CallInfo option \<Rightarrow> CallInfo option \<Rightarrow> 'r \<Rightarrow> BlockContext \<Rightarrow> AccountTransactionContext \<Rightarrow> ExecutionConfig
           \<Rightarrow> (fee_outcome, TransactionExecutionError, 'c bstate) st)
      \<Rightarrow> BlockContext \<Rightarrow> ExecutionConfig
      \<Rightarrow> (TransactionExecutionInfo, TransactionExecutionError, 'c bstate) st" where
  "execute_tx ff sf bf account_context execute_inner fee block_context execution_config =
     bind_st (ret_st (account_context (offset_version execution_config))) (\<lambda>account_tx_context.
     bind_st (handle_nonce_and_check_fee_balance ff sf bf block_context account_tx_context
         execution_config) (\<lambda>_.
     bind_st (with_env bf (fresh_context bf block_context account_tx_context)
         (execute_inner block_context account_tx_context (disable_validation execution_config)))
       (\<lambda>(info, execution_resources).
     bind_st (fee (ve_execute_call_info info) (ve_validate_call_info info) execution_resources
         block_context account_tx_context execution_config)
       (\<lambda>(actual_fee, fee_transfer_call_info, actual_resources).
       ret_st (Ok \<lparr>tei_validate_call_info = ve_validate_call_info info,
         tei_execute_call_info = ve_execute_call_info info,
         tei_fee_transfer_call_info = fee_transfer_call_info, tei_actual_fee = actual_fee,
         tei_actual_resources = actual_resources, tei_revert_error = ve_revert_error info\<rparr>)))))"

definition execute_invoke where
  "execute_invoke ff sf fx bf tx =
     execute_tx ff sf bf (invoke_account_context ff sf tx) (invoke_execute_inner bf tx)
       (handle_fee ff sf fx bf TT_InvokeFunction)"

definition execute_declare where
  "execute_declare ff sf fx bf tx =
     execute_tx ff sf bf (declare_account_context ff sf tx) (declare_execute_inner bf tx)
       (handle_fee ff sf fx bf TT_Declare)"

definition execute_deploy where
  "execute_deploy ff sf fx bf tx =
     execute_tx ff sf bf (deploy_account_context ff tx) (deploy_execute_inner bf tx)
       (handle_fee ff sf fx bf TT_DeployAccount)"

definition execute_l1 where
  "execute_l1 b ff sf fx bf tx =
     execute_tx ff sf bf (l1_account_context ff tx) (l1_execute_inner bf tx)
       (\<lambda>eci vci res bc atc cfg. l1_handle_fee b fx bf tx eci vci res bc)"

section \<open>Executions act through the contract state interface\<close>

lemma by_ops_get [by_ops_intros]: "by_ops ff get_st"
  by (simp add: by_ops_def get_st_def)

lemma runs_get [by_ops_intros]: "runs_on_state ff get_st"
  by (simp add: runs_on_state_def get_st_def)

lemma runs_put [by_ops_intros]: "runs_on_state ff (put_gas g)" "runs_on_state ff (put_context c)"
  by (simp_all add: runs_on_state_def put_gas_def put_context_def)

lemma runs_or_reverted [by_ops_intros]: "runs_on_state ff m \<Longrightarrow> runs_on_state ff (or_reverted bf v m)"
  unfolding runs_on_state_def or_reverted_def
  by (auto split: prod.split result.split) (metis snd_conv)+

lemma by_ops_prod [by_ops_intros]: "(\<And>a b. by_ops ff (f a b)) \<Longrightarrow> by_ops ff (case p of (a, b) \<Rightarrow> f a b)"
  by (cases p) simp

lemma runs_case_invoke [by_ops_intros]:
  "(\<And>t. runs_on_state ff (f t)) \<Longrightarrow> (\<And>t. runs_on_state ff (g t)) \<Longrightarrow>
     runs_on_state ff (case x of StInvokeV0 t \<Rightarrow> f t | StInvokeV1 t \<Rightarrow> g t)"
  by (cases x) simp_all

lemma runs_case_declare [by_ops_intros]:
  "(\<And>t. runs_on_state ff (f t)) \<Longrightarrow> (\<And>t. runs_on_state ff (g t)) \<Longrightarrow> (\<And>t. runs_on_state ff (h t)) \<Longrightarrow>
     runs_on_state ff (case x of StDeclareV0 t \<Rightarrow> f t | StDeclareV1 t \<Rightarrow> g t | StDeclareV2 t \<Rightarrow> h t)"
  by (cases x) simp_all

lemma validate_tx_inner_runs [by_ops_intros]:
  "bf_laws ff bf \<Longrightarrow> runs_on_state ff (validate_tx_inner bf name calldata)"
  unfolding validate_tx_inner_def Let_def by (intro by_ops_intros)

lemma execute_inner_runs [by_ops_intros]:
  assumes "bf_laws ff bf"
  shows "runs_on_state ff (invoke_execute_inner bf ti bc atc nv)"
    "runs_on_state ff (declare_execute_inner bf td bc atc nv)"
    "runs_on_state ff (deploy_execute_inner bf tda bc atc nv)"
    "runs_on_state ff (l1_execute_inner bf th bc atc nv)"
  unfolding invoke_execute_inner_def declare_execute_inner_def deploy_execute_inner_def
    l1_execute_inner_def
  by (intro by_ops_intros assms)+

lemma with_env_ops [by_ops_intros]: "runs_on_state ff m \<Longrightarrow> by_ops ff (with_env bf ctx m)"
  unfolding by_ops_def with_env_def
  by (auto split: prod.split dest: runs_on_stateD)

lemma increment_nonce_ops [by_ops_intros]: "by_ops ff (increment_nonce ff a)"
  unfolding by_ops_def
proof
  fix s :: "'a bstate"
  show "state_ops ff s (snd (increment_nonce ff a s))"
  proof (cases "increment_nonce ff a s")
    case (Pair r s')
    then show ?thesis
      by (cases r) (auto simp: increment_nonce_def Let_def split: result.splits
          intro!: r_into_rtranclp op_nonce [of ff a])
  qed
qed

lemma nonce_check_ops [by_ops_intros]:
  "by_ops ff (handle_nonce ff sf atc)"
  "by_ops ff (handle_nonce_and_check_fee_balance ff sf bf bc atc cfg)"
  unfolding handle_nonce_def handle_nonce_and_check_fee_balance_def state_st_def Let_def
  by (intro by_ops_intros)+

lemma handle_fee_ops [by_ops_intros]:
  assumes "bf_laws ff bf"
  shows "by_ops ff (handle_fee ff sf fx bf ty eci vci res bc atc cfg)"
    "by_ops ff (l1_handle_fee b fx bf th eci vci res bc)"
  unfolding handle_fee_def l1_handle_fee_def Let_def by (intro by_ops_intros assms)+

lemma execute_tx_ops:
  assumes "\<And>bc atc nv. runs_on_state ff (inner bc atc nv)"
    and "\<And>eci vci res bc atc cfg. by_ops ff (fee eci vci res bc atc cfg)"
  shows "by_ops ff (execute_tx ff sf bf account_context inner fee bc cfg)"
  unfolding execute_tx_def by (intro by_ops_intros assms)

lemma execute_ops [by_ops_intros]:
  assumes "bf_laws ff bf"
  shows "by_ops ff (execute_invoke ff sf fx bf ti bc cfg)"
    "by_ops ff (execute_declare ff sf fx bf td bc cfg)"
    "by_ops ff (execute_deploy ff sf fx bf tda bc cfg)"
    "by_ops ff (execute_l1 b ff sf fx bf th bc cfg)"
  unfolding execute_invoke_def execute_declare_def execute_deploy_def execute_l1_def
  by (intro execute_tx_ops by_ops_intros assms)+

section \<open>Nonces\<close>

lemma increment_nonce_eq:
  assumes "field_libs ff" "pallet_nonce (bs_pallet s) a = sfelt n" "canonical n"
  shows "increment_nonce ff a s = (Ok (), s\<lparr>bs_pallet := (bs_pallet s)\<lparr>Nonces :=
       (Nonces (bs_pallet s))(a \<mapsto> sfelt ((n + 1) mod felt_prime))\<rparr>\<rparr>)"
proof -
  have "1 < felt_prime" by (simp add: felt_prime_def)
  then show ?thesis
    using assms(2,3) field_libs.stark_felt_roundtrip [OF assms(1)]
      field_libs.field_ops(1) [OF assms(1) assms(3), of 1]
    by (simp add: increment_nonce_def Let_def)
qed

lemma handle_nonce_eq:
  assumes "field_libs ff" "pallet_nonce (bs_pallet s) (atc_sender_address atc) = sfelt n" "canonical n"
  shows "handle_nonce ff sf atc s =
    (if atc_version atc = sf_from_u8 sf 0 then (Ok (), s)
     else if sfelt n \<noteq> atc_nonce atc
     then (Err (InvalidNonce (atc_sender_address atc) (sfelt n) (atc_nonce atc)), s)
     else (Ok (), s\<lparr>bs_pallet := (bs_pallet s)\<lparr>Nonces :=
       (Nonces (bs_pallet s))(atc_sender_address atc \<mapsto> sfelt ((n + 1) mod felt_prime))\<rparr>\<rparr>))"
  using assms(2) increment_nonce_eq [OF assms]
  by (simp add: handle_nonce_def bind_st_def get_st_def ret_st_def get_nonce_at_def state_st_def
      map_err_st_def Let_def)

lemma succ_mod_neq: "n < p \<Longrightarrow> 1 < p \<Longrightarrow> (n + 1) mod p \<noteq> (n :: nat)"
  by (cases "n + 1 = p") auto

lemma sfelt_inj: "canonical x \<Longrightarrow> canonical y \<Longrightarrow> sfelt x = sfelt y \<longleftrightarrow> x = y"
  using felt_prime_le by (metis be_val_be_bytes mod_less less_trans)

abbreviation nonces_of :: "'c bstate \<Rightarrow> contract_address \<rightharpoonup> nonce" where
  "nonces_of s \<equiv> Nonces (bs_pallet s)"

text \<open>Nothing after the nonce step touches a nonce.\<close>

lemma preserves_put [preserves_intros]: "preserves env_nonces (put_gas g)" "preserves env_nonces (put_context c)"
  by (simp_all add: preserves_def put_gas_def put_context_def)

lemma preserves_or_reverted [preserves_intros]: "preserves part m \<Longrightarrow> preserves part (or_reverted bf v m)"
  unfolding preserves_def or_reverted_def by (auto split: prod.split result.split) (metis snd_conv)+

lemma preserves_case_tx [preserves_intros]:
  "(\<And>t. preserves part (f t)) \<Longrightarrow> (\<And>t. preserves part (g t)) \<Longrightarrow>
     preserves part (case x of StInvokeV0 t \<Rightarrow> f t | StInvokeV1 t \<Rightarrow> g t)"
  "(\<And>t. preserves part (f' t)) \<Longrightarrow> (\<And>t. preserves part (g' t)) \<Longrightarrow> (\<And>t. preserves part (h' t)) \<Longrightarrow>
     preserves part (case y of StDeclareV0 t \<Rightarrow> f' t | StDeclareV1 t \<Rightarrow> g' t | StDeclareV2 t \<Rightarrow> h' t)"
  by (cases x; simp) (cases y; simp)

lemma bf_preserves_nonces [preserves_intros]:
  assumes "bf_keeps_nonces bf"
  shows "preserves env_nonces (bf_execute_call bf call)" "preserves env_nonces (bf_run_invoke bf ti)"
    "preserves env_nonces (bf_run_declare bf td)" "preserves env_nonces (bf_run_deploy bf tda)"
  using assms by (simp_all add: bf_keeps_nonces_def)

lemma execute_inner_preserves [preserves_intros]:
  assumes "bf_keeps_nonces bf"
  shows "preserves env_nonces (validate_tx_inner bf name calldata)"
    "preserves env_nonces (invoke_execute_inner bf ti bc atc nv)"
    "preserves env_nonces (declare_execute_inner bf td bc atc nv)"
    "preserves env_nonces (deploy_execute_inner bf tda bc atc nv)"
  unfolding invoke_execute_inner_def declare_execute_inner_def deploy_execute_inner_def
    validate_tx_inner_def Let_def
  by (intro preserves_intros assms)+

lemma with_env_preserves [preserves_intros]: "preserves env_nonces m \<Longrightarrow> preserves nonces_of (with_env bf ctx m)"
  unfolding preserves_def with_env_def by (auto split: prod.split) (metis exec_env.select_convs(1) snd_conv)

lemma fee_preserves [preserves_intros]:
  assumes "bf_keeps_nonces bf"
  shows "preserves nonces_of (execute_fee_transfer ff sf bf bc atc fee)"
    "preserves nonces_of (charge_fee ff sf fx bf bc atc rs dtf dfc q)"
    "preserves nonces_of (handle_fee ff sf fx bf ty eci vci res bc atc cfg)"
proof -
  show transfer: "preserves nonces_of (execute_fee_transfer ff sf bf bc atc fee)" for fee
    using preservesD [OF bf_preserves_nonces(1) [OF assms]] unfolding preserves_def execute_fee_transfer_def Let_def
    by (fastforce split: option.split prod.split)
  show charge: "preserves nonces_of (charge_fee ff sf fx bf bc atc rs dtf dfc q)" for rs dtf dfc q
    unfolding charge_fee_def by (intro preserves_intros transfer)
  show "preserves nonces_of (handle_fee ff sf fx bf ty eci vci res bc atc cfg)"
    unfolding handle_fee_def by (intro preserves_intros charge)
qed

lemma execute_tx_Ok_nonce:
  assumes "execute_tx ff sf bf account_context inner fee bc cfg s = (Ok info, s')"
    and "account_context (offset_version cfg) = Ok atc" "\<not> disable_nonce_validation cfg"
    and "\<And>atc nv. preserves env_nonces (inner bc atc nv)" "\<And>eci vci res atc. preserves nonces_of (fee eci vci res bc atc cfg)"
  shows "\<exists>s1. handle_nonce ff sf atc s = (Ok (), s1) \<and> nonces_of s' = nonces_of s1"
proof -
  obtain s1 s2 s3 i res out where run: "handle_nonce ff sf atc s = (Ok (), s1)"
      "(if atc_max_fee atc \<noteq> 0 \<and> \<not> disable_fee_charge cfg \<and> \<not> disable_transaction_fee cfg \<and> \<not> is_query cfg
        then bind_st get_st (\<lambda>s. bind_st (ret_st (map_err TxStateError (bf_get_fee_token_balance bf s bc
                (atc_sender_address atc)))) (\<lambda>(balance_low, balance_high).
              if \<not> felt_lt (sf_from_u8 sf 0) balance_high \<and> felt_lt balance_low (sf_from_u128 sf (atc_max_fee atc))
              then ret_st (Err (MaxFeeExceedsBalance (atc_max_fee atc) balance_low balance_high))
              else ret_st (Ok ()))) else ret_st (Ok ())) s1 = (Ok (), s2)" (is "?balance s1 = _")
      "with_env bf (fresh_context bf bc atc) (inner bc atc (disable_validation cfg)) s2 = (Ok (i, res), s3)"
      "fee (ve_execute_call_info i) (ve_validate_call_info i) res bc atc cfg s3 = (Ok out, s')"
    using assms(1-3) unfolding execute_tx_def handle_nonce_and_check_fee_balance_def
    by (auto simp: bind_st_Ok_iff ret_st_def split: prod.splits)
  have "preserves nonces_of ?balance" by (intro preserves_intros)
  from preservesD [OF this run(2)] preservesD [OF with_env_preserves [OF assms(4)] run(3)] preservesD [OF assms(5) run(4)] run(1)
  show ?thesis by simp
qed

lemma execute_tx_bad_nonce:
  assumes "handle_nonce ff sf atc s = (Err e, s)" "account_context (offset_version cfg) = Ok atc"
    and "\<not> disable_nonce_validation cfg"
  shows "execute_tx ff sf bf account_context inner fee bc cfg s = (Err e, s)"
  using assms by (simp add: execute_tx_def bind_st_def ret_st_def handle_nonce_and_check_fee_balance_def)

lemma execute_tx_replay:
  fixes s :: "'c bstate" and bf :: "('c, 'r, 'x) bf_api"
  assumes ff: "field_libs ff" and ctx: "account_context (offset_version cfg) = Ok atc"
    and cfg: "\<not> disable_nonce_validation cfg" and version: "atc_version atc \<noteq> sf_from_u8 sf 0"
    and inner: "\<And>atc nv. preserves env_nonces (inner bc atc nv)"
    and fee: "\<And>eci vci res atc. preserves nonces_of (fee eci vci res bc atc cfg)"
    and n: "pallet_nonce (bs_pallet s) (atc_sender_address atc) = sfelt n" "canonical n"
  defines "run \<equiv> execute_tx ff sf bf account_context inner fee bc cfg"
  shows "atc_nonce atc \<noteq> sfelt n \<Longrightarrow> run s = (Err (InvalidNonce (atc_sender_address atc) (sfelt n) (atc_nonce atc)), s)"
    and "run s = (Ok info, s') \<Longrightarrow> atc_nonce atc = sfelt n \<and>
      nonces_of s' = (nonces_of s)(atc_sender_address atc \<mapsto> sfelt ((n + 1) mod felt_prime)) \<and>
      run s' = (Err (InvalidNonce (atc_sender_address atc) (sfelt ((n + 1) mod felt_prime)) (atc_nonce atc)), s')"
proof -
  let ?n1 = "(n + 1) mod felt_prime"
  have wrong: "run t = (Err (InvalidNonce (atc_sender_address atc) (sfelt k) (atc_nonce atc)), t)"
    if "pallet_nonce (bs_pallet t) (atc_sender_address atc) = sfelt k" "canonical k" "atc_nonce atc \<noteq> sfelt k"
    for t :: "'c bstate" and k
    unfolding run_def by (rule execute_tx_bad_nonce [where account_context = account_context])
      (use ctx cfg handle_nonce_eq [OF ff that(1,2)] that(3) version in auto)
  show "run s = (Err (InvalidNonce (atc_sender_address atc) (sfelt n) (atc_nonce atc)), s)" if "atc_nonce atc \<noteq> sfelt n"
    using wrong n that by blast
  assume "run s = (Ok info, s')"
  from execute_tx_Ok_nonce [where account_context = account_context, OF this [unfolded run_def] ctx cfg inner fee]
  have s': "atc_nonce atc = sfelt n" "nonces_of s' = (nonces_of s)(atc_sender_address atc \<mapsto> sfelt ?n1)"
    using handle_nonce_eq [OF ff n] version by (auto split: if_splits)
  moreover have "sfelt n \<noteq> sfelt ?n1"
    using sfelt_inj [OF n(2), of ?n1] succ_mod_neq [OF n(2)] by (simp add: felt_prime_def)
  moreover have "pallet_nonce (bs_pallet s') (atc_sender_address atc) = sfelt ?n1" "canonical ?n1"
    using s'(2) by (simp_all add: pallet_nonce_def unwrap_or_default_def)
  ultimately show "atc_nonce atc = sfelt n \<and> nonces_of s' = (nonces_of s)(atc_sender_address atc \<mapsto> sfelt ?n1) \<and>
      run s' = (Err (InvalidNonce (atc_sender_address atc) (sfelt ?n1) (atc_nonce atc)), s')"
    using wrong by metis
qed

section \<open>Properties\<close>

text \<open>
  C1. Replay protection, for invoke, declare and deploy account transactions alike. With nonce
  validation on, a transaction of version one or more executes successfully only if its nonce is the
  sender's current one; in the state it leaves, after validation, execution and the fee, the sender's
  nonce is the next one (in the field), the nonces of all other accounts are as before, and executing the
  same transaction again fails with \<open>InvalidNonce\<close> and changes nothing. A transaction with another
  nonce fails that way at once. The contract code run in between does not write nonces.
\<close>

theorem execute_replay_protection:
  assumes "ff_laws ff" "bf_keeps_nonces bf"
    and "(run, account_context) \<in>
      {(execute_invoke ff sf fx bf ti bc cfg, invoke_account_context ff sf ti),
       (execute_declare ff sf fx bf td bc cfg, declare_account_context ff sf td),
       (execute_deploy ff sf fx bf tda bc cfg, deploy_account_context ff tda)}"
    and "account_context (offset_version cfg) = (Ok atc :: (_, TransactionExecutionError) result)"
    and "\<not> disable_nonce_validation cfg" "atc_version atc \<noteq> sf_from_u8 sf 0"
    and "pallet_nonce (bs_pallet s) (atc_sender_address atc) = sfelt n" "canonical n"
  shows "(atc_nonce atc \<noteq> sfelt n \<longrightarrow>
       run s = (Err (InvalidNonce (atc_sender_address atc) (sfelt n) (atc_nonce atc)), s)) \<and>
    (\<forall>info s'. run s = (Ok info, s') \<longrightarrow> atc_nonce atc = sfelt n \<and>
       pallet_nonce (bs_pallet s') (atc_sender_address atc) = sfelt ((n + 1) mod felt_prime) \<and>
       (\<forall>a. a \<noteq> atc_sender_address atc \<longrightarrow> pallet_nonce (bs_pallet s') a = pallet_nonce (bs_pallet s) a) \<and>
       run s' = (Err (InvalidNonce (atc_sender_address atc) (sfelt ((n + 1) mod felt_prime)) (atc_nonce atc)), s'))"
proof -
  have f: "field_libs ff" using assms(1) by unfold_locales
  obtain inner ty where run: "run = execute_tx ff sf bf account_context inner (handle_fee ff sf fx bf ty) bc cfg"
      and inner: "\<And>atc nv. preserves env_nonces (inner bc atc nv)"
    using assms(3) execute_inner_preserves(2-4) [OF assms(2)]
    unfolding execute_invoke_def execute_declare_def execute_deploy_def insert_iff empty_iff prod.inject by metis
  note replay = execute_tx_replay [where bf = bf and account_context = account_context and inner = inner and bc = bc
        and fee = "handle_fee ff sf fx bf ty" and cfg = cfg, OF f assms(4-6) inner fee_preserves(3) [OF assms(2)] assms(7,8),
        folded run]
  show ?thesis
  proof (intro conjI allI impI)
    fix info s'
    assume "run s = (Ok info, s')"
    note ok = replay(2) [OF this]
    then show "atc_nonce atc = sfelt n"
      "run s' = (Err (InvalidNonce (atc_sender_address atc) (sfelt ((n + 1) mod felt_prime)) (atc_nonce atc)), s')"
      by blast+
    from ok have s': "nonces_of s' = (nonces_of s)(atc_sender_address atc \<mapsto> sfelt ((n + 1) mod felt_prime))" by blast
    then show "pallet_nonce (bs_pallet s') (atc_sender_address atc) = sfelt ((n + 1) mod felt_prime)"
      by (simp add: pallet_nonce_def unwrap_or_default_def)
    show "pallet_nonce (bs_pallet s') a = pallet_nonce (bs_pallet s) a" if "a \<noteq> atc_sender_address atc" for a
      using that by (simp add: pallet_nonce_def s')
  qed (rule replay(1))
qed

definition sample_btx :: "stark_felt list \<Rightarrow> btx_InvokeTransaction" where
  "sample_btx calldata = \<lparr>bi_tx = StInvokeV1 \<lparr>si1_max_fee = 0, si1_signature = [], si1_nonce = sfelt 4,
     si1_calldata = calldata, si1_sender_address = sfelt 17\<rparr>, bi_tx_hash = sfelt 99\<rparr>"

definition sample_state :: "nat bstate" where
  "sample_state = \<lparr>bs_pallet = empty_storage\<lparr>Nonces := [sfelt 17 \<mapsto> sfelt 4]\<rparr>, bs_adapter = adapter_default\<rparr>"

lemma sfelt_distinct: "sfelt 1 \<noteq> sfelt 0" "felt_default = sfelt 0"
proof -
  show "sfelt 1 \<noteq> sfelt 0" using sfelt_inj [of 1 0] by (simp add: felt_prime_def)
  show "felt_default = sfelt 0"
    unfolding felt_default_def
    by (rule be_val_inj) (use be_val_zeros [of 32 "[]"] in \<open>simp_all add: be_val_be_bytes\<close>)
qed

lemma execute_tx_parts:
  assumes "execute_tx ff sf bf account_context inner (handle_fee ff sf fx bf ty) bc cfg s = (Ok info, s')"
  shows "\<exists>atc s\<^sub>1 i res s\<^sub>2. account_context (offset_version cfg) = Ok atc \<and>
    handle_nonce_and_check_fee_balance ff sf bf bc atc cfg s = (Ok (), s\<^sub>1) \<and>
    with_env bf (fresh_context bf bc atc) (inner bc atc (disable_validation cfg)) s\<^sub>1 = (Ok (i, res), s\<^sub>2) \<and>
    charge_fee ff sf fx bf bc atc (tei_actual_resources info) (disable_transaction_fee cfg)
      (disable_fee_charge cfg) (is_query cfg) s\<^sub>2 = (Ok (tei_actual_fee info, tei_fee_transfer_call_info info), s') \<and>
    tei_validate_call_info info = ve_validate_call_info i \<and> tei_execute_call_info info = ve_execute_call_info i \<and>
    tei_revert_error info = ve_revert_error i"
proof -
  obtain atc s\<^sub>1 i res s\<^sub>2 fee transfer rs where "account_context (offset_version cfg) = Ok atc"
      "handle_nonce_and_check_fee_balance ff sf bf bc atc cfg s = (Ok (), s\<^sub>1)"
      "with_env bf (fresh_context bf bc atc) (inner bc atc (disable_validation cfg)) s\<^sub>1 = (Ok (i, res), s\<^sub>2)"
      "handle_fee ff sf fx bf ty (ve_execute_call_info i) (ve_validate_call_info i) res bc atc cfg s\<^sub>2 = (Ok (fee, transfer, rs), s')"
      "info = \<lparr>tei_validate_call_info = ve_validate_call_info i, tei_execute_call_info = ve_execute_call_info i,
         tei_fee_transfer_call_info = transfer, tei_actual_fee = fee, tei_actual_resources = rs,
         tei_revert_error = ve_revert_error i\<rparr>"
    using assms by (auto simp: execute_tx_def bind_st_Ok_iff ret_st_def split: prod.splits)
  moreover from this(4) have "charge_fee ff sf fx bf bc atc rs (disable_transaction_fee cfg)
      (disable_fee_charge cfg) (is_query cfg) s\<^sub>2 = (Ok (fee, transfer), s')"
    by (auto simp: handle_fee_def bind_st_Ok_iff ret_st_def split: prod.splits)
  ultimately show ?thesis by auto
qed

lemma charge_fee_no_transfer:
  "charge_fee ff sf fx bf bc atc rs dtf dfc q s = (Ok (fee, None), s') \<Longrightarrow> s' = s"
  by (auto simp: charge_fee_def ret_st_def bind_st_Ok_iff split: if_splits)

lemma invoke_inner_run:
  assumes "invoke_execute_inner bf tx bc atc nv e\<^sub>0 = (Ok i, e')" "ee_context e\<^sub>0 = fresh_context bf bc atc"
  shows "\<exists>e r. (if nv then ret_st (Ok None) else validate_tx_inner bf (bf_VALIDATE_ENTRY_POINT_NAME bf) (invoke_tx_calldata tx)) e\<^sub>0 =
        (Ok (ve_validate_call_info i), e) \<and> bf_run_invoke bf tx e = (r, e') \<and>
    (case r of
       Ok call_info \<Rightarrow> ve_revert_error i = None \<and> ve_execute_call_info i = call_info
     | Err _ \<Rightarrow> (\<exists>t. bi_tx tx = StInvokeV1 t) \<and> ve_execute_call_info i = None \<and>
         ve_revert_error i = Some (bf_error_trace bf (ee_context e'))
     | Panic \<Rightarrow> False)"
proof -
  have "e\<^sub>0\<lparr>ee_context := fresh_context bf bc atc\<rparr> = e\<^sub>0" by (simp flip: assms(2))
  then obtain v e where v: "(if nv then ret_st (Ok None) else validate_tx_inner bf (bf_VALIDATE_ENTRY_POINT_NAME bf) (invoke_tx_calldata tx)) e\<^sub>0 =
        (Ok v, e)"
    and run: "(case bi_tx tx of
          StInvokeV0 _ \<Rightarrow> bind_st (bf_run_invoke bf tx) (\<lambda>c. ret_st (Ok (new_accepted v c)))
        | StInvokeV1 _ \<Rightarrow> or_reverted bf v (bf_run_invoke bf tx)) e = (Ok i, e')"
    using assms(1) by (auto simp: invoke_execute_inner_def bind_st_Ok_iff put_context_def split: if_splits)
  from run v show ?thesis
    by (cases "bi_tx tx") (auto simp: bind_st_Ok_iff ret_st_def new_accepted_def new_reverted_def or_reverted_def
        split: prod.splits result.splits)
qed

text \<open>
  C19. How an invoke transaction is accepted, validated or not. It consists of the nonce and balance step,
  the validation where it is on, one run of the transaction, and the fee, charged on the state this run
  left, whatever its outcome. A run that succeeds gives the call info and no revert error. A run that fails
  is accepted for version 1 only, with its error trace as revert error and no call info; nothing restores the
  state from before it, so what it had written before failing is in the final state (which is exactly the state
  the run left when no fee is transferred), and its nonce stays consumed. A failing version 0
  transaction is never accepted.
\<close>

theorem invoke_revert_keeps_writes:
  assumes "bf_keeps_nonces bf" "execute_invoke ff sf fx bf tx bc cfg s = (Ok info, s')"
  shows "\<exists>atc s\<^sub>1 e r e'.
    invoke_account_context ff sf tx (offset_version cfg) = (Ok atc :: (_, TransactionExecutionError) result) \<and>
    handle_nonce_and_check_fee_balance ff sf bf bc atc cfg s = (Ok (), s\<^sub>1) \<and>
    (if disable_validation cfg then ret_st (Ok None)
     else validate_tx_inner bf (bf_VALIDATE_ENTRY_POINT_NAME bf) (invoke_tx_calldata tx))
       \<lparr>ee_state = s\<^sub>1, ee_resources = bf_resources_default bf, ee_context = fresh_context bf bc atc,
        ee_gas = TX_INITIAL_AVAILABLE_GAS bf\<rparr> = (Ok (tei_validate_call_info info), e) \<and>
    bf_run_invoke bf tx e = (r, e') \<and>
    (case r of
       Ok call_info \<Rightarrow> tei_revert_error info = None \<and> tei_execute_call_info info = call_info
     | Err _ \<Rightarrow> (\<exists>t. bi_tx tx = StInvokeV1 t) \<and> tei_execute_call_info info = None \<and>
         tei_revert_error info = Some (bf_error_trace bf (ee_context e'))
     | Panic \<Rightarrow> False) \<and>
    charge_fee ff sf fx bf bc atc (tei_actual_resources info) (disable_transaction_fee cfg)
      (disable_fee_charge cfg) (is_query cfg) (ee_state e') =
        (Ok (tei_actual_fee info, tei_fee_transfer_call_info info), s') \<and>
    (tei_fee_transfer_call_info info = None \<longrightarrow> s' = ee_state e') \<and>
    nonces_of s' = nonces_of s\<^sub>1"
proof -
  obtain atc s\<^sub>1 i res s\<^sub>2 where a: "invoke_account_context ff sf tx (offset_version cfg) = (Ok atc :: (_, TransactionExecutionError) result)"
      "handle_nonce_and_check_fee_balance ff sf bf bc atc cfg s = (Ok (), s\<^sub>1)"
      and env: "with_env bf (fresh_context bf bc atc) (invoke_execute_inner bf tx bc atc (disable_validation cfg)) s\<^sub>1 = (Ok (i, res), s\<^sub>2)"
      and fee: "charge_fee ff sf fx bf bc atc (tei_actual_resources info) (disable_transaction_fee cfg)
        (disable_fee_charge cfg) (is_query cfg) s\<^sub>2 = (Ok (tei_actual_fee info, tei_fee_transfer_call_info info), s')"
      and i: "tei_validate_call_info info = ve_validate_call_info i" "tei_execute_call_info info = ve_execute_call_info i"
        "tei_revert_error info = ve_revert_error i"
    using execute_tx_parts [OF assms(2) [unfolded execute_invoke_def]] by blast
  obtain e' where inner: "invoke_execute_inner bf tx bc atc (disable_validation cfg) \<lparr>ee_state = s\<^sub>1,
      ee_resources = bf_resources_default bf, ee_context = fresh_context bf bc atc,
      ee_gas = TX_INITIAL_AVAILABLE_GAS bf\<rparr> = (Ok i, e')" "s\<^sub>2 = ee_state e'"
    using env by (auto simp: with_env_def split: prod.splits)
  have "nonces_of s' = nonces_of s\<^sub>2" "nonces_of s\<^sub>2 = nonces_of s\<^sub>1"
    using preservesD [OF fee_preserves(2) [OF assms(1)] fee] preservesD [OF execute_inner_preserves(2) [OF assms(1)] inner(1)] inner(2)
    by simp_all
  moreover have "s' = s\<^sub>2" if "tei_fee_transfer_call_info info = None"
    using charge_fee_no_transfer fee that by metis
  moreover obtain e r where "(if disable_validation cfg then ret_st (Ok None)
     else validate_tx_inner bf (bf_VALIDATE_ENTRY_POINT_NAME bf) (invoke_tx_calldata tx))
       \<lparr>ee_state = s\<^sub>1, ee_resources = bf_resources_default bf, ee_context = fresh_context bf bc atc,
        ee_gas = TX_INITIAL_AVAILABLE_GAS bf\<rparr> = (Ok (ve_validate_call_info i), e)" "bf_run_invoke bf tx e = (r, e')"
    "case r of Ok call_info \<Rightarrow> ve_revert_error i = None \<and> ve_execute_call_info i = call_info
     | Err _ \<Rightarrow> (\<exists>t. bi_tx tx = StInvokeV1 t) \<and> ve_execute_call_info i = None \<and>
         ve_revert_error i = Some (bf_error_trace bf (ee_context e'))
     | Panic \<Rightarrow> False"
    using invoke_inner_run [OF inner(1)] by auto
  ultimately show ?thesis
    unfolding i using a fee inner(2)
    by (intro exI [of _ atc] exI [of _ s\<^sub>1] exI [of _ e] exI [of _ r] exI [of _ e']) simp
qed

text \<open>An executor whose runs of invoke transactions fail after clearing a cell of the account.\<close>

definition bf_failing :: "(nat, unit, unit) bf_api" where
  "bf_failing = bf_ref\<lparr>bf_run_invoke := (\<lambda>tx. ref_run (ref_call (sfelt 17) (sfelt 5) []))\<rparr>"

definition written_state :: "nat bstate" where
  "written_state = sample_state\<lparr>bs_pallet := (bs_pallet sample_state)
     \<lparr>StorageView := [(sfelt 17, sfelt 5) \<mapsto> sfelt 8]\<rparr>\<rparr>"

lemma bf_failing_keeps_nonces: "bf_keeps_nonces bf_failing"
  using bf_ref_keeps_nonces by (simp add: bf_keeps_nonces_def bf_failing_def ref_preserves_nonces)

definition failing_atc :: AccountTransactionContext where
  "failing_atc = \<lparr>atc_transaction_hash = sfelt 99, atc_max_fee = 0, atc_version = sfelt 1, atc_signature = [],
     atc_nonce = sfelt 4, atc_sender_address = sfelt 17\<rparr>"

lemma failing_nonce:
  "\<exists>s1 :: nat bstate. handle_nonce_and_check_fee_balance ff_ref sf_ref bf_failing sample_context failing_atc
     (config_builder_new False True) written_state = (Ok (), s1)"
proof -
  have n: "pallet_nonce (bs_pallet written_state) (atc_sender_address failing_atc) = sfelt 4"
    by (simp add: written_state_def sample_state_def failing_atc_def pallet_nonce_def unwrap_or_default_def)
  have c: "canonical 4" by (simp add: felt_prime_def)
  show ?thesis
    using handle_nonce_eq [OF ref.field_libs_axioms n c, of sf_ref]
    by (simp add: handle_nonce_and_check_fee_balance_def bind_st_def ret_st_def config_builder_new_def failing_atc_def)
qed

lemma failing_inner:
  "\<exists>info s2. with_env bf_failing (fresh_context bf_failing sample_context failing_atc)
     (invoke_execute_inner bf_failing (sample_btx [sfelt 1]) sample_context failing_atc False) s1 = (Ok (info, ()), s2)"
  using sfelt_distinct
  by (simp add: with_env_def invoke_execute_inner_def bind_st_def put_context_def sample_btx_def
      validate_tx_inner_def get_st_def fresh_context_def bf_failing_def bf_ref_def failing_atc_def ref_execute_def
      map_err_st_def invoke_tx_calldata_def ret_st_def put_gas_def Let_def or_reverted_def ref_run_def ref_call_def)

lemma failing_execution:
  "\<exists>info s'. execute_invoke ff_ref sf_ref fx_ref bf_failing (sample_btx [sfelt 1]) sample_context
     (config_builder_new False True) written_state = (Ok info, s')"
proof -
  have "invoke_account_context ff_ref sf_ref (sample_btx [sfelt 1]) False = (Ok failing_atc :: (_, TransactionExecutionError) result)"
    by (simp add: invoke_account_context_def sample_btx_def offset_if_def sf_ref_def failing_atc_def)
  moreover obtain s1 :: "nat bstate" where "handle_nonce_and_check_fee_balance ff_ref sf_ref bf_failing sample_context failing_atc
     (config_builder_new False True) written_state = (Ok (), s1)"
    using failing_nonce by blast
  moreover obtain info s2 where "with_env bf_failing (fresh_context bf_failing sample_context failing_atc)
     (invoke_execute_inner bf_failing (sample_btx [sfelt 1]) sample_context failing_atc False) s1 = (Ok (info, ()), s2)"
    using failing_inner by blast
  moreover have "handle_fee ff_ref sf_ref fx_ref bf_failing TT_InvokeFunction eci vci res sample_context failing_atc
     (config_builder_new False True) s2 = (Ok (0, None, [(''l1_gas_usage'', word_of_nat (n_storage_updates (count_state_changes (bs_adapter s2)))),
        (''n_steps'', 100)]), s2)" for eci vci res
    by (simp add: handle_fee_def bind_st_def get_st_def ret_st_def compute_transaction_resources_def bf_failing_def
        bf_ref_def Let_def config_builder_new_def charge_fee_def)
  moreover have "offset_version (config_builder_new False True) = False" "disable_validation (config_builder_new False True) = False"
    by (simp_all add: config_builder_new_def)
  ultimately show ?thesis
    by (simp add: execute_invoke_def execute_tx_def bind_st_def ret_st_def)
qed

theorem invoke_revert_keeps_writes_witness:
  "\<exists>info s'. execute_invoke ff_ref sf_ref fx_ref bf_failing (sample_btx [sfelt 1]) sample_context
     (config_builder_new False True) written_state = (Ok info, s') \<and>
     tei_revert_error info = Some ''failed'' \<and>
     pallet_storage (bs_pallet written_state) (sfelt 17, sfelt 5) = sfelt 8 \<and>
     pallet_storage (bs_pallet s') (sfelt 17, sfelt 5) = felt_default"
proof -
  obtain info s' where run: "execute_invoke ff_ref sf_ref fx_ref bf_failing (sample_btx [sfelt 1]) sample_context
     (config_builder_new False True) written_state = (Ok info, s')"
    using failing_execution by blast
  have fails: "bf_run_invoke bf_failing tx e = (Err (OtherTransactionError ''failed''),
      e\<lparr>ee_state := set_storage_at (sfelt 17) (sfelt 5) felt_default (ee_state e)\<rparr>)" for tx e
    by (simp add: bf_failing_def ref_run_def ref_execute_def ref_call_def)
  have trace: "bf_error_trace bf_failing c = ''failed''" for c
    by (simp add: bf_failing_def bf_ref_def)
  have free: "disable_transaction_fee (config_builder_new False True)"
    by (simp add: config_builder_new_def)
  have "tei_revert_error info = Some ''failed'' \<and> (\<exists>e. s' = set_storage_at (sfelt 17) (sfelt 5) felt_default e)"
    using invoke_revert_keeps_writes [OF bf_failing_keeps_nonces run]
    by (clarsimp simp: fails trace free charge_fee_def ret_st_def) blast
  then show ?thesis
    using run by (auto simp: set_storage_at_def Let_def pallet_storage_def unwrap_or_default_def written_state_def)
qed

lemma execute_tx_fee:
  assumes "execute_tx ff sf bf account_context inner (handle_fee ff sf fx bf ty) bc cfg s = (Ok info, s')"
  shows "\<exists>atc s1 s2. account_context (offset_version cfg) = Ok atc \<and>
    charge_fee ff sf fx bf bc atc (tei_actual_resources info) (disable_transaction_fee cfg)
      (disable_fee_charge cfg) (is_query cfg) s1 =
      (Ok (tei_actual_fee info, tei_fee_transfer_call_info info), s2) \<and> s2 = s'"
  using execute_tx_parts [OF assms] by blast

text \<open>
  C4. What an executed invoke transaction pays. With transaction fees disabled it pays zero; in query
  mode or with charging disabled no fee transfer is made; otherwise a fee transfer has been executed
  and the amount is at most the transaction's maximal fee. All changes of the contract state, the
  fee transfer included, go through the contract state interface.
\<close>

theorem execute_invoke_fee_bounds:
  assumes "bf_laws ff bf" "execute_invoke ff sf fx bf tx bc cfg s = (Ok info, s')"
  shows "(disable_transaction_fee cfg \<longrightarrow> tei_actual_fee info = 0 \<and> tei_fee_transfer_call_info info = None) \<and>
    (is_query cfg \<or> disable_fee_charge cfg \<longrightarrow> tei_fee_transfer_call_info info = None) \<and>
    (\<not> disable_transaction_fee cfg \<and> \<not> is_query cfg \<and> \<not> disable_fee_charge cfg \<longrightarrow>
       tei_fee_transfer_call_info info \<noteq> None \<and> tei_actual_fee info \<le> st_invoke_max_fee (bi_tx tx)) \<and>
    state_ops ff s s'"
proof -
  obtain atc s1 where ctx: "invoke_account_context ff sf tx (offset_version cfg) =
        (Ok atc :: (_, TransactionExecutionError) result)"
    and fee: "charge_fee ff sf fx bf bc atc (tei_actual_resources info) (disable_transaction_fee cfg)
      (disable_fee_charge cfg) (is_query cfg) s1 =
      (Ok (tei_actual_fee info, tei_fee_transfer_call_info info), s')"
    using execute_tx_fee [OF assms(2) [unfolded execute_invoke_def]] by blast
  have max_fee: "atc_max_fee atc = st_invoke_max_fee (bi_tx tx)"
    using ctx by (auto simp: invoke_account_context_def Let_def)
  have "state_ops ff s s'"
    using execute_ops(1) [OF assms(1)] assms(2) by (rule by_opsD)
  moreover have "tei_actual_fee info = 0 \<and> tei_fee_transfer_call_info info = None" if "disable_transaction_fee cfg"
    using fee that by (auto simp: charge_fee_def ret_st_def)
  moreover have "tei_fee_transfer_call_info info = None" if "is_query cfg \<or> disable_fee_charge cfg"
    using fee that by (auto simp: charge_fee_def ret_st_def bind_st_Ok_iff split: if_splits)
  moreover have "tei_fee_transfer_call_info info \<noteq> None \<and> tei_actual_fee info \<le> atc_max_fee atc"
    if "\<not> disable_transaction_fee cfg \<and> \<not> is_query cfg \<and> \<not> disable_fee_charge cfg"
    using fee that
    by (auto simp: charge_fee_def bind_st_Ok_iff ret_st_def dest: execute_fee_transfer_le intro: sym)
  ultimately show ?thesis by (simp add: max_fee)
qed

lemma transfer_selector_canonical: "be_val TRANSFER_SELECTOR_HASH < felt_prime"
  by (simp add: TRANSFER_SELECTOR_HASH_def felt_prime_def)

lemma sample_fee: "calculate_tx_fee fx_ref [(''l1_gas_usage'', 1), (''n_steps'', 100)] sample_context = Ok 20"
  by (simp add: calculate_tx_fee_def extract_l1_gas_and_vm_usage_def GAS_USAGE_def
      calculate_l1_gas_by_vm_usage_def VM_RESOURCE_FEE_COSTS_def fx_ref_def DIV_def sample_context_def)

definition paying_btx :: btx_InvokeTransaction where
  "paying_btx = \<lparr>bi_tx = StInvokeV1 \<lparr>si1_max_fee = 100, si1_signature = [], si1_nonce = sfelt 4,
     si1_calldata = [sfelt 3], si1_sender_address = sfelt 17\<rparr>, bi_tx_hash = sfelt 99\<rparr>"

definition paying_atc :: AccountTransactionContext where
  "paying_atc = \<lparr>atc_transaction_hash = sfelt 99, atc_max_fee = 100, atc_version = sfelt 1, atc_signature = [],
     atc_nonce = sfelt 4, atc_sender_address = sfelt 17\<rparr>"

lemma be_val_default: "be_val felt_default = 0"
  using be_val_zeros [of 32 "[]"] by (simp add: felt_default_def)

lemma paying_nonce: "\<exists>s1 :: nat bstate. handle_nonce_and_check_fee_balance ff_ref sf_ref bf_ref sample_context paying_atc
     (config_builder_new False False) sample_state = (Ok (), s1) \<and> bs_adapter s1 = adapter_default"
proof -
  have n: "pallet_nonce (bs_pallet sample_state) (atc_sender_address paying_atc) = sfelt 4"
    by (simp add: sample_state_def paying_atc_def pallet_nonce_def unwrap_or_default_def)
  have c: "canonical 4" by (simp add: felt_prime_def)
  show ?thesis
    using handle_nonce_eq [OF ref.field_libs_axioms n c, of sf_ref] sfelt_distinct
    by (simp add: handle_nonce_and_check_fee_balance_def bind_st_def ret_st_def config_builder_new_def
      paying_atc_def sf_ref_def bf_ref_def felt_lt_def be_val_be_bytes be_val_default sample_state_def get_st_def)
qed


lemma paying_inner:
  assumes "bs_adapter s1 = adapter_default"
  shows "\<exists>info s2. with_env bf_ref (fresh_context bf_ref sample_context paying_atc)
     (invoke_execute_inner bf_ref paying_btx sample_context paying_atc False) s1 = (Ok (info, ()), s2) \<and>
     count_state_changes (bs_adapter s2) = \<lparr>n_modified_contracts = 1, n_storage_updates = 1,
        n_class_hash_updates = 0, n_compiled_class_hash_updates = 0\<rparr>"
  using assms sfelt_distinct
  by (simp add: with_env_def invoke_execute_inner_def bind_st_def put_context_def paying_btx_def
      validate_tx_inner_def get_st_def fresh_context_def bf_ref_def paying_atc_def ref_execute_def
      map_err_st_def invoke_tx_calldata_def ret_st_def put_gas_def Let_def or_reverted_def ref_run_def ref_call_def
      set_storage_at_def count_state_changes_def adapter_default_def)

lemma paying_fee:
  assumes "count_state_changes (bs_adapter s2) = \<lparr>n_modified_contracts = 1, n_storage_updates = 1,
        n_class_hash_updates = 0, n_compiled_class_hash_updates = 0\<rparr>"
  shows "\<exists>ci rs s3. handle_fee ff_ref sf_ref fx_ref bf_ref TT_InvokeFunction eci vci res sample_context paying_atc
     (config_builder_new False False) s2 = (Ok (20, Some ci, rs), s3)"
  using assms sample_fee transfer_selector_canonical
  by (simp add: handle_fee_def bind_st_def get_st_def ret_st_def compute_transaction_resources_def
      bf_ref_def Let_def config_builder_new_def charge_fee_def execute_fee_transfer_def paying_atc_def ff_ref_def
      ref_execute_def)

lemma paying_execution:
  "\<exists>info s'. execute_invoke ff_ref sf_ref fx_ref bf_ref paying_btx sample_context
     (config_builder_new False False) sample_state = (Ok info, s') \<and> tei_actual_fee info = 20"
proof -
  have "invoke_account_context ff_ref sf_ref paying_btx False = (Ok paying_atc :: (_, TransactionExecutionError) result)"
    by (simp add: invoke_account_context_def paying_btx_def offset_if_def sf_ref_def paying_atc_def)
  moreover obtain s1 :: "nat bstate" where "handle_nonce_and_check_fee_balance ff_ref sf_ref bf_ref sample_context paying_atc
     (config_builder_new False False) sample_state = (Ok (), s1)" "bs_adapter s1 = adapter_default"
    using paying_nonce by blast
  moreover obtain info s2 where "with_env bf_ref (fresh_context bf_ref sample_context paying_atc)
     (invoke_execute_inner bf_ref paying_btx sample_context paying_atc False) s1 = (Ok (info, ()), s2)"
     and c: "count_state_changes (bs_adapter s2) = \<lparr>n_modified_contracts = 1, n_storage_updates = 1,
        n_class_hash_updates = 0, n_compiled_class_hash_updates = 0\<rparr>"
    using paying_inner [OF calculation(3)] by blast
  moreover obtain ci rs s3 where "handle_fee ff_ref sf_ref fx_ref bf_ref TT_InvokeFunction (ve_execute_call_info info)
     (ve_validate_call_info info) () sample_context paying_atc
     (config_builder_new False False) s2 = (Ok (20, Some ci, rs), s3)"
    using paying_fee [OF c] by blast
  moreover have "offset_version (config_builder_new False False) = False" "disable_validation (config_builder_new False False) = False"
    by (simp_all add: config_builder_new_def)
  ultimately show ?thesis
    by (simp add: execute_invoke_def execute_tx_def bind_st_def ret_st_def)
qed

theorem execute_replay_protection_witness:
  "\<exists>info s'. execute_invoke ff_ref sf_ref fx_ref bf_ref paying_btx sample_context
       (config_builder_new False False) sample_state = (Ok info, s') \<and>
     pallet_nonce (bs_pallet sample_state) (sfelt 17) = sfelt 4 \<and> pallet_nonce (bs_pallet s') (sfelt 17) = sfelt 5 \<and>
     execute_invoke ff_ref sf_ref fx_ref bf_ref paying_btx sample_context (config_builder_new False False) s' =
       (Err (InvalidNonce (sfelt 17) (sfelt 5) (sfelt 4)), s')"
proof -
  let ?cfg = "config_builder_new False False"
  obtain info s' where run: "execute_invoke ff_ref sf_ref fx_ref bf_ref paying_btx sample_context ?cfg sample_state = (Ok info, s')"
    using paying_execution by blast
  have ctx: "invoke_account_context ff_ref sf_ref paying_btx (offset_version ?cfg) = Ok paying_atc"
    by (simp add: invoke_account_context_def paying_btx_def config_builder_new_def offset_if_def sf_ref_def paying_atc_def)
  have v: "\<not> disable_nonce_validation ?cfg" "canonical 4" "(4 + 1) mod felt_prime = 5"
    by (simp_all add: config_builder_new_def felt_prime_def)
  have ver: "atc_version paying_atc \<noteq> sf_from_u8 sf_ref 0"
    using sfelt_distinct by (simp add: sf_ref_def paying_atc_def)
  have n: "pallet_nonce (bs_pallet sample_state) (atc_sender_address paying_atc) = sfelt 4"
    by (simp add: sample_state_def pallet_nonce_def unwrap_or_default_def paying_atc_def)
  note replay = execute_replay_protection [OF ff_ref_laws bf_ref_keeps_nonces insertI1 ctx v(1) ver n v(2),
      THEN conjunct2, rule_format, OF run]
  have "atc_sender_address paying_atc = sfelt 17" "atc_nonce paying_atc = sfelt 4" by (simp_all add: paying_atc_def)
  then show ?thesis using replay run n v(3) by auto
qed

theorem execute_invoke_fee_bounds_witness:
  "\<exists>info s'. execute_invoke ff_ref sf_ref fx_ref bf_ref paying_btx sample_context
     (config_builder_new False False) sample_state = (Ok info, s') \<and>
     tei_actual_fee info = 20 \<and> tei_actual_fee info \<le> 100 \<and> tei_fee_transfer_call_info info \<noteq> None"
proof -
  obtain info s' where run: "execute_invoke ff_ref sf_ref fx_ref bf_ref paying_btx sample_context
      (config_builder_new False False) sample_state = (Ok info, s')" "tei_actual_fee info = 20"
    using paying_execution by blast
  moreover have "tei_fee_transfer_call_info info \<noteq> None \<and> tei_actual_fee info \<le> st_invoke_max_fee (bi_tx paying_btx)"
    using execute_invoke_fee_bounds [OF bf_ref_laws run(1)] by (simp add: config_builder_new_def)
  ultimately show ?thesis by (auto simp: paying_btx_def)
qed

lemma l1_inner_accepted:
  assumes "with_env bf ctx (l1_execute_inner bf tx bc atc skip) s = (Ok (info, res), s')"
  shows "ve_validate_call_info info = None \<and> ve_revert_error info = None"
proof -
  obtain e e' where "l1_execute_inner bf tx bc atc skip e = (Ok info, e')"
    using assms by (fastforce simp: with_env_def split: prod.splits)
  then show ?thesis
    by (auto simp: l1_execute_inner_def bind_st_Ok_iff ret_st_def new_accepted_def)
qed

lemma l1_handle_fee_Ok:
  "l1_handle_fee b fx bf tx eci vci res bc s = (Ok (fee, transfer, actual), s') \<Longrightarrow>
    bl_paid_fee_on_l1 tx \<noteq> 0 \<and> (overflow_checks b \<longrightarrow> sl1_calldata (bl_tx tx) \<noteq> []) \<and> fee = 0 \<and> transfer = None"
  by (auto simp: l1_handle_fee_def l1_tx_calldata_def Let_def bind_st_Ok_iff ret_st_def machine_int_checked_Ok
      split: if_splits)

text \<open>
  C18. An L1 handler executes successfully only if some fee was paid on L1 and, in a build with overflow
  checks, its calldata holds at least the sender; it then pays nothing on L2 and transfers nothing.
\<close>

theorem execute_l1_outcome:
  assumes "execute_l1 b ff sf fx bf tx bc cfg s = (Ok info, s')"
  shows "bl_paid_fee_on_l1 tx \<noteq> 0 \<and> (overflow_checks b \<longrightarrow> sl1_calldata (bl_tx tx) \<noteq> []) \<and> tei_actual_fee info = 0 \<and>
    tei_fee_transfer_call_info info = None \<and> tei_revert_error info = None \<and> tei_validate_call_info info = None"
proof -
  obtain atc s1 i res s2 fee transfer actual where
      "with_env bf (fresh_context bf bc atc) (l1_execute_inner bf tx bc atc (disable_validation cfg)) s1
         = (Ok (i, res), s2)"
      "l1_handle_fee b fx bf tx (ve_execute_call_info i) (ve_validate_call_info i) res bc s2
         = (Ok (fee, transfer, actual), s')"
      "info = \<lparr>tei_validate_call_info = ve_validate_call_info i,
         tei_execute_call_info = ve_execute_call_info i,
         tei_fee_transfer_call_info = transfer, tei_actual_fee = fee,
         tei_actual_resources = actual, tei_revert_error = ve_revert_error i\<rparr>"
    using assms by (auto simp: execute_l1_def execute_tx_def bind_st_Ok_iff ret_st_def split: prod.splits)
  then show ?thesis
    using l1_handle_fee_Ok l1_inner_accepted by fastforce
qed

definition sample_l1 :: btx_L1HandlerTransaction where
  "sample_l1 = \<lparr>bl_tx = \<lparr>sl1_version = sfelt 0, sl1_nonce = sfelt 7, sl1_contract_address = sfelt 20,
     sl1_entry_point_selector = sfelt 21, sl1_calldata = [sfelt 22, sfelt 23]\<rparr>,
     bl_paid_fee_on_l1 = 1, bl_tx_hash = sfelt 98\<rparr>"

definition sample_build :: build where
  "sample_build = \<lparr>overflow_checks = True, usize_bits = 32\<rparr>"

lemma sample_l1_execution:
  "\<exists>info s'. execute_l1 sample_build ff_ref sf_ref fx_ref bf_ref sample_l1 sample_context
     (config_builder_new False False) sample_state = (Ok info, s')"
  using sample_fee
  by (simp add: execute_l1_def execute_tx_def bind_st_def ret_st_def get_st_def l1_account_context_def
      sample_l1_def offset_if_def config_builder_new_def handle_nonce_and_check_fee_balance_def
      handle_nonce_def sf_ref_def with_env_def sample_build_def l1_execute_inner_def put_context_def bf_ref_def ref_run_def
      ref_execute_def ref_call_def l1_handle_fee_def l1_tx_calldata_def compute_transaction_resources_def
      count_state_changes_def set_storage_at_def sample_state_def adapter_default_def Let_def new_accepted_def)

theorem execute_l1_outcome_witness:
  "\<exists>info s'. execute_l1 sample_build ff_ref sf_ref fx_ref bf_ref sample_l1 sample_context
     (config_builder_new False False) sample_state = (Ok info, s') \<and> tei_actual_fee info = 0"
  using sample_l1_execution execute_l1_outcome by blast

end
