(* ===== verification/Block.thy ===== *)
theory Block
  imports Fee
begin

text \<open>
  Starknet blocks, \<^verbatim>\<open>crates/primitives/block\<close> (\<^verbatim>\<open>lib.rs\<close>, \<^verbatim>\<open>header.rs\<close>), and the
  log that wraps a block in the digest of the Substrate block, \<^verbatim>\<open>crates/primitives/digest-log\<close>.
  The SCALE codec of the log and the reading of digest items are functions of external crates, the
  fields of \<open>digest_api\<close>.
\<close>

section \<open>Headers and blocks\<close>

record Header =
  hd_parent_block_hash :: stark_felt
  hd_block_number :: u64
  hd_sequencer_address :: contract_address
  hd_block_timestamp :: u64
  hd_transaction_count :: u128
  hd_event_count :: u128
  hd_protocol_version :: u8
  hd_l1_gas_price :: ResourcePrice
  hd_extra_data :: "u256 option"

definition header_new ::
    "stark_felt \<Rightarrow> u64 \<Rightarrow> contract_address \<Rightarrow> u64 \<Rightarrow> u128 \<Rightarrow> u128 \<Rightarrow> u8 \<Rightarrow> ResourcePrice \<Rightarrow> u256 option \<Rightarrow> Header" where
  "header_new parent_block_hash block_number sequencer_address block_timestamp transaction_count
     event_count protocol_version l1_gas_price extra_data =
     \<lparr>hd_parent_block_hash = parent_block_hash, hd_block_number = block_number,
      hd_sequencer_address = sequencer_address, hd_block_timestamp = block_timestamp,
      hd_transaction_count = transaction_count, hd_event_count = event_count,
      hd_protocol_version = protocol_version, hd_l1_gas_price = l1_gas_price,
      hd_extra_data = extra_data\<rparr>"

definition into_block_context :: "Header \<Rightarrow> contract_address \<Rightarrow> bytes \<Rightarrow> BlockContext" where
  "into_block_context self fee_token_address chain_id =
     \<lparr>bc_block_number = hd_block_number self, bc_block_timestamp = hd_block_timestamp self,
      bc_chain_id = chain_id, bc_sequencer_address = hd_sequencer_address self,
      bc_fee_token_address = fee_token_address, bc_vm_resource_fee_cost = [],
      bc_invoke_tx_max_n_steps = 1000000, bc_validate_max_n_steps = 1000000, bc_gas_price = 10,
      bc_max_recursion_depth = 50\<rparr>"

text \<open>The conversions \<open>into()\<close> unwrap, so that hashing a header may panic.\<close>

definition header_hash :: "ff_api \<Rightarrow> hasher \<Rightarrow> Header \<Rightarrow> (felt252_wrapper, 'e) result" where
  "header_hash ff H self =
     and_then (unwrap (felt_from_stark_felt ff (hd_sequencer_address self))) (\<lambda>sequencer_address.
     and_then (unwrap (felt_from_u128 ff (hd_transaction_count self))) (\<lambda>transaction_count.
     and_then (unwrap (felt_from_u128 ff (hd_event_count self))) (\<lambda>event_count.
     and_then (unwrap (felt_from_stark_felt ff (hd_parent_block_hash self))) (\<lambda>parent_block_hash.
       Ok (compute_hash_on_wrappers H
         [felt_from_u64 ff (hd_block_number self), sequencer_address,
          felt_from_u64 ff (hd_block_timestamp self), transaction_count, event_count,
          felt_from_u8 ff (hd_protocol_version self), ZERO, parent_block_hash])))))"

datatype BlockTag = Latest | PendingTag

datatype BlockId = BlockHashId felt252_wrapper | BlockNumberId u64 | BlockTagId BlockTag

record Block =
  blk_header :: Header
  blk_transactions :: "Transaction list"

definition block_new :: "Header \<Rightarrow> Transaction list \<Rightarrow> Block" where
  "block_new header transactions = \<lparr>blk_header = header, blk_transactions = transactions\<rparr>"

definition transactions_hashes ::
    "ff_api \<Rightarrow> crypto_api \<Rightarrow> hasher \<Rightarrow> Block \<Rightarrow> felt252_wrapper \<Rightarrow> (felt252_wrapper, 'e) result list" where
  "transactions_hashes ff cr H self chain_id =
     map (\<lambda>tx. unwrap (tx_compute_hash ff cr H tx chain_id False)) (blk_transactions self)"

section \<open>Digest logs\<close>

definition MADARA_ENGINE_ID :: bytes where
  "MADARA_ENGINE_ID = [0x6d, 0x61, 0x64, 0x61]"

datatype Log = LogBlock Block

datatype FindLogError = NotLog | MultipleLogs

text \<open>Encoded payloads are opaque to the sources: \<open>'p\<close> is their type.\<close>

datatype 'p DigestItem = Consensus bytes 'p | OtherItem 'p

record 'p digest_api =
  dg_encode_log :: "Log \<Rightarrow> 'p"
  dg_try_to :: "'p DigestItem \<Rightarrow> bytes \<Rightarrow> Log option"

text \<open>
  Documented behaviour: a consensus item is read back when its engine is the one asked for and its
  payload decodes, and the codec round trips.
\<close>

definition digest_laws :: "'p digest_api \<Rightarrow> bool" where
  "digest_laws dg \<longleftrightarrow>
     (\<forall>e l. dg_try_to dg (Consensus e (dg_encode_log dg l)) e = Some l) \<and>
     (\<forall>e e' d. e \<noteq> e' \<longrightarrow> dg_try_to dg (Consensus e d) e' = None) \<and>
     (\<forall>d e. dg_try_to dg (OtherItem d) e = None)"

fun find_log_loop :: "('p DigestItem \<Rightarrow> 'l option) \<Rightarrow> 'p DigestItem list \<Rightarrow> 'l option \<Rightarrow> ('l, FindLogError) result" where
  "find_log_loop try_to [] found = ok_or NotLog found"
| "find_log_loop try_to (item # items) found =
     (case (try_to item, found) of
        (Some _, Some _) \<Rightarrow> Err MultipleLogs
      | (Some l, None) \<Rightarrow> find_log_loop try_to items (Some l)
      | (None, _) \<Rightarrow> find_log_loop try_to items found)"

definition find_log_in :: "'p digest_api \<Rightarrow> 'p DigestItem list \<Rightarrow> bytes \<Rightarrow> (Log, FindLogError) result" where
  "find_log_in dg digest digest_item_id = find_log_loop (\<lambda>item. dg_try_to dg item digest_item_id) digest None"

definition find_log :: "'p digest_api \<Rightarrow> 'p DigestItem list \<Rightarrow> (Log, FindLogError) result" where
  "find_log dg digest = find_log_in dg digest MADARA_ENGINE_ID"

definition find_starknet_block :: "'p digest_api \<Rightarrow> 'p DigestItem list \<Rightarrow> (Block, FindLogError) result" where
  "find_starknet_block dg digest = map_ok (\<lambda>log. case log of LogBlock b \<Rightarrow> b) (find_log dg digest)"

definition ensure_log :: "'p digest_api \<Rightarrow> 'p DigestItem list \<Rightarrow> (unit, FindLogError) result" where
  "ensure_log dg digest = map_ok (\<lambda>_. ()) (find_log dg digest)"

section \<open>Properties\<close>

lemma find_log_loop_eq:
  "find_log_loop try_to items found =
     (case (found, List.map_filter try_to items) of
        (None, []) \<Rightarrow> Err NotLog
      | (Some l, []) \<Rightarrow> Ok l
      | (None, [l]) \<Rightarrow> Ok l
      | _ \<Rightarrow> Err MultipleLogs)"
  by (induction items arbitrary: found)
     (auto simp: List.map_filter_simps split: option.split list.split)

definition madara_blocks :: "'p digest_api \<Rightarrow> 'p DigestItem list \<Rightarrow> Block list" where
  "madara_blocks dg digest =
     map (\<lambda>log. case log of LogBlock b \<Rightarrow> b)
       (List.map_filter (\<lambda>item. dg_try_to dg item MADARA_ENGINE_ID) digest)"

lemma find_starknet_block_eq:
  "find_starknet_block dg digest =
     (case madara_blocks dg digest of [] \<Rightarrow> Err NotLog | [b] \<Rightarrow> Ok b | _ \<Rightarrow> Err MultipleLogs)"
  by (auto simp: find_starknet_block_def find_log_def find_log_in_def find_log_loop_eq madara_blocks_def
      split: list.split)

lemma map_filter_append: "List.map_filter f (xs @ ys) = List.map_filter f xs @ List.map_filter f ys"
  by (simp add: List.map_filter_def)

text \<open>
  C15. A reader of the digest gets the wrapped block exactly when the digest holds exactly one Madara
  log; without one it reports that there is none, and with several that there are several. A block
  deposited in a digest that holds no Madara log is the one read back, and a second deposit makes the
  digest unreadable.
\<close>

theorem digest_log_unique:
  assumes "digest_laws dg"
  shows "(find_starknet_block dg digest = Ok b \<longleftrightarrow> madara_blocks dg digest = [b]) \<and>
    (find_starknet_block dg digest = Err NotLog \<longleftrightarrow> madara_blocks dg digest = []) \<and>
    (find_starknet_block dg digest = Err MultipleLogs \<longleftrightarrow> 2 \<le> length (madara_blocks dg digest)) \<and>
    (ensure_log dg digest = Ok () \<longleftrightarrow> (\<exists>b. find_starknet_block dg digest = Ok b)) \<and>
    (ensure_log dg digest = Err NotLog \<longrightarrow>
       find_starknet_block dg (digest @ [Consensus MADARA_ENGINE_ID (dg_encode_log dg (LogBlock b))]) = Ok b) \<and>
    (ensure_log dg digest = Ok () \<longrightarrow>
       find_starknet_block dg (digest @ [Consensus MADARA_ENGINE_ID (dg_encode_log dg (LogBlock b))])
         = Err MultipleLogs)"
proof -
  have appended: "madara_blocks dg (digest @ [Consensus MADARA_ENGINE_ID (dg_encode_log dg (LogBlock b))])
      = madara_blocks dg digest @ [b]"
    using assms by (simp add: madara_blocks_def map_filter_append List.map_filter_simps digest_laws_def)
  have ensure: "ensure_log dg digest = map_ok (\<lambda>_. ()) (find_starknet_block dg digest)"
    by (cases "find_log dg digest") (simp_all add: ensure_log_def find_starknet_block_def)
  show ?thesis
    unfolding ensure find_starknet_block_eq appended
    by (auto simp: Suc_le_eq split: list.split)
qed

definition sample_header :: Header where
  "sample_header = header_new (replicate 32 0) 1 (replicate 32 0) 10 0 0 0 \<lparr>price_in_strk = None, price_in_wei = 1\<rparr> None"

definition digest_ref :: "Log digest_api" where
  "digest_ref = \<lparr>dg_encode_log = (\<lambda>l. l),
     dg_try_to = (\<lambda>item e. case item of Consensus e' l \<Rightarrow> if e' = e then Some l else None | OtherItem _ \<Rightarrow> None)\<rparr>"

lemma digest_ref_laws: "digest_laws digest_ref"
  by (simp add: digest_laws_def digest_ref_def)

theorem digest_log_unique_witness:
  "find_starknet_block digest_ref
     ([OtherItem (LogBlock (block_new sample_header []))] @
      [Consensus MADARA_ENGINE_ID (dg_encode_log digest_ref (LogBlock (block_new sample_header [])))])
     = Ok (block_new sample_header [])"
  using digest_log_unique [OF digest_ref_laws,
      of "[OtherItem (LogBlock (block_new sample_header []))]" "block_new sample_header []"]
  by (simp add: ensure_log_def find_log_def find_log_in_def digest_ref_def)

text \<open>The part of a header that its hash binds.\<close>

definition header_part ::
    "Header \<Rightarrow> u64 \<times> contract_address \<times> u64 \<times> u128 \<times> u128 \<times> u8 \<times> stark_felt" where
  "header_part h = (hd_block_number h, hd_sequencer_address h, hd_block_timestamp h,
     hd_transaction_count h, hd_event_count h, hd_protocol_version h, hd_parent_block_hash h)"

definition header_ok :: "Header \<Rightarrow> bool" where
  "header_ok h \<longleftrightarrow> length (hd_sequencer_address h) = 32 \<and> be_val (hd_sequencer_address h) < felt_prime \<and>
     length (hd_parent_block_hash h) = 32 \<and> be_val (hd_parent_block_hash h) < felt_prime"

definition header_elements :: "Header \<Rightarrow> felt list" where
  "header_elements h = [unat (hd_block_number h), be_val (hd_sequencer_address h), unat (hd_block_timestamp h),
     unat (hd_transaction_count h), unat (hd_event_count h), unat (hd_protocol_version h), 0,
     be_val (hd_parent_block_hash h)]"

lemma header_elements_inj:
  "header_ok h \<Longrightarrow> header_ok h' \<Longrightarrow> header_elements h = header_elements h' \<longleftrightarrow> header_part h = header_part h'"
  by (auto simp: header_elements_def header_part_def header_ok_def unat_eq_iff intro: be_val_inj)

context field_libs
begin

lemma felt_from_stark_felt_eq:
  "length v = 32 \<Longrightarrow> be_val v < felt_prime \<Longrightarrow> felt_from_stark_felt ff v = Ok (be_val v)"
  using stark_felt_roundtrip(2) [of "be_val v"] be_bytes_be_val [of v] by simp

lemma header_hash_eq:
  "header_ok h \<Longrightarrow> header_hash ff H h = Ok (compute_hash_on_wrappers H (header_elements h))"
  by (simp add: header_hash_def header_ok_def header_elements_def felt_from_stark_felt_eq felt_from_u128_eq
      felt_from_u64_def felt_from_u8_def from_words ZERO_def)

end

text \<open>
  C16. The hash of a header always exists: it is the hash of a list of eight felts, and two headers
  give the same list exactly when they agree on every field except the gas price and the extra data,
  which the hash leaves out.
\<close>

theorem header_hash_binds:
  assumes "ff_laws ff" "header_ok h" "header_ok h'"
  shows "header_hash ff H h = Ok (compute_hash_on_wrappers H (header_elements h)) \<and>
    (header_elements h = header_elements h' \<longleftrightarrow> header_part h = header_part h')"
  using assms header_elements_inj by (simp add: field_libs.header_hash_eq [OF field_libs.intro])

theorem header_hash_binds_witness:
  "header_hash ff_ref (PedersenHasher ff_ref crypto_ref) sample_header = Ok (compute_hash_on_wrappers
     (PedersenHasher ff_ref crypto_ref) (header_elements (sample_header\<lparr>hd_extra_data := Some 5\<rparr>))) \<and>
   header_elements sample_header \<noteq> header_elements (sample_header\<lparr>hd_block_number := 2\<rparr>)"
proof -
  have ok: "header_ok sample_header" "header_ok (sample_header\<lparr>hd_extra_data := Some 5\<rparr>)"
      "header_ok (sample_header\<lparr>hd_block_number := 2\<rparr>)"
    using be_val_zeros [of 32 "[]"] by (simp_all add: header_ok_def sample_header_def header_new_def)
  note b = header_hash_binds [where H = "PedersenHasher ff_ref crypto_ref", OF ff_ref_laws ok(1)]
  have "header_elements sample_header = header_elements (sample_header\<lparr>hd_extra_data := Some 5\<rparr>)"
    by (rule b [OF ok(2), THEN conjunct2, THEN iffD2]) (simp add: header_part_def)
  moreover have "header_elements sample_header \<noteq> header_elements (sample_header\<lparr>hd_block_number := 2\<rparr>)"
    by (subst b [OF ok(3), THEN conjunct2]) (simp add: header_part_def sample_header_def header_new_def)
  ultimately show ?thesis
    using b [OF ok(1), THEN conjunct1] by simp
qed

end
