(* ===== verification/Call_Events.thy ===== *)
theory Call_Events
  imports Conversions
begin

text \<open>
  The walk over a tree of call infos that collects events and messages to L1 in the order they
  were emitted: \<open>emit_events_in_call_info\<close> and \<open>aggregate_messages_in_call_info\<close> of the
  pallet (\<^verbatim>\<open>crates/pallets/starknet/src/lib.rs\<close>), which are the same loop over two fields of
  \<open>CallInfo\<close>. An index into a vector is the rest of the vector here. Blockifier numbers what a
  transaction emits from zero on, across all its calls; \<open>numbered\<close> says that a tree carries such
  numbers, and the walk then visits everything once and in order.
\<close>

lemma size_inner_calls: "size_list size (ci_inner_calls c) < size c"
  by (cases c) simp

function (sequential)
    walk_call :: "(CallInfo \<Rightarrow> (nat \<times> 'e) list) \<Rightarrow> (contract_address \<Rightarrow> 'e \<Rightarrow> 's \<Rightarrow> 's) \<Rightarrow> CallInfo
      \<Rightarrow> nat \<Rightarrow> 's \<Rightarrow> nat \<times> 's"
and walk_loop :: "(CallInfo \<Rightarrow> (nat \<times> 'e) list) \<Rightarrow> (contract_address \<Rightarrow> 'e \<Rightarrow> 's \<Rightarrow> 's) \<Rightarrow> contract_address
      \<Rightarrow> (nat \<times> 'e) list \<Rightarrow> CallInfo list \<Rightarrow> nat \<Rightarrow> 's \<Rightarrow> nat \<times> 's" where
  "walk_call sel emit c next_order s =
     walk_loop sel emit (cep_storage_address (ci_call c)) (sel c) (ci_inner_calls c) next_order s"
| "walk_loop sel emit addr items inner next_order s =
     (if items \<noteq> [] \<and> fst (hd items) = next_order then
        walk_loop sel emit addr (tl items) inner (next_order + 1) (emit addr (snd (hd items)) s)
      else
        (case inner of
           [] \<Rightarrow> (next_order, s)
         | c # inner' \<Rightarrow>
             (case walk_call sel emit c next_order s of
                (next_order', s') \<Rightarrow> walk_loop sel emit addr items inner' next_order' s')))"
  by pat_completeness auto

termination
  by (relation "measures [\<lambda>x. case x of Inl (_, _, c, _, _) \<Rightarrow> size c | Inr (_, _, _, _, inner, _, _) \<Rightarrow> size_list size inner,
        \<lambda>x. case x of Inl _ \<Rightarrow> 0 | Inr (_, _, _, items, _, _, _) \<Rightarrow> Suc (length items)]")
     (auto simp: size_inner_calls)

declare walk_call.simps [simp del] walk_loop.simps [simp del]

section \<open>What was emitted\<close>

text \<open>
  A trace is what a call did in order: an emission of its own or an inner call with a trace of its
  own. \<open>numbered\<close> relates the emissions and inner calls recorded for a call to its trace, with the
  numbers from \<open>n\<close> up to \<open>n'\<close>.
\<close>

datatype 'e trace_item = Own 'e | Inner contract_address "'e trace_item list"

abbreviation call_address :: "CallInfo \<Rightarrow> contract_address" where
  "call_address c \<equiv> cep_storage_address (ci_call c)"

inductive numbered :: "(CallInfo \<Rightarrow> (nat \<times> 'e) list) \<Rightarrow> (nat \<times> 'e) list \<Rightarrow> CallInfo list
    \<Rightarrow> 'e trace_item list \<Rightarrow> nat \<Rightarrow> nat \<Rightarrow> bool" for sel where
  numbered_nil: "numbered sel [] [] [] n n"
| numbered_own: "numbered sel items inner trace (Suc n) n' \<Longrightarrow>
    numbered sel ((n, e) # items) inner (Own e # trace) n n'"
| numbered_inner: "numbered sel (sel c) (ci_inner_calls c) t n m \<Longrightarrow> numbered sel items inner trace m n' \<Longrightarrow>
    numbered sel items (c # inner) (Inner (call_address c) t # trace) n n'"

fun emitted :: "contract_address \<Rightarrow> 'e trace_item list \<Rightarrow> (contract_address \<times> 'e) list" where
  "emitted addr [] = []"
| "emitted addr (Own e # rest) = (addr, e) # emitted addr rest"
| "emitted addr (Inner a t # rest) = emitted a t @ emitted addr rest"

lemma numbered_count: "numbered sel items inner t n n' \<Longrightarrow> n' = n + length (emitted addr t)"
proof (induction arbitrary: addr rule: numbered.induct)
  case (numbered_nil n)
  show ?case by simp
next
  case (numbered_own items inner trace n n' e)
  show ?case using numbered_own.IH [of addr] by simp
next
  case (numbered_inner c t n m items inner trace n')
  show ?case
    using numbered_inner.IH(1) [of "call_address c"] numbered_inner.IH(2) [of addr] by simp
qed

lemma numbered_ge: "numbered sel items inner t n n' \<Longrightarrow> (k, e) \<in> set items \<Longrightarrow> n \<le> k"
proof (induction arbitrary: k e rule: numbered.induct)
  case (numbered_nil n)
  then show ?case by simp
next
  case (numbered_own items inner trace n n' x)
  then show ?case
    by (metis Pair_inject Suc_leD order_refl set_ConsD)
next
  case (numbered_inner c t n m items inner trace n')
  have "n \<le> m"
    using numbered_count [OF numbered_inner.hyps(1), of "call_address c"] by simp
  also have "m \<le> k"
    by (rule numbered_inner.IH(2) [OF numbered_inner.prems])
  finally show ?case .
qed

text \<open>A call whose tree emitted nothing can be visited at any point.\<close>

lemma walk_loop_own:
  "walk_loop sel emit addr ((k, e) # items) inner k s = walk_loop sel emit addr items inner (Suc k) (emit addr e s)"
  by (subst walk_loop.simps) simp

lemma walk_loop_end: "items = [] \<or> fst (hd items) \<noteq> k \<Longrightarrow> walk_loop sel emit addr items [] k s = (k, s)"
  by (subst walk_loop.simps) auto

lemma walk_loop_descend:
  "items = [] \<or> fst (hd items) \<noteq> k \<Longrightarrow> walk_loop sel emit addr items (c # inner) k s =
     (case walk_call sel emit c k s of (k', s') \<Rightarrow> walk_loop sel emit addr items inner k' s')"
  by (subst walk_loop.simps) auto

lemma walk_loop_skip:
  assumes "\<And>k s. walk_call sel emit c k s = (k, s)"
  shows "walk_loop sel emit addr items (c # inner) k s = walk_loop sel emit addr items inner k s"
proof (induction items arbitrary: k s)
  case Nil
  then show ?case by (simp add: walk_loop_descend assms)
next
  case (Cons x items)
  show ?case
  proof (cases "fst x = k")
    case True
    then obtain e where "x = (k, e)" by (cases x) auto
    then show ?thesis using Cons by (simp add: walk_loop_own)
  next
    case False
    then show ?thesis by (simp add: walk_loop_descend assms)
  qed
qed

lemma silent_walk:
  "numbered sel items inner t n n' \<Longrightarrow> n' = n \<Longrightarrow> items = [] \<and> walk_loop sel emit addr [] inner k s = (k, s)"
proof (induction arbitrary: addr k s rule: numbered.induct)
  case (numbered_nil n)
  then show ?case by (simp add: walk_loop_end)
next
  case (numbered_own items inner trace n n' e)
  then show ?case using numbered_count [OF numbered_own.hyps, of addr] by simp
next
  case (numbered_inner c t n m items inner trace n')
  have "m = n" "n' = m"
    using numbered_count [OF numbered_inner.hyps(1), of addr] numbered_count [OF numbered_inner.hyps(2), of addr]
      numbered_inner.prems by auto
  then have "sel c = []" "items = []" "walk_loop sel emit (call_address c) [] (ci_inner_calls c) k s = (k, s)"
      "walk_loop sel emit addr [] inner k s = (k, s)"
    using numbered_inner.IH(1) [of "call_address c" k s] numbered_inner.IH(2) [of addr k s] by simp_all
  note walked = this
  have "walk_call sel emit c k s = (k, s)"
    by (simp only: walk_call.simps walked(1,3))
  then have "walk_loop sel emit addr [] (c # inner) k s = (k, s)"
    by (simp only: walk_loop_descend [OF disjI1 [OF refl]] walked(4) case_prod_conv)
  then show ?case
    using walked(2) by (rule conjI [rotated])
qed

lemma walk_loop_numbered:
  assumes "numbered sel items inner t n n'"
  shows "walk_loop sel emit addr items inner n s = (n', fold (\<lambda>(a, e). emit a e) (emitted addr t) s)"
  using assms
proof (induction arbitrary: addr s rule: numbered.induct)
  case (numbered_nil n)
  then show ?case by (simp add: walk_loop_end)
next
  case (numbered_own items inner trace n n' e)
  show ?case by (simp add: walk_loop_own numbered_own.IH)
next
  case (numbered_inner c t n m items inner trace n')
  show ?case
  proof (cases "m = n")
    case True
    have "walk_call sel emit c k s = (k, s)" for k s
      using silent_walk [OF numbered_inner.hyps(1) True, of emit "call_address c" k s]
      by (simp add: walk_call.simps)
    then have "walk_loop sel emit addr items (c # inner) n s = walk_loop sel emit addr items inner m s"
      by (simp only: walk_loop_skip True)
    moreover have "emitted (call_address c) t = []"
      using numbered_count [OF numbered_inner.hyps(1), of "call_address c"] True by simp
    ultimately show ?thesis
      by (simp only: numbered_inner.IH(2) emitted.simps append_Nil)
  next
    case False
    then have "n < m" using numbered_count [OF numbered_inner.hyps(1), of addr] by simp
    then have "items = [] \<or> fst (hd items) \<noteq> n"
      using numbered_ge [OF numbered_inner.hyps(2), of "fst (hd items)" "snd (hd items)"]
      by (cases items) auto
    then have "walk_loop sel emit addr items (c # inner) n s =
        (case walk_call sel emit c n s of (k, s') \<Rightarrow> walk_loop sel emit addr items inner k s')"
      by (rule walk_loop_descend)
    moreover have "walk_call sel emit c n s = (m, fold (\<lambda>(a, e). emit a e) (emitted (call_address c) t) s)"
      by (simp only: walk_call.simps numbered_inner.IH(1))
    ultimately show ?thesis
      by (simp add: numbered_inner.IH(2))
  qed
qed

lemma walk_call_numbered:
  "numbered sel (sel c) (ci_inner_calls c) t n n' \<Longrightarrow>
     walk_call sel emit c n s = (n', fold (\<lambda>(a, e). emit a e) (emitted (call_address c) t) s)"
  by (simp add: walk_call.simps walk_loop_numbered)

end
