(* ===== verification/Pallet.thy ===== *)
theory Pallet
  imports Execution Block Call_Events
begin

text \<open>
  The Starknet pallet, \<^verbatim>\<open>crates/pallets/starknet/src/lib.rs\<close>: its storage, the genesis build,
  the extrinsics, the inherent and the hooks that close a block. The inherent data of the sequencer
  address (\<^verbatim>\<open>crates/primitives/sequencer-address\<close>) is here as well. A storage item is a field of
  the record \<open>pallet\<close>: a map for a \<open>StorageMap\<close>, a value for a \<open>ValueQuery\<close> item, an option
  for an \<open>OptionQuery\<close> item. What the pallet hands to the system pallet is recorded as the
  sequence of those calls (\<open>deposited_events\<close>, \<open>digest_logs\<close>).
\<close>

section \<open>Configuration and storage\<close>

text \<open>The external libraries, the build of the runtime and the constants of the trait \<open>Config\<close>.\<close>

record ('c, 'r, 'x, 'p) runtime =
  rt_ff :: ff_api
  rt_sf :: sf_api
  rt_cr :: crypto_api
  rt_fx :: fx_api
  rt_bf :: "('c, 'r, 'x) bf_api"
  rt_dg :: "'p digest_api"
  rt_build :: build
  T_SystemHash :: hasher
  T_L1GasPrice :: ResourcePrice
  T_TransactionLongevity :: u64
  T_DisableTransactionFee :: bool
  T_DisableNonceValidation :: bool
  T_InvokeTxMaxNSteps :: u32
  T_ValidateMaxNSteps :: u32
  T_ProtocolVersion :: u8
  T_ChainId :: felt252_wrapper
  T_MaxRecursionDepth :: u32
  T_ProgramHash :: felt252_wrapper

record StarknetEvent =
  se_from_address :: contract_address
  se_content :: EventContent

datatype Event =
  KeepStarknetStrange
| StarknetEventEv StarknetEvent
| FeeTokenAddressChanged contract_address contract_address

datatype Error =
  AccountNotDeployed | TransactionExecutionFailed | ClassHashAlreadyDeclared | ContractClassHashUnknown
| ContractClassAlreadyAssociated | ContractClassMustBeSpecified | AccountAlreadyDeployed
| ContractAddressAlreadyAssociated | InvalidContractClass | TooManyEmittedStarknetEvents
| StateReaderError | EmitEventError | StateDiffError | ContractNotFound | TransactionConversionError
| SequencerAddressNotValid | InvalidContractClassForThisDeclareVersion | Unimplemented
| MissingRevertReason | MissingCallInfo | FailedToCreateATransactionalStorageExecution
| L1MessageAlreadyExecuted | MissingL1GasUsage

datatype DispatchError = ModuleError Error | BadOrigin

datatype StarknetStorageSchemaVersion = UndefinedSchema | SchemaV1

record ('c, 'p) pallet =
  Contracts :: "'c contract_storage"
  Pending :: "Transaction list"
  PendingHashes :: "stark_felt list"
  TxEvents :: "(stark_felt \<times> StarknetEvent list) list"
  TxMessages :: "stark_felt \<Rightarrow> MessageToL1 list"
  TxRevertError :: "stark_felt \<rightharpoonup> string"
  BlockHash :: "u64 \<rightharpoonup> felt252_wrapper"
  LastKnownEthBlock :: "u64 option"
  FeeTokenAddress :: contract_address
  SequencerAddress :: contract_address
  SeqAddrUpdate :: "bool option"
  L1Messages :: "nonce set"
  schema_version :: "StarknetStorageSchemaVersion option"
  sys_block_number :: u32
  sys_now :: u64
  deposited_events :: "Event list"
  digest_logs :: "'p DigestItem list"

section \<open>Reading the state\<close>

definition block_number :: "('c, 'p) pallet \<Rightarrow> u64" where
  "block_number s = ucast (sys_block_number s)"

definition chain_id_str :: "('c, 'r, 'x, 'p) runtime \<Rightarrow> bytes" where
  "chain_id_str R = ff_to_bytes_be (rt_ff R) (T_ChainId R)"

definition block_timestamp :: "('c, 'p) pallet \<Rightarrow> u64" where
  "block_timestamp s = sys_now s div 1000"

definition get_block_context :: "('c, 'r, 'x, 'p) runtime \<Rightarrow> ('c, 'p) pallet \<Rightarrow> BlockContext" where
  "get_block_context R s =
     \<lparr>bc_block_number = block_number s, bc_block_timestamp = block_timestamp s,
      bc_chain_id = chain_id_str R, bc_sequencer_address = SequencerAddress s,
      bc_fee_token_address = FeeTokenAddress s, bc_vm_resource_fee_cost = [],
      bc_invoke_tx_max_n_steps = T_InvokeTxMaxNSteps R, bc_validate_max_n_steps = T_ValidateMaxNSteps R,
      bc_gas_price = price_in_wei (T_L1GasPrice R), bc_max_recursion_depth = T_MaxRecursionDepth R\<rparr>"

definition block_hash :: "('c, 'p) pallet \<Rightarrow> u64 \<Rightarrow> felt252_wrapper" where
  "block_hash s n = (case BlockHash s n of Some h \<Rightarrow> h | None \<Rightarrow> ZERO)"

definition parent_block_hash :: "('c, 'p) pallet \<Rightarrow> u64 \<Rightarrow> felt252_wrapper" where
  "parent_block_hash s current_block_number =
     (if current_block_number = 0 then ZERO else block_hash s (current_block_number - 1))"

definition transaction_count :: "('c, 'p) pallet \<Rightarrow> u128" where
  "transaction_count s = word_of_nat (length (Pending s))"

definition event_count :: "('c, 'p) pallet \<Rightarrow> u128" where
  "event_count s = sum_list (map (\<lambda>(_, v). word_of_nat (length v)) (TxEvents s))"

definition chain_id :: "('c, 'r, 'x, 'p) runtime \<Rightarrow> felt252_wrapper" where
  "chain_id R = T_ChainId R"

definition program_hash :: "('c, 'r, 'x, 'p) runtime \<Rightarrow> felt252_wrapper" where
  "program_hash R = T_ProgramHash R"

definition is_transaction_fee_disabled :: "('c, 'r, 'x, 'p) runtime \<Rightarrow> bool" where
  "is_transaction_fee_disabled R = T_DisableTransactionFee R"

definition SN_OS_CONFIG_HASH_VERSION :: bytes where
  "SN_OS_CONFIG_HASH_VERSION = ascii ''StarknetOsConfig1''"

definition config_hash :: "('c, 'r, 'x, 'p) runtime \<Rightarrow> ('c, 'p) pallet \<Rightarrow> (stark_felt, 'e) result" where
  "config_hash R s =
     and_then (unwrap (ff_from_byte_slice_be (rt_ff R) SN_OS_CONFIG_HASH_VERSION)) (\<lambda>version.
     and_then (unwrap (felt_from_stark_felt (rt_ff R) (FeeTokenAddress s))) (\<lambda>fee_token_address.
       felt_into (rt_ff R) (compute_hash_on_elements (T_SystemHash R)
         [version, T_ChainId R, fee_token_address])))"

definition pallet_get_storage_at ::
    "('c, 'p) pallet \<Rightarrow> contract_address \<Rightarrow> storage_key \<Rightarrow> (stark_felt, DispatchError) result" where
  "pallet_get_storage_at s contract_address key =
     (if ContractClassHashes (Contracts s) contract_address = None then Err (ModuleError ContractNotFound)
      else Ok (pallet_storage (Contracts s) (contract_address, key)))"

section \<open>Running transactions on the storage\<close>

text \<open>
  \<open>&mut BlockifierStateAdapter::<T>::default()\<close>: the call works on the pallet's own storage with
  fresh bookkeeping.
\<close>

definition on_adapter :: "('a, 'e, 'c bstate) st \<Rightarrow> ('a, 'e, ('c, 'p) pallet) st" where
  "on_adapter m s =
     (case m \<lparr>bs_pallet = Contracts s, bs_adapter = adapter_default\<rparr> of
        (r, b) \<Rightarrow> (r, s\<lparr>Contracts := bs_pallet b\<rparr>))"

definition modify_st :: "('s \<Rightarrow> 's) \<Rightarrow> (unit, 'e, 's) st" where
  "modify_st f s = (Ok (), f s)"

definition ensure :: "bool \<Rightarrow> 'e \<Rightarrow> (unit, 'e, 's) st" where
  "ensure b e = ret_st (if b then Ok () else Err e)"

definition account_context_default :: AccountTransactionContext where
  "account_context_default = \<lparr>atc_transaction_hash = felt_default, atc_max_fee = 0, atc_version = felt_default,
     atc_signature = [], atc_nonce = felt_default, atc_sender_address = felt_default\<rparr>"

definition call_contract ::
    "('c, 'r, 'x, 'p) runtime \<Rightarrow> contract_address \<Rightarrow> stark_felt \<Rightarrow> stark_felt list
      \<Rightarrow> (felt252_wrapper list, DispatchError, ('c, 'p) pallet) st" where
  "call_contract R address function_selector calldata =
     bind_st get_st (\<lambda>s.
     (let block_context = get_block_context R s in
     bind_st (ret_st (ok_or (ModuleError ContractNotFound) (ContractClassHashes (Contracts s) address))) (\<lambda>class_hash.
     (let entrypoint = \<lparr>cep_class_hash = Some class_hash, cep_code_address = None,
            cep_entry_point_type = EP_External, cep_entry_point_selector = function_selector,
            cep_calldata = calldata, cep_storage_address = address, cep_caller_address = felt_default,
            cep_call_type = CT_Call, cep_initial_gas = INITIAL_GAS\<rparr>;
          context = bf_new_context (rt_bf R) block_context account_context_default
            (bc_invoke_tx_max_n_steps block_context)
      in bind_st (map_err_st (\<lambda>_. ModuleError TransactionExecutionFailed)
           (on_adapter (with_env (rt_bf R) context (bf_execute_call (rt_bf R) entrypoint)))) (\<lambda>(v, _).
         ret_st (collect_results (\<lambda>x. unwrap (felt_from_stark_felt (rt_ff R) x)) (ci_retdata v)))))))"

section \<open>Events, messages and pending transactions\<close>

definition append_event :: "stark_felt \<Rightarrow> StarknetEvent \<Rightarrow> ('c, 'p) pallet \<Rightarrow> ('c, 'p) pallet" where
  "append_event tx_hash ev s =
     s\<lparr>TxEvents := AList.update tx_hash
         ((case map_of (TxEvents s) tx_hash of Some evs \<Rightarrow> evs | None \<Rightarrow> []) @ [ev]) (TxEvents s)\<rparr>"

definition emit_event :: "stark_felt \<Rightarrow> contract_address \<Rightarrow> EventContent \<Rightarrow> ('c, 'p) pallet \<Rightarrow> ('c, 'p) pallet" where
  "emit_event tx_hash address content s =
     (let event = \<lparr>se_from_address = address, se_content = content\<rparr>
      in append_event tx_hash event (s\<lparr>deposited_events := deposited_events s @ [StarknetEventEv event]\<rparr>))"

definition emit_events_in_call_info ::
    "stark_felt \<Rightarrow> CallInfo \<Rightarrow> nat \<Rightarrow> ('c, 'p) pallet \<Rightarrow> nat \<times> ('c, 'p) pallet" where
  "emit_events_in_call_info tx_hash call_info next_order s =
     walk_call ci_events (emit_event tx_hash) call_info next_order s"

definition append_message ::
    "stark_felt \<Rightarrow> contract_address \<Rightarrow> MessageContent \<Rightarrow> ('c, 'p) pallet \<Rightarrow> ('c, 'p) pallet" where
  "append_message tx_hash address m s =
     s\<lparr>TxMessages := (TxMessages s)(tx_hash := TxMessages s tx_hash @
        [\<lparr>ml1_from_address = address, ml1_to_address = mc_to_address m, ml1_payload = mc_payload m\<rparr>])\<rparr>"

definition aggregate_messages_in_call_info ::
    "stark_felt \<Rightarrow> CallInfo \<Rightarrow> nat \<Rightarrow> ('c, 'p) pallet \<Rightarrow> nat \<times> ('c, 'p) pallet" where
  "aggregate_messages_in_call_info tx_hash call_info next_order s =
     walk_call ci_l2_to_l1_messages (append_message tx_hash) call_info next_order s"

definition emit_and_aggregate :: "stark_felt \<Rightarrow> CallInfo option \<Rightarrow> ('c, 'p) pallet \<Rightarrow> ('c, 'p) pallet" where
  "emit_and_aggregate tx_hash info s =
     (case info of
        None \<Rightarrow> s
      | Some call_info \<Rightarrow>
          snd (aggregate_messages_in_call_info tx_hash call_info 0
            (snd (emit_events_in_call_info tx_hash call_info 0 s))))"

definition emit_and_store_tx_and_fees_events ::
    "stark_felt \<Rightarrow> CallInfo option \<Rightarrow> CallInfo option \<Rightarrow> ('c, 'p) pallet \<Rightarrow> ('c, 'p) pallet" where
  "emit_and_store_tx_and_fees_events tx_hash execute_call_info fee_transfer_call_info s =
     emit_and_aggregate tx_hash fee_transfer_call_info (emit_and_aggregate tx_hash execute_call_info s)"

definition store_transaction ::
    "stark_felt \<Rightarrow> Transaction \<Rightarrow> string option \<Rightarrow> ('c, 'p) pallet \<Rightarrow> ('c, 'p) pallet" where
  "store_transaction tx_hash tx revert_reason s =
     s\<lparr>Pending := Pending s @ [tx], PendingHashes := PendingHashes s @ [tx_hash],
       TxRevertError := (TxRevertError s)(tx_hash := revert_reason)\<rparr>"

definition store_results ::
    "stark_felt \<Rightarrow> Transaction \<Rightarrow> TransactionExecutionInfo \<Rightarrow> ('c, 'p) pallet \<Rightarrow> ('c, 'p) pallet" where
  "store_results tx_hash tx infos s =
     store_transaction tx_hash tx (tei_revert_error infos)
       (emit_and_store_tx_and_fees_events tx_hash (tei_execute_call_info infos)
         (tei_fee_transfer_call_info infos) s)"

section \<open>Extrinsics\<close>

datatype Origin = NoneOrigin | OtherOrigin

definition ensure_none :: "Origin \<Rightarrow> (unit, DispatchError, 's) st" where
  "ensure_none origin = ensure (origin = NoneOrigin) BadOrigin"

definition runtime_config :: "('c, 'r, 'x, 'p) runtime \<Rightarrow> ExecutionConfig" where
  "runtime_config R = config_builder_new (T_DisableNonceValidation R) (T_DisableTransactionFee R)"

definition assert_st :: "bool \<Rightarrow> (unit, 'e, 's) st" where
  "assert_st b = ret_st (if b then Ok () else Panic)"

definition set_sequencer_address ::
    "('c, 'r, 'x, 'p) runtime \<Rightarrow> Origin \<Rightarrow> bytes \<Rightarrow> (unit, DispatchError, ('c, 'p) pallet) st" where
  "set_sequencer_address R origin addr =
     bind_st (ensure_none origin) (\<lambda>_.
     bind_st get_st (\<lambda>s.
     bind_st (if block_number s > 1 then assert_st (SeqAddrUpdate s = None) else ret_st (Ok ())) (\<lambda>_.
     bind_st (ret_st (ok_or (ModuleError SequencerAddressNotValid) (stark_felt_new (rt_ff R) addr))) (\<lambda>addr.
     bind_st (ret_st (ok_or (ModuleError SequencerAddressNotValid) (patricia_key_try_from (rt_sf R) addr))) (\<lambda>addr.
       modify_st (\<lambda>s. s\<lparr>SequencerAddress := addr, SeqAddrUpdate := Some True\<rparr>))))))"

fun st_invoke_sender :: "st_InvokeTransaction \<Rightarrow> contract_address" where
  "st_invoke_sender (StInvokeV0 tx) = si0_contract_address tx"
| "st_invoke_sender (StInvokeV1 tx) = si1_sender_address tx"

definition invoke ::
    "('c, 'r, 'x, 'p) runtime \<Rightarrow> Origin \<Rightarrow> InvokeTransaction \<Rightarrow> (unit, DispatchError, ('c, 'p) pallet) st" where
  "invoke R origin input_transaction =
     bind_st (ensure_none origin) (\<lambda>_.
     bind_st (ret_st (invoke_into_executable (rt_ff R) (rt_cr R) (T_SystemHash R) input_transaction
         (chain_id R) False)) (\<lambda>transaction.
     bind_st get_st (\<lambda>s.
     bind_st (ensure (ContractClassHashes (Contracts s) (st_invoke_sender (bi_tx transaction)) \<noteq> None)
         (ModuleError AccountNotDeployed)) (\<lambda>_.
     bind_st (map_err_st (\<lambda>_. ModuleError TransactionExecutionFailed)
         (on_adapter (execute_invoke (rt_ff R) (rt_sf R) (rt_fx R) (rt_bf R) transaction
            (get_block_context R s) (runtime_config R)))) (\<lambda>tx_execution_infos.
       modify_st (store_results (bi_tx_hash transaction) (TInvoke input_transaction) tx_execution_infos))))))"

definition declare_call ::
    "('c, 'r, 'x, 'p) runtime \<Rightarrow> Origin \<Rightarrow> DeclareTransaction \<Rightarrow> 'c \<Rightarrow> (unit, DispatchError, ('c, 'p) pallet) st" where
  "declare_call R origin input_transaction contract_class =
     bind_st (ensure_none origin) (\<lambda>_.
     bind_st (ret_st (map_err (\<lambda>_. ModuleError InvalidContractClassForThisDeclareVersion)
         (declare_try_into_executable (rt_ff R) (rt_cr R) (T_SystemHash R) (rt_bf R) input_transaction
            (chain_id R) contract_class False))) (\<lambda>transaction.
     bind_st get_st (\<lambda>s.
     bind_st (ensure (ContractClasses (Contracts s) (st_declare_class_hash (bd_tx transaction)) = None)
         (ModuleError ClassHashAlreadyDeclared)) (\<lambda>_.
     bind_st (ensure (ContractClassHashes (Contracts s) (st_declare_sender_address (bd_tx transaction)) \<noteq> None)
         (ModuleError AccountNotDeployed)) (\<lambda>_.
     bind_st (map_err_st (\<lambda>_. ModuleError TransactionExecutionFailed)
         (on_adapter (execute_declare (rt_ff R) (rt_sf R) (rt_fx R) (rt_bf R) transaction
            (get_block_context R s) (runtime_config R)))) (\<lambda>tx_execution_infos.
       modify_st (store_results (bd_tx_hash transaction) (TDeclare input_transaction) tx_execution_infos)))))))"

definition deploy_account ::
    "('c, 'r, 'x, 'p) runtime \<Rightarrow> Origin \<Rightarrow> DeployAccountTransaction \<Rightarrow> (unit, DispatchError, ('c, 'p) pallet) st" where
  "deploy_account R origin input_transaction =
     bind_st (ensure_none origin) (\<lambda>_.
     bind_st (ret_st (deploy_into_executable (rt_ff R) (rt_cr R) (rt_sf R) (T_SystemHash R) input_transaction
         (T_ChainId R) False)) (\<lambda>transaction.
     bind_st get_st (\<lambda>s.
     bind_st (ensure (ContractClassHashes (Contracts s) (bda_contract_address transaction) = None)
         (ModuleError AccountAlreadyDeployed)) (\<lambda>_.
     bind_st (map_err_st (\<lambda>_. ModuleError TransactionExecutionFailed)
         (on_adapter (execute_deploy (rt_ff R) (rt_sf R) (rt_fx R) (rt_bf R) transaction
            (get_block_context R s) (runtime_config R)))) (\<lambda>tx_execution_infos.
       modify_st (store_results (bda_tx_hash transaction) (TDeployAccount input_transaction) tx_execution_infos))))))"

datatype InvalidTransaction = InvalidCall | Payment | Stale | BadProof

definition ensure_l1_message_not_executed :: "('c, 'p) pallet \<Rightarrow> nonce \<Rightarrow> (unit, InvalidTransaction) result" where
  "ensure_l1_message_not_executed s nonce = (if nonce \<in> L1Messages s then Err Stale else Ok ())"

definition consume_l1_message ::
    "('c, 'r, 'x, 'p) runtime \<Rightarrow> Origin \<Rightarrow> HandleL1MessageTransaction \<Rightarrow> Fee
      \<Rightarrow> (unit, DispatchError, ('c, 'p) pallet) st" where
  "consume_l1_message R origin input_transaction paid_fee_on_l1 =
     bind_st (ensure_none origin) (\<lambda>_.
     bind_st (ret_st (l1_into_executable (rt_ff R) (rt_cr R) (rt_sf R) (T_SystemHash R) input_transaction
         (chain_id R) paid_fee_on_l1 False)) (\<lambda>transaction.
     (let nonce = sl1_nonce (bl_tx transaction) in
     bind_st get_st (\<lambda>s.
     bind_st (ret_st (map_err (\<lambda>_. ModuleError L1MessageAlreadyExecuted)
         (ensure_l1_message_not_executed s nonce))) (\<lambda>_.
     bind_st (modify_st (\<lambda>s. s\<lparr>L1Messages := insert nonce (L1Messages s)\<rparr>)) (\<lambda>_.
     bind_st (map_err_st (\<lambda>_. ModuleError TransactionExecutionFailed)
         (on_adapter (execute_l1 (rt_build R) (rt_ff R) (rt_sf R) (rt_fx R) (rt_bf R) transaction
            (get_block_context R s) (runtime_config R)))) (\<lambda>tx_execution_infos.
       modify_st (store_results (bl_tx_hash transaction) (TL1Handler input_transaction) tx_execution_infos))))))))"

datatype 'c Call =
  Call_set_sequencer_address bytes
| Call_invoke InvokeTransaction
| Call_declare DeclareTransaction 'c
| Call_deploy_account DeployAccountTransaction
| Call_consume_l1_message HandleL1MessageTransaction Fee

fun run_call :: "('c, 'r, 'x, 'p) runtime \<Rightarrow> Origin \<Rightarrow> 'c Call \<Rightarrow> (unit, DispatchError, ('c, 'p) pallet) st" where
  "run_call R origin (Call_set_sequencer_address addr) = set_sequencer_address R origin addr"
| "run_call R origin (Call_invoke transaction) = invoke R origin transaction"
| "run_call R origin (Call_declare transaction contract_class) = declare_call R origin transaction contract_class"
| "run_call R origin (Call_deploy_account transaction) = deploy_account R origin transaction"
| "run_call R origin (Call_consume_l1_message transaction paid_fee) =
     consume_l1_message R origin transaction paid_fee"

section \<open>Blocks\<close>

fun take_events ::
    "stark_felt list \<Rightarrow> (stark_felt \<times> StarknetEvent list) list
      \<Rightarrow> StarknetEvent list \<times> (stark_felt \<times> StarknetEvent list) list" where
  "take_events [] m = ([], m)"
| "take_events (h # hs) m =
     (case take_events hs (AList.delete h m) of
        (evs, m') \<Rightarrow> ((case map_of m h of Some v \<Rightarrow> v | None \<Rightarrow> []) @ evs, m'))"

definition store_block :: "('c, 'r, 'x, 'p) runtime \<Rightarrow> u64 \<Rightarrow> (unit, 'e, ('c, 'p) pallet) st" where
  "store_block R n =
     bind_st get_st (\<lambda>s.
     (let transactions = Pending s; transaction_hashes = PendingHashes s in
     bind_st (assert_st (length transactions = length transaction_hashes)) (\<lambda>_.
     (let (events, tx_events) = take_events transaction_hashes (TxEvents s) in
     bind_st (ret_st (felt_into (rt_ff R) (parent_block_hash s n))) (\<lambda>parent.
     (let block = block_new (header_new parent n (SequencerAddress s) (block_timestamp s)
            (word_of_nat (length transactions)) (word_of_nat (length events)) (T_ProtocolVersion R)
            (T_L1GasPrice R) None) transactions
      in bind_st (ret_st (header_hash (rt_ff R) (T_SystemHash R) (blk_header block))) (\<lambda>blockhash.
         modify_st (\<lambda>s. s\<lparr>TxEvents := tx_events, BlockHash := (BlockHash s)(n \<mapsto> blockhash),
           Pending := [], PendingHashes := [],
           digest_logs := digest_logs s @
             [Consensus MADARA_ENGINE_ID (dg_encode_log (rt_dg R) (LogBlock block))]\<rparr>))))))))"

text \<open>\<open>take\<close> of a \<open>ValueQuery\<close> item: the value, or \<open>false\<close> where nothing is stored.\<close>

definition on_finalize :: "('c, 'r, 'x, 'p) runtime \<Rightarrow> (unit, 'e, ('c, 'p) pallet) st" where
  "on_finalize R =
     bind_st get_st (\<lambda>s.
     bind_st (modify_st (\<lambda>s. s\<lparr>SeqAddrUpdate := None\<rparr>)) (\<lambda>_.
     bind_st (assert_st (SeqAddrUpdate s = Some True)) (\<lambda>_.
       store_block R (block_number s))))"

section \<open>Genesis\<close>

record 'c GenesisConfig =
  gc_contracts :: "(contract_address \<times> class_hash) list"
  gc_sierra_to_casm_class_hash :: "(class_hash \<times> class_hash) list"
  gc_contract_classes :: "(class_hash \<times> 'c) list"
  gc_storage :: "(contract_storage_key \<times> stark_felt) list"
  gc_fee_token_address :: contract_address

definition genesis_config_default :: "'c GenesisConfig" where
  "genesis_config_default = \<lparr>gc_contracts = [], gc_sierra_to_casm_class_hash = [], gc_contract_classes = [],
     gc_storage = [], gc_fee_token_address = felt_default\<rparr>"

fun insert_classes :: "(class_hash \<times> 'c) list \<Rightarrow> 'c contract_storage \<Rightarrow> 'c contract_storage" where
  "insert_classes [] p = p"
| "insert_classes ((class_hash, contract_class) # rest) p =
     insert_classes rest (p\<lparr>ContractClasses := (ContractClasses p)(class_hash \<mapsto> contract_class)\<rparr>)"

fun insert_compiled :: "(class_hash \<times> class_hash) list \<Rightarrow> 'c contract_storage \<Rightarrow> ('c contract_storage, 'e) result" where
  "insert_compiled [] p = Ok p"
| "insert_compiled ((sierra_class_hash, casm_class_hash) # rest) p =
     (if ContractClasses p sierra_class_hash = None then Panic
      else insert_compiled rest
        (p\<lparr>CompiledClassHashes := (CompiledClassHashes p)(sierra_class_hash \<mapsto> casm_class_hash)\<rparr>))"

fun insert_contracts :: "(contract_address \<times> class_hash) list \<Rightarrow> 'c contract_storage \<Rightarrow> ('c contract_storage, 'e) result" where
  "insert_contracts [] p = Ok p"
| "insert_contracts ((address, class_hash) # rest) p =
     (if ContractClasses p class_hash = None then Panic
      else insert_contracts rest (p\<lparr>ContractClassHashes := (ContractClassHashes p)(address \<mapsto> class_hash)\<rparr>))"

fun insert_storage :: "(contract_storage_key \<times> stark_felt) list \<Rightarrow> 'c contract_storage \<Rightarrow> 'c contract_storage" where
  "insert_storage [] p = p"
| "insert_storage ((key, v) # rest) p = insert_storage rest (p\<lparr>StorageView := (StorageView p)(key \<mapsto> v)\<rparr>)"

definition genesis_build ::
    "('c, 'r, 'x, 'p) runtime \<Rightarrow> 'c GenesisConfig \<Rightarrow> (unit, 'e, ('c, 'p) pallet) st" where
  "genesis_build R self =
     bind_st (store_block R 0) (\<lambda>_.
     bind_st (modify_st (\<lambda>s. s\<lparr>schema_version := Some SchemaV1,
         Contracts := insert_classes (gc_contract_classes self) (Contracts s)\<rparr>)) (\<lambda>_.
     bind_st get_st (\<lambda>s.
     bind_st (ret_st (insert_compiled (gc_sierra_to_casm_class_hash self) (Contracts s))) (\<lambda>p.
     bind_st (ret_st (insert_contracts (gc_contracts self) p)) (\<lambda>p.
       modify_st (\<lambda>s. s\<lparr>Contracts := insert_storage (gc_storage self) p, LastKnownEthBlock := None,
         FeeTokenAddress := gc_fee_token_address self, SeqAddrUpdate := Some True\<rparr>))))))"

section \<open>The inherent\<close>

definition DEFAULT_SEQUENCER_ADDRESS :: bytes where
  "DEFAULT_SEQUENCER_ADDRESS = replicate 30 0 @ [222, 173]"

datatype InherentError = WrongAddressFormat

definition inherent_data_provider_default :: bytes where
  "inherent_data_provider_default = DEFAULT_SEQUENCER_ADDRESS"

definition inherent_data_provider_try_from :: "bytes \<Rightarrow> (bytes, InherentError) result" where
  "inherent_data_provider_try_from storage_val =
     (if length storage_val = 32 then Ok storage_val else Err WrongAddressFormat)"

text \<open>The inherent data is what \<open>get_data\<close> of the inherent data store returns for the identifier.\<close>

definition create_inherent :: "(bytes option, 'e) result \<Rightarrow> ('c Call option, 'f) result" where
  "create_inherent inherent_data =
     map_ok (\<lambda>d. Some (Call_set_sequencer_address (case d of Some a \<Rightarrow> a | None \<Rightarrow> DEFAULT_SEQUENCER_ADDRESS)))
       (unwrap inherent_data)"

fun is_inherent :: "'c Call \<Rightarrow> bool" where
  "is_inherent (Call_set_sequencer_address _) = True"
| "is_inherent _ = False"

end
