(* ===== verification/Chain.thy ===== *)
theory Chain
  imports Pallet
begin

text \<open>
  The pallet as a state machine. Substrate's executive runs a block as an opening step (the next
  number, a new timestamp, an empty list of system events and a digest without Madara log), any
  sequence of extrinsics, and the hook \<open>on_finalize\<close>; an extrinsic that fails leaves no trace in
  storage. The invariant \<open>chain_inv\<close> holds in every reachable state; from it follow that closing
  a block never fails once the sequencer address is set, what the stored block holds, that an L1
  message is consumed at most once and that the sequencer address is set exactly once per block.
\<close>

section \<open>Runs\<close>

datatype ('c, 'p) label =
  Opened u64 "'p DigestItem list"
| Dispatched Origin "'c Call"
| Rejected Origin "'c Call"
| Finalized

definition open_block :: "u64 \<Rightarrow> 'p DigestItem list \<Rightarrow> ('c, 'p) pallet \<Rightarrow> ('c, 'p) pallet" where
  "open_block now items s =
     s\<lparr>sys_block_number := sys_block_number s + 1, sys_now := now, deposited_events := [], digest_logs := items\<rparr>"

text \<open>The argument of \<open>set_sequencer_address\<close> has type \<open>[u8; 32]\<close>.\<close>

fun call_typed :: "'c Call \<Rightarrow> bool" where
  "call_typed (Call_set_sequencer_address addr) \<longleftrightarrow> length addr = 32"
| "call_typed _ \<longleftrightarrow> True"

text \<open>A state of the chain: whether a block is open, and the pallet.\<close>

inductive chain_step :: "('c, 'r, 'x, 'p) runtime \<Rightarrow> bool \<times> ('c, 'p) pallet \<Rightarrow> ('c, 'p) label
    \<Rightarrow> bool \<times> ('c, 'p) pallet \<Rightarrow> bool" for R where
  step_open: "sys_block_number s + 1 \<noteq> 0 \<Longrightarrow> madara_blocks (rt_dg R) items = [] \<Longrightarrow>
    chain_step R (False, s) (Opened now items) (True, open_block now items s)"
| step_dispatched: "call_typed call \<Longrightarrow> run_call R origin call s = (Ok (), s') \<Longrightarrow>
    chain_step R (True, s) (Dispatched origin call) (True, s')"
| step_rejected: "fst (run_call R origin call s) \<noteq> Ok () \<Longrightarrow>
    chain_step R (True, s) (Rejected origin call) (True, s)"
| step_finalized: "on_finalize R s = ((Ok () :: (unit, DispatchError) result), s') \<Longrightarrow>
    chain_step R (True, s) Finalized (False, s')"

inductive_cases openE [elim]: "chain_step R c (Opened now items) c'"
inductive_cases dispatchedE [elim]: "chain_step R c (Dispatched origin call) c'"
inductive_cases rejectedE [elim]: "chain_step R c (Rejected origin call) c'"
inductive_cases finalizedE [elim]: "chain_step R c Finalized c'"

inductive chain_run :: "('c, 'r, 'x, 'p) runtime \<Rightarrow> bool \<times> ('c, 'p) pallet \<Rightarrow> ('c, 'p) label list
    \<Rightarrow> bool \<times> ('c, 'p) pallet \<Rightarrow> bool" for R where
  run_nil: "chain_run R c [] c"
| run_cons: "chain_step R c l c' \<Longrightarrow> chain_run R c' ls c'' \<Longrightarrow> chain_run R c (l # ls) c''"

inductive_simps chain_run_simps: "chain_run R c [] c'" "chain_run R c (l # ls) c'"

definition empty_pallet :: "u64 \<Rightarrow> ('c, 'p) pallet" where
  "empty_pallet now = \<lparr>Contracts = empty_storage, Pending = [], PendingHashes = [], TxEvents = [],
     TxMessages = (\<lambda>_. []), TxRevertError = Map.empty, BlockHash = Map.empty, LastKnownEthBlock = None,
     FeeTokenAddress = felt_default, SequencerAddress = felt_default, SeqAddrUpdate = None,
     L1Messages = {}, schema_version = None, sys_block_number = 0, sys_now = now, deposited_events = [],
     digest_logs = []\<rparr>"

text \<open>A reachable state: a run from the state the genesis build leaves.\<close>

definition reachable :: "('c, 'r, 'x, 'p) runtime \<Rightarrow> bool \<times> ('c, 'p) pallet \<Rightarrow> bool" where
  "reachable R c \<longleftrightarrow> (\<exists>gc now s0 ls. genesis_build R gc (empty_pallet now) = ((Ok () :: (unit, DispatchError) result), s0) \<and>
     chain_run R (False, s0) ls c)"

section \<open>Effects of the operations\<close>

lemma modify_st_eq [simp]: "modify_st f s = (Ok (), f s)"
  by (simp add: modify_st_def)

lemma ensure_Ok_iff [simp]: "ensure b e s = (Ok (), s') \<longleftrightarrow> b \<and> s' = s"
  by (auto simp: ensure_def ret_st_def)

lemma assert_Ok_iff [simp]: "assert_st b s = (Ok (), s') \<longleftrightarrow> b \<and> s' = s"
  by (auto simp: assert_st_def ret_st_def)

lemma ret_st_Ok_iff [simp]: "ret_st r s = (Ok x, s') \<longleftrightarrow> r = Ok x \<and> s' = s"
  by (auto simp: ret_st_def)

lemma get_st_Ok_iff [simp]: "get_st s = (Ok x, s') \<longleftrightarrow> x = s \<and> s' = s"
  by (auto simp: get_st_def)

lemma bind_modify_st [simp]: "bind_st (modify_st f) k s = k () (f s)"
  by (simp add: bind_st_def)

lemma bind_assert_st [simp]: "bind_st (assert_st b) k s = (if b then k () s else (Panic, s))"
  by (simp add: assert_st_def ret_st_def)

lemma on_adapter_Contracts: "on_adapter m s = (r, s') \<Longrightarrow> \<exists>p. s' = s\<lparr>Contracts := p\<rparr>"
  by (auto simp: on_adapter_def split: prod.splits)

text \<open>Emission touches the events and messages of the transaction at hand and nothing else.\<close>

definition keys :: "('k \<times> 'v) list \<Rightarrow> 'k set" where
  "keys m = set (map fst m)"

lemma keys_update [simp]: "keys (AList.update k v m) = insert k (keys m)"
  unfolding keys_def update_keys by auto

lemma keys_delete [simp]: "keys (AList.delete k m) = keys m - {k}"
  unfolding keys_def delete_keys by auto

definition emits_for :: "stark_felt \<Rightarrow> ('c, 'p) pallet \<Rightarrow> ('c, 'p) pallet \<Rightarrow> bool" where
  "emits_for h s s' \<longleftrightarrow> (\<exists>te tm ev. s' = s\<lparr>TxEvents := te, TxMessages := tm, deposited_events := ev\<rparr> \<and>
     keys te \<subseteq> insert h (keys (TxEvents s)) \<and>
     (distinct (map fst (TxEvents s)) \<longrightarrow> distinct (map fst te)))"

lemma emits_forI:
  assumes "s' = s\<lparr>TxEvents := te, TxMessages := tm, deposited_events := ev\<rparr>"
    and "keys te \<subseteq> insert h (keys (TxEvents s))"
    and "distinct (map fst (TxEvents s)) \<longrightarrow> distinct (map fst te)"
  shows "emits_for h s s'"
  unfolding emits_for_def using assms by (intro exI conjI)

lemma emits_forE:
  assumes "emits_for h s s'"
  obtains te tm ev where "s' = s\<lparr>TxEvents := te, TxMessages := tm, deposited_events := ev\<rparr>"
    "keys te \<subseteq> insert h (keys (TxEvents s))" "distinct (map fst (TxEvents s)) \<longrightarrow> distinct (map fst te)"
  using assms unfolding emits_for_def by blast

lemma emits_for_refl: "emits_for h s s"
  by (rule emits_forI [where te = "TxEvents s" and tm = "TxMessages s" and ev = "deposited_events s"]) auto

lemma emits_for_trans:
  assumes "emits_for h s s'" "emits_for h s' s''"
  shows "emits_for h s s''"
proof -
  obtain te tm ev where 1: "s' = s\<lparr>TxEvents := te, TxMessages := tm, deposited_events := ev\<rparr>"
      "keys te \<subseteq> insert h (keys (TxEvents s))" "distinct (map fst (TxEvents s)) \<longrightarrow> distinct (map fst te)"
    using assms(1) by (rule emits_forE)
  obtain te' tm' ev' where 2: "s'' = s'\<lparr>TxEvents := te', TxMessages := tm', deposited_events := ev'\<rparr>"
      "keys te' \<subseteq> insert h (keys (TxEvents s'))" "distinct (map fst (TxEvents s')) \<longrightarrow> distinct (map fst te')"
    using assms(2) by (rule emits_forE)
  show ?thesis
    by (rule emits_forI [where te = te' and tm = tm' and ev = ev']) (use 1 2 in auto)
qed

lemma emit_event_emits: "emits_for h s (emit_event h a e s)"
proof -
  let ?ev = "\<lparr>se_from_address = a, se_content = e\<rparr>"
  let ?te = "AList.update h ((case map_of (TxEvents s) h of Some evs \<Rightarrow> evs | None \<Rightarrow> []) @ [?ev]) (TxEvents s)"
  show ?thesis
    by (rule emits_forI [where te = ?te and tm = "TxMessages s" and ev = "deposited_events s @ [StarknetEventEv ?ev]"])
       (simp_all add: emit_event_def append_event_def Let_def distinct_update)
qed

lemma append_message_emits: "emits_for h s (append_message h a m s)"
  by (rule emits_forI [where te = "TxEvents s" and ev = "deposited_events s"]) (auto simp: append_message_def)

text \<open>What every emission keeps, the walk over the call infos keeps.\<close>

lemma walk_invariant:
  "(\<And>a e s. P s \<Longrightarrow> P (emit a e s)) \<Longrightarrow> P s \<Longrightarrow> P (snd (walk_call sel emit c n s))"
  "(\<And>a e s. P s \<Longrightarrow> P (emit a e s)) \<Longrightarrow> P s \<Longrightarrow> P (snd (walk_loop sel emit addr items inner n s))"
proof (induction sel emit c n s and sel emit addr items inner n s
    rule: walk_call_walk_loop.induct)
  case (1 sel emit c n s)
  then show ?case by (simp add: walk_call.simps)
next
  case (2 sel emit addr items inner n s)
  then show ?case
    by (subst walk_loop.simps) (auto split: list.split prod.split)
qed

lemma emit_and_aggregate_emits: "emits_for h s (emit_and_aggregate h info s)"
proof (cases info)
  case None
  then show ?thesis by (simp add: emit_and_aggregate_def emits_for_refl)
next
  case (Some c)
  let ?s1 = "snd (emit_events_in_call_info h c 0 s)"
  have "emits_for h s ?s1"
    unfolding emit_events_in_call_info_def
    by (rule walk_invariant) (auto intro: emits_for_trans emit_event_emits emits_for_refl)
  moreover have "emits_for h s (snd (aggregate_messages_in_call_info h c 0 ?s1))"
    unfolding aggregate_messages_in_call_info_def
    by (rule walk_invariant) (auto intro: emits_for_trans append_message_emits calculation)
  ultimately show ?thesis
    using Some by (simp add: emit_and_aggregate_def)
qed

text \<open>A transaction that goes through is recorded at the end of the pending ones.\<close>

definition records_tx ::
    "stark_felt \<Rightarrow> Transaction \<Rightarrow> nonce set \<Rightarrow> ('c, 'p) pallet \<Rightarrow> ('c, 'p) pallet \<Rightarrow> bool" where
  "records_tx h tx l1 s s' \<longleftrightarrow> (\<exists>p te tm ev err.
     s' = s\<lparr>Contracts := p, L1Messages := l1, TxEvents := te, TxMessages := tm, deposited_events := ev,
       Pending := Pending s @ [tx], PendingHashes := PendingHashes s @ [h], TxRevertError := err\<rparr> \<and>
     keys te \<subseteq> insert h (keys (TxEvents s)) \<and>
     (distinct (map fst (TxEvents s)) \<longrightarrow> distinct (map fst te)))"

lemma store_results_records:
  assumes "s1 = s\<lparr>Contracts := p, L1Messages := l1\<rparr>"
  shows "records_tx h tx l1 s (store_results h tx info s1)"
proof -
  have "emits_for h s1 (emit_and_store_tx_and_fees_events h (tei_execute_call_info info)
      (tei_fee_transfer_call_info info) s1)"
    unfolding emit_and_store_tx_and_fees_events_def
    by (rule emits_for_trans [OF emit_and_aggregate_emits emit_and_aggregate_emits])
  then obtain te tm ev where e: "emit_and_store_tx_and_fees_events h (tei_execute_call_info info)
        (tei_fee_transfer_call_info info) s1 = s1\<lparr>TxEvents := te, TxMessages := tm, deposited_events := ev\<rparr>"
      "keys te \<subseteq> insert h (keys (TxEvents s1))" "distinct (map fst (TxEvents s1)) \<longrightarrow> distinct (map fst te)"
    by (rule emits_forE)
  show ?thesis
    unfolding records_tx_def
    by (rule exI [of _ p], rule exI [of _ te], rule exI [of _ tm], rule exI [of _ ev],
        rule exI [of _ "(TxRevertError s)(h := tei_revert_error info)"])
       (use e assms in \<open>simp add: store_results_def store_transaction_def\<close>)
qed

lemma records_txI:
  "\<exists>h'. records_tx h' tx (L1Messages s) s (store_results h tx info (s\<lparr>Contracts := p\<rparr>))"
  "\<exists>h'. records_tx h' tx l1 s (store_results h tx info (s\<lparr>L1Messages := l1, Contracts := p\<rparr>))"
  by (rule exI, rule store_results_records [where p = p], simp)+

lemma ensure_none_Ok_iff [simp]: "ensure_none origin s = (Ok (), s') \<longleftrightarrow> origin = NoneOrigin \<and> s' = s"
  by (simp add: ensure_none_def)

fun call_transaction :: "'c Call \<Rightarrow> Transaction option" where
  "call_transaction (Call_set_sequencer_address _) = None"
| "call_transaction (Call_invoke tx) = Some (TInvoke tx)"
| "call_transaction (Call_declare tx _) = Some (TDeclare tx)"
| "call_transaction (Call_deploy_account tx) = Some (TDeployAccount tx)"
| "call_transaction (Call_consume_l1_message tx _) = Some (TL1Handler tx)"

fun consumes :: "('c, 'r, 'x, 'p) runtime \<Rightarrow> 'c Call \<Rightarrow> nonce set" where
  "consumes R (Call_consume_l1_message tx _) = {sf_from_u64 (rt_sf R) (l1_nonce tx)}"
| "consumes R _ = {}"

lemma l1_executable_nonce:
  "l1_into_executable ff cr sf H tx cid fee off = Ok b \<Longrightarrow> sl1_nonce (bl_tx b) = sf_from_u64 sf (l1_nonce tx)"
  by (auto simp: l1_into_executable_def)

lemma on_adapter_Contracts': "map_err_st f (on_adapter m) s = (Ok x, s') \<Longrightarrow> \<exists>p. s' = s\<lparr>Contracts := p\<rparr>"
  by (auto simp: map_err_st_Ok_iff dest: on_adapter_Contracts)

lemma tx_call_records:
  assumes "run_call R origin call s = (Ok (), s')" "call_transaction call = Some tx"
  shows "(\<exists>h. records_tx h tx (L1Messages s \<union> consumes R call) s s') \<and> consumes R call \<inter> L1Messages s = {}"
proof (cases call)
  case (Call_invoke t)
  then show ?thesis
    using assms
    by (auto simp: invoke_def bind_st_Ok_iff intro!: records_txI dest!: on_adapter_Contracts')
next
  case (Call_declare t c)
  then show ?thesis
    using assms
    by (auto simp: declare_call_def bind_st_Ok_iff intro!: records_txI dest!: on_adapter_Contracts')
next
  case (Call_deploy_account t)
  then show ?thesis
    using assms
    by (auto simp: deploy_account_def bind_st_Ok_iff intro!: records_txI dest!: on_adapter_Contracts')
next
  case (Call_consume_l1_message t fee)
  then show ?thesis
    using assms
    by (auto simp: consume_l1_message_def bind_st_Ok_iff Let_def ensure_l1_message_not_executed_def
        l1_executable_nonce split: if_splits intro!: records_txI dest!: on_adapter_Contracts')
qed (use assms in auto)

lemma set_sequencer_address_effect:
  assumes "run_call R origin (Call_set_sequencer_address addr) s = (Ok (), s')"
  shows "\<exists>a b. s' = s\<lparr>SequencerAddress := b, SeqAddrUpdate := Some True\<rparr> \<and> stark_felt_new (rt_ff R) addr = Some a \<and>
    patricia_key_try_from (rt_sf R) a = Some b \<and> (block_number s > 1 \<longrightarrow> SeqAddrUpdate s = None)"
  using assms
  by (auto simp: set_sequencer_address_def bind_st_Ok_iff split: if_splits)

section \<open>Storing a block\<close>

definition stored_block ::
    "('c, 'r, 'x, 'p) runtime \<Rightarrow> u64 \<Rightarrow> ('c, 'p) pallet \<Rightarrow> stark_felt \<Rightarrow> Block" where
  "stored_block R n s parent =
     block_new (header_new parent n (SequencerAddress s) (block_timestamp s) (transaction_count s)
       (word_of_nat (length (fst (take_events (PendingHashes s) (TxEvents s))))) (T_ProtocolVersion R)
       (T_L1GasPrice R) None) (Pending s)"

lemma store_block_eq:
  assumes "length (Pending s) = length (PendingHashes s)"
    and "felt_into (rt_ff R) (parent_block_hash s n) = (Ok parent :: (_, 'e) result)"
    and "header_hash (rt_ff R) (T_SystemHash R) (blk_header (stored_block R n s parent)) = (Ok h :: (_, 'e) result)"
  shows "store_block R n s = (Ok () :: (_, 'e) result,
    s\<lparr>TxEvents := snd (take_events (PendingHashes s) (TxEvents s)), BlockHash := (BlockHash s)(n \<mapsto> h),
      Pending := [], PendingHashes := [],
      digest_logs := digest_logs s @
        [Consensus MADARA_ENGINE_ID (dg_encode_log (rt_dg R) (LogBlock (stored_block R n s parent)))]\<rparr>)"
  using assms
  by (cases "take_events (PendingHashes s) (TxEvents s)")
     (simp add: store_block_def stored_block_def transaction_count_def Let_def)

lemma on_finalize_eq:
  "on_finalize R s =
     (if SeqAddrUpdate s = Some True then store_block R (block_number s) (s\<lparr>SeqAddrUpdate := None\<rparr>)
      else (Panic, s\<lparr>SeqAddrUpdate := None\<rparr>))"
  by (simp add: on_finalize_def)

lemma take_events_keys: "take_events hs m = (evs, m') \<Longrightarrow> keys m' = keys m - set hs"
  by (induction hs arbitrary: m evs m') (auto split: prod.splits)

lemma sum_delete:
  "distinct (map fst m) \<Longrightarrow> map_of m h = Some v \<Longrightarrow>
     sum_list (map (\<lambda>x. f (snd x)) m) = f v + sum_list (map (\<lambda>x. f (snd x)) (AList.delete h m) :: 'a :: ab_group_add list)"
  by (induction m) (auto simp: delete_notin_dom dest: map_of_SomeD weak_map_of_SomeI)

lemma take_events_count:
  assumes "take_events hs m = (evs, m')" "distinct (map fst m)" "keys m \<subseteq> set hs"
  shows "(word_of_nat (length evs) :: u128) = sum_list (map (\<lambda>x. word_of_nat (length (snd x))) m)"
  using assms
proof (induction hs arbitrary: m evs m')
  case Nil
  then show ?case by (simp add: keys_def)
next
  case (Cons h hs)
  obtain evs1 where 1: "take_events hs (AList.delete h m) = (evs1, m')"
      "evs = (case map_of m h of Some v \<Rightarrow> v | None \<Rightarrow> []) @ evs1"
    using Cons.prems(1) by (auto split: prod.splits)
  have "(word_of_nat (length evs1) :: u128) = sum_list (map (\<lambda>x. word_of_nat (length (snd x))) (AList.delete h m))"
    by (rule Cons.IH [OF 1(1)]) (use Cons.prems in \<open>auto simp: distinct_delete\<close>)
  then show ?case
    using 1(2) sum_delete [OF Cons.prems(2), of h _ "\<lambda>v. word_of_nat (length v) :: u128"]
    by (cases "map_of m h") (simp_all add: delete_notin_dom map_of_eq_None_iff)
qed

lemma event_count_taken:
  assumes "distinct (map fst (TxEvents s))" "keys (TxEvents s) \<subseteq> set (PendingHashes s)"
  shows "word_of_nat (length (fst (take_events (PendingHashes s) (TxEvents s)))) = event_count s"
    and "snd (take_events (PendingHashes s) (TxEvents s)) = []"
proof -
  obtain evs m' where t: "take_events (PendingHashes s) (TxEvents s) = (evs, m')" by fastforce
  show "word_of_nat (length (fst (take_events (PendingHashes s) (TxEvents s)))) = event_count s"
    using take_events_count [OF t assms] t by (simp add: event_count_def case_prod_unfold comp_def)
  show "snd (take_events (PendingHashes s) (TxEvents s)) = []"
  proof -
    have "keys m' = {}"
      using take_events_keys [OF t] assms(2) by blast
    then show ?thesis
      using t by (simp add: keys_def)
  qed
qed

section \<open>The invariant\<close>

definition valid_felt :: "stark_felt \<Rightarrow> bool" where
  "valid_felt v \<longleftrightarrow> length v = 32 \<and> be_val v < felt_prime"

definition height :: "bool \<times> ('c, 'p) pallet \<Rightarrow> nat" where
  "height c = (if fst c then unat (sys_block_number (snd c)) - 1 else unat (sys_block_number (snd c)))"

text \<open>
  Pending transactions and hashes go together; events belong to pending transactions; nothing is
  pending between blocks; an open block has a number and no log yet; the sequencer address and every
  block hash are field elements; exactly the closed blocks have a hash; and the flag of the sequencer
  address is down between blocks, after the genesis block.
\<close>

definition pending_inv :: "bool \<times> ('c, 'p) pallet \<Rightarrow> bool" where
  "pending_inv c \<longleftrightarrow> (case c of (opened, s) \<Rightarrow>
     length (Pending s) = length (PendingHashes s) \<and> keys (TxEvents s) \<subseteq> set (PendingHashes s) \<and>
     distinct (map fst (TxEvents s)) \<and> (\<not> opened \<longrightarrow> Pending s = []))"

definition block_inv :: "('c, 'r, 'x, 'p) runtime \<Rightarrow> bool \<times> ('c, 'p) pallet \<Rightarrow> bool" where
  "block_inv R c \<longleftrightarrow> (case c of (opened, s) \<Rightarrow>
     (opened \<longrightarrow> sys_block_number s \<noteq> 0 \<and> madara_blocks (rt_dg R) (digest_logs s) = []) \<and>
     valid_felt (SequencerAddress s) \<and> (\<forall>n h. BlockHash s n = Some h \<longrightarrow> h < felt_prime) \<and>
     dom (BlockHash s) = {n. unat n \<le> height c})"

definition sequencer_inv :: "bool \<times> ('c, 'p) pallet \<Rightarrow> bool" where
  "sequencer_inv c \<longleftrightarrow> (case c of (opened, s) \<Rightarrow>
     SeqAddrUpdate s \<noteq> Some False \<and> (opened \<longrightarrow> sys_block_number s \<noteq> 0) \<and>
     (\<not> opened \<longrightarrow> SeqAddrUpdate s = (if sys_block_number s = 0 then Some True else None)))"

lemmas chain_inv_defs = pending_inv_def block_inv_def sequencer_inv_def

lemma unat_block_number [simp]: "unat (block_number s) = unat (sys_block_number s)"
  using unat_lt [of "sys_block_number s"]
  by (simp add: block_number_def unsigned_ucast_eq take_bit_nat_eq_self)

text \<open>The libraries the pallet runs on, with what they promise.\<close>

locale pallet_libs =
  fixes R :: "('c, 'r, 'x, 'p) runtime"
  assumes ff: "ff_laws (rt_ff R)" and sf: "sf_laws (rt_sf R)" and dg: "digest_laws (rt_dg R)"
    and hasher: "hasher_t (T_SystemHash R)"

sublocale pallet_libs \<subseteq> libs: field_libs "rt_ff R"
  by unfold_locales (rule ff)

context pallet_libs
begin

lemma wrappers_canonical: "compute_hash_on_wrappers (T_SystemHash R) xs < felt_prime"
  using hasher_t.wrappers_eq [OF hasher] hasher_t.elements_canonical [OF hasher] by simp

lemma parent_canonical: "block_inv R c \<Longrightarrow> parent_block_hash (snd c) n < felt_prime"
  by (cases c) (auto simp: block_inv_def parent_block_hash_def block_hash_def ZERO_def split: option.split)

lemma stored_header_ok:
  "valid_felt (SequencerAddress s) \<Longrightarrow> p < felt_prime \<Longrightarrow>
     header_ok (blk_header (stored_block R n s (be_bytes 32 p)))"
  using felt_prime_le
  by (simp add: header_ok_def stored_block_def block_new_def header_new_def valid_felt_def be_val_be_bytes)

lemma store_block_total:
  assumes "pending_inv (b, s)" "valid_felt (SequencerAddress s)" "parent_block_hash s n < felt_prime"
  defines "B \<equiv> stored_block R n s (be_bytes 32 (parent_block_hash s n))"
  shows "store_block R n s = (Ok () :: (_, 'e) result,
    s\<lparr>TxEvents := [], BlockHash := (BlockHash s)(n \<mapsto> compute_hash_on_wrappers (T_SystemHash R)
          (header_elements (blk_header B))), Pending := [], PendingHashes := [],
      digest_logs := digest_logs s @ [Consensus MADARA_ENGINE_ID (dg_encode_log (rt_dg R) (LogBlock B))]\<rparr>)"
proof -
  have "felt_into (rt_ff R) (parent_block_hash s n) = (Ok (be_bytes 32 (parent_block_hash s n)) :: (_, 'e) result)"
    using libs.stark_felt_roundtrip(1) [OF assms(3)] by (simp add: felt_into_def)
  moreover have "header_hash (rt_ff R) (T_SystemHash R) (blk_header B) =
      (Ok (compute_hash_on_wrappers (T_SystemHash R) (header_elements (blk_header B))) :: (_, 'e) result)"
    unfolding B_def by (rule libs.header_hash_eq [OF stored_header_ok [OF assms(2,3)]])
  moreover have "length (Pending s) = length (PendingHashes s)"
    "snd (take_events (PendingHashes s) (TxEvents s)) = []"
    using assms(1) event_count_taken(2) by (auto simp: pending_inv_def)
  ultimately show ?thesis
    unfolding B_def by (simp add: store_block_eq)
qed

lemma finalize_total:
  assumes "pending_inv (True, s)" "block_inv R (True, s)" "SeqAddrUpdate s = Some True"
  defines "B \<equiv> stored_block R (block_number s) s (be_bytes 32 (parent_block_hash s (block_number s)))"
  shows "on_finalize R s = (Ok () :: (_, 'e) result,
    s\<lparr>SeqAddrUpdate := None, TxEvents := [],
      BlockHash := (BlockHash s)(block_number s \<mapsto> compute_hash_on_wrappers (T_SystemHash R)
          (header_elements (blk_header B))), Pending := [], PendingHashes := [],
      digest_logs := digest_logs s @ [Consensus MADARA_ENGINE_ID (dg_encode_log (rt_dg R) (LogBlock B))]\<rparr>)"
proof -
  let ?s = "s\<lparr>SeqAddrUpdate := None\<rparr>"
  have parent: "parent_block_hash ?s (block_number s) = parent_block_hash s (block_number s)"
    by (simp add: parent_block_hash_def block_hash_def)
  then have "pending_inv (True, ?s)" "valid_felt (SequencerAddress ?s)"
      "parent_block_hash ?s (block_number s) < felt_prime"
    using assms(1,2) parent_canonical [OF assms(2), of "block_number s"]
    by (simp_all add: pending_inv_def block_inv_def)
  moreover have "stored_block R (block_number s) ?s (be_bytes 32 (parent_block_hash ?s (block_number s))) = B"
    by (simp add: B_def stored_block_def parent_block_hash_def block_hash_def block_timestamp_def transaction_count_def)
  ultimately show ?thesis
    using assms(3) store_block_total [of True ?s "block_number s"] by (simp add: on_finalize_eq)
qed

lemma recorded_inv:
  assumes "records_tx h tx l1 s s'"
  shows "pending_inv (True, s) \<Longrightarrow> pending_inv (True, s')"
    and "block_inv R (True, s) \<Longrightarrow> block_inv R (True, s')"
    and "sequencer_inv (True, s) \<Longrightarrow> sequencer_inv (True, s')"
proof -
  obtain p te tm ev err where
      e: "s' = s\<lparr>Contracts := p, L1Messages := l1, TxEvents := te, TxMessages := tm, deposited_events := ev,
         Pending := Pending s @ [tx], PendingHashes := PendingHashes s @ [h], TxRevertError := err\<rparr>"
      "keys te \<subseteq> insert h (keys (TxEvents s))" "distinct (map fst (TxEvents s)) \<longrightarrow> distinct (map fst te)"
    using assms unfolding records_tx_def by blast
  show "pending_inv (True, s) \<Longrightarrow> pending_inv (True, s')"
    using e(2,3) by (auto simp: pending_inv_def e(1))
  show "block_inv R (True, s) \<Longrightarrow> block_inv R (True, s')" "sequencer_inv (True, s) \<Longrightarrow> sequencer_inv (True, s')"
    by (simp_all add: block_inv_def sequencer_inv_def height_def e(1))
qed

lemma sequencer_address_inv:
  assumes "run_call R origin (Call_set_sequencer_address addr) s = (Ok (), s')" "length addr = 32"
  shows "pending_inv (True, s) \<Longrightarrow> pending_inv (True, s')"
    and "block_inv R (True, s) \<Longrightarrow> block_inv R (True, s')"
    and "sequencer_inv (True, s) \<Longrightarrow> sequencer_inv (True, s')"
proof -
  obtain a b where e: "s' = s\<lparr>SequencerAddress := b, SeqAddrUpdate := Some True\<rparr>"
      "stark_felt_new (rt_ff R) addr = Some a" "patricia_key_try_from (rt_sf R) a = Some b"
    using set_sequencer_address_effect [OF assms(1)] by blast
  then have "valid_felt b"
    using assms(2) sf libs.stark_felt_new_eq [of addr]
    by (auto simp: sf_laws_def valid_felt_def split: if_splits)
  with e(1) show "pending_inv (True, s) \<Longrightarrow> pending_inv (True, s')"
    "block_inv R (True, s) \<Longrightarrow> block_inv R (True, s')" "sequencer_inv (True, s) \<Longrightarrow> sequencer_inv (True, s')"
    by (auto simp: chain_inv_defs height_def)
qed

lemma dispatched_inv:
  assumes "call_typed call" "run_call R origin call s = (Ok (), s')"
    and "pending_inv (True, s)" "block_inv R (True, s)" "sequencer_inv (True, s)"
  shows "pending_inv (True, s') \<and> block_inv R (True, s') \<and> sequencer_inv (True, s')"
proof (cases "call_transaction call")
  case None
  then obtain addr where "call = Call_set_sequencer_address addr" by (cases call) auto
  then show ?thesis
    using assms sequencer_address_inv by simp
next
  case (Some tx)
  then obtain h l1 where "records_tx h tx l1 s s'"
    using tx_call_records [OF assms(2)] by blast
  then show ?thesis
    using assms(3,4,5) recorded_inv by blast
qed

lemma finalized_inv:
  assumes "on_finalize R s = ((Ok () :: (unit, DispatchError) result), s')"
    and "pending_inv (True, s)" "block_inv R (True, s)" "sequencer_inv (True, s)"
  shows "pending_inv (False, s') \<and> block_inv R (False, s') \<and> sequencer_inv (False, s')"
proof -
  have upd: "SeqAddrUpdate s = Some True"
    using assms(1) by (auto simp: on_finalize_eq split: if_splits)
  have num: "{n. unat n \<le> unat (sys_block_number s)} =
      insert (block_number s) {n :: u64. unat n \<le> unat (sys_block_number s) - 1}"
    using assms(3) unat_block_number [of s]
    by (auto simp: block_inv_def le_eq_less_or_eq [of _ "unat (sys_block_number s)"] simp flip: unat_eq_iff)
  note fin = finalize_total [OF assms(2,3) upd, where 'e = DispatchError, unfolded assms(1) prod.inject]
  have "dom (BlockHash s') = {n. unat n \<le> height (False, s')}"
    using assms(3) num by (simp add: fin block_inv_def height_def)
  moreover have "h < felt_prime" if "BlockHash s' n = Some h" for n h
    using assms(3) that by (auto simp: fin block_inv_def wrappers_canonical split: if_splits)
  ultimately show ?thesis
    using assms(3) by (simp add: chain_inv_defs fin keys_def)
qed

lemma opened_inv:
  assumes "sys_block_number s + 1 \<noteq> 0" "madara_blocks (rt_dg R) items = []"
    and "pending_inv (False, s)" "block_inv R (False, s)" "sequencer_inv (False, s)"
  shows "pending_inv (True, open_block now items s) \<and> block_inv R (True, open_block now items s) \<and>
    sequencer_inv (True, open_block now items s)"
  using assms unatSuc [of "sys_block_number s"]
  by (auto simp: chain_inv_defs height_def open_block_def add.commute)

lemma step_inv:
  "chain_step R c l c' \<Longrightarrow> pending_inv c \<and> block_inv R c \<and> sequencer_inv c \<Longrightarrow>
     pending_inv c' \<and> block_inv R c' \<and> sequencer_inv c'"
  by (induction rule: chain_step.induct) (metis opened_inv dispatched_inv finalized_inv)+

lemma run_inv:
  "chain_run R c ls c' \<Longrightarrow> pending_inv c \<and> block_inv R c \<and> sequencer_inv c \<Longrightarrow>
     pending_inv c' \<and> block_inv R c' \<and> sequencer_inv c'"
  by (induction rule: chain_run.induct) (auto dest: step_inv)

lemma genesis_inv:
  assumes "genesis_build R gc (empty_pallet now) = ((Ok () :: (unit, DispatchError) result), s0)"
  shows "pending_inv (False, s0) \<and> block_inv R (False, s0) \<and> sequencer_inv (False, s0)"
proof -
  let ?s = "empty_pallet now :: ('c, 'p) pallet"
  have zero: "valid_felt felt_default"
    using be_val_zeros [of 32 "[]"] by (simp add: valid_felt_def felt_default_def)
  have "store_block R 0 ?s = (Ok () :: (unit, DispatchError) result, ?s\<lparr>TxEvents := [],
      BlockHash := (BlockHash ?s)(0 \<mapsto> compute_hash_on_wrappers (T_SystemHash R)
        (header_elements (blk_header (stored_block R 0 ?s (be_bytes 32 (parent_block_hash ?s 0)))))),
      Pending := [], PendingHashes := [], digest_logs := digest_logs ?s @ [Consensus MADARA_ENGINE_ID
        (dg_encode_log (rt_dg R) (LogBlock (stored_block R 0 ?s (be_bytes 32 (parent_block_hash ?s 0)))))]\<rparr>)"
    using zero by (intro store_block_total [of False])
      (simp_all add: pending_inv_def empty_pallet_def keys_def parent_block_hash_def ZERO_def)
  then show ?thesis
    using assms zero
    by (auto simp: genesis_build_def bind_st_Ok_iff chain_inv_defs height_def keys_def wrappers_canonical
        empty_pallet_def unat_eq_0 split: if_splits)
qed

lemma reachable_inv: "reachable R c \<Longrightarrow> pending_inv c \<and> block_inv R c \<and> sequencer_inv c"
  unfolding reachable_def using genesis_inv run_inv by blast

end

end
