(* ===== verification/Chain_Properties.thy ===== *)
theory Chain_Properties
  imports Chain
begin

text \<open>
  What the invariant of \<^verbatim>\<open>Chain\<close> gives: closing a block, consuming messages from L1, setting the
  sequencer address, the order of events, the genesis build and progress, with a sample chain on the
  reference libraries.
\<close>


lemma pallet_libs_iff:
  "pallet_libs R \<longleftrightarrow> ff_laws (rt_ff R) \<and> sf_laws (rt_sf R) \<and> digest_laws (rt_dg R) \<and> hasher_t (T_SystemHash R)"
  by (simp add: pallet_libs_def)

lemma predecessor_closed:
  assumes "dom (BlockHash s) = {n. unat n \<le> height (True, s)}" "sys_block_number s \<noteq> 0"
  shows "block_number s \<noteq> 0 \<and> BlockHash s (block_number s - 1) \<noteq> None"
proof -
  have "unat (block_number s) \<noteq> 0"
    using assms(2) by (simp add: unat_eq_0)
  then have nz: "block_number s \<noteq> 0" by (metis unsigned_0)
  then have "unat (block_number s - 1) = unat (sys_block_number s) - 1"
    using unat_minus_one [OF nz] by simp
  then have "block_number s - 1 \<in> dom (BlockHash s)"
    unfolding assms(1) by (simp add: height_def)
  with nz show ?thesis by auto
qed

context pallet_libs
begin

lemma stored_header_hash:
  "header_ok h \<Longrightarrow> header_hash (rt_ff R) (T_SystemHash R) h =
     Ok (compute_hash_on_wrappers (T_SystemHash R) (header_elements h))"
  by (rule libs.header_hash_eq)

lemma finalized_digest:
  assumes "block_inv R (True, s)"
  shows "madara_blocks (rt_dg R) (digest_logs s @ [Consensus MADARA_ENGINE_ID (dg_encode_log (rt_dg R) (LogBlock B))]) = [B]"
  using assms dg
  by (simp add: block_inv_def madara_blocks_def map_filter_append List.map_filter_simps digest_laws_def)

end

text \<open>
  C2. In every reachable state with an open block whose sequencer address was set, closing the block
  succeeds: no assertion fails and no conversion panics. The digest then holds exactly one readable
  Starknet block; it has the pending transactions in order, the number of the block, the hash of the
  previous block as its parent, the numbers of pending transactions and events, and its hash is stored
  under its number. Nothing stays pending. Without the sequencer address, closing the block panics.
\<close>

theorem finalize_closes_block:
  assumes "pallet_libs R" "reachable R (True, s)"
  shows "(SeqAddrUpdate s = Some True \<longrightarrow>
      (\<exists>s' B h. on_finalize R s = (Ok () :: (unit, DispatchError) result, s') \<and>
         find_starknet_block (rt_dg R) (digest_logs s') = Ok B \<and> blk_transactions B = Pending s \<and>
         hd_block_number (blk_header B) = block_number s \<and>
         BlockHash s (block_number s - 1) = Some (be_val (hd_parent_block_hash (blk_header B))) \<and>
         hd_sequencer_address (blk_header B) = SequencerAddress s \<and>
         hd_transaction_count (blk_header B) = transaction_count s \<and>
         hd_event_count (blk_header B) = event_count s \<and>
         header_hash (rt_ff R) (T_SystemHash R) (blk_header B) = (Ok h :: (_, DispatchError) result) \<and>
         BlockHash s' = (BlockHash s)(block_number s \<mapsto> h) \<and>
         Pending s' = [] \<and> PendingHashes s' = [] \<and> TxEvents s' = [] \<and> Contracts s' = Contracts s)) \<and>
    (SeqAddrUpdate s \<noteq> Some True \<longrightarrow> fst (on_finalize R s) = (Panic :: (unit, DispatchError) result))"
proof (intro conjI impI)
  note inv = pallet_libs.reachable_inv [OF assms]
  let ?n = "block_number s"
  let ?p = "parent_block_hash s ?n"
  let ?B = "stored_block R ?n s (be_bytes 32 ?p)"
  assume upd: "SeqAddrUpdate s = Some True"
  note fin = pallet_libs.finalize_total [OF assms(1), of s, where 'e = DispatchError]
  have canonical: "?p < felt_prime"
    using pallet_libs.parent_canonical [OF assms(1), of "(True, s)"] inv by simp
  have "?n \<noteq> 0" "BlockHash s (?n - 1) \<noteq> None"
    using inv predecessor_closed by (auto simp: block_inv_def)
  then have parent: "BlockHash s (?n - 1) = Some (be_val (be_bytes 32 ?p))"
    using canonical felt_prime_le by (auto simp: parent_block_hash_def block_hash_def be_val_be_bytes)
  have hash: "header_hash (rt_ff R) (T_SystemHash R) (blk_header ?B) =
      (Ok (compute_hash_on_wrappers (T_SystemHash R) (header_elements (blk_header ?B))) :: (_, DispatchError) result)"
    using pallet_libs.stored_header_ok [OF assms(1) _ canonical] inv pallet_libs.stored_header_hash [OF assms(1)]
    by (auto simp: block_inv_def)
  have counts: "event_count s = word_of_nat (length (fst (take_events (PendingHashes s) (TxEvents s))))"
    using event_count_taken(1) [of s] inv by (simp add: pending_inv_def)
  show "\<exists>s' B h. on_finalize R s = (Ok () :: (unit, DispatchError) result, s') \<and>
         find_starknet_block (rt_dg R) (digest_logs s') = Ok B \<and> blk_transactions B = Pending s \<and>
         hd_block_number (blk_header B) = ?n \<and>
         BlockHash s (?n - 1) = Some (be_val (hd_parent_block_hash (blk_header B))) \<and>
         hd_sequencer_address (blk_header B) = SequencerAddress s \<and>
         hd_transaction_count (blk_header B) = transaction_count s \<and>
         hd_event_count (blk_header B) = event_count s \<and>
         header_hash (rt_ff R) (T_SystemHash R) (blk_header B) = (Ok h :: (_, DispatchError) result) \<and>
         BlockHash s' = (BlockHash s)(?n \<mapsto> h) \<and>
         Pending s' = [] \<and> PendingHashes s' = [] \<and> TxEvents s' = [] \<and> Contracts s' = Contracts s"
    using fin upd inv hash parent counts pallet_libs.finalized_digest [OF assms(1), of s ?B]
    by (intro exI [of _ "snd (on_finalize R s :: (unit, DispatchError) result \<times> _)"] exI [of _ ?B] exI)
       (auto simp: find_starknet_block_eq stored_block_def block_new_def header_new_def)
qed (simp add: on_finalize_eq)

lemma chain_run_append:
  "chain_run R c (ls @ ls') c'' \<longleftrightarrow> (\<exists>c'. chain_run R c ls c' \<and> chain_run R c' ls' c'')"
  by (induction ls arbitrary: c) (auto simp: chain_run_simps)

lemma chain_run_snoc: "chain_run R c ls c' \<Longrightarrow> chain_step R c' l c'' \<Longrightarrow> chain_run R c (ls @ [l]) c''"
  unfolding chain_run_append by (blast intro: chain_run.intros)

lemma reachable_run: "reachable R c \<Longrightarrow> chain_run R c ls c' \<Longrightarrow> reachable R c'"
  unfolding reachable_def using chain_run_append by blast

lemma opened_number:
  assumes "sys_block_number s + 1 \<noteq> 0" "sys_block_number s \<noteq> 0"
  shows "block_number (s\<lparr>sys_block_number := sys_block_number s + 1, sys_now := now, deposited_events := evs,
    digest_logs := items\<rparr>) > 1"
proof -
  have "unat (sys_block_number s + 1) > 1"
    using assms unatSuc [of "sys_block_number s"] by (simp add: add.commute unat_gt_0)
  then show ?thesis
    by (simp add: word_less_nat_alt)
qed

subsection \<open>Messages from L1\<close>

fun consumed_nonces :: "('c, 'p) label list \<Rightarrow> u64 list" where
  "consumed_nonces [] = []"
| "consumed_nonces (Dispatched _ (Call_consume_l1_message tx _) # ls) = l1_nonce tx # consumed_nonces ls"
| "consumed_nonces (_ # ls) = consumed_nonces ls"

lemma step_L1Messages:
  "chain_step R c l c' \<Longrightarrow>
     L1Messages (snd c') = L1Messages (snd c) \<union> sf_from_u64 (rt_sf R) ` set (consumed_nonces [l]) \<and>
     sf_from_u64 (rt_sf R) ` set (consumed_nonces [l]) \<inter> L1Messages (snd c) = {}"
proof (induction rule: chain_step.induct)
  case (step_open s items now)
  then show ?case by (simp add: open_block_def)
next
  case (step_dispatched call origin s s')
  have c: "sf_from_u64 (rt_sf R) ` set (consumed_nonces [Dispatched origin call :: ('a, 'd) label]) = consumes R call"
    by (cases call) auto
  show ?case
  proof (cases "call_transaction call")
    case None
    then obtain addr where "call = Call_set_sequencer_address addr" by (cases call) auto
    then show ?thesis
      using set_sequencer_address_effect step_dispatched(2) by fastforce
  next
    case (Some tx)
    then show ?thesis
      using tx_call_records [OF step_dispatched(2)] unfolding c records_tx_def by auto
  qed
next
  case (step_rejected origin call s)
  then show ?case by simp
next
  case (step_finalized s s')
  then show ?case
    by (auto simp: on_finalize_eq store_block_def bind_st_Ok_iff Let_def split: if_splits prod.splits)
qed

lemma run_L1Messages:
  assumes "chain_run R c ls c'" "inj (sf_from_u64 (rt_sf R))"
  shows "distinct (consumed_nonces ls) \<and>
    L1Messages (snd c') = L1Messages (snd c) \<union> sf_from_u64 (rt_sf R) ` set (consumed_nonces ls) \<and>
    sf_from_u64 (rt_sf R) ` set (consumed_nonces ls) \<inter> L1Messages (snd c) = {}"
  using assms(1)
proof (induction rule: chain_run.induct)
  case (run_nil c)
  then show ?case by simp
next
  case (run_cons c l c' ls c'')
  have "consumed_nonces (l # ls) = consumed_nonces [l] @ consumed_nonces ls"
    by (cases l; cases "case l of Dispatched _ call \<Rightarrow> call | _ \<Rightarrow> Call_set_sequencer_address []") auto
  moreover have "distinct (consumed_nonces [l])"
    by (cases "[l]" rule: consumed_nonces.cases) auto
  moreover have "set (consumed_nonces [l]) \<inter> set (consumed_nonces ls) = {}"
    using run_cons.IH step_L1Messages [OF run_cons.hyps(1)] by blast
  ultimately show ?case
    using run_cons.IH step_L1Messages [OF run_cons.hyps(1)] by auto
qed

lemma from_u64_inj: "sf_laws sf \<Longrightarrow> inj (sf_from_u64 sf)"
  unfolding sf_laws_def inj_def by (metis option.inject)

text \<open>
  C3. Along every run of the chain, no two successful \<open>consume_l1_message\<close> calls have the same
  nonce, the nonces consumed so far are exactly the stored ones, and a message whose nonce is stored
  is refused.
\<close>

theorem l1_messages_consumed_once:
  assumes "sf_laws (rt_sf R)" "chain_run R (opened, s) ls (opened', s')" "L1Messages s = {}"
  shows "distinct (consumed_nonces ls) \<and>
    L1Messages s' = sf_from_u64 (rt_sf R) ` set (consumed_nonces ls) \<and>
    (l1_nonce tx \<in> set (consumed_nonces ls) \<longrightarrow> fst (consume_l1_message R origin tx fee s') \<noteq> Ok ())"
proof -
  note run = run_L1Messages [OF assms(2) from_u64_inj [OF assms(1)]]
  have "fst (consume_l1_message R origin tx fee s') \<noteq> Ok ()" if "l1_nonce tx \<in> set (consumed_nonces ls)"
  proof
    assume ok: "fst (consume_l1_message R origin tx fee s') = Ok ()"
    then obtain s'' where "run_call R origin (Call_consume_l1_message tx fee) s' = (Ok (), s'')"
      by (metis prod.collapse run_call.simps(5))
    from tx_call_records [OF this] that run assms(3) show False by auto
  qed
  then show ?thesis
    using run assms(3) by simp
qed

subsection \<open>The sequencer address\<close>

fun is_call_label :: "('c, 'p) label \<Rightarrow> bool" where
  "is_call_label (Dispatched _ _) = True"
| "is_call_label (Rejected _ _) = True"
| "is_call_label _ = False"

fun sets_sequencer :: "('c, 'p) label \<Rightarrow> bool" where
  "sets_sequencer (Dispatched _ (Call_set_sequencer_address _)) = True"
| "sets_sequencer _ = False"

lemma call_step_sequencer:
  assumes "chain_step R (opened, s) l (opened', s')" "is_call_label l"
  shows "opened \<and> opened' \<and> sys_block_number s' = sys_block_number s \<and>
    (sets_sequencer l \<longrightarrow> SeqAddrUpdate s' = Some True \<and> (block_number s > 1 \<longrightarrow> SeqAddrUpdate s = None)) \<and>
    (\<not> sets_sequencer l \<longrightarrow> SeqAddrUpdate s' = SeqAddrUpdate s)"
proof (cases l)
  case (Dispatched origin call)
  then have run: "opened" "opened'" "run_call R origin call s = (Ok (), s')"
    using assms(1) by auto
  show ?thesis
  proof (cases "call_transaction call")
    case None
    then obtain addr where "call = Call_set_sequencer_address addr" by (cases call) auto
    then show ?thesis
      using set_sequencer_address_effect run Dispatched by fastforce
  next
    case (Some tx)
    then have "\<not> sets_sequencer l" using Dispatched by (cases call) auto
    moreover obtain h l1 where "records_tx h tx l1 s s'"
      using tx_call_records [OF run(3) Some] by blast
    ultimately show ?thesis
      using run by (auto simp: records_tx_def)
  qed
qed (use assms in auto)

lemma calls_sequencer:
  assumes "chain_run R (opened, s) ls (opened', s')" "list_all is_call_label ls" "block_number s > 1"
    and "SeqAddrUpdate s = None \<or> SeqAddrUpdate s = Some True"
  shows "length (filter sets_sequencer ls) + (if SeqAddrUpdate s = None then 0 else 1) =
    (if SeqAddrUpdate s' = None then 0 else (1 :: nat)) \<and> SeqAddrUpdate s' \<noteq> Some False"
  using assms
proof (induction ls arbitrary: opened s)
  case Nil
  then show ?case by (auto simp: chain_run_simps)
next
  case (Cons l ls)
  obtain c1 s1 where step: "chain_step R (opened, s) l (c1, s1)" and run: "chain_run R (c1, s1) ls (opened', s')"
    using Cons.prems(1) by (auto simp: chain_run_simps)
  have one: "sys_block_number s1 = sys_block_number s"
    "sets_sequencer l \<Longrightarrow> SeqAddrUpdate s1 = Some True \<and> SeqAddrUpdate s = None"
    "\<not> sets_sequencer l \<Longrightarrow> SeqAddrUpdate s1 = SeqAddrUpdate s"
    using call_step_sequencer [OF step] Cons.prems(2,3) by auto
  then have "block_number s1 > 1" "SeqAddrUpdate s1 = None \<or> SeqAddrUpdate s1 = Some True"
    using Cons.prems(3,4) by (cases "sets_sequencer l"; simp add: block_number_def)+
  then have "length (filter sets_sequencer ls) + (if SeqAddrUpdate s1 = None then 0 else 1) =
      (if SeqAddrUpdate s' = None then 0 else (1 :: nat)) \<and> SeqAddrUpdate s' \<noteq> Some False"
    using Cons.IH [OF run] Cons.prems(2) by simp
  then show ?case
    using one(2,3) by (cases "sets_sequencer l") auto
qed

lemma closed_block_sets_once:
  assumes "pallet_libs R" "reachable R (False, s)" "sys_block_number s \<noteq> 0"
    and "chain_run R (False, s) (Opened now items # calls @ [Finalized]) c'" "list_all is_call_label calls"
  shows "length (filter sets_sequencer calls) = 1"
proof -
  have none: "SeqAddrUpdate s = None"
    using pallet_libs.reachable_inv [OF assms(1,2)] assms(3) by (simp add: sequencer_inv_def)
  obtain opened s1 where nowrap: "sys_block_number s + 1 \<noteq> 0"
      and run: "chain_run R (True, open_block now items s) calls (opened, s1)"
      and fin: "chain_step R (opened, s1) Finalized c'"
  proof -
    obtain c1 where "chain_step R (False, s) (Opened now items) c1" "chain_run R c1 (calls @ [Finalized]) c'"
      using assms(4) by (auto simp: chain_run_simps)
    moreover from this(1) have "sys_block_number s + 1 \<noteq> 0" "c1 = (True, open_block now items s)"
      by auto
    ultimately show thesis
      using that by (auto simp: chain_run_append chain_run_simps)
  qed
  have "block_number (open_block now items s) > 1"
    using nowrap assms(3) opened_number by (simp add: open_block_def)
  then have "length (filter sets_sequencer calls) = (if SeqAddrUpdate s1 = None then 0 else 1)"
    using calls_sequencer [OF run assms(5)] none by (simp add: open_block_def)
  moreover have "SeqAddrUpdate s1 = Some True"
    using fin by (auto simp: on_finalize_eq split: if_splits)
  ultimately show ?thesis by simp
qed

text \<open>The flag the genesis build raises closes the first block without a call.\<close>

lemma first_block_closes:
  fixes R :: "('c, 'r, 'x, 'p) runtime"
  assumes "pallet_libs R" "reachable R (False, s)" "sys_block_number s = 0"
  shows "\<exists>s'. chain_run R (False, s) [Opened now [], Finalized] (False, s')"
proof -
  note inv = pallet_libs.reachable_inv [OF assms(1,2)]
  have none: "madara_blocks (rt_dg R) [] = []"
    by (simp add: madara_blocks_def List.map_filter_simps)
  have opened: "chain_step R (False, s) (Opened now []) (True, open_block now [] s)"
    using assms(3) by (intro step_open none) simp
  then have "pending_inv (True, open_block now [] s)" "block_inv R (True, open_block now [] s)"
    using pallet_libs.run_inv [OF assms(1) run_cons [OF opened run_nil]] inv by auto
  moreover have "SeqAddrUpdate (open_block now [] s) = Some True"
    using inv assms(3) by (simp add: sequencer_inv_def open_block_def)
  ultimately have "\<exists>s'. on_finalize R (open_block now [] s) = (Ok () :: (unit, DispatchError) result, s')"
    using pallet_libs.finalize_total [OF assms(1), where 'e = DispatchError] by blast
  then show ?thesis
    using opened by (blast intro: run_cons run_nil step_finalized)
qed

text \<open>
  C13. A block after the first (its predecessor's state is closed and has a block number other than zero)
  that was closed has set the sequencer address exactly once: among the extrinsics of the block exactly one
  is a successful \<open>set_sequencer_address\<close>. The first block is exempt: the genesis build has raised the flag,
  so it can be closed without any such call.
\<close>

theorem sequencer_address_set_once:
  assumes "pallet_libs R" "reachable R (False, s)"
  shows "(sys_block_number s \<noteq> 0 \<and> chain_run R (False, s) (Opened now items # calls @ [Finalized]) c' \<and>
        list_all is_call_label calls \<longrightarrow> length (filter sets_sequencer calls) = 1) \<and>
    (sys_block_number s = 0 \<longrightarrow> (\<exists>s'. chain_run R (False, s) [Opened now [], Finalized] (False, s')))"
  using closed_block_sets_once [OF assms] first_block_closes [OF assms] by blast

subsection \<open>Events and messages\<close>

definition tx_events :: "('c, 'p) pallet \<Rightarrow> stark_felt \<Rightarrow> StarknetEvent list" where
  "tx_events s h = (case map_of (TxEvents s) h of Some evs \<Rightarrow> evs | None \<Rightarrow> [])"

definition starknet_events :: "(contract_address \<times> EventContent) list \<Rightarrow> StarknetEvent list" where
  "starknet_events = map (\<lambda>(a, e). \<lparr>se_from_address = a, se_content = e\<rparr>)"

definition messages_to_l1 :: "(contract_address \<times> MessageContent) list \<Rightarrow> MessageToL1 list" where
  "messages_to_l1 = map (\<lambda>(a, m). \<lparr>ml1_from_address = a, ml1_to_address = mc_to_address m, ml1_payload = mc_payload m\<rparr>)"

lemma fold_emit_event:
  "deposited_events (fold (\<lambda>(a, e). emit_event h a e) es s) =
     deposited_events s @ map StarknetEventEv (starknet_events es) \<and>
   tx_events (fold (\<lambda>(a, e). emit_event h a e) es s) h' =
     tx_events s h' @ (if h' = h then starknet_events es else [])"
proof (induction es arbitrary: s)
  case Nil
  then show ?case by (simp add: starknet_events_def)
next
  case (Cons x es)
  then show ?case
    by (cases x) (auto simp: starknet_events_def emit_event_def append_event_def Let_def tx_events_def
        update_conv')
qed

lemma fold_append_message:
  "TxMessages (fold (\<lambda>(a, m). append_message h a m) ms s) h' =
     TxMessages s h' @ (if h' = h then messages_to_l1 ms else [])"
  by (induction ms arbitrary: s) (auto simp: messages_to_l1_def append_message_def)

text \<open>
  C12. When the events and messages of a call tree carry the numbers blockifier gives them (from zero on,
  in the order of emission across all calls), the pallet deposits exactly the emitted events in that
  order, stores them for the transaction in that order, stores the messages to L1 in their order, and
  leaves the records of other transactions alone. The counters returned are the numbers of events and
  messages.
\<close>

theorem events_in_emission_order:
  assumes "numbered ci_events (ci_events c) (ci_inner_calls c) te 0 n"
    and "numbered ci_l2_to_l1_messages (ci_l2_to_l1_messages c) (ci_inner_calls c) tm 0 m"
  shows "fst (emit_events_in_call_info h c 0 s) = n \<and> fst (aggregate_messages_in_call_info h c 0 s) = m \<and>
    deposited_events (snd (emit_events_in_call_info h c 0 s)) =
      deposited_events s @ map StarknetEventEv (starknet_events (emitted (call_address c) te)) \<and>
    tx_events (snd (emit_events_in_call_info h c 0 s)) h' =
      tx_events s h' @ (if h' = h then starknet_events (emitted (call_address c) te) else []) \<and>
    TxMessages (snd (aggregate_messages_in_call_info h c 0 s)) h' =
      TxMessages s h' @ (if h' = h then messages_to_l1 (emitted (call_address c) tm) else [])"
  using assms
  by (simp add: emit_events_in_call_info_def aggregate_messages_in_call_info_def walk_call_numbered
      fold_emit_event fold_append_message)

definition sample_call_tree :: CallInfo where
  "sample_call_tree =
     (let ev = \<lambda>k. \<lparr>ec_keys = [sfelt k], ec_data = []\<rparr>; msg = \<lparr>mc_to_address = replicate 20 1, mc_payload = []\<rparr>
      in CallInfo (ref_call (sfelt 5) (sfelt 0) []) [] [(0, ev 10), (2, ev 12)] []
           [CallInfo (ref_call (sfelt 6) (sfelt 0) []) [] [(1, ev 11)] [(0, msg)] []])"

theorem events_in_emission_order_witness:
  "\<exists>te tm. numbered ci_events (ci_events sample_call_tree) (ci_inner_calls sample_call_tree) te 0 3 \<and>
     numbered ci_l2_to_l1_messages (ci_l2_to_l1_messages sample_call_tree) (ci_inner_calls sample_call_tree) tm 0 1 \<and>
     map se_from_address (tx_events (snd (emit_events_in_call_info (sfelt 9) sample_call_tree 0
       (empty_pallet 0 :: (nat, Log) pallet))) (sfelt 9)) = [sfelt 5, sfelt 6, sfelt 5]"
proof -
  let ?ev = "\<lambda>k. \<lparr>ec_keys = [sfelt k], ec_data = []\<rparr>"
  let ?msg = "\<lparr>mc_to_address = replicate 20 1, mc_payload = []\<rparr>"
  let ?te = "[Own (?ev 10), Inner (sfelt 6) [Own (?ev 11)], Own (?ev 12)]"
  let ?tm = "[Inner (sfelt 6) [Own ?msg]]"
  let ?c = "CallInfo (ref_call (sfelt 6) (sfelt 0) []) [] [(Suc 0, ?ev 11)] [(0, ?msg)] []"
  have a: "call_address ?c = sfelt 6" by (simp add: ref_call_def)
  have t: "ci_events sample_call_tree = [(0, ?ev 10), (Suc (Suc 0), ?ev 12)]"
      "ci_l2_to_l1_messages sample_call_tree = []" "ci_inner_calls sample_call_tree = [?c]"
      "call_address sample_call_tree = sfelt 5"
    by (simp_all add: sample_call_tree_def Let_def ref_call_def numeral_2_eq_2)
  have "numbered ci_events (ci_events ?c) (ci_inner_calls ?c) [Own (?ev 11)] (Suc 0) (Suc (Suc 0))"
    unfolding CallInfo.sel by (intro numbered.intros)
  then have "numbered ci_events [(Suc (Suc 0), ?ev 12)] [?c] [Inner (call_address ?c) [Own (?ev 11)], Own (?ev 12)]
      (Suc 0) (Suc (Suc (Suc 0)))"
    by (rule numbered_inner) (intro numbered.intros)
  then have te: "numbered ci_events (ci_events sample_call_tree) (ci_inner_calls sample_call_tree) ?te 0 3"
    unfolding t a numeral_3_eq_3 by (rule numbered_own)
  have "numbered ci_l2_to_l1_messages (ci_l2_to_l1_messages ?c) (ci_inner_calls ?c) [Own ?msg] 0 (Suc 0)"
    unfolding CallInfo.sel by (intro numbered.intros)
  then have "numbered ci_l2_to_l1_messages [] [?c] [Inner (call_address ?c) [Own ?msg]] 0 (Suc 0)"
    by (rule numbered_inner) (rule numbered_nil)
  then have tm: "numbered ci_l2_to_l1_messages (ci_l2_to_l1_messages sample_call_tree)
      (ci_inner_calls sample_call_tree) ?tm 0 1"
    unfolding t a One_nat_def .
  have "tx_events (empty_pallet 0 :: (nat, Log) pallet) (sfelt 9) = []"
    by (simp add: tx_events_def empty_pallet_def)
  then have "map se_from_address (tx_events (snd (emit_events_in_call_info (sfelt 9) sample_call_tree 0
      (empty_pallet 0 :: (nat, Log) pallet))) (sfelt 9)) = [sfelt 5, sfelt 6, sfelt 5]"
    using events_in_emission_order [OF te tm, of "sfelt 9" "empty_pallet 0 :: (nat, Log) pallet" "sfelt 9"]
    by (simp add: starknet_events_def t)
  with te tm show ?thesis by (intro exI conjI)
qed

subsection \<open>Genesis\<close>

lemma bind_st_OkI: "m s = (Ok x, s') \<Longrightarrow> bind_st m k s = k x s'"
  by (simp add: bind_st_def)

lemma map_add_single_left: "m ++ ([k \<mapsto> v] ++ g) = m(k \<mapsto> v) ++ g"
  by (simp add: map_add_def fun_eq_iff split: option.split)

lemma map_add_if: "(\<lambda>a. if a = k then Some v else m a) ++ g = m(k \<mapsto> v) ++ g"
  by (simp add: fun_upd_def)

lemma insert_classes_eq:
  "insert_classes cs p = p\<lparr>ContractClasses := ContractClasses p ++ map_of (rev cs)\<rparr>"
  by (induction cs p rule: insert_classes.induct) (simp_all add: map_add_single_left map_add_if)

lemma insert_storage_eq:
  "insert_storage xs p = p\<lparr>StorageView := StorageView p ++ map_of (rev xs)\<rparr>"
  by (induction xs p rule: insert_storage.induct) (simp_all add: map_add_single_left map_add_if)

lemma insert_compiled_eq:
  "insert_compiled xs p =
     (if fst ` set xs \<subseteq> dom (ContractClasses p)
      then Ok (p\<lparr>CompiledClassHashes := CompiledClassHashes p ++ map_of (rev xs)\<rparr>) else Panic)"
  by (induction xs p rule: insert_compiled.induct) (auto simp: map_add_single_left map_add_if domIff)

lemma insert_contracts_eq:
  "insert_contracts xs p =
     (if snd ` set xs \<subseteq> dom (ContractClasses p)
      then Ok (p\<lparr>ContractClassHashes := ContractClassHashes p ++ map_of (rev xs)\<rparr>) else Panic)"
  by (induction xs p rule: insert_contracts.induct) (auto simp: map_add_single_left map_add_if domIff)

context pallet_libs
begin

lemma genesis_block:
  fixes now :: u64
  defines "s \<equiv> empty_pallet now :: ('c, 'p) pallet"
  defines "B \<equiv> stored_block R 0 s (be_bytes 32 (parent_block_hash s 0))"
  shows "store_block R 0 s = (Ok () :: (_, 'e) result, s\<lparr>TxEvents := [],
      BlockHash := [0 \<mapsto> compute_hash_on_wrappers (T_SystemHash R) (header_elements (blk_header B))],
      Pending := [], PendingHashes := [], digest_logs :=
        [Consensus MADARA_ENGINE_ID (dg_encode_log (rt_dg R) (LogBlock B))]\<rparr>)"
proof -
  have "valid_felt felt_default"
    using be_val_zeros [of 32 "[]"] by (simp add: valid_felt_def felt_default_def)
  then show ?thesis
    using store_block_total [of False s 0]
    by (simp add: B_def s_def pending_inv_def empty_pallet_def keys_def parent_block_hash_def ZERO_def)
qed

end

lemma genesis_explicit:
  fixes R :: "('c, 'r, 'x, 'p) runtime" and gc :: "'c GenesisConfig" and now :: u64
  assumes "pallet_libs R"
  defines "declared \<equiv> fst ` set (gc_contract_classes gc)"
  obtains h B where "genesis_build R gc (empty_pallet now :: ('c, 'p) pallet) =
    (if fst ` set (gc_sierra_to_casm_class_hash gc) \<subseteq> declared \<and> snd ` set (gc_contracts gc) \<subseteq> declared
     then (Ok () :: (unit, DispatchError) result, (empty_pallet now)\<lparr>
       Contracts := \<lparr>StorageView = map_of (rev (gc_storage gc)), Nonces = Map.empty,
         ContractClassHashes = map_of (rev (gc_contracts gc)),
         ContractClasses = map_of (rev (gc_contract_classes gc)),
         CompiledClassHashes = map_of (rev (gc_sierra_to_casm_class_hash gc))\<rparr>,
       TxEvents := [], BlockHash := [0 \<mapsto> h], Pending := [], PendingHashes := [],
       FeeTokenAddress := gc_fee_token_address gc, SeqAddrUpdate := Some True, schema_version := Some SchemaV1,
       digest_logs := [Consensus MADARA_ENGINE_ID (dg_encode_log (rt_dg R) (LogBlock B))]\<rparr>)
     else (Panic, (empty_pallet now)\<lparr>
       Contracts := empty_storage\<lparr>ContractClasses := map_of (rev (gc_contract_classes gc))\<rparr>,
       TxEvents := [], BlockHash := [0 \<mapsto> h], Pending := [], PendingHashes := [],
       schema_version := Some SchemaV1,
       digest_logs := [Consensus MADARA_ENGINE_ID (dg_encode_log (rt_dg R) (LogBlock B))]\<rparr>))"
proof -
  let ?classes = "map_of (rev (gc_contract_classes gc))"
  have dom: "dom ?classes = declared"
    by (simp add: declared_def dom_map_of_conv_image_fst)
  obtain h B where block: "store_block R 0 (empty_pallet now) = (Ok () :: (unit, DispatchError) result,
      (empty_pallet now)\<lparr>TxEvents := [], BlockHash := [0 \<mapsto> h], Pending := [], PendingHashes := [],
        digest_logs := [Consensus MADARA_ENGINE_ID (dg_encode_log (rt_dg R) (LogBlock B))]\<rparr>)"
    using pallet_libs.genesis_block [OF assms(1)] by blast
  show thesis
    by (rule that [of B h], unfold genesis_build_def,
        simp add: bind_st_OkI [of "store_block R 0", OF block] insert_classes_eq)
       (simp add: bind_st_def ret_st_def insert_compiled_eq insert_contracts_eq insert_storage_eq dom
         empty_pallet_def empty_storage_def)
qed

text \<open>
  C14. The genesis build succeeds exactly when every class hash that a contract or a compiled class hash
  refers to is among the declared classes, and panics otherwise. It then holds the configured classes,
  contracts and storage (the last entry for a key wins), block 0 has a hash and no other block has one,
  and the flag that lets the first block close is up.
\<close>

theorem genesis_outcome:
  fixes R :: "('c, 'r, 'x, 'p) runtime" and gc :: "'c GenesisConfig" and now :: u64
  assumes "pallet_libs R"
  defines "res \<equiv> genesis_build R gc (empty_pallet now) :: (unit, DispatchError) result \<times> ('c, 'p) pallet"
    and "declared \<equiv> fst ` set (gc_contract_classes gc)"
  shows "if fst ` set (gc_sierra_to_casm_class_hash gc) \<subseteq> declared \<and> snd ` set (gc_contracts gc) \<subseteq> declared
    then fst res = Ok () \<and>
      Contracts (snd res) = \<lparr>StorageView = map_of (rev (gc_storage gc)), Nonces = Map.empty,
        ContractClassHashes = map_of (rev (gc_contracts gc)),
        ContractClasses = map_of (rev (gc_contract_classes gc)),
        CompiledClassHashes = map_of (rev (gc_sierra_to_casm_class_hash gc))\<rparr> \<and>
      FeeTokenAddress (snd res) = gc_fee_token_address gc \<and> SeqAddrUpdate (snd res) = Some True \<and>
      dom (BlockHash (snd res)) = {0} \<and> schema_version (snd res) = Some SchemaV1
    else fst res = Panic"
  by (rule genesis_explicit [OF assms(1), of gc now]) (simp add: res_def declared_def)

subsection \<open>Progress\<close>

text \<open>The argument the inherent passes: 32 bytes that spell a Patricia key.\<close>

definition sequencer_ok :: "bytes \<Rightarrow> bool" where
  "sequencer_ok addr \<longleftrightarrow> length addr = 32 \<and> be_val addr < 2 ^ 251"

context pallet_libs
begin

lemma set_sequencer_address_ok:
  assumes "sequencer_ok addr" "block_number s > 1 \<longrightarrow> SeqAddrUpdate s = None"
  shows "set_sequencer_address R NoneOrigin addr s =
    (Ok (), s\<lparr>SequencerAddress := addr, SeqAddrUpdate := Some True\<rparr>)"
proof -
  have "be_val addr < felt_prime"
    using assms(1) by (simp add: sequencer_ok_def felt_prime_def)
  then have "stark_felt_new (rt_ff R) addr = Some addr" "patricia_key_try_from (rt_sf R) addr = Some addr"
    using assms(1) libs.stark_felt_new_eq [of addr] sf by (simp_all add: sequencer_ok_def sf_laws_def)
  then show ?thesis
    using assms(2) by (simp add: set_sequencer_address_def bind_st_OkI [of "ensure_none NoneOrigin"])
qed

lemma inherent_block:
  fixes now :: u64
  assumes "reachable R (False, s)" "sys_block_number s + 1 \<noteq> 0" "sequencer_ok addr"
  defines "s1 \<equiv> (open_block now [] s)\<lparr>SequencerAddress := addr, SeqAddrUpdate := Some True\<rparr>"
  shows "chain_run R (False, s) [Opened now [], Dispatched NoneOrigin (Call_set_sequencer_address addr)] (True, s1)"
    and "\<exists>s'. chain_step R (True, s1) Finalized (False, s') \<and> sys_block_number s' = sys_block_number s + 1 \<and>
      SequencerAddress s' = addr \<and> SeqAddrUpdate s' = None \<and> L1Messages s' = L1Messages s"
proof -
  have inv: "pending_inv (False, s) \<and> block_inv R (False, s) \<and> sequencer_inv (False, s)"
    using reachable_inv [OF assms(1)] .
  have "sys_block_number s \<noteq> 0 \<Longrightarrow> SeqAddrUpdate s = None"
    using inv by (simp add: sequencer_inv_def)
  then have "block_number (open_block now [] s) > 1 \<longrightarrow> SeqAddrUpdate (open_block now [] s) = None"
    by (cases "sys_block_number s = 0") (simp_all add: open_block_def block_number_def)
  then have call: "run_call R NoneOrigin (Call_set_sequencer_address addr) (open_block now [] s) = (Ok (), s1)"
    using set_sequencer_address_ok [OF assms(3)] by (simp add: s1_def)
  have none: "madara_blocks (rt_dg R) [] = []"
    by (simp add: madara_blocks_def List.map_filter_simps)
  have typed: "call_typed (Call_set_sequencer_address addr)"
    using assms(3) by (simp add: sequencer_ok_def)
  show run: "chain_run R (False, s) [Opened now [], Dispatched NoneOrigin (Call_set_sequencer_address addr)] (True, s1)"
    by (rule run_cons [OF step_open [OF assms(2) none]], rule run_cons [OF step_dispatched [OF typed call]], rule run_nil)
  have "pending_inv (True, s1)" "block_inv R (True, s1)"
    using run_inv [OF run inv] by auto
  from finalize_total [OF this, where 'e = DispatchError]
  have "\<exists>s'. on_finalize R s1 = (Ok () :: (unit, DispatchError) result, s') \<and>
      sys_block_number s' = sys_block_number s1 \<and> SequencerAddress s' = SequencerAddress s1 \<and>
      SeqAddrUpdate s' = None \<and> L1Messages s' = L1Messages s1"
    by (simp add: s1_def)
  then show "\<exists>s'. chain_step R (True, s1) Finalized (False, s') \<and> sys_block_number s' = sys_block_number s + 1 \<and>
      SequencerAddress s' = addr \<and> SeqAddrUpdate s' = None \<and> L1Messages s' = L1Messages s"
    by (auto simp: s1_def open_block_def intro: step_finalized)
qed

end

text \<open>
  C11. The chain never gets stuck between blocks: from every reachable state with no open block, and
  whatever valid sequencer address the inherent carries, a block that holds the inherent alone can be
  opened and closed (as long as the 32-bit block number does not overflow).
\<close>

theorem chain_progress:
  assumes "pallet_libs R" "reachable R (False, s)" "sys_block_number s + 1 \<noteq> 0" "sequencer_ok addr"
  shows "\<exists>s'. chain_run R (False, s)
      [Opened now [], Dispatched NoneOrigin (Call_set_sequencer_address addr), Finalized] (False, s') \<and>
    sys_block_number s' = sys_block_number s + 1 \<and> SequencerAddress s' = addr \<and> reachable R (False, s')"
proof -
  note blk = pallet_libs.inherent_block [OF assms, of now]
  obtain s' where s': "chain_step R (True, (open_block now [] s)\<lparr>SequencerAddress := addr, SeqAddrUpdate := Some True\<rparr>)
      Finalized (False, s')" "sys_block_number s' = sys_block_number s + 1" "SequencerAddress s' = addr"
    using blk(2) by blast
  have run: "chain_run R (False, s)
      [Opened now [], Dispatched NoneOrigin (Call_set_sequencer_address addr), Finalized] (False, s')"
    using chain_run_snoc [OF blk(1) s'(1)] by simp
  show ?thesis
    using run s'(2,3) reachable_run [OF assms(2) run] by blast
qed

subsection \<open>A sample chain\<close>

definition runtime_ref :: "(nat, unit, unit, Log) runtime" where
  "runtime_ref = \<lparr>rt_ff = ff_ref, rt_sf = sf_ref, rt_cr = crypto_ref, rt_fx = fx_ref, rt_bf = bf_ref,
     rt_dg = digest_ref, rt_build = sample_build, T_SystemHash = PedersenHasher ff_ref crypto_ref,
     T_L1GasPrice = \<lparr>price_in_strk = None, price_in_wei = 10\<rparr>, T_TransactionLongevity = 18446744073709551615,
     T_DisableTransactionFee = False, T_DisableNonceValidation = False, T_InvokeTxMaxNSteps = 1000000,
     T_ValidateMaxNSteps = 1000000, T_ProtocolVersion = 0, T_ChainId = 1, T_MaxRecursionDepth = 50,
     T_ProgramHash = 0\<rparr>"

lemma runtime_ref_libs: "pallet_libs runtime_ref"
  using ff_ref_laws sf_ref_laws digest_ref_laws ref_cr.pedersen_hasher
  by (simp add: pallet_libs_def runtime_ref_def)

interpretation sample_chain: pallet_libs runtime_ref
  by (rule runtime_ref_libs)

definition sample_genesis :: "nat GenesisConfig" where
  "sample_genesis = \<lparr>gc_contracts = [(sfelt 3, sfelt 4)], gc_sierra_to_casm_class_hash = [],
     gc_contract_classes = [(sfelt 4, 0)], gc_storage = [((sfelt 3, sfelt 0), sfelt 1)],
     gc_fee_token_address = sfelt 5\<rparr>"

theorem genesis_outcome_witness:
  "Contracts (snd (genesis_build runtime_ref sample_genesis (empty_pallet 0) ::
       (unit, DispatchError) result \<times> (nat, Log) pallet)) =
     \<lparr>StorageView = [(sfelt 3, sfelt 0) \<mapsto> sfelt 1], Nonces = Map.empty,
      ContractClassHashes = [sfelt 3 \<mapsto> sfelt 4], ContractClasses = [sfelt 4 \<mapsto> 0],
      CompiledClassHashes = Map.empty\<rparr> \<and>
   fst (genesis_build runtime_ref (sample_genesis\<lparr>gc_contract_classes := []\<rparr>) (empty_pallet 0) ::
     (unit, DispatchError) result \<times> (nat, Log) pallet) = Panic"
  using genesis_outcome [OF runtime_ref_libs, of sample_genesis 0]
    genesis_outcome [OF runtime_ref_libs, of "sample_genesis\<lparr>gc_contract_classes := []\<rparr>" 0]
  by (simp add: sample_genesis_def)

definition genesis_state :: "(nat, Log) pallet" where
  "genesis_state = snd (genesis_build runtime_ref sample_genesis (empty_pallet 0) ::
     (unit, DispatchError) result \<times> (nat, Log) pallet)"

lemma genesis_state_built:
  "genesis_build runtime_ref sample_genesis (empty_pallet 0) = (Ok () :: (unit, DispatchError) result, genesis_state) \<and>
   sys_block_number genesis_state = 0 \<and> L1Messages genesis_state = {} \<and>
   Contracts genesis_state = \<lparr>StorageView = [(sfelt 3, sfelt 0) \<mapsto> sfelt 1], Nonces = Map.empty,
      ContractClassHashes = [sfelt 3 \<mapsto> sfelt 4], ContractClasses = [sfelt 4 \<mapsto> 0],
      CompiledClassHashes = Map.empty\<rparr>"
proof -
  obtain h B where "genesis_build runtime_ref sample_genesis (empty_pallet 0) =
      (Ok () :: (unit, DispatchError) result, (empty_pallet 0)\<lparr>
       Contracts := \<lparr>StorageView = [(sfelt 3, sfelt 0) \<mapsto> sfelt 1], Nonces = Map.empty,
      ContractClassHashes = [sfelt 3 \<mapsto> sfelt 4], ContractClasses = [sfelt 4 \<mapsto> 0],
      CompiledClassHashes = Map.empty\<rparr>,
       TxEvents := [], BlockHash := [0 \<mapsto> h], Pending := [], PendingHashes := [],
       FeeTokenAddress := sfelt 5, SeqAddrUpdate := Some True, schema_version := Some SchemaV1,
       digest_logs := [Consensus MADARA_ENGINE_ID (dg_encode_log (rt_dg runtime_ref) (LogBlock B))]\<rparr>)"
    by (rule genesis_explicit [OF runtime_ref_libs, of sample_genesis 0]) (simp add: sample_genesis_def)
  then show ?thesis
    by (simp add: genesis_state_def empty_pallet_def)
qed

lemma genesis_state_reachable: "reachable runtime_ref (False, genesis_state)"
  unfolding reachable_def using genesis_state_built run_nil by blast

lemma default_sequencer_ok: "sequencer_ok DEFAULT_SEQUENCER_ADDRESS"
  using be_val_zeros [of 30 "[222, 173]"] by (simp add: sequencer_ok_def DEFAULT_SEQUENCER_ADDRESS_def)

definition first_block :: "(nat, Log) pallet" where
  "first_block = (open_block 5000 [] genesis_state)\<lparr>SequencerAddress := DEFAULT_SEQUENCER_ADDRESS,
     SeqAddrUpdate := Some True\<rparr>"

lemma first_block_reachable:
  "chain_run runtime_ref (False, genesis_state)
     [Opened 5000 [], Dispatched NoneOrigin (Call_set_sequencer_address DEFAULT_SEQUENCER_ADDRESS)] (True, first_block)"
  using sample_chain.inherent_block(1) [OF genesis_state_reachable _ default_sequencer_ok, of 5000]
    genesis_state_built by (simp add: first_block_def)

theorem finalize_closes_block_witness:
  "reachable runtime_ref (True, first_block) \<and> SeqAddrUpdate first_block = Some True \<and>
   (\<exists>s' B. on_finalize runtime_ref first_block = (Ok () :: (unit, DispatchError) result, s') \<and>
      find_starknet_block digest_ref (digest_logs s') = Ok B \<and> hd_block_number (blk_header B) = 1)"
proof -
  have r: "reachable runtime_ref (True, first_block)"
    by (rule reachable_run [OF genesis_state_reachable first_block_reachable])
  have "SeqAddrUpdate first_block = Some True" "block_number first_block = 1" "rt_dg runtime_ref = digest_ref"
    using genesis_state_built by (simp_all add: first_block_def open_block_def block_number_def runtime_ref_def)
  then show ?thesis
    using finalize_closes_block [OF runtime_ref_libs r] r by auto
qed

theorem chain_progress_witness:
  "reachable runtime_ref (False, genesis_state) \<and>
   (\<exists>s'. reachable runtime_ref (False, s') \<and> sys_block_number s' = 1 \<and>
      SequencerAddress s' = DEFAULT_SEQUENCER_ADDRESS)"
  using chain_progress [OF runtime_ref_libs genesis_state_reachable _ default_sequencer_ok, of 5000]
    genesis_state_reachable genesis_state_built by auto

theorem sequencer_address_set_once_witness:
  "(\<exists>s'. chain_run runtime_ref (False, genesis_state) [Opened 5000 [], Finalized] (False, s')) \<and> (\<exists>s c'. reachable runtime_ref (False, s) \<and> sys_block_number s \<noteq> 0 \<and>
     chain_run runtime_ref (False, s) (Opened 9000 [] #
       [Dispatched NoneOrigin (Call_set_sequencer_address DEFAULT_SEQUENCER_ADDRESS)] @ [Finalized]) c' \<and>
     length (filter sets_sequencer [Dispatched NoneOrigin (Call_set_sequencer_address DEFAULT_SEQUENCER_ADDRESS)
       :: (nat, Log) label]) = 1)"
proof -
  have first: "\<exists>s'. chain_run runtime_ref (False, genesis_state) [Opened 5000 [], Finalized] (False, s')"
    using sequencer_address_set_once [OF runtime_ref_libs genesis_state_reachable] genesis_state_built by blast
  obtain s1 where fin: "chain_step runtime_ref (True, first_block) Finalized (False, s1)" "sys_block_number s1 = 1"
    using sample_chain.inherent_block(2) [OF genesis_state_reachable _ default_sequencer_ok, of 5000]
      genesis_state_built by (auto simp: first_block_def)
  have r1: "reachable runtime_ref (False, s1)"
    by (rule reachable_run [OF genesis_state_reachable chain_run_snoc [OF first_block_reachable fin(1)]])
  note blk = sample_chain.inherent_block [OF r1 _ default_sequencer_ok, of 9000, unfolded fin(2), simplified]
  obtain s2 where "chain_step runtime_ref (True, (open_block 9000 [] s1)\<lparr>SequencerAddress := DEFAULT_SEQUENCER_ADDRESS,
      SeqAddrUpdate := Some True\<rparr>) Finalized (False, s2)"
    using blk(2) by blast
  then have run: "chain_run runtime_ref (False, s1) (Opened 9000 [] #
       [Dispatched NoneOrigin (Call_set_sequencer_address DEFAULT_SEQUENCER_ADDRESS)] @ [Finalized]) (False, s2)"
    using chain_run_snoc [OF blk(1)] by fastforce
  have nz: "sys_block_number s1 \<noteq> 0" using fin(2) by simp
  have "length (filter sets_sequencer [Dispatched NoneOrigin (Call_set_sequencer_address DEFAULT_SEQUENCER_ADDRESS)
       :: (nat, Log) label]) = 1"
    using sequencer_address_set_once [OF runtime_ref_libs r1] nz run by fastforce
  with r1 nz run show ?thesis by (intro conjI first) (intro exI conjI)
qed

definition sample_message :: HandleL1MessageTransaction where
  "sample_message = \<lparr>l1_nonce = 7, l1_contract_address = 20, l1_entry_point_selector = 21, l1_calldata = [22, 23]\<rparr>"

lemma sample_message_executable:
  "\<exists>h. l1_into_executable ff_ref crypto_ref sf_ref (PedersenHasher ff_ref crypto_ref) sample_message 1 1 False =
     (Ok \<lparr>bl_tx = \<lparr>sl1_version = sf_from_u8 sf_ref 0, sl1_nonce = sf_from_u64 sf_ref 7, sl1_contract_address = sfelt 20,
       sl1_entry_point_selector = sfelt 21, sl1_calldata = [sfelt 22, sfelt 23]\<rparr>,
       bl_paid_fee_on_l1 = 1, bl_tx_hash = h\<rparr> :: (_, DispatchError) result)"
proof -
  obtain x where x: "x < felt_prime" "l1_compute_hash ff_ref crypto_ref (PedersenHasher ff_ref crypto_ref)
      sample_message 1 False = Ok x"
    using ref.tx_compute_hash_preimage [of crypto_ref "PedersenHasher ff_ref crypto_ref" "TL1Handler sample_message" 1 False]
      hasher_t.elements_canonical [OF ref_cr.pedersen_hasher] by fastforce
  have "(20 :: nat) < felt_prime" "(21 :: nat) < felt_prime" "(22 :: nat) < felt_prime" "(23 :: nat) < felt_prime"
    by (simp_all add: felt_prime_def)
  then show ?thesis
    using x by (simp add: l1_into_executable_def sample_message_def vec_of_felt_to_calldata_def felt_into_def
        ref.stark_felt_roundtrip)
qed

lemma sample_message_executes:
  assumes "bc_gas_price bc = 10"
  shows "\<exists>info s'. execute_l1 sample_build ff_ref sf_ref fx_ref bf_ref
     \<lparr>bl_tx = \<lparr>sl1_version = sf_from_u8 sf_ref 0, sl1_nonce = n, sl1_contract_address = a,
       sl1_entry_point_selector = sel, sl1_calldata = [x, y]\<rparr>, bl_paid_fee_on_l1 = 1, bl_tx_hash = h\<rparr>
     bc (config_builder_new False False) \<lparr>bs_pallet = p, bs_adapter = adapter_default\<rparr> = (Ok info, s')"
proof -
  have fee: "calculate_tx_fee fx_ref [(''l1_gas_usage'', 1), (''n_steps'', 100)] bc = Ok 20"
    using sample_fee assms by (simp add: calculate_tx_fee_def sample_context_def)
  then show ?thesis
    by (simp add: execute_l1_def execute_tx_def bind_st_def ret_st_def get_st_def l1_account_context_def
      offset_if_def config_builder_new_def handle_nonce_and_check_fee_balance_def
      handle_nonce_def sf_ref_def with_env_def sample_build_def l1_execute_inner_def put_context_def bf_ref_def
      ref_run_def ref_execute_def ref_call_def l1_handle_fee_def l1_tx_calldata_def compute_transaction_resources_def
      count_state_changes_def set_storage_at_def adapter_default_def Let_def new_accepted_def)
qed

lemma sample_message_consumed:
  "\<exists>s'. chain_step runtime_ref (True, first_block)
     (Dispatched NoneOrigin (Call_consume_l1_message sample_message 1)) (True, s')"
proof -
  have rt: "rt_ff runtime_ref = ff_ref" "rt_sf runtime_ref = sf_ref" "rt_cr runtime_ref = crypto_ref"
      "rt_fx runtime_ref = fx_ref" "rt_bf runtime_ref = bf_ref" "chain_id runtime_ref = 1"
      "T_SystemHash runtime_ref = PedersenHasher ff_ref crypto_ref"
      "runtime_config runtime_ref = config_builder_new False False"
      "bc_gas_price (get_block_context runtime_ref s) = 10" "rt_build runtime_ref = sample_build" for s :: "(nat, Log) pallet"
    by (simp_all add: runtime_ref_def chain_id_def runtime_config_def get_block_context_def)
  have "L1Messages first_block = {}"
    using genesis_state_built by (simp add: first_block_def open_block_def)
  moreover obtain h where "l1_into_executable ff_ref crypto_ref sf_ref (PedersenHasher ff_ref crypto_ref) sample_message 1 1 False =
     (Ok \<lparr>bl_tx = \<lparr>sl1_version = sf_from_u8 sf_ref 0, sl1_nonce = sf_from_u64 sf_ref 7, sl1_contract_address = sfelt 20,
       sl1_entry_point_selector = sfelt 21, sl1_calldata = [sfelt 22, sfelt 23]\<rparr>,
       bl_paid_fee_on_l1 = 1, bl_tx_hash = h\<rparr> :: (_, DispatchError) result)"
    using sample_message_executable by blast
  ultimately have "\<exists>s'. run_call runtime_ref NoneOrigin (Call_consume_l1_message sample_message 1) first_block = (Ok (), s')"
    using sample_message_executes [OF rt(9) [of first_block], of "sf_from_u64 sf_ref 7" "sfelt 20" "sfelt 21"
        "sfelt 22" "sfelt 23" h "Contracts first_block"]
    by (auto simp: consume_l1_message_def rt ensure_none_def ensure_def bind_st_def ret_st_def get_st_def
        ensure_l1_message_not_executed_def map_err_st_def on_adapter_def Let_def)
  then show ?thesis
    using step_dispatched [of "Call_consume_l1_message sample_message 1"] by fastforce
qed

theorem l1_messages_consumed_once_witness:
  "\<exists>s'. chain_run runtime_ref (True, first_block)
       [Dispatched NoneOrigin (Call_consume_l1_message sample_message 1)] (True, s') \<and>
     L1Messages s' = {sf_from_u64 sf_ref 7} \<and>
     fst (consume_l1_message runtime_ref NoneOrigin sample_message 1 s') \<noteq> Ok ()"
proof -
  obtain s' where "chain_step runtime_ref (True, first_block)
      (Dispatched NoneOrigin (Call_consume_l1_message sample_message 1)) (True, s')"
    using sample_message_consumed by blast
  then have run: "chain_run runtime_ref (True, first_block)
      [Dispatched NoneOrigin (Call_consume_l1_message sample_message 1)] (True, s')"
    by (rule run_cons [OF _ run_nil])
  have "L1Messages first_block = {}" "sf_laws (rt_sf runtime_ref)" "rt_sf runtime_ref = sf_ref"
    using genesis_state_built sf_ref_laws by (simp_all add: first_block_def open_block_def runtime_ref_def)
  then show ?thesis
    using run l1_messages_consumed_once [OF _ run, of sample_message NoneOrigin 1]
    by (auto simp: sample_message_def)
qed

end
