(* ===== verification/Validation.thy ===== *)
theory Validation
  imports Chain_Properties
begin

text \<open>
  Admission to the transaction pool: \<open>validate_unsigned\<close> and \<open>get_call_transaction\<close> of the
  pallet (\<^verbatim>\<open>lib.rs\<close>) and \<^verbatim>\<open>transaction_validation.rs\<close>. Tags are the pairs that the sources
  encode under the prefix of the builder. Validation runs the account's contract on the pallet's
  storage; the caller of the runtime function discards what it leaves there.
\<close>

section \<open>Definitions\<close>

fun get_call_transaction :: "'c Call \<Rightarrow> ('c UserOrL1HandlerTransaction, unit) result" where
  "get_call_transaction (Call_invoke transaction) = Ok (UOLUser (UserInvoke transaction))"
| "get_call_transaction (Call_declare transaction contract_class) =
     Ok (UOLUser (UserDeclare transaction contract_class))"
| "get_call_transaction (Call_deploy_account transaction) = Ok (UOLUser (UserDeployAccount transaction))"
| "get_call_transaction (Call_consume_l1_message transaction paid_fee_on_l1) =
     Ok (UOLL1Handler transaction paid_fee_on_l1)"
| "get_call_transaction (Call_set_sequencer_address _) = Err ()"

datatype TxPriorityInfo =
  InvokeV0Priority
| L1HandlerPriority felt252_wrapper
| RegularTxs felt252_wrapper felt252_wrapper felt252_wrapper

fun validate_unsigned_tx_nonce ::
    "('c, 'r, 'x, 'p) runtime \<Rightarrow> 'c UserOrL1HandlerTransaction \<Rightarrow> ('c, 'p) pallet
      \<Rightarrow> (TxPriorityInfo, InvalidTransaction) result" where
  "validate_unsigned_tx_nonce R (UOLUser tx) s =
     and_then (felt_into (rt_ff R) (user_sender_address (rt_ff R) (rt_cr R) tx)) (\<lambda>sender_address.
     and_then (unwrap (felt_from_stark_felt (rt_ff R) (pallet_nonce (Contracts s) sender_address))) (\<lambda>sender_nonce.
       (case user_nonce tx of
          None \<Rightarrow> Ok InvokeV0Priority
        | Some transaction_nonce \<Rightarrow>
            if sender_nonce > transaction_nonce then Err Stale
            else Ok (RegularTxs (user_sender_address (rt_ff R) (rt_cr R) tx) transaction_nonce sender_nonce))))"
| "validate_unsigned_tx_nonce R (UOLL1Handler tx _) s =
     and_then (ensure_l1_message_not_executed s (sf_from_u64 (rt_sf R) (l1_nonce tx))) (\<lambda>_.
       Ok (L1HandlerPriority (felt_from_u64 (rt_ff R) (l1_nonce tx))))"

text \<open>
  The validation call of one transaction: fresh resources and the initial gas. The context is set by
  \<open>validate_tx\<close> before anything reads it.
\<close>

definition run_validation ::
    "('c, 'r, 'x, 'p) runtime \<Rightarrow> BlockContext \<Rightarrow> (CallInfo option, TransactionExecutionError, 'c, 'r, 'x) exec
      \<Rightarrow> (CallInfo option, TransactionExecutionError, 'c bstate) st" where
  "run_validation R block_context m s =
     (case m \<lparr>ee_state = s, ee_resources = bf_resources_default (rt_bf R),
             ee_context = bf_new_context (rt_bf R) block_context account_context_default
               (bc_invoke_tx_max_n_steps block_context),
             ee_gas = bf_INITIAL_GAS_COST (rt_bf R)\<rparr> of
        (r, e) \<Rightarrow> (r, ee_state e))"

fun user_validation ::
    "('c, 'r, 'x, 'p) runtime \<Rightarrow> BlockContext \<Rightarrow> 'c UserTransaction
      \<Rightarrow> ((CallInfo option, TransactionExecutionError) result, InvalidTransaction, ('c, 'p) pallet) st" where
  "user_validation R block_context (UserDeployAccount _) = ret_st (Ok (Ok None))"
| "user_validation R block_context (UserDeclare tx contract_class) =
     bind_st (ret_st (map_err (\<lambda>_. BadProof) (declare_try_into_executable (rt_ff R) (rt_cr R) (T_SystemHash R)
         (rt_bf R) tx (chain_id R) contract_class False))) (\<lambda>btx.
       attempt_st (on_adapter (run_validation R block_context (validate_tx (rt_bf R)
             (bf_VALIDATE_DECLARE_ENTRY_POINT_NAME (rt_bf R)) (declare_calldata btx)
             (declare_account_context (rt_ff R) (rt_sf R) btx) block_context False))))"
| "user_validation R block_context (UserInvoke tx) =
     bind_st (ret_st (invoke_into_executable (rt_ff R) (rt_cr R) (T_SystemHash R) tx (chain_id R) False)) (\<lambda>btx.
       attempt_st (on_adapter (run_validation R block_context (validate_tx (rt_bf R)
             (bf_VALIDATE_ENTRY_POINT_NAME (rt_bf R)) (invoke_tx_calldata btx)
             (invoke_account_context (rt_ff R) (rt_sf R) btx) block_context False))))"

text \<open>
  An invoke right after the deployment of its account (nonce one) is let through although the account
  does not exist yet.
\<close>

definition forgive_undeployed ::
    "('c, 'r, 'x, 'p) runtime \<Rightarrow> 'c UserTransaction \<Rightarrow> (CallInfo option, TransactionExecutionError) result
      \<Rightarrow> (CallInfo option, TransactionExecutionError) result" where
  "forgive_undeployed R transaction validation_result =
     (case validation_result of
        Err (ValidateTransactionError (UninitializedStorageAddress contract_address)) \<Rightarrow>
          and_then (felt_into (rt_ff R) (user_sender_address (rt_ff R) (rt_cr R) transaction)) (\<lambda>sender_address.
            if contract_address = sender_address \<and> user_nonce transaction = Some ONE then Ok None
            else validation_result)
      | _ \<Rightarrow> validation_result)"

fun validate_unsigned_tx ::
    "('c, 'r, 'x, 'p) runtime \<Rightarrow> 'c UserOrL1HandlerTransaction \<Rightarrow> (unit, InvalidTransaction, ('c, 'p) pallet) st" where
  "validate_unsigned_tx R (UOLUser transaction) =
     bind_st get_st (\<lambda>s.
     bind_st (user_validation R (get_block_context R s) transaction) (\<lambda>validation_result.
       ret_st (map_ok (\<lambda>_. ()) (map_err (\<lambda>_. BadProof) (forgive_undeployed R transaction validation_result)))))"
| "validate_unsigned_tx R (UOLL1Handler _ fee) = ret_st (if fee = 0 then Err Payment else Ok ())"

record ValidTransaction =
  vt_tag_prefix :: string
  vt_priority :: u64
  vt_longevity :: u64
  vt_propagate :: bool
  vt_provides :: "(felt252_wrapper \<times> felt252_wrapper) list"
  vt_requires :: "(felt252_wrapper \<times> felt252_wrapper) list"

definition with_priority_info ::
    "('c, 'r, 'x, 'p) runtime \<Rightarrow> TxPriorityInfo \<Rightarrow> ValidTransaction \<Rightarrow> ValidTransaction" where
  "with_priority_info R info builder =
     (case info of
        RegularTxs sender_address transaction_nonce sender_nonce \<Rightarrow>
          (let builder = builder\<lparr>vt_provides := vt_provides builder @ [(sender_address, transaction_nonce)]\<rparr>
           in if transaction_nonce > sender_nonce
              then builder\<lparr>vt_requires := vt_requires builder
                     @ [(sender_address, ff_sub (rt_ff R) transaction_nonce 1)]\<rparr>
              else builder)
      | L1HandlerPriority nonce \<Rightarrow> builder\<lparr>vt_provides := vt_provides builder @ [(ZERO, nonce)]\<rparr>
      | InvokeV0Priority \<Rightarrow> builder)"

definition validate_unsigned ::
    "('c, 'r, 'x, 'p) runtime \<Rightarrow> 'c Call \<Rightarrow> (ValidTransaction, InvalidTransaction, ('c, 'p) pallet) st" where
  "validate_unsigned R call =
     bind_st (ret_st (map_err (\<lambda>_. InvalidCall) (get_call_transaction call))) (\<lambda>transaction.
     bind_st get_st (\<lambda>s.
     bind_st (ret_st (validate_unsigned_tx_nonce R transaction s)) (\<lambda>tx_priority_info.
     bind_st (validate_unsigned_tx R transaction) (\<lambda>_.
       ret_st (Ok (with_priority_info R tx_priority_info
         \<lparr>vt_tag_prefix = ''starknet'', vt_priority = 18446744073709551615,
          vt_longevity = T_TransactionLongevity R, vt_propagate = True, vt_provides = [], vt_requires = []\<rparr>))))))"

definition pre_dispatch :: "'c Call \<Rightarrow> (unit, 'e) result" where
  "pre_dispatch call = Ok ()"

section \<open>Properties\<close>

text \<open>The tags of an admitted transaction follow from its nonce and the stored state.\<close>

lemma priority_tags [simp]:
  "vt_provides (with_priority_info R info b) = vt_provides b @
     (case info of RegularTxs a n _ \<Rightarrow> [(a, n)] | L1HandlerPriority n \<Rightarrow> [(ZERO, n)] | InvokeV0Priority \<Rightarrow> [])"
  "vt_requires (with_priority_info R info b) = vt_requires b @
     (case info of RegularTxs a n k \<Rightarrow> if k < n then [(a, ff_sub (rt_ff R) n 1)] else [] | _ \<Rightarrow> [])"
  by (cases info; simp add: with_priority_info_def Let_def)+

lemma validate_unsigned_OkD:
  assumes "validate_unsigned R call s = (Ok v, s')" "get_call_transaction call = Ok tx"
  obtains info b where "validate_unsigned_tx_nonce R tx s = Ok info" "v = with_priority_info R info b"
    "vt_provides b = []" "vt_requires b = []"
proof -
  from assms obtain info where 1: "validate_unsigned_tx_nonce R tx s = Ok info" and 2:
    "v = with_priority_info R info \<lparr>vt_tag_prefix = ''starknet'', vt_priority = 18446744073709551615,
          vt_longevity = T_TransactionLongevity R, vt_propagate = True, vt_provides = [], vt_requires = []\<rparr>"
    unfolding validate_unsigned_def bind_st_Ok_iff ret_st_Ok_iff get_st_Ok_iff map_err_Ok_iff
    by (elim exE conjE) (simp only: result.inject)
  show thesis by (rule that [OF 1 2]) simp_all
qed

lemma user_tx_nonce_OkD:
  assumes "validate_unsigned_tx_nonce R (UOLUser tx) s = Ok info" "user_nonce tx = Some n"
  obtains a k where
    "felt_into (rt_ff R) (user_sender_address (rt_ff R) (rt_cr R) tx) = (Ok a :: (_, InvalidTransaction) result)"
    "felt_from_stark_felt (rt_ff R) (pallet_nonce (Contracts s) a) = Ok k" "k \<le> n"
    "info = RegularTxs (user_sender_address (rt_ff R) (rt_cr R) tx) n k"
proof -
  from assms(1) obtain a k where 1:
    "felt_into (rt_ff R) (user_sender_address (rt_ff R) (rt_cr R) tx) = (Ok a :: (_, InvalidTransaction) result)"
    "felt_from_stark_felt (rt_ff R) (pallet_nonce (Contracts s) a) = Ok k"
    unfolding validate_unsigned_tx_nonce.simps and_then_Ok_iff unwrap_Ok_iff by (elim exE conjE)
  have "k \<le> n" "info = RegularTxs (user_sender_address (rt_ff R) (rt_cr R) tx) n k"
    using assms 1 by (simp_all split: if_splits)
  with 1 show thesis by (rule that)
qed

lemma validate_unsigned_user:
  assumes "validate_unsigned R call s = (Ok v, s')" "get_call_transaction call = Ok (UOLUser tx)" "user_nonce tx = Some n"
    "user_sender_address (rt_ff R) (rt_cr R) tx = sender"
  obtains a k where
    "felt_into (rt_ff R) sender = (Ok a :: (_, InvalidTransaction) result)"
    "felt_from_stark_felt (rt_ff R) (pallet_nonce (Contracts s) a) = Ok k" "k \<le> n" "vt_provides v = [(sender, n)]"
    "vt_requires v = (if k < n then [(sender, ff_sub (rt_ff R) n 1)] else [])"
proof -
  obtain info b where info: "validate_unsigned_tx_nonce R (UOLUser tx) s = Ok info" and v: "v = with_priority_info R info b"
    "vt_provides b = []" "vt_requires b = []"
    using assms(1,2) by (rule validate_unsigned_OkD)
  obtain a k where 1:
    "felt_into (rt_ff R) (user_sender_address (rt_ff R) (rt_cr R) tx) = (Ok a :: (_, InvalidTransaction) result)"
    "felt_from_stark_felt (rt_ff R) (pallet_nonce (Contracts s) a) = Ok k" "k \<le> n"
    and 2: "info = RegularTxs (user_sender_address (rt_ff R) (rt_cr R) tx) n k"
    using info assms(3) by (rule user_tx_nonce_OkD)
  from 1 [unfolded assms(4)] show thesis by (rule that) (simp_all add: v 2 assms(4))
qed

text \<open>
  C10. The transaction pool orders an account's transactions by nonce. An admitted transaction with
  nonce \<open>n\<close> has \<open>n\<close> at or above the account's nonce; it provides the tag of \<open>n\<close>, and requires
  the tag of \<open>n - 1\<close> exactly when the account has not reached \<open>n\<close> yet. So the next transaction of the
  account, with nonce \<open>n + 1\<close>, requires what this one provides.
\<close>

theorem pool_orders_nonces:
  assumes "ff_laws (rt_ff R)" "canonical (n + 1)"
    and "validate_unsigned R call s = (Ok v, s')" "get_call_transaction call = Ok (UOLUser tx)" "user_nonce tx = Some n"
    and "validate_unsigned R call' s = (Ok v', s'')" "get_call_transaction call' = Ok (UOLUser tx')"
      "user_nonce tx' = Some (n + 1)"
    and "user_sender_address (rt_ff R) (rt_cr R) tx = sender" "user_sender_address (rt_ff R) (rt_cr R) tx' = sender"
  shows "\<exists>a k. felt_into (rt_ff R) sender = (Ok a :: (_, InvalidTransaction) result) \<and>
    felt_from_stark_felt (rt_ff R) (pallet_nonce (Contracts s) a) = Ok k \<and> k \<le> n \<and>
    vt_provides v = [(sender, n)] \<and> vt_requires v = (if k = n then [] else [(sender, n - 1)]) \<and>
    vt_provides v' = [(sender, n + 1)] \<and> vt_requires v' = vt_provides v"
proof -
  have f: "field_libs (rt_ff R)" using assms(1) by unfold_locales
  have sub: "ff_sub (rt_ff R) m 1 = m - 1" if "0 < m" "m \<le> n + 1" for m
  proof -
    have m: "m < felt_prime" "1 < felt_prime" using that assms(2) by (linarith, simp add: felt_prime_def)
    have "ff_sub (rt_ff R) m 1 = (m + (felt_prime - 1)) mod felt_prime"
      using field_libs.field_ops(2) [OF f m] by simp
    also have "m + (felt_prime - 1) = (m - 1) + felt_prime" using that(1) m(2) by linarith
    also have "\<dots> mod felt_prime = m - 1" using m(1) by simp
    finally show ?thesis .
  qed
  obtain a k where 1:
    "felt_into (rt_ff R) sender = (Ok a :: (_, InvalidTransaction) result)"
    "felt_from_stark_felt (rt_ff R) (pallet_nonce (Contracts s) a) = Ok k" "k \<le> n" "vt_provides v = [(sender, n)]"
    "vt_requires v = (if k < n then [(sender, ff_sub (rt_ff R) n 1)] else [])"
    using assms(3-5,9) by (rule validate_unsigned_user)
  obtain a' k' where 2:
    "felt_into (rt_ff R) sender = (Ok a' :: (_, InvalidTransaction) result)"
    "felt_from_stark_felt (rt_ff R) (pallet_nonce (Contracts s) a') = Ok k'" "vt_provides v' = [(sender, n + 1)]"
    "vt_requires v' = (if k' < n + 1 then [(sender, ff_sub (rt_ff R) (n + 1) 1)] else [])"
    using assms(6-8,10) by (rule validate_unsigned_user)
  have "a' = a" "k' = k" using 1(1,2) 2(1,2) by simp_all
  then show ?thesis
    using 1 2(3,4) sub [of n] sub [of "n + 1"] by (intro exI [of _ a] exI [of _ k]) simp
qed

text \<open>
  C21. What admission rejects without running any contract, and what it lets through. Setting the
  sequencer address is not a transaction. A user transaction with a nonce the account has passed is
  stale. An L1 message is stale once consumed, has to have paid a fee, and is admitted otherwise under
  the tag of its nonce. The deployment of an account is admitted whenever its nonce is not stale.
\<close>

theorem pool_admission_outcomes:
  assumes "ff_laws (rt_ff R)"
    and "felt_into (rt_ff R) (user_sender_address (rt_ff R) (rt_cr R) tx) = (Ok a :: (_, InvalidTransaction) result)"
    and "felt_from_stark_felt (rt_ff R) (pallet_nonce (Contracts s) a) = Ok k"
    and "get_call_transaction call = Ok (UOLUser tx)"
  shows "validate_unsigned R (Call_set_sequencer_address b) s = (Err InvalidCall, s) \<and>
    (\<forall>n. user_nonce tx = Some n \<longrightarrow> n < k \<longrightarrow> validate_unsigned R call s = (Err Stale, s)) \<and>
    (\<forall>d n. tx = UserDeployAccount d \<longrightarrow> da_nonce d = n \<longrightarrow> k \<le> n \<longrightarrow>
       (\<exists>v. validate_unsigned R call s = (Ok v, s) \<and>
         vt_provides v = [(user_sender_address (rt_ff R) (rt_cr R) tx, n)])) \<and>
    (case validate_unsigned R (Call_consume_l1_message m fee) s of (r, s') \<Rightarrow>
       s' = s \<and>
       (if sf_from_u64 (rt_sf R) (l1_nonce m) \<in> L1Messages s then r = Err Stale
        else if fee = 0 then r = Err Payment
        else \<exists>v. r = Ok v \<and> vt_provides v = [(0, unat (l1_nonce m))] \<and> vt_requires v = []))"
proof -
  have f: "field_libs (rt_ff R)" using assms(1) by unfold_locales
  show ?thesis
    using assms(2-4) field_libs.from_words [OF f]
    by (auto simp: validate_unsigned_def ret_st_def bind_st_def get_st_def Let_def ensure_l1_message_not_executed_def with_priority_info_def
        forgive_undeployed_def felt_from_u64_def ZERO_def bind_st_assoc deploy_nonce_def split: prod.split)
qed

subsection \<open>Sample transactions\<close>

definition pool_state :: "(nat, Log) pallet" where
  "pool_state = (empty_pallet 0)\<lparr>Contracts := empty_storage\<lparr>Nonces := [sfelt 17 \<mapsto> sfelt 4]\<rparr>\<rparr>"

definition pool_invoke :: "nat \<Rightarrow> InvokeTransaction" where
  "pool_invoke n = InvokeV1 \<lparr>i1_max_fee = 0, i1_signature = [], i1_nonce = n, i1_sender_address = 17,
     i1_calldata = [1], i1_offset_version = False\<rparr>"

lemma pool_invoke_admitted:
  assumes "4 \<le> n" "canonical n"
  shows "\<exists>v s'. validate_unsigned runtime_ref (Call_invoke (pool_invoke n)) pool_state = (Ok v, s')"
proof -
  have c: "canonical 17" "canonical 4" "canonical 1" by (simp_all add: felt_prime_def)
  have rt: "rt_ff runtime_ref = ff_ref" "rt_sf runtime_ref = sf_ref" "rt_cr runtime_ref = crypto_ref"
      "rt_bf runtime_ref = bf_ref" "T_SystemHash runtime_ref = PedersenHasher ff_ref crypto_ref"
    by (simp_all add: runtime_ref_def)
  have nonce: "validate_unsigned_tx_nonce runtime_ref (UOLUser (UserInvoke (pool_invoke n))) pool_state =
      Ok (RegularTxs 17 n 4)"
    using assms c by (simp add: rt pool_invoke_def pool_state_def felt_into_def ref.stark_felt_roundtrip
        pallet_nonce_def unwrap_or_default_def)
  have inv: "invoke_canonical (pool_invoke n)"
    using assms c by (simp add: pool_invoke_def felts_canonical_def)
  obtain h where x: "invoke_into_executable ff_ref crypto_ref (PedersenHasher ff_ref crypto_ref) (pool_invoke n)
      (chain_id runtime_ref) False = (Ok \<lparr>bi_tx = StInvokeV1 \<lparr>si1_max_fee = 0, si1_signature = [],
        si1_nonce = sfelt n, si1_calldata = [sfelt 1], si1_sender_address = sfelt 17\<rparr>, bi_tx_hash = h\<rparr>
        :: (_, InvalidTransaction) result)"
    using ref_cr.invoke_into_executable_eq [OF ref_cr.pedersen_hasher inv, of "chain_id runtime_ref" False]
    by (auto simp: pool_invoke_def)
  have "\<exists>i s'. user_validation runtime_ref bc (UserInvoke (pool_invoke n)) pool_state = (Ok (Ok i), s')" for bc
    using x by (simp add: rt on_adapter_def run_validation_def validate_tx_def invoke_account_context_def offset_if_def
        bind_st_def ret_st_def put_context_def put_gas_def get_st_def validate_tx_inner_def bf_ref_def ref_execute_def
        map_err_st_def invoke_tx_calldata_def Let_def attempt_st_def)
  then obtain i s' where "user_validation runtime_ref (get_block_context runtime_ref pool_state)
      (UserInvoke (pool_invoke n)) pool_state = (Ok (Ok i), s')" by blast
  then have "validate_unsigned_tx runtime_ref (UOLUser (UserInvoke (pool_invoke n))) pool_state = (Ok (), s')"
    by (simp add: bind_st_def get_st_def ret_st_def forgive_undeployed_def)
  then show ?thesis
    using nonce by (auto simp: validate_unsigned_def bind_st_Ok_iff)
qed

theorem pool_orders_nonces_witness:
  "\<exists>v v' s' s''. validate_unsigned runtime_ref (Call_invoke (pool_invoke 5)) pool_state = (Ok v, s') \<and>
     validate_unsigned runtime_ref (Call_invoke (pool_invoke 6)) pool_state = (Ok v', s'') \<and>
     vt_provides v = [(17, 5)] \<and> vt_requires v = [(17, 4)] \<and> vt_requires v' = vt_provides v"
proof -
  have c: "canonical 4" "canonical 5" "canonical 6" "canonical (5 + 1)" "canonical 17" by (simp_all add: felt_prime_def)
  have le: "(4 :: nat) \<le> 5" "(4 :: nat) \<le> 6" by simp_all
  obtain v s' where v1: "validate_unsigned runtime_ref (Call_invoke (pool_invoke 5)) pool_state = (Ok v, s')"
    using pool_invoke_admitted [OF le(1) c(2)] by (elim exE)
  obtain v' s'' where v2: "validate_unsigned runtime_ref (Call_invoke (pool_invoke 6)) pool_state = (Ok v', s'')"
    using pool_invoke_admitted [OF le(2) c(3)] by (elim exE)
  have r: "rt_ff runtime_ref = ff_ref" by (simp add: runtime_ref_def)
  have p: "felt_into ff_ref 17 = (Ok (sfelt 17) :: (_, InvalidTransaction) result)"
      "felt_from_stark_felt ff_ref (pallet_nonce (Contracts pool_state) (sfelt 17)) = Ok 4"
    using c by (simp_all add: felt_into_def ref.stark_felt_roundtrip pool_state_def pallet_nonce_def unwrap_or_default_def)
  have "\<exists>a k. felt_into (rt_ff runtime_ref) 17 = (Ok a :: (_, InvalidTransaction) result) \<and>
      felt_from_stark_felt (rt_ff runtime_ref) (pallet_nonce (Contracts pool_state) a) = Ok k \<and> k \<le> 5 \<and>
      vt_provides v = [(17, 5)] \<and> vt_requires v = (if k = 5 then [] else [(17, 5 - 1)]) \<and>
      vt_provides v' = [(17, 5 + 1)] \<and> vt_requires v' = vt_provides v"
    by (rule pool_orders_nonces [OF _ c(4) v1 _ _ v2, where tx = "UserInvoke (pool_invoke 5)"
          and tx' = "UserInvoke (pool_invoke 6)"]) (simp_all add: r ff_ref_laws pool_invoke_def)
  then have "vt_provides v = [(17, 5)] \<and> vt_requires v = [(17, 4)] \<and> vt_requires v' = vt_provides v"
    by (auto simp: r p)
  then show ?thesis
    by (intro exI [of _ v] exI [of _ v'] exI [of _ s'] exI [of _ s''] conjI v1 v2) simp_all
qed

theorem pool_admission_outcomes_witness:
  "validate_unsigned runtime_ref (Call_invoke (pool_invoke 3)) pool_state = (Err Stale, pool_state) \<and>
   fst (validate_unsigned runtime_ref (Call_consume_l1_message sample_message 0) pool_state) = Err Payment \<and>
   is_ok (fst (validate_unsigned runtime_ref (Call_consume_l1_message sample_message 1) pool_state))"
proof -
  have c: "canonical 4" "canonical 17" by (simp_all add: felt_prime_def)
  have r: "rt_ff runtime_ref = ff_ref" "rt_sf runtime_ref = sf_ref" by (simp_all add: runtime_ref_def)
  have p: "felt_into ff_ref 17 = (Ok (sfelt 17) :: (_, InvalidTransaction) result)"
      "felt_from_stark_felt ff_ref (pallet_nonce (Contracts pool_state) (sfelt 17)) = Ok 4"
      "L1Messages pool_state = {}"
    using c by (simp_all add: felt_into_def ref.stark_felt_roundtrip pool_state_def pallet_nonce_def
        unwrap_or_default_def empty_pallet_def)
  have f: "felt_into ff_ref (user_sender_address ff_ref (rt_cr runtime_ref) (UserInvoke (pool_invoke 3) :: nat UserTransaction)) =
      (Ok (sfelt 17) :: (_, InvalidTransaction) result)" "user_nonce (UserInvoke (pool_invoke 3) :: nat UserTransaction) = Some 3"
    using p(1) by (simp_all add: pool_invoke_def)
  note out = pool_admission_outcomes [where R = runtime_ref and tx = "UserInvoke (pool_invoke 3)" and s = pool_state
      and call = "Call_invoke (pool_invoke 3)" and m = sample_message, unfolded r, OF ff_ref_laws f(1) p(2)]
  have stale: "validate_unsigned runtime_ref (Call_invoke (pool_invoke 3)) pool_state = (Err Stale, pool_state)"
    by (rule out [THEN conjunct2, THEN conjunct1, rule_format, OF _ f(2)]) simp_all
  have l1: "case validate_unsigned runtime_ref (Call_consume_l1_message sample_message fee) pool_state of (r, s') \<Rightarrow>
      s' = pool_state \<and> (if fee = 0 then r = Err Payment else \<exists>v. r = Ok v \<and> vt_provides v = [(0, unat (l1_nonce sample_message))]
        \<and> vt_requires v = [])" for fee
    using out [where fee = fee, THEN conjunct2, THEN conjunct2, THEN conjunct2] p(3) by (simp add: pool_invoke_def)
  show ?thesis
    using stale l1 [of 0] l1 [of 1]
    by (cases "validate_unsigned runtime_ref (Call_consume_l1_message sample_message 0) pool_state";
        cases "validate_unsigned runtime_ref (Call_consume_l1_message sample_message 1) pool_state") auto
qed

end
