(* ===== verification/Simulations.thy ===== *)
theory Simulations
  imports Validation
begin

text \<open>
  Fee estimation, simulation and re-execution of transactions
  (\<^verbatim>\<open>crates/pallets/starknet/src/simulations.rs\<close>). They run on the pallet's storage inside a
  storage transaction of FRAME that is always rolled back; whether FRAME can open one (it has a limit
  on nested transactions) is the argument \<open>layer\<close>. A panic ends the runtime call, and nothing it did is
  kept either.
\<close>

section \<open>Definitions\<close>

datatype PlaceHolderError = PlaceHolderErrorTypeForFailedStarknetExecution

definition with_rollback :: "bool \<Rightarrow> ('a, DispatchError, 's) st \<Rightarrow> ('a, DispatchError, 's) st" where
  "with_rollback layer m s =
     (if layer then (case m s of (r, _) \<Rightarrow> (r, s))
      else (Err (ModuleError FailedToCreateATransactionalStorageExecution), s))"

fun execute_user_transaction ::
    "('c, 'r, 'x, 'p) runtime \<Rightarrow> 'c UserTransaction \<Rightarrow> felt252_wrapper \<Rightarrow> BlockContext \<Rightarrow> ExecutionConfig
      \<Rightarrow> (TransactionExecutionInfo, TransactionExecutionError, ('c, 'p) pallet) st" where
  "execute_user_transaction R (UserDeclare tx contract_class) chain block_context execution_config =
     bind_st (ret_st (declare_try_into_executable (rt_ff R) (rt_cr R) (T_SystemHash R) (rt_bf R) tx chain
         contract_class (declare_offset_version tx))) (\<lambda>executable.
       on_adapter (execute_declare (rt_ff R) (rt_sf R) (rt_fx R) (rt_bf R) executable block_context execution_config))"
| "execute_user_transaction R (UserDeployAccount tx) chain block_context execution_config =
     bind_st (ret_st (deploy_into_executable (rt_ff R) (rt_cr R) (rt_sf R) (T_SystemHash R) tx chain
         (deploy_offset_version tx))) (\<lambda>executable.
       on_adapter (execute_deploy (rt_ff R) (rt_sf R) (rt_fx R) (rt_bf R) executable block_context execution_config))"
| "execute_user_transaction R (UserInvoke tx) chain block_context execution_config =
     bind_st (ret_st (invoke_into_executable (rt_ff R) (rt_cr R) (T_SystemHash R) tx chain
         (invoke_offset_version tx))) (\<lambda>executable.
       on_adapter (execute_invoke (rt_ff R) (rt_sf R) (rt_fx R) (rt_bf R) executable block_context execution_config))"

definition is_reverted :: "TransactionExecutionInfo \<Rightarrow> bool" where
  "is_reverted info \<longleftrightarrow> tei_revert_error info \<noteq> None"

text \<open>A failed and a reverted execution are both reported as a failed execution.\<close>

definition accepted_info ::
    "(TransactionExecutionInfo, TransactionExecutionError, 's) st \<Rightarrow> (TransactionExecutionInfo, DispatchError, 's) st" where
  "accepted_info m =
     bind_st (map_err_st (\<lambda>_. ModuleError TransactionExecutionFailed) m) (\<lambda>info.
       ret_st (if is_reverted info then Err (ModuleError TransactionExecutionFailed) else Ok info))"

text \<open>The fee is cast to 64 bits.\<close>

definition fee_and_gas :: "TransactionExecutionInfo \<Rightarrow> (u64 \<times> u64, DispatchError) result" where
  "fee_and_gas info =
     map_ok (\<lambda>l1_gas_usage. (ucast (tei_actual_fee info), l1_gas_usage))
       (ok_or (ModuleError MissingL1GasUsage) (map_of (tei_actual_resources info) ''l1_gas_usage''))"

definition estimate_fee_inner ::
    "('c, 'r, 'x, 'p) runtime \<Rightarrow> 'c UserTransaction list \<Rightarrow> ((u64 \<times> u64) list, DispatchError, ('c, 'p) pallet) st" where
  "estimate_fee_inner R transactions =
     bind_st get_st (\<lambda>s.
     (let execution_config = with_query_mode (runtime_config R)
      in traverse_st (\<lambda>tx.
           bind_st (accepted_info (execute_user_transaction R tx (chain_id R) (get_block_context R s)
               (set_offset_version (user_offset_version tx) execution_config))) (\<lambda>info.
             ret_st (fee_and_gas info))) transactions))"

definition estimate_fee ::
    "('c, 'r, 'x, 'p) runtime \<Rightarrow> bool \<Rightarrow> 'c UserTransaction list
      \<Rightarrow> ((u64 \<times> u64) list, DispatchError, ('c, 'p) pallet) st" where
  "estimate_fee R layer transactions = with_rollback layer (estimate_fee_inner R transactions)"

definition simulate_transactions_inner ::
    "('c, 'r, 'x, 'p) runtime \<Rightarrow> 'c UserTransaction list \<Rightarrow> SimulationFlags
      \<Rightarrow> ((TransactionExecutionInfo, PlaceHolderError) result list, DispatchError, ('c, 'p) pallet) st" where
  "simulate_transactions_inner R transactions simulation_flags =
     bind_st get_st (\<lambda>s.
     (let execution_config = with_simulation_mode simulation_flags (runtime_config R)
      in traverse_st (\<lambda>tx.
           attempt_st (map_err_st (\<lambda>_. PlaceHolderErrorTypeForFailedStarknetExecution)
             (execute_user_transaction R tx (chain_id R) (get_block_context R s)
               (set_offset_version (user_offset_version tx) execution_config)))) transactions))"

definition simulate_transactions ::
    "('c, 'r, 'x, 'p) runtime \<Rightarrow> bool \<Rightarrow> 'c UserTransaction list \<Rightarrow> SimulationFlags
      \<Rightarrow> ((TransactionExecutionInfo, PlaceHolderError) result list, DispatchError, ('c, 'p) pallet) st" where
  "simulate_transactions R layer transactions simulation_flags =
     with_rollback layer (simulate_transactions_inner R transactions simulation_flags)"

definition estimate_message_fee_inner ::
    "('c, 'r, 'x, 'p) runtime \<Rightarrow> HandleL1MessageTransaction
      \<Rightarrow> (u128 \<times> u64 \<times> u64, DispatchError, ('c, 'p) pallet) st" where
  "estimate_message_fee_inner R message =
     bind_st get_st (\<lambda>s.
     bind_st (accepted_info
         (bind_st (ret_st (l1_into_executable (rt_ff R) (rt_cr R) (rt_sf R) (T_SystemHash R) message (chain_id R)
             340282366920938463463374607431768211455 True)) (\<lambda>executable.
           on_adapter (execute_l1 (rt_build R) (rt_ff R) (rt_sf R) (rt_fx R) (rt_bf R) executable (get_block_context R s)
             (with_disable_nonce_validation (with_query_mode (runtime_config R))))))) (\<lambda>info.
       ret_st (map_ok (\<lambda>(fee, gas). (price_in_wei (T_L1GasPrice R), fee, gas)) (fee_and_gas info))))"

definition estimate_message_fee ::
    "('c, 'r, 'x, 'p) runtime \<Rightarrow> bool \<Rightarrow> HandleL1MessageTransaction
      \<Rightarrow> (u128 \<times> u64 \<times> u64, DispatchError, ('c, 'p) pallet) st" where
  "estimate_message_fee R layer message = with_rollback layer (estimate_message_fee_inner R message)"

fun re_execute_transaction ::
    "('c, 'r, 'x, 'p) runtime \<Rightarrow> BlockContext \<Rightarrow> 'c UserOrL1HandlerTransaction
      \<Rightarrow> (TransactionExecutionInfo, TransactionExecutionError, ('c, 'p) pallet) st" where
  "re_execute_transaction R block_context (UOLUser (UserDeclare tx contract_class)) =
     bind_st (ret_st (declare_try_into_executable (rt_ff R) (rt_cr R) (T_SystemHash R) (rt_bf R) tx (chain_id R)
         contract_class False)) (\<lambda>executable.
       on_adapter (execute_declare (rt_ff R) (rt_sf R) (rt_fx R) (rt_bf R) executable block_context (runtime_config R)))"
| "re_execute_transaction R block_context (UOLUser (UserDeployAccount tx)) =
     bind_st (ret_st (deploy_into_executable (rt_ff R) (rt_cr R) (rt_sf R) (T_SystemHash R) tx (chain_id R)
         False)) (\<lambda>executable.
       on_adapter (execute_deploy (rt_ff R) (rt_sf R) (rt_fx R) (rt_bf R) executable block_context (runtime_config R)))"
| "re_execute_transaction R block_context (UOLUser (UserInvoke tx)) =
     bind_st (ret_st (invoke_into_executable (rt_ff R) (rt_cr R) (T_SystemHash R) tx (chain_id R)
         False)) (\<lambda>executable.
       on_adapter (execute_invoke (rt_ff R) (rt_sf R) (rt_fx R) (rt_bf R) executable block_context (runtime_config R)))"
| "re_execute_transaction R block_context (UOLL1Handler tx fee) =
     bind_st (ret_st (l1_into_executable (rt_ff R) (rt_cr R) (rt_sf R) (T_SystemHash R) tx (chain_id R)
         fee False)) (\<lambda>executable.
       on_adapter (execute_l1 (rt_build R) (rt_ff R) (rt_sf R) (rt_fx R) (rt_bf R) executable block_context (runtime_config R)))"

definition re_execute_transactions_inner ::
    "('c, 'r, 'x, 'p) runtime \<Rightarrow> 'c UserOrL1HandlerTransaction list
      \<Rightarrow> ((TransactionExecutionInfo list, PlaceHolderError) result, DispatchError, ('c, 'p) pallet) st" where
  "re_execute_transactions_inner R transactions =
     bind_st get_st (\<lambda>s.
       attempt_st (traverse_st (\<lambda>tx. map_err_st (\<lambda>_. PlaceHolderErrorTypeForFailedStarknetExecution)
         (re_execute_transaction R (get_block_context R s) tx)) transactions))"

definition re_execute_transactions ::
    "('c, 'r, 'x, 'p) runtime \<Rightarrow> bool \<Rightarrow> 'c UserOrL1HandlerTransaction list
      \<Rightarrow> ((TransactionExecutionInfo list, PlaceHolderError) result, DispatchError, ('c, 'p) pallet) st" where
  "re_execute_transactions R layer transactions = with_rollback layer (re_execute_transactions_inner R transactions)"

section \<open>What executions read and change\<close>

lemma on_adapter_frame:
  "on_adapter m (s\<lparr>L1Messages := l\<rparr>) = (case on_adapter m s of (r, s') \<Rightarrow> (r, s'\<lparr>L1Messages := l\<rparr>))"
  by (simp add: on_adapter_def split: prod.split)

lemma block_context_frame [simp]:
  "get_block_context R (s\<lparr>Contracts := c\<rparr>) = get_block_context R s"
  "get_block_context R (s\<lparr>L1Messages := l\<rparr>) = get_block_context R s"
  by (simp_all add: get_block_context_def block_number_def block_timestamp_def)

lemma into_executable_retype:
  "invoke_into_executable ff cr H ti ch off = (Ok bi :: (_, 'e) result) \<Longrightarrow>
     invoke_into_executable ff cr H ti ch off = (Ok bi :: (_, 'f) result)"
  "deploy_into_executable ff cr sf H td ch off = (Ok bd :: (_, 'e) result) \<Longrightarrow>
     deploy_into_executable ff cr sf H td ch off = (Ok bd :: (_, 'f) result)"
  "l1_into_executable ff cr sf H th ch fee off = (Ok bl :: (_, 'e) result) \<Longrightarrow>
     l1_into_executable ff cr sf H th ch fee off = (Ok bl :: (_, 'f) result)"
  by (cases ti; auto simp: invoke_v0_into_executable_def invoke_v1_into_executable_def felt_into_def
        vec_of_felt_to_signature_def vec_of_felt_to_calldata_def collect_results_Ok_iff)
     (auto simp: deploy_into_executable_def l1_into_executable_def felt_into_def Let_def
        vec_of_felt_to_signature_def vec_of_felt_to_calldata_def collect_results_Ok_iff)

text \<open>Events and messages are stored without a look at the contracts or the L1 nonces.\<close>

lemma walk_commutes:
  "(\<And>a e s. emit a e (u s) = u (emit a e s)) \<Longrightarrow>
     walk_call sel emit c n (u s) = (case walk_call sel emit c n s of (n', s') \<Rightarrow> (n', u s'))"
  "(\<And>a e s. emit a e (u s) = u (emit a e s)) \<Longrightarrow>
     walk_loop sel emit addr items inner n (u s) = (case walk_loop sel emit addr items inner n s of (n', s') \<Rightarrow> (n', u s'))"
proof (induction sel emit c n s and sel emit addr items inner n s rule: walk_call_walk_loop.induct)
  case (1 sel emit c n s)
  then show ?case by (simp add: walk_call.simps)
next
  case (2 sel emit addr items inner n s)
  show ?case
  proof (cases "items \<noteq> [] \<and> fst (hd items) = n")
    case True
    then show ?thesis
      using 2(1) [OF True 2(4)] 2(4)
      by (subst walk_loop.simps, subst (2) walk_loop.simps) simp
  next
    case False
    then show ?thesis
    proof (cases inner)
      case Nil
      then show ?thesis
        by (subst walk_loop.simps, subst (2) walk_loop.simps) (simp only: if_not_P [OF False], simp)
    next
      case (Cons c inner')
      obtain n' s' where w: "walk_call sel emit c n s = (n', s')" by fastforce
      have "walk_loop sel emit addr items inner' n' (u s') =
          (case walk_loop sel emit addr items inner' n' s' of (n', s') \<Rightarrow> (n', u s'))"
        by (rule 2(3) [OF False Cons w [symmetric] 2(4)])
      with 2(2) [OF False Cons 2(4)] w Cons show ?thesis
        by (subst walk_loop.simps, subst (2) walk_loop.simps) (simp only: if_not_P [OF False], simp)
    qed
  qed
qed

lemma store_results_frame:
  "store_results h t info (s\<lparr>Contracts := c, L1Messages := l\<rparr>) =
     (store_results h t info s)\<lparr>Contracts := c, L1Messages := l\<rparr>"
proof -
  let ?u = "\<lambda>s. s\<lparr>Contracts := c, L1Messages := l\<rparr>"
  have e: "emit_event h a ev (?u s) = ?u (emit_event h a ev s)" for a ev and s :: "('a, 'b) pallet"
    by (simp add: emit_event_def append_event_def Let_def)
  have m: "append_message h a ev (?u s) = ?u (append_message h a ev s)" for a ev and s :: "('a, 'b) pallet"
    by (simp add: append_message_def)
  have a: "emit_and_aggregate h i (?u s) = ?u (emit_and_aggregate h i s)" for i and s :: "('a, 'b) pallet"
    using walk_commutes(1) [where u = ?u and emit = "emit_event h" and sel = ci_events, OF e]
      walk_commutes(1) [where u = ?u and emit = "append_message h" and sel = ci_l2_to_l1_messages, OF m]
    by (simp add: emit_and_aggregate_def emit_events_in_call_info_def aggregate_messages_in_call_info_def
        split: option.split prod.split)
  show ?thesis
    by (simp add: store_results_def emit_and_store_tx_and_fees_events_def a store_transaction_def)
qed

section \<open>Re-execution\<close>

lemma L1Messages_same: "s\<lparr>Contracts := c, L1Messages := L1Messages s\<rparr> = s\<lparr>Contracts := c\<rparr>"
  by (cases s) simp

lemma adapter_run_OkE:
  assumes "map_err_st f (on_adapter m) s = (Ok info, s')"
  obtains c where "on_adapter m s = (Ok info, s\<lparr>Contracts := c\<rparr>)" "s' = s\<lparr>Contracts := c\<rparr>"
  using assms on_adapter_Contracts [of m s "Ok info" s'] by (auto simp: map_err_st_Ok_iff)

text \<open>The dispatched call and the re-execution of its transaction, from the same state.\<close>

definition re_executes ::
    "('c, 'r, 'x, 'p) runtime \<Rightarrow> ('c, 'p) pallet \<Rightarrow> ('c, 'p) pallet \<Rightarrow> 'c UserOrL1HandlerTransaction \<Rightarrow> Transaction \<Rightarrow> bool" where
  "re_executes R s s' tx t \<longleftrightarrow> (\<exists>info h c l.
     re_execute_transaction R (get_block_context R s) tx s = (Ok info, s\<lparr>Contracts := c\<rparr>) \<and>
     s' = store_results h t info (s\<lparr>Contracts := c, L1Messages := l\<rparr>))"

lemma re_executesI:
  "re_execute_transaction R (get_block_context R s) tx s = (Ok info, s\<lparr>Contracts := c\<rparr>) \<Longrightarrow>
   s' = store_results h t info (s\<lparr>Contracts := c\<rparr>) \<Longrightarrow> re_executes R s s' tx t"
  unfolding re_executes_def by (metis L1Messages_same)

lemma invoke_re_executes:
  assumes "invoke R origin ti s = (Ok (), s')"
  shows "re_executes R s s' (UOLUser (UserInvoke ti)) (TInvoke ti)"
proof -
  from assms obtain b info c where
    1: "invoke_into_executable (rt_ff R) (rt_cr R) (T_SystemHash R) ti (chain_id R) False = (Ok b :: (_, DispatchError) result)"
    and 2: "on_adapter (execute_invoke (rt_ff R) (rt_sf R) (rt_fx R) (rt_bf R) b (get_block_context R s) (runtime_config R)) s =
      (Ok info, s\<lparr>Contracts := c\<rparr>)"
    and 3: "s' = store_results (bi_tx_hash b) (TInvoke ti) info (s\<lparr>Contracts := c\<rparr>)"
    by (auto simp: invoke_def bind_st_Ok_iff elim!: adapter_run_OkE)
  from into_executable_retype(1) [OF 1, where 'f = TransactionExecutionError] 2
  have "re_execute_transaction R (get_block_context R s) (UOLUser (UserInvoke ti)) s = (Ok info, s\<lparr>Contracts := c\<rparr>)"
    by simp
  then show ?thesis using 3 by (rule re_executesI)
qed

lemma declare_re_executes:
  assumes "declare_call R origin td cls s = (Ok (), s')"
  shows "re_executes R s s' (UOLUser (UserDeclare td cls)) (TDeclare td)"
proof -
  from assms obtain b info c where
    1: "declare_try_into_executable (rt_ff R) (rt_cr R) (T_SystemHash R) (rt_bf R) td (chain_id R) cls False = (Ok b :: (_, TransactionExecutionError) result)"
    and 2: "on_adapter (execute_declare (rt_ff R) (rt_sf R) (rt_fx R) (rt_bf R) b (get_block_context R s) (runtime_config R)) s =
      (Ok info, s\<lparr>Contracts := c\<rparr>)"
    and 3: "s' = store_results (bd_tx_hash b) (TDeclare td) info (s\<lparr>Contracts := c\<rparr>)"
    by (auto simp: declare_call_def bind_st_Ok_iff elim!: adapter_run_OkE)
  from 1 2 have "re_execute_transaction R (get_block_context R s) (UOLUser (UserDeclare td cls)) s = (Ok info, s\<lparr>Contracts := c\<rparr>)"
    by simp
  then show ?thesis using 3 by (rule re_executesI)
qed

lemma deploy_re_executes:
  assumes "deploy_account R origin td s = (Ok (), s')"
  shows "re_executes R s s' (UOLUser (UserDeployAccount td)) (TDeployAccount td)"
proof -
  from assms obtain b info c where
    1: "deploy_into_executable (rt_ff R) (rt_cr R) (rt_sf R) (T_SystemHash R) td (chain_id R) False = (Ok b :: (_, DispatchError) result)"
    and 2: "on_adapter (execute_deploy (rt_ff R) (rt_sf R) (rt_fx R) (rt_bf R) b (get_block_context R s) (runtime_config R)) s =
      (Ok info, s\<lparr>Contracts := c\<rparr>)"
    and 3: "s' = store_results (bda_tx_hash b) (TDeployAccount td) info (s\<lparr>Contracts := c\<rparr>)"
    by (auto simp: deploy_account_def bind_st_Ok_iff chain_id_def elim!: adapter_run_OkE)
  from into_executable_retype(2) [OF 1, where 'f = TransactionExecutionError] 2
  have "re_execute_transaction R (get_block_context R s) (UOLUser (UserDeployAccount td)) s = (Ok info, s\<lparr>Contracts := c\<rparr>)"
    by simp
  then show ?thesis using 3 by (rule re_executesI)
qed

lemma consume_re_executes:
  assumes "consume_l1_message R origin th fee s = (Ok (), s')"
  shows "re_executes R s s' (UOLL1Handler th fee) (TL1Handler th)"
proof -
  from assms obtain b info c l where
    1: "l1_into_executable (rt_ff R) (rt_cr R) (rt_sf R) (T_SystemHash R) th (chain_id R) fee False = (Ok b :: (_, DispatchError) result)"
    and 2: "on_adapter (execute_l1 (rt_build R) (rt_ff R) (rt_sf R) (rt_fx R) (rt_bf R) b (get_block_context R s) (runtime_config R)) (s\<lparr>L1Messages := l\<rparr>) =
      (Ok info, s\<lparr>L1Messages := l, Contracts := c\<rparr>)"
    and 3: "s' = store_results (bl_tx_hash b) (TL1Handler th) info (s\<lparr>L1Messages := l, Contracts := c\<rparr>)"
    by (auto simp: consume_l1_message_def bind_st_Ok_iff Let_def elim!: adapter_run_OkE)
  obtain s2 where s2: "on_adapter (execute_l1 (rt_build R) (rt_ff R) (rt_sf R) (rt_fx R) (rt_bf R) b (get_block_context R s) (runtime_config R)) s =
      (Ok info, s2)" "s2\<lparr>L1Messages := l\<rparr> = s\<lparr>L1Messages := l, Contracts := c\<rparr>"
    using 2 by (auto simp: on_adapter_frame split: prod.splits)
  obtain c' where c': "s2 = s\<lparr>Contracts := c'\<rparr>" using on_adapter_Contracts [OF s2(1)] by blast
  then have "c' = c" using s2(2) by (cases s) simp
  with s2(1) c' into_executable_retype(3) [OF 1, where 'f = TransactionExecutionError]
  have "re_execute_transaction R (get_block_context R s) (UOLL1Handler th fee) s = (Ok info, s\<lparr>Contracts := c\<rparr>)"
    by simp
  moreover have "s\<lparr>L1Messages := l, Contracts := c\<rparr> = s\<lparr>Contracts := c, L1Messages := l\<rparr>" by simp
  ultimately show ?thesis unfolding re_executes_def using 3 by metis
qed

lemma run_call_re_executes:
  assumes "run_call R origin call s = (Ok (), s')" "get_call_transaction call = Ok tx"
  shows "re_executes R s s' tx (the (call_transaction call))"
  using assms invoke_re_executes declare_re_executes deploy_re_executes consume_re_executes
  by (cases call) fastforce+

text \<open>Executions that see the contracts only give the same outcome wherever the contracts are the same.\<close>

definition on_contracts :: "('a, 'e, ('c, 'p) pallet) st \<Rightarrow> bool" where
  "on_contracts m \<longleftrightarrow> (\<exists>g. \<forall>s. m s = (fst (g (Contracts s)), s\<lparr>Contracts := snd (g (Contracts s))\<rparr>))"

lemma on_contracts_frame:
  assumes "on_contracts m" "m s = (r, s')" "Contracts t = Contracts s"
  shows "s' = s\<lparr>Contracts := Contracts s'\<rparr>" "m t = (r, t\<lparr>Contracts := Contracts s'\<rparr>)"
  using assms by (auto simp: on_contracts_def)

lemma on_contracts_ret: "on_contracts (ret_st r)"
  by (auto simp: on_contracts_def ret_st_def intro!: exI [of _ "\<lambda>c. (r, c)"])

lemma on_contracts_adapter: "on_contracts (on_adapter m)"
  unfolding on_contracts_def
  by (rule exI [of _ "\<lambda>c. case m \<lparr>bs_pallet = c, bs_adapter = adapter_default\<rparr> of (r, b) \<Rightarrow> (r, bs_pallet b)"])
     (simp add: on_adapter_def split: prod.split)

lemma on_contracts_map_err: "on_contracts m \<Longrightarrow> on_contracts (map_err_st f m)"
  unfolding on_contracts_def
  by (elim exE, rule_tac x = "\<lambda>c. map_prod (map_err f) id (g c)" in exI) (simp add: map_err_st_def)

lemma on_contracts_bind:
  assumes "on_contracts m" "\<And>x. on_contracts (k x)"
  shows "on_contracts (bind_st m k)"
proof -
  obtain g where g: "\<And>s. m s = (fst (g (Contracts s)), s\<lparr>Contracts := snd (g (Contracts s))\<rparr>)"
    using assms(1) by (auto simp: on_contracts_def)
  obtain h where h: "\<And>x s. k x s = (fst (h x (Contracts s)), s\<lparr>Contracts := snd (h x (Contracts s))\<rparr>)"
    using assms(2) unfolding on_contracts_def by metis
  show ?thesis
    unfolding on_contracts_def
    by (rule exI [of _ "\<lambda>c. case g c of (Ok x, c') \<Rightarrow> h x c' | (Err e, c') \<Rightarrow> (Err e, c') | (Panic, c') \<Rightarrow> (Panic, c')"])
       (simp add: bind_st_def g h split: prod.split result.split)
qed

lemma on_contracts_traverse: "(\<And>x. on_contracts (f x)) \<Longrightarrow> on_contracts (traverse_st f xs)"
  by (induction xs) (auto intro!: on_contracts_ret on_contracts_bind)

lemma on_contracts_re_execute: "on_contracts (re_execute_transaction R bc tx)"
  by (cases "(R, bc, tx)" rule: re_execute_transaction.cases) (auto intro!: on_contracts_bind on_contracts_ret on_contracts_adapter)

lemma block_context_store_results: "get_block_context R (store_results h t info s) = get_block_context R s"
proof -
  have "records_tx h t (L1Messages s) s (store_results h t info (s\<lparr>Contracts := Contracts s, L1Messages := L1Messages s\<rparr>))"
    by (rule store_results_records [OF refl])
  moreover have "s\<lparr>Contracts := Contracts s, L1Messages := L1Messages s\<rparr> = s" by (cases s) simp
  ultimately show ?thesis
    by (auto simp: records_tx_def get_block_context_def block_number_def block_timestamp_def)
qed

text \<open>Recording executed transactions one after the other.\<close>

fun store_all :: "stark_felt list \<Rightarrow> Transaction list \<Rightarrow> TransactionExecutionInfo list \<Rightarrow> ('c, 'p) pallet \<Rightarrow> ('c, 'p) pallet" where
  "store_all (h # hs) (t # ts) (i # is) s = store_all hs ts is (store_results h t i s)"
| "store_all _ _ _ s = s"

lemma dispatch_re_executes:
  assumes "traverse_st (run_call R origin) calls s = (Ok us, s')" "collect_results get_call_transaction calls = Ok txs"
  shows "\<exists>infos hs. traverse_st (\<lambda>tx. map_err_st f (re_execute_transaction R (get_block_context R s) tx)) txs s =
      (Ok infos, s\<lparr>Contracts := Contracts s'\<rparr>) \<and> length hs = length calls \<and>
    s' = store_all hs (map (\<lambda>c. the (call_transaction c)) calls) infos
      (s\<lparr>Contracts := Contracts s', L1Messages := L1Messages s'\<rparr>)"
  using assms
proof (induction calls arbitrary: s us txs)
  case Nil
  then show ?case by (cases s) (auto simp: ret_st_def)
next
  case (Cons call calls)
  obtain s1 us' where s1: "run_call R origin call s = (Ok (), s1)" "traverse_st (run_call R origin) calls s1 = (Ok us', s')"
    using Cons.prems(1) by (auto simp: bind_st_Ok_iff)
  obtain tx txs' where tx: "get_call_transaction call = Ok tx" "collect_results get_call_transaction calls = Ok txs'"
      "txs = tx # txs'"
    using Cons.prems(2) by auto
  obtain info h c l where i: "re_execute_transaction R (get_block_context R s) tx s = (Ok info, s\<lparr>Contracts := c\<rparr>)"
    and st: "s1 = store_results h (the (call_transaction call)) info (s\<lparr>Contracts := c, L1Messages := l\<rparr>)"
    using run_call_re_executes [OF s1(1) tx(1)] unfolding re_executes_def by blast
  let ?F = "\<lambda>tx. map_err_st f (re_execute_transaction R (get_block_context R s) tx)"
  have bc: "get_block_context R s1 = get_block_context R s" by (simp add: st block_context_store_results)
  obtain infos hs where IH: "traverse_st ?F txs' s1 = (Ok infos, s1\<lparr>Contracts := Contracts s'\<rparr>)" "length hs = length calls"
    "s' = store_all hs (map (\<lambda>c. the (call_transaction c)) calls) infos
      (s1\<lparr>Contracts := Contracts s', L1Messages := L1Messages s'\<rparr>)"
    using Cons.IH [OF s1(2) tx(2)] unfolding bc by blast
  have "Contracts (s\<lparr>Contracts := c\<rparr>) = Contracts s1"
    by (simp add: st store_results_frame)
  then have "traverse_st ?F txs' (s\<lparr>Contracts := c\<rparr>) = (Ok infos, s\<lparr>Contracts := Contracts s'\<rparr>)"
    using on_contracts_frame(2) [OF on_contracts_traverse IH(1)] on_contracts_map_err on_contracts_re_execute by fastforce
  moreover have "?F tx s = (Ok info, s\<lparr>Contracts := c\<rparr>)" using i by (simp add: map_err_st_Ok_iff)
  ultimately have "traverse_st ?F txs s = (Ok (info # infos), s\<lparr>Contracts := Contracts s'\<rparr>)"
    by (simp add: tx(3) bind_st_Ok_iff)
  moreover have "s1\<lparr>Contracts := Contracts s', L1Messages := L1Messages s'\<rparr> =
      store_results h (the (call_transaction call)) info (s\<lparr>Contracts := Contracts s', L1Messages := L1Messages s'\<rparr>)"
    by (simp add: st store_results_frame)
  ultimately show ?case
    using IH(2,3) by (intro exI [of _ "info # infos"] exI [of _ "h # hs"]) simp
qed

section \<open>Properties\<close>

text \<open>
  C9. Re-executing the transactions of a block gives what their execution gave. When the calls of a
  block went through one after the other from a state, re-executing their transactions from that state
  succeeds; recording the returned execution infos in order gives exactly the state the block left,
  with its events, messages, revert reasons and pending transactions; and the re-execution leaves the
  storage as it was.
\<close>

theorem re_execution_faithful:
  assumes "traverse_st (run_call R origin) calls s = (Ok us, s')" "collect_results get_call_transaction calls = Ok txs"
  shows "\<exists>infos hs. re_execute_transactions R True txs s = (Ok (Ok infos), s) \<and>
    length infos = length calls \<and> length hs = length calls \<and>
    s' = store_all hs (map (\<lambda>c. the (call_transaction c)) calls) infos
      (s\<lparr>Contracts := Contracts s', L1Messages := L1Messages s'\<rparr>)"
proof -
  obtain infos hs where 1: "traverse_st (\<lambda>tx. map_err_st (\<lambda>_. PlaceHolderErrorTypeForFailedStarknetExecution)
        (re_execute_transaction R (get_block_context R s) tx)) txs s = (Ok infos, s\<lparr>Contracts := Contracts s'\<rparr>)"
    "length hs = length calls" "s' = store_all hs (map (\<lambda>c. the (call_transaction c)) calls) infos
      (s\<lparr>Contracts := Contracts s', L1Messages := L1Messages s'\<rparr>)"
    using dispatch_re_executes [OF assms] by blast
  have "length infos = length calls"
    using traverse_st_length [OF 1(1)] collect_results_Ok_iff [THEN iffD1, OF assms(2), THEN list_all2_lengthD] by simp
  then show ?thesis
    using 1 by (intro exI [of _ infos] exI [of _ hs])
      (simp add: re_execute_transactions_def with_rollback_def re_execute_transactions_inner_def attempt_st_def)
qed

text \<open>What an estimate says about an execution: it was accepted, the fee is the low 64 bits, the gas is reported.\<close>

definition estimates :: "TransactionExecutionInfo \<Rightarrow> u64 \<times> u64 \<Rightarrow> bool" where
  "estimates info e \<longleftrightarrow> tei_revert_error info = None \<and> unat (fst e) = unat (tei_actual_fee info) mod 2 ^ 64 \<and>
     map_of (tei_actual_resources info) ''l1_gas_usage'' = Some (snd e)"

lemma fee_and_gas_estimates:
  "\<not> is_reverted info \<and> fee_and_gas info = Ok e \<longleftrightarrow> estimates info e"
proof -
  have "(ucast (tei_actual_fee info) :: u64) = f \<longleftrightarrow> unat f = unat (tei_actual_fee info) mod 2 ^ 64" for f
    using unat_eq_iff [of "ucast (tei_actual_fee info) :: u64" f] by (auto simp: unsigned_ucast_eq take_bit_eq_mod)
  then show ?thesis
    by (cases e) (auto simp: estimates_def is_reverted_def fee_and_gas_def)
qed

lemma accepted_info_Ok_iff:
  "bind_st (accepted_info m) (\<lambda>info. ret_st (map_ok g (fee_and_gas info))) s = (Ok y, s') \<longleftrightarrow>
     (\<exists>info e. m s = (Ok info, s') \<and> estimates info e \<and> y = g e)"
  by (auto simp: accepted_info_def bind_st_Ok_iff map_err_st_Ok_iff fee_and_gas_estimates [symmetric] split: if_splits)

lemma traverse_st_decompose:
  assumes "\<And>x s y s'. g x s = (Ok y, s') \<longleftrightarrow> (\<exists>z. f x s = (Ok z, s') \<and> Q z y)"
  shows "traverse_st g xs s = (Ok ys, s') \<longleftrightarrow> (\<exists>zs. traverse_st f xs s = (Ok zs, s') \<and> list_all2 Q zs ys)"
proof (induction xs arbitrary: s ys)
  case Nil
  then show ?case by (auto simp: ret_st_def)
next
  case (Cons x xs)
  show ?case
    by (auto simp: bind_st_Ok_iff assms Cons.IH list_all2_Cons1 list_all2_Cons2)
qed

text \<open>
  C20. Estimating fees never changes the storage. An estimate is returned exactly when all transactions,
  each run in the state the ones before it left, execute without a revert and report their L1 gas. It
  then holds for each of them this gas and the low 64 bits of its 128-bit fee; the estimate for a
  message from L1 has the L1 gas price in front. When no storage transaction can be opened, the calls
  fail with that error.
\<close>

theorem fee_estimation_exact:
  "(fst (estimate_fee R True txs s) = Ok fees \<longleftrightarrow>
      (\<exists>infos s'. traverse_st (\<lambda>tx. execute_user_transaction R tx (chain_id R) (get_block_context R s)
          (set_offset_version (user_offset_version tx) (with_query_mode (runtime_config R)))) txs s = (Ok infos, s') \<and>
         list_all2 estimates infos fees)) \<and>
   (fst (estimate_message_fee R True message s) = Ok (price, fee_gas) \<longleftrightarrow>
      price = price_in_wei (T_L1GasPrice R) \<and>
      (\<exists>b info s'. l1_into_executable (rt_ff R) (rt_cr R) (rt_sf R) (T_SystemHash R) message (chain_id R)
             340282366920938463463374607431768211455 True = (Ok b :: (_, TransactionExecutionError) result) \<and>
         on_adapter (execute_l1 (rt_build R) (rt_ff R) (rt_sf R) (rt_fx R) (rt_bf R) b (get_block_context R s)
             (with_disable_nonce_validation (with_query_mode (runtime_config R)))) s = (Ok info, s') \<and>
         estimates info fee_gas)) \<and>
   snd (estimate_fee R layer txs s) = s \<and> snd (estimate_message_fee R layer message s) = s \<and>
   snd (simulate_transactions R layer txs flags s) = s \<and>
   fst (estimate_fee R False txs s) = Err (ModuleError FailedToCreateATransactionalStorageExecution) \<and>
   fst (estimate_message_fee R False message s) = Err (ModuleError FailedToCreateATransactionalStorageExecution)"
proof -
  have fee: "fst (estimate_fee R True txs s) = Ok fees \<longleftrightarrow> (\<exists>s'. estimate_fee_inner R txs s = (Ok fees, s'))"
    by (auto simp: estimate_fee_def with_rollback_def split: prod.splits)
  have msg: "fst (estimate_message_fee R True message s) = Ok x \<longleftrightarrow> (\<exists>s'. estimate_message_fee_inner R message s = (Ok x, s'))" for x
    by (auto simp: estimate_message_fee_def with_rollback_def split: prod.splits)
  have step: "bind_st (accepted_info m) (\<lambda>info. ret_st (fee_and_gas info)) s = (Ok y, s') \<longleftrightarrow>
      (\<exists>info. m s = (Ok info, s') \<and> estimates info y)" for m :: "(_, _, ('a, 'b) pallet) st" and s y s'
    by (auto simp: accepted_info_def bind_st_Ok_iff map_err_st_Ok_iff fee_and_gas_estimates [symmetric] split: if_splits)
  have feeA: "estimate_fee_inner R txs s = (Ok fees, s') \<longleftrightarrow>
      (\<exists>infos. traverse_st (\<lambda>tx. execute_user_transaction R tx (chain_id R) (get_block_context R s)
          (set_offset_version (user_offset_version tx) (with_query_mode (runtime_config R)))) txs s = (Ok infos, s') \<and>
         list_all2 estimates infos fees)" for s'
    unfolding estimate_fee_inner_def Let_def bind_get_st by (rule traverse_st_decompose) (rule step)
  have msgA: "estimate_message_fee_inner R message s = (Ok (price, fee_gas), s') \<longleftrightarrow>
      price = price_in_wei (T_L1GasPrice R) \<and>
      (\<exists>b info. l1_into_executable (rt_ff R) (rt_cr R) (rt_sf R) (T_SystemHash R) message (chain_id R)
             340282366920938463463374607431768211455 True = (Ok b :: (_, TransactionExecutionError) result) \<and>
         on_adapter (execute_l1 (rt_build R) (rt_ff R) (rt_sf R) (rt_fx R) (rt_bf R) b (get_block_context R s)
             (with_disable_nonce_validation (with_query_mode (runtime_config R)))) s = (Ok info, s') \<and>
         estimates info fee_gas)" for s'
    unfolding estimate_message_fee_inner_def bind_get_st accepted_info_Ok_iff
    by (cases fee_gas) (auto simp: bind_st_Ok_iff)
  show ?thesis
    unfolding fee msg feeA msgA
    by (auto simp: estimate_fee_def estimate_message_fee_def simulate_transactions_def with_rollback_def split: prod.split)
qed

theorem re_execution_faithful_witness:
  "\<exists>s' infos. traverse_st (run_call runtime_ref NoneOrigin) [Call_consume_l1_message sample_message 1] first_block = (Ok [()], s') \<and>
     re_execute_transactions runtime_ref True [UOLL1Handler sample_message 1] first_block = (Ok (Ok infos), first_block) \<and>
     length infos = 1"
proof -
  obtain s' where "chain_step runtime_ref (True, first_block)
      (Dispatched NoneOrigin (Call_consume_l1_message sample_message 1)) (True, s')"
    using sample_message_consumed by blast
  then have "run_call runtime_ref NoneOrigin (Call_consume_l1_message sample_message 1) first_block = (Ok (), s')"
    by (cases rule: chain_step.cases) auto
  then have run: "traverse_st (run_call runtime_ref NoneOrigin) [Call_consume_l1_message sample_message 1] first_block = (Ok [()], s')"
    by (simp add: bind_st_Ok_iff)
  then show ?thesis
    using re_execution_faithful [OF run, of "[UOLL1Handler sample_message 1]"] by auto
qed

end
