(* ===== verification/Client.thy ===== *)
theory Client
  imports Simulations
begin

text \<open>
  The services the node's workers and its RPC server read the chain through: the Substrate client,
  whose answers are the fields of \<open>client\<close>, and the runtime API of the Starknet pallet
  (\<^verbatim>\<open>crates/runtime/src/lib.rs\<close>), which a client evaluates on the state of a block. A client
  answers with an error, \<open>None\<close>, or with a value; a runtime call that panics is an error of the
  client as well.
\<close>

section \<open>The Substrate client\<close>

datatype Phase = ApplyExtrinsic u32 | Finalization | Initialization

datatype RuntimeEvent = Starknet_event Event | Other_event

datatype 'c RuntimeCall = Starknet_call "'c Call" | Other_call

record ('h, 'p) sub_header =
  sh_hash :: 'h
  sh_number :: u32
  sh_parent_hash :: 'h
  sh_digest :: "'p DigestItem list"

record ('h, 'c, 'p) client =
  cl_best_hash :: 'h
  cl_best_number :: u32
  cl_header :: "'h \<Rightarrow> ('h, 'p) sub_header option option"
  cl_hash :: "u32 \<Rightarrow> 'h option option"
  cl_number :: "'h \<Rightarrow> u32 option option"
  cl_leaves :: "'h list option"
  cl_block_body :: "'h \<Rightarrow> 'c RuntimeCall list option option"
  cl_storage :: "'h \<Rightarrow> bytes \<Rightarrow> bytes option option"
  cl_state_at :: "'h \<Rightarrow> ('c, 'p) pallet option"
  cl_events_at :: "'h \<Rightarrow> (Phase \<times> RuntimeEvent) list"

text \<open>\<open>UniqueSaturatedInto\<close> from a \<open>u64\<close> to the runtime's block number.\<close>

definition saturate_u32 :: "u64 \<Rightarrow> u32" where
  "saturate_u32 n = (if unat n < 2 ^ 32 then ucast n else - 1)"

datatype BlockReadError = HeaderNotRetrieved | DigestError FindLogError

definition get_block_by_block_hash ::
    "'p digest_api \<Rightarrow> ('h, 'c, 'p) client \<Rightarrow> 'h \<Rightarrow> (Block, BlockReadError) result" where
  "get_block_by_block_hash dg cl h =
     (case cl_header cl h of
        Some (Some header) \<Rightarrow> map_err DigestError (find_starknet_block dg (sh_digest header))
      | _ \<Rightarrow> Err HeaderNotRetrieved)"

section \<open>The runtime API\<close>

text \<open>A call of an infallible API function, and of one that returns a \<open>Result\<close>.\<close>

definition api_call :: "('h, 'c, 'p) client \<Rightarrow> 'h \<Rightarrow> (('c, 'p) pallet \<Rightarrow> ('a, unit) result) \<Rightarrow> 'a option" where
  "api_call cl h f =
     (case cl_state_at cl h of
        Some s \<Rightarrow> (case f s of Ok v \<Rightarrow> Some v | _ \<Rightarrow> None)
      | None \<Rightarrow> None)"

definition api_try ::
    "('h, 'c, 'p) client \<Rightarrow> 'h \<Rightarrow> (('c, 'p) pallet \<Rightarrow> ('a, 'e) result) \<Rightarrow> ('a, 'e) result option" where
  "api_try cl h f =
     (case cl_state_at cl h of
        Some s \<Rightarrow> (case f s of Panic \<Rightarrow> None | r \<Rightarrow> Some r)
      | None \<Rightarrow> None)"

definition api_get_storage_at ::
    "('h, 'c, 'p) client \<Rightarrow> 'h \<Rightarrow> contract_address \<Rightarrow> storage_key \<Rightarrow> (stark_felt, DispatchError) result option" where
  "api_get_storage_at cl h address key = api_try cl h (\<lambda>s. pallet_get_storage_at s address key)"

definition api_contract_call ::
    "('c, 'r, 'x, 'p) runtime \<Rightarrow> ('h, 'c, 'p) client \<Rightarrow> 'h \<Rightarrow> contract_address \<Rightarrow> stark_felt \<Rightarrow> stark_felt list
      \<Rightarrow> (felt252_wrapper list, DispatchError) result option" where
  "api_contract_call R cl h address function_selector calldata =
     api_try cl h (\<lambda>s. fst (call_contract R address function_selector calldata s))"

definition api_nonce :: "('h, 'c, 'p) client \<Rightarrow> 'h \<Rightarrow> contract_address \<Rightarrow> nonce option" where
  "api_nonce cl h address = api_call cl h (\<lambda>s. Ok (pallet_nonce (Contracts s) address))"

definition api_contract_class_hash_by_address :: "('h, 'c, 'p) client \<Rightarrow> 'h \<Rightarrow> contract_address \<Rightarrow> class_hash option" where
  "api_contract_class_hash_by_address cl h address =
     api_call cl h (\<lambda>s. Ok (contract_class_hash_by_address (Contracts s) address))"

definition api_contract_class_by_class_hash :: "('h, 'c, 'p) client \<Rightarrow> 'h \<Rightarrow> class_hash \<Rightarrow> 'c option option" where
  "api_contract_class_by_class_hash cl h class_hash = api_call cl h (\<lambda>s. Ok (ContractClasses (Contracts s) class_hash))"

definition api_chain_id :: "('c, 'r, 'x, 'p) runtime \<Rightarrow> ('h, 'c, 'p) client \<Rightarrow> 'h \<Rightarrow> felt252_wrapper option" where
  "api_chain_id R cl h = api_call cl h (\<lambda>s. Ok (chain_id R))"

definition api_program_hash :: "('c, 'r, 'x, 'p) runtime \<Rightarrow> ('h, 'c, 'p) client \<Rightarrow> 'h \<Rightarrow> felt252_wrapper option" where
  "api_program_hash R cl h = api_call cl h (\<lambda>s. Ok (program_hash R))"

definition api_config_hash :: "('c, 'r, 'x, 'p) runtime \<Rightarrow> ('h, 'c, 'p) client \<Rightarrow> 'h \<Rightarrow> stark_felt option" where
  "api_config_hash R cl h = api_call cl h (config_hash R)"

definition api_fee_token_address :: "('h, 'c, 'p) client \<Rightarrow> 'h \<Rightarrow> contract_address option" where
  "api_fee_token_address cl h = api_call cl h (\<lambda>s. Ok (FeeTokenAddress s))"

definition api_is_transaction_fee_disabled :: "('c, 'r, 'x, 'p) runtime \<Rightarrow> ('h, 'c, 'p) client \<Rightarrow> 'h \<Rightarrow> bool option" where
  "api_is_transaction_fee_disabled R cl h = api_call cl h (\<lambda>s. Ok (is_transaction_fee_disabled R))"

text \<open>The storage transactions of simulations can be opened: an API call starts with none.\<close>

definition api_estimate_fee ::
    "('c, 'r, 'x, 'p) runtime \<Rightarrow> ('h, 'c, 'p) client \<Rightarrow> 'h \<Rightarrow> 'c UserTransaction list
      \<Rightarrow> ((u64 \<times> u64) list, DispatchError) result option" where
  "api_estimate_fee R cl h transactions = api_try cl h (\<lambda>s. fst (estimate_fee R True transactions s))"

definition api_re_execute_transactions ::
    "('c, 'r, 'x, 'p) runtime \<Rightarrow> ('h, 'c, 'p) client \<Rightarrow> 'h \<Rightarrow> 'c UserOrL1HandlerTransaction list
      \<Rightarrow> ((TransactionExecutionInfo list, PlaceHolderError) result, DispatchError) result option" where
  "api_re_execute_transactions R cl h transactions =
     api_try cl h (\<lambda>s. fst (re_execute_transactions R True transactions s))"

definition api_estimate_message_fee ::
    "('c, 'r, 'x, 'p) runtime \<Rightarrow> ('h, 'c, 'p) client \<Rightarrow> 'h \<Rightarrow> HandleL1MessageTransaction
      \<Rightarrow> (u128 \<times> u64 \<times> u64, DispatchError) result option" where
  "api_estimate_message_fee R cl h message = api_try cl h (\<lambda>s. fst (estimate_message_fee R True message s))"

definition api_simulate_transactions ::
    "('c, 'r, 'x, 'p) runtime \<Rightarrow> ('h, 'c, 'p) client \<Rightarrow> 'h \<Rightarrow> 'c UserTransaction list \<Rightarrow> SimulationFlags
      \<Rightarrow> ((TransactionExecutionInfo, PlaceHolderError) result list, DispatchError) result option" where
  "api_simulate_transactions R cl h transactions simulation_flags =
     api_try cl h (\<lambda>s. fst (simulate_transactions R True transactions simulation_flags s))"

definition api_get_tx_messages_to_l1 :: "('h, 'c, 'p) client \<Rightarrow> 'h \<Rightarrow> stark_felt \<Rightarrow> MessageToL1 list option" where
  "api_get_tx_messages_to_l1 cl h tx_hash = api_call cl h (\<lambda>s. Ok (TxMessages s tx_hash))"

definition api_get_tx_execution_outcome :: "('h, 'c, 'p) client \<Rightarrow> 'h \<Rightarrow> stark_felt \<Rightarrow> string option option" where
  "api_get_tx_execution_outcome cl h tx_hash = api_call cl h (\<lambda>s. Ok (TxRevertError s tx_hash))"

definition api_get_block_context ::
    "('c, 'r, 'x, 'p) runtime \<Rightarrow> ('h, 'c, 'p) client \<Rightarrow> 'h \<Rightarrow> BlockContext option" where
  "api_get_block_context R cl h = api_call cl h (\<lambda>s. Ok (get_block_context R s))"

definition api_l1_nonce_unused :: "('h, 'c, 'p) client \<Rightarrow> 'h \<Rightarrow> nonce \<Rightarrow> bool option" where
  "api_l1_nonce_unused cl h nonce = api_call cl h (\<lambda>s. Ok (is_ok (ensure_l1_message_not_executed s nonce)))"

subsection \<open>Extrinsics and their events\<close>

fun starknet_transaction :: "'c RuntimeCall \<Rightarrow> Transaction option" where
  "starknet_transaction (Starknet_call call) = call_transaction call"
| "starknet_transaction Other_call = None"

definition extrinsic_filter :: "'c RuntimeCall list \<Rightarrow> Transaction list" where
  "extrinsic_filter xts = List.map_filter starknet_transaction xts"

fun find_tx_from ::
    "ff_api \<Rightarrow> crypto_api \<Rightarrow> hasher \<Rightarrow> nat \<Rightarrow> 'c RuntimeCall list \<Rightarrow> felt252_wrapper \<Rightarrow> felt252_wrapper
      \<Rightarrow> ((u32 \<times> Transaction) option, unit) result" where
  "find_tx_from ff cr H i [] chain tx_hash = Ok None"
| "find_tx_from ff cr H i (xt # xts) chain tx_hash =
     (case starknet_transaction xt of
        None \<Rightarrow> find_tx_from ff cr H (Suc i) xts chain tx_hash
      | Some tx \<Rightarrow>
          and_then (unwrap (tx_compute_hash ff cr H tx chain False)) (\<lambda>computed_tx_hash.
            if computed_tx_hash = tx_hash
            then (if i < 2 ^ 32 then Ok (Some (word_of_nat i, tx)) else Panic)
            else find_tx_from ff cr H (Suc i) xts chain tx_hash))"

definition get_index_and_tx_for_tx_hash ::
    "('c, 'r, 'x, 'p) runtime \<Rightarrow> 'c RuntimeCall list \<Rightarrow> felt252_wrapper \<Rightarrow> felt252_wrapper
      \<Rightarrow> ((u32 \<times> Transaction) option, unit) result" where
  "get_index_and_tx_for_tx_hash R extrinsics chain tx_hash =
     find_tx_from (rt_ff R) (rt_cr R) (T_SystemHash R) 0 extrinsics chain tx_hash"

fun starknet_event :: "Phase \<times> RuntimeEvent \<Rightarrow> (Phase \<times> StarknetEvent) option" where
  "starknet_event (phase, Starknet_event (StarknetEventEv event)) = Some (phase, event)"
| "starknet_event _ = None"

definition get_starknet_events_and_their_associated_tx_index ::
    "(Phase \<times> RuntimeEvent) list \<Rightarrow> (u32 \<times> StarknetEvent) list" where
  "get_starknet_events_and_their_associated_tx_index events =
     List.map_filter (\<lambda>er.
       case starknet_event er of
         Some (ApplyExtrinsic idx, event) \<Rightarrow> Some (idx, event)
       | _ \<Rightarrow> None) events"

text \<open>\<open>skip_while\<close> and then \<open>take_while\<close>, whose closure panics on an event of another phase.\<close>

fun take_tx_events :: "u32 \<Rightarrow> (Phase \<times> StarknetEvent) list \<Rightarrow> (StarknetEvent list, unit) result" where
  "take_tx_events tx_index [] = Ok []"
| "take_tx_events tx_index ((phase, event) # events) =
     (case phase of
        ApplyExtrinsic index \<Rightarrow>
          if tx_index = index then map_ok (\<lambda>rest. event # rest) (take_tx_events tx_index events) else Ok []
      | _ \<Rightarrow> Panic)"

definition get_events_for_tx_by_index :: "(Phase \<times> RuntimeEvent) list \<Rightarrow> u32 \<Rightarrow> (StarknetEvent list, unit) result" where
  "get_events_for_tx_by_index events tx_index =
     take_tx_events tx_index
       (dropWhile (\<lambda>(phase, _). phase \<noteq> ApplyExtrinsic tx_index) (List.map_filter starknet_event events))"

subsection \<open>Conversions for the transaction pool\<close>

fun convert_transaction :: "'c UserTransaction \<Rightarrow> 'c RuntimeCall" where
  "convert_transaction (UserDeclare tx contract_class) = Starknet_call (Call_declare tx contract_class)"
| "convert_transaction (UserDeployAccount tx) = Starknet_call (Call_deploy_account tx)"
| "convert_transaction (UserInvoke tx) = Starknet_call (Call_invoke tx)"

definition convert_l1_transaction :: "HandleL1MessageTransaction \<Rightarrow> Fee \<Rightarrow> 'c RuntimeCall" where
  "convert_l1_transaction transaction fee = Starknet_call (Call_consume_l1_message transaction fee)"

datatype StarknetTransactionExecutionError =
  STE_ContractNotFound | STE_ClassAlreadyDeclared | STE_ClassHashNotFound | STE_InvalidContractClass
| STE_ContractError

fun convert_error :: "DispatchError \<Rightarrow> StarknetTransactionExecutionError" where
  "convert_error (ModuleError ContractNotFound) = STE_ContractNotFound"
| "convert_error (ModuleError ClassHashAlreadyDeclared) = STE_ClassAlreadyDeclared"
| "convert_error (ModuleError ContractClassHashUnknown) = STE_ClassHashNotFound"
| "convert_error (ModuleError InvalidContractClass) = STE_InvalidContractClass"
| "convert_error _ = STE_ContractError"

section \<open>Reading what a transaction left\<close>

text \<open>
  The search of the events of one extrinsic stops at the first event of another one. It finds all of
  them because an extrinsic's events follow each other.
\<close>

lemma take_tx_events_sorted:
  assumes "sorted (map fst es)"
  shows "take_tx_events i (dropWhile (\<lambda>(phase, _). phase \<noteq> ApplyExtrinsic i) (map (\<lambda>(j, e). (ApplyExtrinsic j, e)) es)) =
    Ok (map snd (filter (\<lambda>(j, _). j = i) es))"
  using assms
proof (induction es)
  case (Cons x es)
  obtain j e where x: "x = (j, e)" by force
  have le: "j \<le> fst y" if "y \<in> set es" for y using Cons.prems that x by auto
  show ?case
  proof (cases "j = i")
    case True
    have "take_tx_events i (map (\<lambda>(j, e). (ApplyExtrinsic j, e)) ys) = Ok (map snd (filter (\<lambda>(j, _). j = i) ys))"
      if "sorted (map fst ys)" "\<forall>y\<in>set ys. i \<le> fst y" for ys :: "(u32 \<times> StarknetEvent) list"
      using that
    proof (induction ys)
      case (Cons y ys)
      then show ?case
        by (cases y) (auto simp: filter_empty_conv)
    qed simp
    then show ?thesis using True le x Cons.prems by simp
  qed (use Cons x in simp)
qed simp

lemma find_tx_from_Some:
  "find_tx_from ff cr H i xts chain tx_hash = Ok (Some (k, tx)) \<Longrightarrow>
     \<exists>n. n < length xts \<and> unat k = i + n \<and> starknet_transaction (xts ! n) = Some tx \<and>
       tx_compute_hash ff cr H tx chain False = Ok tx_hash"
proof (induction xts arbitrary: i)
  case (Cons xt xts)
  show ?case
  proof (cases "starknet_transaction xt")
    case None
    then obtain n where "n < length xts" "unat k = Suc i + n" "starknet_transaction (xts ! n) = Some tx"
        "tx_compute_hash ff cr H tx chain False = Ok tx_hash"
      using Cons.IH [of "Suc i"] Cons.prems by auto
    then show ?thesis by (intro exI [of _ "Suc n"]) simp
  next
    case (Some t)
    then obtain h where h: "tx_compute_hash ff cr H t chain False = Ok h"
      using Cons.prems by (auto simp: and_then_Ok_iff unwrap_Ok_iff)
    show ?thesis
    proof (cases "h = tx_hash")
      case True
      then show ?thesis
        using Some h Cons.prems by (intro exI [of _ 0]) (auto simp: unat_of_nat split: if_splits)
    next
      case False
      then obtain n where "n < length xts" "unat k = Suc i + n" "starknet_transaction (xts ! n) = Some tx"
          "tx_compute_hash ff cr H tx chain False = Ok tx_hash"
        using Some h Cons.IH [of "Suc i"] Cons.prems by auto
      then show ?thesis by (intro exI [of _ "Suc n"]) simp
    qed
  qed
qed simp

lemma api_call_Some_iff [simp]:
  "api_call cl h f = Some v \<longleftrightarrow> (\<exists>s. cl_state_at cl h = Some s \<and> f s = Ok v)"
  by (auto simp: api_call_def split: option.split result.split)

section \<open>A sample client\<close>

text \<open>A genesis block with no Starknet block and a child that carries one.\<close>

definition sample_head :: "byte \<rightharpoonup> (byte, Log) sub_header" where
  "sample_head = [1 \<mapsto> \<lparr>sh_hash = 1, sh_number = 0, sh_parent_hash = 0, sh_digest = []\<rparr>,
     2 \<mapsto> \<lparr>sh_hash = 2, sh_number = 1, sh_parent_hash = 1,
       sh_digest = [Consensus MADARA_ENGINE_ID (LogBlock (block_new sample_header []))]\<rparr>]"

definition sample_client :: "(byte, nat, Log) client" where
  "sample_client = \<lparr>cl_best_hash = 2, cl_best_number = 1, cl_header = (\<lambda>h. Some (sample_head h)),
     cl_hash = (\<lambda>n. Some (if n = 0 then Some 1 else if n = 1 then Some 2 else None)),
     cl_number = (\<lambda>h. Some (map_option sh_number (sample_head h))), cl_leaves = Some [2],
     cl_block_body = (\<lambda>h. Some (map_option (\<lambda>_. []) (sample_head h))), cl_storage = (\<lambda>h k. Some None),
     cl_state_at = (\<lambda>h. map_option (\<lambda>_. empty_pallet 0) (sample_head h)), cl_events_at = (\<lambda>h. [])\<rparr>"

lemma sample_head_simps [simp]:
  "sample_head 1 = Some \<lparr>sh_hash = 1, sh_number = 0, sh_parent_hash = 0, sh_digest = []\<rparr>"
  "sample_head 2 = Some \<lparr>sh_hash = 2, sh_number = 1, sh_parent_hash = 1,
     sh_digest = [Consensus MADARA_ENGINE_ID (LogBlock (block_new sample_header []))]\<rparr>"
  by (simp_all add: sample_head_def)

lemma sample_client_simps [simp]:
  "cl_best_hash sample_client = 2" "cl_best_number sample_client = 1"
  "cl_header sample_client h = Some (sample_head h)" "cl_leaves sample_client = Some [2]"
  "cl_hash sample_client n = Some (if n = 0 then Some 1 else if n = 1 then Some 2 else None)"
  "cl_number sample_client h = Some (map_option sh_number (sample_head h))"
  "cl_block_body sample_client h = Some (map_option (\<lambda>_. []) (sample_head h))"
  "cl_storage sample_client h k = Some None" "cl_events_at sample_client h = []"
  "cl_state_at sample_client h = map_option (\<lambda>_. empty_pallet 0) (sample_head h)"
  by (simp_all add: sample_client_def)

lemma sample_head_cases: "sample_head h = Some header \<Longrightarrow> h = 1 \<or> h = 2"
  by (auto simp: sample_head_def split: if_splits)

end
