(* ===== verification/Db.thy ===== *)
theory Db
  imports Transactions State
begin

text \<open>
  The key-value database of the node (\<^verbatim>\<open>crates/client/db\<close>): the mapping of Starknet to
  Substrate blocks, the tips of the synced chain, data availability, L1 messaging, Sierra classes and
  the fees paid on L1. A store is a map from a column and a key to bytes. \<open>sp_database\<close> commits a
  transaction as a whole or fails; which of the two happens is the argument \<open>io\<close> of a writing
  operation. SCALE codecs and \<open>Uuid::from_slice\<close> are third-party and fields of \<open>codecs\<close>; \<open>'h\<close> is
  the type of Substrate hashes, \<open>'d\<close> of state differences, \<open>'k\<close> of Sierra classes.
\<close>

section \<open>The store\<close>

type_synonym store = "nat \<times> bytes \<rightharpoonup> bytes"
type_synonym store_write = "(nat \<times> bytes) \<times> bytes"

text \<open>The column and the key a value was missing at; the message of the source renders the key.\<close>

datatype DbError = CommitError | DeserializeError | UuidError | ValueNotInitialized nat bytes

definition commit :: "bool \<Rightarrow> store_write list \<Rightarrow> (unit, DbError, store) st" where
  "commit io ws db = (if io then (Ok (), db ++ map_of (rev ws)) else (Err CommitError, db))"

record LastSyncedEventBlock =
  lse_block_number :: u64
  lse_event_index :: u64

record ('h, 'd, 'k) codecs =
  enc_bool :: "bool \<Rightarrow> bytes"
  dec_bool :: "bytes \<Rightarrow> bool option"
  enc_hash :: "'h \<Rightarrow> bytes"
  dec_hash :: "bytes \<Rightarrow> 'h option"
  enc_hashes :: "'h list \<Rightarrow> bytes"
  dec_hashes :: "bytes \<Rightarrow> 'h list option"
  enc_felt :: "stark_felt \<Rightarrow> bytes"
  dec_felt :: "bytes \<Rightarrow> stark_felt option"
  enc_felts :: "stark_felt list \<Rightarrow> bytes"
  dec_felts :: "bytes \<Rightarrow> stark_felt list option"
  enc_diff :: "'d \<Rightarrow> bytes"
  dec_diff :: "bytes \<Rightarrow> 'd option"
  enc_event_block :: "LastSyncedEventBlock \<Rightarrow> bytes"
  dec_event_block :: "bytes \<Rightarrow> LastSyncedEventBlock option"
  enc_class :: "'k \<Rightarrow> bytes"
  dec_class :: "bytes \<Rightarrow> 'k option"
  uuid_from_slice :: "bytes \<Rightarrow> bytes option"

text \<open>Values decode from their encodings (identifiers have 16 bytes).\<close>

definition codec_laws :: "('h, 'd, 'k) codecs \<Rightarrow> bool" where
  "codec_laws c \<longleftrightarrow>
     (\<forall>b. dec_bool c (enc_bool c b) = Some b) \<and> (\<forall>h. dec_hash c (enc_hash c h) = Some h) \<and>
     (\<forall>hs. dec_hashes c (enc_hashes c hs) = Some hs) \<and> (\<forall>f. dec_felt c (enc_felt c f) = Some f) \<and>
     (\<forall>fs. dec_felts c (enc_felts c fs) = Some fs) \<and>
     (\<forall>d. dec_diff c (enc_diff c d) = Some d) \<and> (\<forall>e. dec_event_block c (enc_event_block c e) = Some e) \<and>
     (\<forall>k. dec_class c (enc_class c k) = Some k) \<and>
     (\<forall>raw. uuid_from_slice c raw = (if length raw = 16 then Some raw else None))"

definition decoded :: "(bytes \<Rightarrow> 'a option) \<Rightarrow> bytes \<Rightarrow> ('a, DbError) result" where
  "decoded dec raw = ok_or DeserializeError (dec raw)"

definition META :: nat where "META = 0"

definition BLOCK_MAPPING :: nat where "BLOCK_MAPPING = 1"

definition TRANSACTION_MAPPING :: nat where "TRANSACTION_MAPPING = 2"

definition SYNCED_MAPPING :: nat where "SYNCED_MAPPING = 3"

definition DA :: nat where "DA = 4"

definition STARKNET_TRANSACTION_HASHES_CACHE :: nat where "STARKNET_TRANSACTION_HASHES_CACHE = 5"

definition MESSAGING :: nat where "MESSAGING = 6"

definition SIERRA_CONTRACT_CLASSES :: nat where "SIERRA_CONTRACT_CLASSES = 7"

definition L1_HANDLER_PAID_FEE :: nat where "L1_HANDLER_PAID_FEE = 8"

lemmas columns = META_def BLOCK_MAPPING_def TRANSACTION_MAPPING_def SYNCED_MAPPING_def DA_def
  STARKNET_TRANSACTION_HASHES_CACHE_def MESSAGING_def SIERRA_CONTRACT_CLASSES_def L1_HANDLER_PAID_FEE_def

definition CURRENT_SYNCING_TIPS :: bytes where
  "CURRENT_SYNCING_TIPS = ascii ''CURRENT_SYNCING_TIPS''"

definition LAST_PROVED_BLOCK :: bytes where
  "LAST_PROVED_BLOCK = ascii ''LAST_PROVED_BLOCK''"

definition LAST_SYNCED_L1_EVENT_BLOCK :: bytes where
  "LAST_SYNCED_L1_EVENT_BLOCK = ascii ''LAST_SYNCED_L1_EVENT_BLOCK''"

section \<open>The mapping of Starknet blocks to Substrate blocks\<close>

record 'h MappingCommitment =
  mc_block_hash :: 'h
  mc_starknet_block_hash :: stark_felt
  mc_starknet_transaction_hashes :: "stark_felt list"

definition is_synced :: "('h, 'd, 'k) codecs \<Rightarrow> 'h \<Rightarrow> store \<Rightarrow> (bool, DbError) result" where
  "is_synced c block_hash db =
     (case db (SYNCED_MAPPING, enc_hash c block_hash) of
        Some raw \<Rightarrow> decoded (dec_bool c) raw | None \<Rightarrow> Ok False)"

definition mapping_block_hash :: "('h, 'd, 'k) codecs \<Rightarrow> stark_felt \<Rightarrow> store \<Rightarrow> ('h list option, DbError) result" where
  "mapping_block_hash c starknet_block_hash db =
     (case db (BLOCK_MAPPING, enc_felt c starknet_block_hash) of
        Some raw \<Rightarrow> map_ok Some (decoded (dec_hashes c) raw) | None \<Rightarrow> Ok None)"

definition write_none :: "('h, 'd, 'k) codecs \<Rightarrow> bool \<Rightarrow> 'h \<Rightarrow> (unit, DbError, store) st" where
  "write_none c io block_hash = commit io [((SYNCED_MAPPING, enc_hash c block_hash), enc_bool c True)]"

definition write_hashes :: "('h, 'd, 'k) codecs \<Rightarrow> bool \<Rightarrow> bool \<Rightarrow> 'h MappingCommitment \<Rightarrow> (unit, DbError, store) st" where
  "write_hashes c cache_more_things io commitment db =
     (let substrate_hashes =
            (case mapping_block_hash c (mc_starknet_block_hash commitment) db of
               Ok (Some data) \<Rightarrow> data @ [mc_block_hash commitment]
             | _ \<Rightarrow> [mc_block_hash commitment])
      in commit io
           ([((BLOCK_MAPPING, enc_felt c (mc_starknet_block_hash commitment)), enc_hashes c substrate_hashes),
             ((SYNCED_MAPPING, enc_hash c (mc_block_hash commitment)), enc_bool c True)]
            @ map (\<lambda>h. ((TRANSACTION_MAPPING, enc_felt c h), enc_hash c (mc_block_hash commitment)))
                (mc_starknet_transaction_hashes commitment)
            @ (if cache_more_things
               then [((STARKNET_TRANSACTION_HASHES_CACHE, enc_felt c (mc_starknet_block_hash commitment)),
                      enc_felts c (mc_starknet_transaction_hashes commitment))]
               else [])) db)"

definition block_hash_from_transaction_hash ::
    "('h, 'd, 'k) codecs \<Rightarrow> stark_felt \<Rightarrow> store \<Rightarrow> ('h option, DbError) result" where
  "block_hash_from_transaction_hash c transaction_hash db =
     (case db (TRANSACTION_MAPPING, enc_felt c transaction_hash) of
        Some raw \<Rightarrow> map_ok Some (decoded (dec_hash c) raw) | None \<Rightarrow> Ok None)"

definition cached_transaction_hashes_from_block_hash ::
    "('h, 'd, 'k) codecs \<Rightarrow> bool \<Rightarrow> stark_felt \<Rightarrow> store \<Rightarrow> (stark_felt list option, DbError) result" where
  "cached_transaction_hashes_from_block_hash c cache_more_things starknet_block_hash db =
     (if \<not> cache_more_things then Ok None
      else (case db (STARKNET_TRANSACTION_HASHES_CACHE, enc_felt c starknet_block_hash) of
              Some raw \<Rightarrow> map_ok Some (decoded (dec_felts c) raw) | None \<Rightarrow> Ok None))"

section \<open>The other parts\<close>

definition current_syncing_tips :: "('h, 'd, 'k) codecs \<Rightarrow> store \<Rightarrow> ('h list, DbError) result" where
  "current_syncing_tips c db =
     (case db (META, CURRENT_SYNCING_TIPS) of Some raw \<Rightarrow> decoded (dec_hashes c) raw | None \<Rightarrow> Ok [])"

definition write_current_syncing_tips :: "('h, 'd, 'k) codecs \<Rightarrow> bool \<Rightarrow> 'h list \<Rightarrow> (unit, DbError, store) st" where
  "write_current_syncing_tips c io tips = commit io [((META, CURRENT_SYNCING_TIPS), enc_hashes c tips)]"

definition state_diff :: "('h, 'd, 'k) codecs \<Rightarrow> stark_felt \<Rightarrow> store \<Rightarrow> ('d, DbError) result" where
  "state_diff c block_hash db =
     (case db (DA, block_hash) of
        Some raw \<Rightarrow> decoded (dec_diff c) raw | None \<Rightarrow> Err (ValueNotInitialized DA block_hash))"

definition store_state_diff :: "('h, 'd, 'k) codecs \<Rightarrow> bool \<Rightarrow> stark_felt \<Rightarrow> 'd \<Rightarrow> (unit, DbError, store) st" where
  "store_state_diff c io block_hash diff = commit io [((DA, block_hash), enc_diff c diff)]"

definition cairo_job :: "('h, 'd, 'k) codecs \<Rightarrow> stark_felt \<Rightarrow> store \<Rightarrow> (bytes option, DbError) result" where
  "cairo_job c block_hash db =
     (case db (DA, block_hash) of
        Some raw \<Rightarrow> map_ok Some (ok_or UuidError (uuid_from_slice c raw)) | None \<Rightarrow> Ok None)"

definition update_cairo_job :: "bool \<Rightarrow> stark_felt \<Rightarrow> bytes \<Rightarrow> (unit, DbError, store) st" where
  "update_cairo_job io block_hash job_id = commit io [((DA, block_hash), job_id)]"

definition last_proved_block :: "('h, 'd, 'k) codecs \<Rightarrow> store \<Rightarrow> (stark_felt, DbError) result" where
  "last_proved_block c db =
     (case db (DA, LAST_PROVED_BLOCK) of
        Some raw \<Rightarrow> decoded (dec_felt c) raw | None \<Rightarrow> Err (ValueNotInitialized DA LAST_PROVED_BLOCK))"

definition update_last_proved_block :: "('h, 'd, 'k) codecs \<Rightarrow> bool \<Rightarrow> stark_felt \<Rightarrow> (unit, DbError, store) st" where
  "update_last_proved_block c io block_hash = commit io [((DA, LAST_PROVED_BLOCK), enc_felt c block_hash)]"

definition last_synced_l1_block_with_event ::
    "('h, 'd, 'k) codecs \<Rightarrow> store \<Rightarrow> (LastSyncedEventBlock, DbError) result" where
  "last_synced_l1_block_with_event c db =
     (case db (MESSAGING, LAST_SYNCED_L1_EVENT_BLOCK) of
        Some raw \<Rightarrow> decoded (dec_event_block c) raw
      | None \<Rightarrow> Ok \<lparr>lse_block_number = 0, lse_event_index = 0\<rparr>)"

definition update_last_synced_l1_block_with_event ::
    "('h, 'd, 'k) codecs \<Rightarrow> bool \<Rightarrow> LastSyncedEventBlock \<Rightarrow> (unit, DbError, store) st" where
  "update_last_synced_l1_block_with_event c io e =
     commit io [((MESSAGING, LAST_SYNCED_L1_EVENT_BLOCK), enc_event_block c e)]"

definition store_sierra_class :: "('h, 'd, 'k) codecs \<Rightarrow> bool \<Rightarrow> stark_felt \<Rightarrow> 'k \<Rightarrow> (unit, DbError, store) st" where
  "store_sierra_class c io class_hash class =
     commit io [((SIERRA_CONTRACT_CLASSES, enc_felt c class_hash), enc_class c class)]"

definition get_sierra_class :: "('h, 'd, 'k) codecs \<Rightarrow> stark_felt \<Rightarrow> store \<Rightarrow> ('k option, DbError) result" where
  "get_sierra_class c class_hash db =
     (case db (SIERRA_CONTRACT_CLASSES, enc_felt c class_hash) of
        Some raw \<Rightarrow> map_ok Some (decoded (dec_class c) raw) | None \<Rightarrow> Ok None)"

text \<open>\<open>u128::to_le_bytes\<close> and back; \<open>copy_from_slice\<close> panics when the lengths differ.\<close>

definition store_fee_paid_for_l1_handler_tx ::
    "('h, 'd, 'k) codecs \<Rightarrow> bool \<Rightarrow> stark_felt \<Rightarrow> Fee \<Rightarrow> (unit, DbError, store) st" where
  "store_fee_paid_for_l1_handler_tx c io tx_hash fee =
     commit io [((L1_HANDLER_PAID_FEE, enc_felt c tx_hash), rev (be_bytes 16 (unat fee)))]"

definition get_fee_paid_for_l1_handler_tx ::
    "('h, 'd, 'k) codecs \<Rightarrow> stark_felt \<Rightarrow> store \<Rightarrow> (Fee, DbError) result" where
  "get_fee_paid_for_l1_handler_tx c tx_hash db =
     (case db (L1_HANDLER_PAID_FEE, enc_felt c tx_hash) of
        Some raw \<Rightarrow> if length raw = 16 then Ok (word_of_nat (be_val (rev raw))) else Panic
      | None \<Rightarrow> Err (ValueNotInitialized L1_HANDLER_PAID_FEE tx_hash))"

text \<open>The backend does not compute the state root yet.\<close>

definition temporary_global_state_root_getter :: stark_felt where
  "temporary_global_state_root_getter = felt_default"

section \<open>What the index means\<close>

text \<open>
  The contract of the mapping and the syncing tips: which Substrate blocks were seen, under which
  Substrate blocks a Starknet block was found (in the order of registration), where a transaction was
  last found, the cached transactions of a block, and the tips.
\<close>

record 'h mapping_view =
  mv_synced :: "'h set"
  mv_blocks :: "stark_felt \<rightharpoonup> 'h list"
  mv_txs :: "stark_felt \<rightharpoonup> 'h"
  mv_cache :: "stark_felt \<rightharpoonup> stark_felt list"
  mv_tips :: "'h list"

definition view_empty :: "'h mapping_view" where
  "view_empty = \<lparr>mv_synced = {}, mv_blocks = Map.empty, mv_txs = Map.empty, mv_cache = Map.empty, mv_tips = []\<rparr>"

definition view_seen :: "'h \<Rightarrow> 'h mapping_view \<Rightarrow> 'h mapping_view" where
  "view_seen h v = v\<lparr>mv_synced := insert h (mv_synced v)\<rparr>"

definition view_commit :: "bool \<Rightarrow> 'h MappingCommitment \<Rightarrow> 'h mapping_view \<Rightarrow> 'h mapping_view" where
  "view_commit cache m v =
     (let h = mc_block_hash m; b = mc_starknet_block_hash m; txs = mc_starknet_transaction_hashes m
      in v\<lparr>mv_synced := insert h (mv_synced v),
           mv_blocks := (mv_blocks v)(b \<mapsto> (case mv_blocks v b of Some l \<Rightarrow> l @ [h] | None \<Rightarrow> [h])),
           mv_txs := (\<lambda>t. if t \<in> set txs then Some h else mv_txs v t),
           mv_cache := (if cache then (mv_cache v)(b \<mapsto> txs) else mv_cache v)\<rparr>)"

definition represents :: "('h, 'd, 'k) codecs \<Rightarrow> store \<Rightarrow> 'h mapping_view \<Rightarrow> bool" where
  "represents c db v \<longleftrightarrow>
     (\<forall>h. db (SYNCED_MAPPING, enc_hash c h) = (if h \<in> mv_synced v then Some (enc_bool c True) else None)) \<and>
     (\<forall>f. db (BLOCK_MAPPING, enc_felt c f) = map_option (enc_hashes c) (mv_blocks v f)) \<and>
     (\<forall>f. db (TRANSACTION_MAPPING, enc_felt c f) = map_option (enc_hash c) (mv_txs v f)) \<and>
     (\<forall>f. db (STARKNET_TRANSACTION_HASHES_CACHE, enc_felt c f) = map_option (enc_felts c) (mv_cache v f)) \<and>
     db (META, CURRENT_SYNCING_TIPS) \<in> {Some (enc_hashes c (mv_tips v))} \<union> (if mv_tips v = [] then {None} else {})"

lemma commit_eq [simp]:
  "commit True ws db = (Ok (), db ++ map_of (rev ws))" "commit False ws db = (Err CommitError, db)"
  by (simp_all add: commit_def)

lemma map_of_same:
  "map_of (rev (map (\<lambda>h. (g h, v)) hs)) k = (if k \<in> g ` set hs then Some v else None)"
  by (induction hs) (auto simp: map_add_def)

lemma write_hashes_lookup:
  "snd (write_hashes c cache True m db) (SYNCED_MAPPING, k) =
     (if k = enc_hash c (mc_block_hash m) then Some (enc_bool c True) else db (SYNCED_MAPPING, k))"
  "snd (write_hashes c cache True m db) (BLOCK_MAPPING, k) =
     (if k = enc_felt c (mc_starknet_block_hash m)
      then Some (enc_hashes c (case mapping_block_hash c (mc_starknet_block_hash m) db of
        Ok (Some data) \<Rightarrow> data @ [mc_block_hash m] | _ \<Rightarrow> [mc_block_hash m]))
      else db (BLOCK_MAPPING, k))"
  "snd (write_hashes c cache True m db) (TRANSACTION_MAPPING, k) =
     (if k \<in> enc_felt c ` set (mc_starknet_transaction_hashes m) then Some (enc_hash c (mc_block_hash m))
      else db (TRANSACTION_MAPPING, k))"
  "snd (write_hashes c cache True m db) (STARKNET_TRANSACTION_HASHES_CACHE, k) =
     (if cache \<and> k = enc_felt c (mc_starknet_block_hash m)
      then Some (enc_felts c (mc_starknet_transaction_hashes m)) else db (STARKNET_TRANSACTION_HASHES_CACHE, k))"
  "snd (write_hashes c cache True m db) (META, k) = db (META, k)"
  by (simp_all add: write_hashes_def Let_def columns map_add_def map_of_same image_iff) blast

lemma write_hashes_Ok: "fst (write_hashes c cache True m db) = Ok ()"
  by (simp add: write_hashes_def Let_def)

locale codec_libs =
  fixes c :: "('h, 'd, 'k) codecs"
  assumes laws: "codec_laws c"
begin

lemma codec_simps [simp]:
  "dec_bool c (enc_bool c b) = Some b" "dec_hash c (enc_hash c h) = Some h"
  "dec_hashes c (enc_hashes c hs) = Some hs" "dec_felt c (enc_felt c f) = Some f"
  "dec_felts c (enc_felts c fs) = Some fs"
  "dec_diff c (enc_diff c d) = Some d" "dec_event_block c (enc_event_block c e) = Some e"
  "dec_class c (enc_class c k) = Some k" "uuid_from_slice c raw = (if length raw = 16 then Some raw else None)"
  using laws by (simp_all add: codec_laws_def)

lemma enc_inj [simp]: "enc_hash c h = enc_hash c h' \<longleftrightarrow> h = h'" "enc_felt c f = enc_felt c f' \<longleftrightarrow> f = f'"
  by (metis codec_simps(2) option.inject, metis codec_simps(4) option.inject)

lemma represents_queries:
  assumes "represents c db v"
  shows "is_synced c h db = Ok (h \<in> mv_synced v)" "mapping_block_hash c f db = Ok (mv_blocks v f)"
    "block_hash_from_transaction_hash c t db = Ok (mv_txs v t)"
    "cached_transaction_hashes_from_block_hash c cache f db = Ok (if cache then mv_cache v f else None)"
    "current_syncing_tips c db = Ok (mv_tips v)"
  using assms
  by (auto simp: represents_def is_synced_def mapping_block_hash_def block_hash_from_transaction_hash_def
      cached_transaction_hashes_from_block_hash_def current_syncing_tips_def decoded_def
      split: option.split if_splits)

lemma represents_writes:
  assumes "represents c db v"
  shows "represents c (snd (write_none c True h db)) (view_seen h v)"
    "represents c (snd (write_hashes c cache True m db)) (view_commit cache m v)"
    "represents c (snd (write_current_syncing_tips c True tips db)) (v\<lparr>mv_tips := tips\<rparr>)"
proof -
  show "represents c (snd (write_none c True h db)) (view_seen h v)"
    using assms by (auto simp: represents_def write_none_def view_seen_def columns)
  show "represents c (snd (write_current_syncing_tips c True tips db)) (v\<lparr>mv_tips := tips\<rparr>)"
    using assms by (auto simp: represents_def write_current_syncing_tips_def columns)
  show "represents c (snd (write_hashes c cache True m db)) (view_commit cache m v)"
    using assms represents_queries(2) [OF assms, of "mc_starknet_block_hash m"]
    unfolding represents_def write_hashes_lookup view_commit_def Let_def
    by (intro conjI allI) (simp_all add: image_iff split: option.split)
qed

end

section \<open>Properties\<close>

text \<open>
  C28. The mapping database implements the index. Each operation that commits does on the stored bytes
  what the abstract operation does on the index (registering the same Starknet block again appends the
  Substrate block, so that equivocations stay visible), each query returns what the index holds, the
  empty store is the empty index, and an operation whose commit fails changes nothing.
\<close>

theorem mapping_refines_index:
  assumes "codec_laws c" "represents c db v"
  shows "represents c Map.empty view_empty \<and>
    (\<exists>db'. write_none c True h db = (Ok (), db') \<and> represents c db' (view_seen h v)) \<and>
    (\<exists>db'. write_hashes c cache True m db = (Ok (), db') \<and> represents c db' (view_commit cache m v)) \<and>
    (\<exists>db'. write_current_syncing_tips c True tips db = (Ok (), db') \<and> represents c db' (v\<lparr>mv_tips := tips\<rparr>)) \<and>
    write_none c False h db = (Err CommitError, db) \<and> write_hashes c cache False m db = (Err CommitError, db) \<and>
    is_synced c h db = Ok (h \<in> mv_synced v) \<and> mapping_block_hash c f db = Ok (mv_blocks v f) \<and>
    block_hash_from_transaction_hash c t db = Ok (mv_txs v t) \<and>
    cached_transaction_hashes_from_block_hash c cache f db = Ok (if cache then mv_cache v f else None) \<and>
    current_syncing_tips c db = Ok (mv_tips v)"
proof -
  have l: "codec_libs c" using assms(1) by unfold_locales
  note w = codec_libs.represents_writes [OF l assms(2)]
  have e: "represents c Map.empty view_empty" by (simp add: represents_def view_empty_def)
  have n: "\<exists>db'. write_none c True h db = (Ok (), db') \<and> represents c db' (view_seen h v)"
    using w(1) [of h] by (simp add: write_none_def)
  have h: "\<exists>db'. write_hashes c cache True m db = (Ok (), db') \<and> represents c db' (view_commit cache m v)"
    using w(2) [of cache m] write_hashes_Ok [of c cache m db]
    by (cases "write_hashes c cache True m db") simp
  have t: "\<exists>db'. write_current_syncing_tips c True tips db = (Ok (), db') \<and> represents c db' (v\<lparr>mv_tips := tips\<rparr>)"
    using w(3) [of tips] by (simp add: write_current_syncing_tips_def)
  have f: "write_none c False h db = (Err CommitError, db)" "write_hashes c cache False m db = (Err CommitError, db)"
    by (simp_all add: write_none_def write_hashes_def Let_def)
  show ?thesis
    by (intro conjI e n h t f codec_libs.represents_queries [OF l assms(2)])
qed

text \<open>
  C29. What was stored is read back: state differences, jobs, the last proved block, the last synced
  L1 event, Sierra classes and fees, whatever their value. The state difference of a block and the
  proof job of the same block share one key: storing the job replaces the difference, and reading the
  difference then decodes the sixteen bytes of the job. The last proved block has a key of its own.
\<close>

theorem stored_values_read_back:
  assumes "codec_laws c" "length b = 32" "length job = 16"
  shows "state_diff c b (snd (store_state_diff c True b d db)) = Ok d \<and>
    cairo_job c b (snd (update_cairo_job True b job db)) = Ok (Some job) \<and>
    state_diff c b (snd (update_cairo_job True b job (snd (store_state_diff c True b d db)))) = decoded (dec_diff c) job \<and>
    last_proved_block c (snd (update_last_proved_block c True p db)) = Ok p \<and>
    last_proved_block c (snd (store_state_diff c True b d db)) = last_proved_block c db \<and>
    last_synced_l1_block_with_event c (snd (update_last_synced_l1_block_with_event c True e db)) = Ok e \<and>
    last_synced_l1_block_with_event c Map.empty = Ok \<lparr>lse_block_number = 0, lse_event_index = 0\<rparr> \<and>
    get_sierra_class c k (snd (store_sierra_class c True k cls db)) = Ok (Some cls) \<and>
    get_fee_paid_for_l1_handler_tx c k (snd (store_fee_paid_for_l1_handler_tx c True k fee db)) = Ok fee \<and>
    get_fee_paid_for_l1_handler_tx c k Map.empty = Err (ValueNotInitialized L1_HANDLER_PAID_FEE k)"
proof -
  have "LAST_PROVED_BLOCK \<noteq> b" using assms(2) by (auto simp: LAST_PROVED_BLOCK_def ascii_def)
  moreover have "unat fee mod 256 ^ 16 = unat fee" using unat_lt [of fee] by simp
  ultimately show ?thesis
    using assms(1,3) unfolding codec_laws_def
    by (simp add: store_state_diff_def state_diff_def update_cairo_job_def cairo_job_def update_last_proved_block_def
        last_proved_block_def update_last_synced_l1_block_with_event_def last_synced_l1_block_with_event_def
        store_sierra_class_def get_sierra_class_def store_fee_paid_for_l1_handler_tx_def
        get_fee_paid_for_l1_handler_tx_def decoded_def be_val_be_bytes map_add_def)
qed

subsection \<open>A sample store\<close>

text \<open>Byte-sized hashes and differences; a list of felts marks each byte and the end of each felt.\<close>

definition enc_lists :: "bytes list \<Rightarrow> bytes" where
  "enc_lists fs = concat (map (\<lambda>f. concat (map (\<lambda>b. [1, b]) f) @ [0]) fs)"

fun dec_lists :: "bytes \<Rightarrow> bytes \<Rightarrow> bytes list option" where
  "dec_lists acc [] = Some []"
| "dec_lists acc [x] = (if x = 0 then Some [acc] else None)"
| "dec_lists acc (x # b # raw) =
     (if x = 0 then map_option (Cons acc) (dec_lists [] (b # raw)) else dec_lists (acc @ [b]) raw)"

definition codec_ref :: "(byte, bytes, bytes) codecs" where
  "codec_ref = \<lparr>enc_bool = (\<lambda>b. [if b then 1 else 0]), dec_bool = (\<lambda>raw. Some (raw = [1])),
     enc_hash = (\<lambda>h. [h]), dec_hash = (\<lambda>raw. case raw of [h] \<Rightarrow> Some h | _ \<Rightarrow> None),
     enc_hashes = (\<lambda>hs. hs), dec_hashes = Some, enc_felt = (\<lambda>f. f), dec_felt = Some,
     enc_felts = enc_lists, dec_felts = dec_lists [], enc_diff = (\<lambda>d. d), dec_diff = Some,
     enc_event_block = (\<lambda>e. be_bytes 8 (unat (lse_block_number e)) @ be_bytes 8 (unat (lse_event_index e))),
     dec_event_block = (\<lambda>raw. Some \<lparr>lse_block_number = word_of_nat (be_val (take 8 raw)),
       lse_event_index = word_of_nat (be_val (drop 8 raw))\<rparr>),
     enc_class = (\<lambda>k. k), dec_class = Some,
     uuid_from_slice = (\<lambda>raw. if length raw = 16 then Some raw else None)\<rparr>"

lemma dec_lists_one: "dec_lists acc (concat (map (\<lambda>b. [1, b]) f) @ 0 # raw) = map_option (Cons (acc @ f)) (dec_lists [] raw)"
  by (induction f arbitrary: acc) (cases raw, simp_all)

lemma dec_enc_lists: "dec_lists [] (enc_lists fs) = Some fs"
  by (induction fs) (simp_all add: enc_lists_def dec_lists_one)

lemma codec_ref_laws: "codec_laws codec_ref"
proof -
  have "unat w mod 256 ^ 8 = unat w" for w :: u64 using unat_lt [of w] by simp
  then have "dec_event_block codec_ref (enc_event_block codec_ref e) = Some e" for e
    by (cases e) (simp add: codec_ref_def be_val_be_bytes)
  then show ?thesis
    unfolding codec_laws_def by (simp_all add: codec_ref_def dec_enc_lists)
qed

interpretation sample_db: codec_libs codec_ref
  by unfold_locales (rule codec_ref_laws)

theorem mapping_refines_index_witness:
  "mapping_block_hash codec_ref (replicate 32 9) (snd (write_hashes codec_ref True True
     \<lparr>mc_block_hash = 5, mc_starknet_block_hash = replicate 32 9, mc_starknet_transaction_hashes = [replicate 32 1]\<rparr>
     Map.empty)) = Ok (Some [5])"
proof -
  let ?m = "\<lparr>mc_block_hash = 5, mc_starknet_block_hash = replicate 32 9, mc_starknet_transaction_hashes = [replicate 32 1]\<rparr>
    :: byte MappingCommitment"
  have e: "represents codec_ref Map.empty view_empty" by (simp add: represents_def view_empty_def)
  obtain db' where db': "write_hashes codec_ref True True ?m Map.empty = (Ok (), db')"
      "represents codec_ref db' (view_commit True ?m view_empty)"
    using mapping_refines_index [OF codec_ref_laws e, of 0 True ?m "[]" "[]" "[]"] by blast
  have "mapping_block_hash codec_ref (replicate 32 9) db' = Ok (mv_blocks (view_commit True ?m view_empty) (replicate 32 9))"
    using mapping_refines_index [OF codec_ref_laws db'(2), of 0 True ?m "[]" "replicate 32 9" "[]"] by blast
  then show ?thesis by (simp add: db'(1) view_commit_def view_empty_def Let_def)
qed

theorem stored_values_read_back_witness:
  "state_diff codec_ref (replicate 32 9) (snd (update_cairo_job True (replicate 32 9) (replicate 16 7)
     (snd (store_state_diff codec_ref True (replicate 32 9) [1, 2] Map.empty)))) = Ok (replicate 16 7) \<and>
   get_fee_paid_for_l1_handler_tx codec_ref (replicate 32 9)
     (snd (store_fee_paid_for_l1_handler_tx codec_ref True (replicate 32 9) 1000 Map.empty)) = Ok 1000"
  using stored_values_read_back [OF codec_ref_laws, of "replicate 32 9" "replicate 16 7" "[1, 2]" Map.empty "[]"
      undefined "replicate 32 9" "[]" 1000]
  by (simp add: decoded_def codec_ref_def)

end
