(* ===== verification/Mapping_Sync.thy ===== *)
theory Mapping_Sync
  imports Client Db
begin

text \<open>
  The worker that indexes Substrate blocks by the Starknet blocks they carry
  (\<^verbatim>\<open>crates/client/mapping-sync\<close>). It walks from the leaves of the chain towards the genesis
  block, keeps the blocks still to visit as syncing tips in the database, and registers each visited
  block in the mapping. The client and the blockchain of the Substrate backend answer from one
  database and are one argument. Whether a commit succeeds is an argument of each step.
\<close>

section \<open>Indexing a block\<close>

datatype SyncError = SE_HashMismatch | SE_MultipleLogs | SE_Api | SE_Leaves | SE_HeaderNotFound | SE_Db DbError

definition sync_block ::
    "('c, 'r, 'x, 'p) runtime \<Rightarrow> hasher \<Rightarrow> ('h, 'd, 'k) codecs \<Rightarrow> bool \<Rightarrow> ('h, 'c, 'p) client \<Rightarrow> bool
      \<Rightarrow> ('h, 'p) sub_header \<Rightarrow> (unit, SyncError, store) st" where
  "sync_block R H c cache cl io header =
     (let substrate_block_hash = sh_hash header;
          unseen = map_err_st SE_Db (write_none c io substrate_block_hash)
      in case find_starknet_block (rt_dg R) (sh_digest header) of
           Ok digest_starknet_block \<Rightarrow>
             (case get_block_by_block_hash (rt_dg R) cl substrate_block_hash of
                Ok storage_starknet_block \<Rightarrow>
                  bind_st (ret_st (header_hash (rt_ff R) H (blk_header digest_starknet_block))) (\<lambda>digest_hash.
                  bind_st (ret_st (header_hash (rt_ff R) H (blk_header storage_starknet_block))) (\<lambda>storage_hash.
                    if digest_hash \<noteq> storage_hash then ret_st (Err SE_HashMismatch)
                    else
                      bind_st (ret_st (ok_or SE_Api (api_chain_id R cl substrate_block_hash))) (\<lambda>chain.
                      bind_st (ret_st (felt_into (rt_ff R) digest_hash)) (\<lambda>starknet_block_hash.
                      bind_st (ret_st (collect_results (\<lambda>tx.
                          and_then (unwrap (tx_compute_hash (rt_ff R) (rt_cr R) H tx chain False)) (felt_into (rt_ff R)))
                        (blk_transactions digest_starknet_block))) (\<lambda>starknet_transaction_hashes.
                        map_err_st SE_Db (write_hashes c cache io
                          \<lparr>mc_block_hash = substrate_block_hash, mc_starknet_block_hash = starknet_block_hash,
                           mc_starknet_transaction_hashes = starknet_transaction_hashes\<rparr>))))))
              | Err _ \<Rightarrow> unseen
              | Panic \<Rightarrow> ret_st Panic)
         | Err NotLog \<Rightarrow> unseen
         | Err MultipleLogs \<Rightarrow> ret_st (Err SE_MultipleLogs)
         | Panic \<Rightarrow> ret_st Panic)"

definition sync_genesis_block ::
    "('c, 'r, 'x, 'p) runtime \<Rightarrow> hasher \<Rightarrow> ('h, 'd, 'k) codecs \<Rightarrow> bool \<Rightarrow> bool
      \<Rightarrow> ('h, 'p) sub_header \<Rightarrow> (unit, SyncError, store) st" where
  "sync_genesis_block R H c cache io header =
     (let substrate_block_hash = sh_hash header
      in case find_starknet_block (rt_dg R) (sh_digest header) of
           Ok block \<Rightarrow>
             bind_st (ret_st (header_hash (rt_ff R) H (blk_header block))) (\<lambda>block_hash.
             bind_st (ret_st (felt_into (rt_ff R) block_hash)) (\<lambda>starknet_block_hash.
               map_err_st SE_Db (write_hashes c cache io
                 \<lparr>mc_block_hash = substrate_block_hash, mc_starknet_block_hash = starknet_block_hash,
                  mc_starknet_transaction_hashes = []\<rparr>)))
         | Err NotLog \<Rightarrow> map_err_st SE_Db (write_none c io substrate_block_hash)
         | Err MultipleLogs \<Rightarrow> ret_st (Err SE_MultipleLogs)
         | Panic \<Rightarrow> ret_st Panic)"

section \<open>Walking the chain\<close>

definition fetch_header ::
    "('h, 'd, 'k) codecs \<Rightarrow> ('h, 'c, 'p) client \<Rightarrow> store \<Rightarrow> 'h \<Rightarrow> u32
      \<Rightarrow> (('h, 'p) sub_header option, SyncError) result" where
  "fetch_header c cl db checking_tip sync_from =
     and_then (map_err SE_Db (is_synced c checking_tip db)) (\<lambda>synced.
       if synced then Ok None
       else (case cl_header cl checking_tip of
               Some (Some checking_header) \<Rightarrow>
                 Ok (if sync_from \<le> sh_number checking_header then Some checking_header else None)
             | _ \<Rightarrow> Err SE_HeaderNotFound))"

text \<open>The loop that pops tips until one has to be indexed; the last tip comes first.\<close>

fun pop_tips ::
    "('h, 'd, 'k) codecs \<Rightarrow> ('h, 'c, 'p) client \<Rightarrow> store \<Rightarrow> u32 \<Rightarrow> 'h list
      \<Rightarrow> (('h, 'p) sub_header option \<times> 'h list, SyncError) result" where
  "pop_tips c cl db sync_from [] = Ok (None, [])"
| "pop_tips c cl db sync_from (checking_tip # tips) =
     and_then (fetch_header c cl db checking_tip sync_from) (\<lambda>found.
       case found of
         Some checking_header \<Rightarrow> Ok (Some checking_header, tips)
       | None \<Rightarrow> pop_tips c cl db sync_from tips)"

definition sync_from_tips ::
    "('c, 'r, 'x, 'p) runtime \<Rightarrow> hasher \<Rightarrow> ('h, 'd, 'k) codecs \<Rightarrow> bool \<Rightarrow> ('h, 'c, 'p) client \<Rightarrow> bool \<times> bool
      \<Rightarrow> u32 \<Rightarrow> 'h list \<Rightarrow> (bool, SyncError, store) st" where
  "sync_from_tips R H c cache cl io sync_from tips =
     bind_st get_st (\<lambda>db.
     bind_st (ret_st (pop_tips c cl db sync_from (rev tips))) (\<lambda>(operating_header, rest).
       case operating_header of
         None \<Rightarrow>
           bind_st (map_err_st SE_Db (write_current_syncing_tips c (snd io) (rev rest))) (\<lambda>_. ret_st (Ok False))
       | Some header \<Rightarrow>
           if sh_number header = 0
           then
             bind_st (sync_genesis_block R H c cache (fst io) header) (\<lambda>_.
             bind_st (map_err_st SE_Db (write_current_syncing_tips c (snd io) (rev rest))) (\<lambda>_. ret_st (Ok True)))
           else
             bind_st (sync_block R H c cache cl (fst io) header) (\<lambda>_.
             bind_st (map_err_st SE_Db
               (write_current_syncing_tips c (snd io) (rev rest @ [sh_parent_hash header]))) (\<lambda>_. ret_st (Ok True)))))"

definition sync_one_block ::
    "('c, 'r, 'x, 'p) runtime \<Rightarrow> hasher \<Rightarrow> ('h, 'd, 'k) codecs \<Rightarrow> bool \<Rightarrow> ('h, 'c, 'p) client \<Rightarrow> bool \<times> bool
      \<Rightarrow> u32 \<Rightarrow> (bool, SyncError, store) st" where
  "sync_one_block R H c cache cl io sync_from =
     bind_st get_st (\<lambda>db.
     bind_st (ret_st (map_err SE_Db (current_syncing_tips c db))) (\<lambda>tips.
       if tips = []
       then bind_st (ret_st (ok_or SE_Leaves (cl_leaves cl))) (\<lambda>leaves.
              if leaves = [] then ret_st (Ok False)
              else sync_from_tips R H c cache cl io sync_from leaves)
       else sync_from_tips R H c cache cl io sync_from tips))"

text \<open>\<open>synced_any || sync_one_block(..)?\<close> does not evaluate its right hand side once one block was synced.\<close>

fun sync_blocks ::
    "('c, 'r, 'x, 'p) runtime \<Rightarrow> hasher \<Rightarrow> ('h, 'd, 'k) codecs \<Rightarrow> bool \<Rightarrow> ('h, 'c, 'p) client \<Rightarrow> (nat \<Rightarrow> bool \<times> bool)
      \<Rightarrow> nat \<Rightarrow> u32 \<Rightarrow> bool \<Rightarrow> (bool, SyncError, store) st" where
  "sync_blocks R H c cache cl io 0 sync_from synced_any = ret_st (Ok synced_any)"
| "sync_blocks R H c cache cl io (Suc limit) sync_from synced_any =
     bind_st (if synced_any then ret_st (Ok True) else sync_one_block R H c cache cl (io limit) sync_from) (\<lambda>any.
       sync_blocks R H c cache cl io limit sync_from any)"

section \<open>The worker\<close>

record MappingSyncWorker =
  mw_inner_delay :: bool
  mw_have_next :: bool
  mw_retry_times :: nat
  mw_sync_from :: u32

definition worker_new :: "nat \<Rightarrow> u32 \<Rightarrow> MappingSyncWorker" where
  "worker_new retry_times sync_from =
     \<lparr>mw_inner_delay = False, mw_have_next = True, mw_retry_times = retry_times, mw_sync_from = sync_from\<rparr>"

datatype poll = PollPending | PollReady | PollEnd

text \<open>
  One poll: how many import notifications are ready, whether their stream has ended, and whether the
  delay has elapsed. A failed synchronisation is logged.
\<close>

definition poll_next ::
    "('c, 'r, 'x, 'p) runtime \<Rightarrow> hasher \<Rightarrow> ('h, 'd, 'k) codecs \<Rightarrow> bool \<Rightarrow> ('h, 'c, 'p) client \<Rightarrow> (nat \<Rightarrow> bool \<times> bool)
      \<Rightarrow> nat \<Rightarrow> bool \<Rightarrow> bool \<Rightarrow> MappingSyncWorker \<times> store \<Rightarrow> (poll, unit) result \<times> MappingSyncWorker \<times> store" where
  "poll_next R H c cache cl io notified ended elapsed = (\<lambda>(w, db).
     if ended then (Ok PollEnd, w, db)
     else if 0 < notified \<or> elapsed \<or> mw_have_next w
     then
       (let (r, db') = sync_blocks R H c cache cl io (mw_retry_times w) (mw_sync_from w) False db
        in case r of
             Ok have_next \<Rightarrow> (Ok PollReady, w\<lparr>mw_inner_delay := False, mw_have_next := have_next\<rparr>, db')
           | Err _ \<Rightarrow> (Ok PollReady, w\<lparr>mw_inner_delay := False, mw_have_next := False\<rparr>, db')
           | Panic \<Rightarrow> (Panic, w\<lparr>mw_inner_delay := False\<rparr>, db'))
     else (Ok PollPending, w\<lparr>mw_inner_delay := True\<rparr>, db))"

section \<open>What a visited block contributes\<close>

text \<open>The hash of the Starknet block in a header and the hashes of its transactions.\<close>

definition carries ::
    "('c, 'r, 'x, 'p) runtime \<Rightarrow> hasher \<Rightarrow> ('h, 'p) sub_header \<Rightarrow> stark_felt \<Rightarrow> stark_felt list \<Rightarrow> bool" where
  "carries R H header f ts \<longleftrightarrow>
     (\<exists>b x. find_starknet_block (rt_dg R) (sh_digest header) = Ok b \<and>
        header_hash (rt_ff R) H (blk_header b) = (Ok x :: (_, unit) result) \<and>
        felt_into (rt_ff R) x = (Ok f :: (_, unit) result) \<and>
        (if sh_number header = 0 then ts = []
         else list_all2 (\<lambda>tx t. \<exists>y. tx_compute_hash (rt_ff R) (rt_cr R) H tx (chain_id R) False = Ok y \<and>
                felt_into (rt_ff R) y = (Ok t :: (_, unit) result)) (blk_transactions b) ts))"

definition block_plan ::
    "('c, 'r, 'x, 'p) runtime \<Rightarrow> hasher \<Rightarrow> ('h, 'p) sub_header \<Rightarrow> ('h MappingCommitment option, SyncError) result" where
  "block_plan R H header =
     (case find_starknet_block (rt_dg R) (sh_digest header) of
        Ok b \<Rightarrow>
          and_then (header_hash (rt_ff R) H (blk_header b)) (\<lambda>x.
          and_then (felt_into (rt_ff R) x) (\<lambda>f.
          and_then (if sh_number header = 0 then Ok []
             else collect_results (\<lambda>tx.
               and_then (unwrap (tx_compute_hash (rt_ff R) (rt_cr R) H tx (chain_id R) False)) (felt_into (rt_ff R)))
               (blk_transactions b)) (\<lambda>ts.
            Ok (Some \<lparr>mc_block_hash = sh_hash header, mc_starknet_block_hash = f,
              mc_starknet_transaction_hashes = ts\<rparr>))))
      | Err NotLog \<Rightarrow> Ok None
      | Err MultipleLogs \<Rightarrow> Err SE_MultipleLogs
      | Panic \<Rightarrow> Panic)"

definition register :: "('h, 'd, 'k) codecs \<Rightarrow> bool \<Rightarrow> bool \<Rightarrow> 'h \<Rightarrow> 'h MappingCommitment option \<Rightarrow> (unit, SyncError, store) st" where
  "register c cache io h m =
     map_err_st SE_Db (case m of None \<Rightarrow> write_none c io h | Some m \<Rightarrow> write_hashes c cache io m)"

lemma bind_ret_Panic [simp]: "bind_st (ret_st Panic) k = ret_st Panic"
  by (simp add: bind_st_def ret_st_def fun_eq_iff)

lemma bind_ret_and_then: "bind_st (ret_st (and_then r f)) k = bind_st (ret_st r) (\<lambda>x. bind_st (ret_st (f x)) k)"
  by (cases r) simp_all

lemma sync_genesis_block_plan:
  "sh_number header = 0 \<Longrightarrow> sync_genesis_block R H c cache io header =
     bind_st (ret_st (block_plan R H header)) (register c cache io (sh_hash header))"
  by (auto simp: sync_genesis_block_def block_plan_def register_def Let_def bind_ret_and_then
      split: result.split FindLogError.split)

lemma sync_block_plan:
  assumes "sh_number header \<noteq> 0" "cl_header cl (sh_hash header) = Some (Some header)"
    "cl_state_at cl (sh_hash header) = Some s"
  shows "sync_block R H c cache cl io header =
    bind_st (ret_st (block_plan R H header)) (register c cache io (sh_hash header))"
proof (cases "find_starknet_block (rt_dg R) (sh_digest header)")
  case (Ok b)
  then have g: "get_block_by_block_hash (rt_dg R) cl (sh_hash header) = Ok b"
    using assms(2) by (simp add: get_block_by_block_hash_def)
  show ?thesis
  proof (cases "header_hash (rt_ff R) H (blk_header b) :: (_, SyncError) result")
    case (Ok x)
    then show ?thesis
      using assms \<open>find_starknet_block _ _ = Ok b\<close> g
      by (simp add: sync_block_def block_plan_def register_def Let_def bind_ret_and_then api_chain_id_def api_call_def)
  qed (use assms Ok g in \<open>simp_all add: sync_block_def block_plan_def Let_def\<close>)
next
  case (Err e)
  then show ?thesis
    by (cases e) (simp_all add: sync_block_def block_plan_def register_def Let_def)
qed (simp add: sync_block_def block_plan_def register_def Let_def)

lemma unwrap_result_Ok: "(unwrap r :: (_, 'f) result) = Ok x \<longleftrightarrow> r = Ok x"
  by (rule unwrap_Ok_iff)

lemma header_hash_retype: "(header_hash ff H hdr :: (_, 'e) result) = Ok x \<longleftrightarrow> (header_hash ff H hdr :: (_, 'f) result) = Ok x"
  by (auto simp: header_hash_def)

lemma felt_into_retype: "(felt_into ff v :: (_, 'e) result) = Ok x \<longleftrightarrow> (felt_into ff v :: (_, 'f) result) = Ok x"
  by (auto simp: felt_into_def)

lemma block_plan_Some:
  "block_plan R H header = Ok (Some m) \<longleftrightarrow>
     mc_block_hash m = sh_hash header \<and> carries R H header (mc_starknet_block_hash m) (mc_starknet_transaction_hashes m)"
  by (cases m) (auto simp: block_plan_def carries_def collect_results_Ok_iff unwrap_result_Ok
      header_hash_retype [where 'e = SyncError and 'f = unit] felt_into_retype [where 'e = SyncError and 'f = unit]
      split: result.split FindLogError.split)

section \<open>Steps on the index\<close>

definition view_register :: "bool \<Rightarrow> 'h \<Rightarrow> 'h MappingCommitment option \<Rightarrow> 'h mapping_view \<Rightarrow> 'h mapping_view" where
  "view_register cache h m v = (case m of None \<Rightarrow> view_seen h v | Some m \<Rightarrow> view_commit cache m v)"

text \<open>A computation on stores that keeps a property of the index they represent, whatever its outcome.\<close>

definition keeps :: "('h, 'd, 'k) codecs \<Rightarrow> ('h mapping_view \<Rightarrow> bool) \<Rightarrow> ('a, 'e, store) st \<Rightarrow> bool" where
  "keeps c P m \<longleftrightarrow> (\<forall>db v. represents c db v \<longrightarrow> P v \<longrightarrow> (\<exists>v'. represents c (snd (m db)) v' \<and> P v'))"

named_theorems keeps_rules \<open>computations that keep a property of the index\<close>

lemma keeps_ret [keeps_rules]: "keeps c P (ret_st r)"
  by (auto simp: keeps_def ret_st_def)

lemma keeps_bind [keeps_rules]: "keeps c P m \<Longrightarrow> (\<And>x. keeps c P (k x)) \<Longrightarrow> keeps c P (bind_st m k)"
proof (unfold keeps_def, intro allI impI)
  fix db v
  assume k: "\<forall>db v. represents c db v \<longrightarrow> P v \<longrightarrow> (\<exists>v'. represents c (snd (m db)) v' \<and> P v')"
    "\<And>x. \<forall>db v. represents c db v \<longrightarrow> P v \<longrightarrow> (\<exists>v'. represents c (snd (k x db)) v' \<and> P v')"
  assume "represents c db v" "P v"
  then obtain v1 where v1: "represents c (snd (m db)) v1" "P v1" using k(1) by blast
  show "\<exists>v'. represents c (snd (bind_st m k db)) v' \<and> P v'"
  proof (cases "fst (m db)")
    case (Ok x)
    then show ?thesis using k(2) [of x] v1 by (cases "m db") (auto simp: bind_st_def)
  qed (use v1 in \<open>cases "m db", auto simp: bind_st_def\<close>)+
qed

lemma keeps_bind_ret: "(\<And>x. r = Ok x \<Longrightarrow> keeps c P (k x)) \<Longrightarrow> keeps c P (bind_st (ret_st r) k)"
  by (cases r) (simp_all add: keeps_ret)

lemma keeps_bind_get: "(\<And>db. keeps c P (k db)) \<Longrightarrow> keeps c P (bind_st get_st k)"
  unfolding keeps_def by simp

lemma keeps_map_err [keeps_rules]: "keeps c P m \<Longrightarrow> keeps c P (map_err_st f m)"
  by (simp add: keeps_def)

lemma keeps_if [keeps_rules]: "keeps c P m \<Longrightarrow> keeps c P n \<Longrightarrow> keeps c P (if b then m else n)"
  by simp

context codec_libs
begin

lemma register_view:
  "represents c db v \<Longrightarrow>
     \<exists>db'. register c cache True h m db = (Ok (), db') \<and> represents c db' (view_register cache h m v)"
proof (cases m)
  case (Some a)
  assume "represents c db v"
  then show ?thesis
    using Some represents_writes(2) [of db v cache a] write_hashes_Ok [of c cache a db]
    by (cases "write_hashes c cache True a db") (simp add: register_def view_register_def map_err_st_def)
qed (use represents_writes(1) [of db v h] in \<open>simp add: register_def view_register_def map_err_st_def write_none_def\<close>)

lemma register_failed: "register c cache False h m db = (Err (SE_Db CommitError), db)"
  by (cases m) (simp_all add: register_def map_err_st_def write_none_def write_hashes_def Let_def)

lemma keeps_register:
  assumes "\<And>v. P v \<Longrightarrow> P (view_register cache h m v)"
  shows "keeps c P (register c cache io h m)"
proof (cases io)
  case True
  show ?thesis
    unfolding keeps_def
  proof (intro allI impI)
    fix db v
    assume "represents c db v" "P v"
    then obtain db' where "register c cache True h m db = (Ok (), db')" "represents c db' (view_register cache h m v)"
      using register_view by blast
    then show "\<exists>v'. represents c (snd (register c cache io h m db)) v' \<and> P v'"
      using True assms [OF \<open>P v\<close>] by auto
  qed
qed (auto simp: keeps_def register_failed)

lemma keeps_tips [keeps_rules]:
  assumes "\<And>v. P v \<Longrightarrow> P (v\<lparr>mv_tips := ts\<rparr>)"
  shows "keeps c P (write_current_syncing_tips c io ts)"
proof (cases io)
  case True
  then show ?thesis
    unfolding keeps_def by (auto intro!: exI [of _ "_\<lparr>mv_tips := ts\<rparr>"] assms represents_writes(3))
qed (auto simp: keeps_def write_current_syncing_tips_def)

lemma keeps_sync_genesis_block:
  assumes "sh_number header = 0" "\<And>m v. block_plan R H header = Ok m \<Longrightarrow> P v \<Longrightarrow> P (view_register cache (sh_hash header) m v)"
  shows "keeps c P (sync_genesis_block R H c cache io header)"
  unfolding sync_genesis_block_plan [OF assms(1)] by (intro keeps_bind_ret keeps_register assms(2))

lemma keeps_sync_block:
  assumes "sh_number header \<noteq> 0" "cl_header cl (sh_hash header) = Some (Some header)"
    "\<And>m v. block_plan R H header = Ok m \<Longrightarrow> P v \<Longrightarrow> P (view_register cache (sh_hash header) m v)"
  shows "keeps c P (sync_block R H c cache cl io header)"
proof (cases "cl_state_at cl (sh_hash header)")
  case (Some s)
  show ?thesis unfolding sync_block_plan [OF assms(1,2) Some] by (intro keeps_bind_ret keeps_register assms(3))
next
  case None
  then have api: "api_chain_id R cl (sh_hash header) = None" by (simp add: api_chain_id_def api_call_def)
  show ?thesis
  proof (cases "find_starknet_block (rt_dg R) (sh_digest header)")
    case (Ok b)
    then have g: "get_block_by_block_hash (rt_dg R) cl (sh_hash header) = Ok b"
      using assms(2) by (simp add: get_block_by_block_hash_def)
    show ?thesis
      by (simp add: sync_block_def Let_def Ok g api cong: if_cong, intro keeps_bind keeps_ret keeps_if)
  next
    case (Err e)
    then show ?thesis
    proof (cases e)
      case NotLog
      then have "keeps c P (register c cache io (sh_hash header) None)"
        using Err by (intro keeps_register assms(3)) (simp add: block_plan_def)
      then show ?thesis using Err NotLog by (simp add: sync_block_def Let_def register_def)
    qed (use Err in \<open>simp add: sync_block_def Let_def keeps_ret\<close>)
  qed (simp add: sync_block_def Let_def keeps_ret)
qed

lemma pop_tips_SomeD:
  "pop_tips c cl db sync_from ts = Ok (Some header, rest) \<Longrightarrow>
     \<exists>popped t. ts = popped @ t # rest \<and> (\<forall>p\<in>set popped. fetch_header c cl db p sync_from = Ok None) \<and>
       fetch_header c cl db t sync_from = Ok (Some header)"
proof (induction ts)
  case (Cons t ts)
  then obtain found where f: "fetch_header c cl db t sync_from = Ok found" by auto
  show ?case
  proof (cases found)
    case None
    then obtain popped t' where "ts = popped @ t' # rest" "\<forall>p\<in>set popped. fetch_header c cl db p sync_from = Ok None"
        "fetch_header c cl db t' sync_from = Ok (Some header)"
      using Cons f by auto
    then show ?thesis using f None by (intro exI [of _ "t # popped"] exI [of _ t']) simp
  qed (use Cons f in auto)
qed simp

lemma pop_tips_NoneD:
  "pop_tips c cl db sync_from ts = Ok (None, rest) \<Longrightarrow>
     rest = [] \<and> (\<forall>t\<in>set ts. fetch_header c cl db t sync_from = Ok None)"
  by (induction ts) (auto split: option.splits)

lemma fetch_header_SomeD:
  "fetch_header c cl db t sync_from = Ok (Some header) \<Longrightarrow>
     cl_header cl t = Some (Some header) \<and> sync_from \<le> sh_number header \<and> is_synced c t db = Ok False"
  by (cases "is_synced c t db"; cases "cl_header cl t")
     (simp_all add: fetch_header_def split: if_splits option.splits)

end

section \<open>The index agrees with the chain\<close>

lemma carries_unique: "carries R H header f ts \<Longrightarrow> carries R H header f' ts' \<Longrightarrow> f' = f \<and> ts' = ts"
proof -
  have "ts' = ts" if "list_all2 (\<lambda>tx t. \<exists>y. g tx = Ok y \<and> k y = (Ok t :: (stark_felt, unit) result)) txs ts"
      "list_all2 (\<lambda>tx t. \<exists>y. g tx = Ok y \<and> k y = (Ok t :: (stark_felt, unit) result)) txs ts'"
    for g :: "Transaction \<Rightarrow> (nat, unit) result" and k txs and ts ts' :: "stark_felt list"
    using that by (induction txs arbitrary: ts ts') (auto simp: list_all2_Cons1)
  then show "carries R H header f ts \<Longrightarrow> carries R H header f' ts' \<Longrightarrow> f' = f \<and> ts' = ts"
    unfolding carries_def by (auto split: if_splits)
qed

lemma block_plan_None: "block_plan R H header = Ok None \<Longrightarrow> \<not> carries R H header f ts"
  by (auto simp: block_plan_def carries_def split: result.splits FindLogError.splits)

text \<open>The headers of the chain, of every fork: a block hash determines its header.\<close>

type_synonym ('h, 'p) chain = "'h \<rightharpoonup> ('h, 'p) sub_header"

definition client_of :: "('h, 'p) chain \<Rightarrow> ('h, 'c, 'p) client \<Rightarrow> bool" where
  "client_of U cl \<longleftrightarrow> (\<forall>h header. cl_header cl h = Some (Some header) \<longrightarrow> U h = Some header \<and> sh_hash header = h)"

definition index_sound ::
    "('c, 'r, 'x, 'p) runtime \<Rightarrow> hasher \<Rightarrow> ('h, 'p) chain \<Rightarrow> 'h mapping_view \<Rightarrow> bool" where
  "index_sound R H U v \<longleftrightarrow>
     (\<forall>f hs h. mv_blocks v f = Some hs \<longrightarrow> h \<in> set hs \<longrightarrow> (\<exists>header ts. U h = Some header \<and> carries R H header f ts)) \<and>
     (\<forall>t h. mv_txs v t = Some h \<longrightarrow> (\<exists>header f ts. U h = Some header \<and> carries R H header f ts \<and> t \<in> set ts)) \<and>
     (\<forall>f ts. mv_cache v f = Some ts \<longrightarrow> (\<exists>h header. U h = Some header \<and> carries R H header f ts)) \<and>
     (\<forall>h\<in>mv_synced v. \<exists>header. U h = Some header \<and> (\<forall>f ts. carries R H header f ts \<longrightarrow>
        (\<exists>hs. mv_blocks v f = Some hs \<and> h \<in> set hs) \<and> (\<forall>t\<in>set ts. mv_txs v t \<noteq> None)))"

lemma index_sound_tips: "index_sound R H U v \<Longrightarrow> index_sound R H U (v\<lparr>mv_tips := ts\<rparr>)"
  by (simp add: index_sound_def)

lemma index_sound_commit:
  assumes "index_sound R H U v" "U (mc_block_hash m) = Some header"
    "carries R H header (mc_starknet_block_hash m) (mc_starknet_transaction_hashes m)"
  shows "index_sound R H U (view_commit cache m v)"
proof -
  let ?v = "view_commit cache m v"
  note s = assms(1) [unfolded index_sound_def]
  have b: "mv_blocks ?v f = (if f = mc_starknet_block_hash m
      then Some (case mv_blocks v f of Some l \<Rightarrow> l @ [mc_block_hash m] | None \<Rightarrow> [mc_block_hash m]) else mv_blocks v f)" for f
    by (simp add: view_commit_def Let_def)
  have t: "mv_txs ?v t = (if t \<in> set (mc_starknet_transaction_hashes m) then Some (mc_block_hash m) else mv_txs v t)" for t
    by (simp add: view_commit_def Let_def)
  have k: "mv_cache ?v f = (if cache \<and> f = mc_starknet_block_hash m then Some (mc_starknet_transaction_hashes m)
      else mv_cache v f)" for f
    by (simp add: view_commit_def Let_def)
  have y: "mv_synced ?v = insert (mc_block_hash m) (mv_synced v)" by (simp add: view_commit_def Let_def)
  have 1: "\<exists>header ts. U h = Some header \<and> carries R H header f ts" if in_v: "mv_blocks ?v f = Some hs" "h \<in> set hs" for f hs h
  proof (cases "f = mc_starknet_block_hash m \<and> h = mc_block_hash m")
    case False
    then obtain l where "mv_blocks v f = Some l" "h \<in> set l"
      using in_v by (auto simp: b split: if_splits option.splits)
    then show ?thesis using s by blast
  qed (use assms(2,3) in blast)
  have 2: "\<exists>header f ts. U h = Some header \<and> carries R H header f ts \<and> t \<in> set ts" if "mv_txs ?v t = Some h" for t h
    using that s assms(2,3) by (auto simp: t split: if_splits)
  have 3: "\<exists>h header. U h = Some header \<and> carries R H header f ts" if "mv_cache ?v f = Some ts" for f ts
    using that s assms(2,3) by (auto simp: k split: if_splits)
  have 4: "(\<exists>hs. mv_blocks ?v f = Some hs \<and> h \<in> set hs) \<and> (\<forall>t\<in>set ts. mv_txs ?v t \<noteq> None)"
    if "h \<in> mv_synced ?v" "U h = Some header'" "carries R H header' f ts" for h header' f ts
  proof (cases "h = mc_block_hash m")
    case True
    then have "f = mc_starknet_block_hash m" "ts = mc_starknet_transaction_hashes m"
      using that(2,3) assms(2) carries_unique [OF assms(3)] by auto
    then show ?thesis using True by (auto simp: b t split: option.split)
  next
    case False
    then have "h \<in> mv_synced v" using that(1) y by simp
    then have "(\<exists>hs. mv_blocks v f = Some hs \<and> h \<in> set hs) \<and> (\<forall>t\<in>set ts. mv_txs v t \<noteq> None)"
      using s that(2,3) by fastforce
    then show ?thesis by (auto simp: b t)
  qed
  have 5: "\<exists>header. U h = Some header" if "h \<in> mv_synced ?v" for h
    using that s assms(2) y by auto
  show ?thesis
    unfolding index_sound_def
  proof (intro conjI allI impI ballI)
    fix h
    assume h: "h \<in> mv_synced ?v"
    then obtain header' where "U h = Some header'" using 5 by blast
    then show "\<exists>header. U h = Some header \<and> (\<forall>f ts. carries R H header f ts \<longrightarrow>
        (\<exists>hs. mv_blocks ?v f = Some hs \<and> h \<in> set hs) \<and> (\<forall>t\<in>set ts. mv_txs ?v t \<noteq> None))"
      using 4 [OF h] by blast
  qed (fact 1 2 3)+
qed

lemma index_sound_register:
  assumes "index_sound R H U v" "U (sh_hash header) = Some header" "block_plan R H header = Ok m"
  shows "index_sound R H U (view_register cache (sh_hash header) m v)"
proof (cases m)
  case None
  then show ?thesis
    using assms block_plan_None by (fastforce simp: view_register_def view_seen_def index_sound_def)
next
  case (Some a)
  then show ?thesis
    using assms by (auto simp: view_register_def block_plan_Some intro!: index_sound_commit)
qed

context codec_libs
begin

lemma keeps_sync_from_tips:
  assumes "client_of U cl"
  shows "keeps c (index_sound R H U) (sync_from_tips R H c cache cl io sync_from tips)"
proof -
  let ?K = "keeps c (index_sound R H U)"
  have tips: "?K (write_current_syncing_tips c io ts)" for io ts
    by (rule keeps_tips) (rule index_sound_tips)
  have run: "?K (if sh_number header = 0 then bind_st (sync_genesis_block R H c cache io1 header) k
      else bind_st (sync_block R H c cache cl io1 header) l)"
    if "cl_header cl t = Some (Some header)" "\<And>x. ?K (k x)" "\<And>x. ?K (l x)" for header t io1 and k l :: "unit \<Rightarrow> (bool, SyncError, store) st"
  proof -
    have u: "U t = Some header" "sh_hash header = t" using assms that(1) by (auto simp: client_of_def)
    then have g: "?K (sync_genesis_block R H c cache io1 header)" if "sh_number header = 0"
      by (intro keeps_sync_genesis_block that) (auto intro!: index_sound_register)
    have b: "?K (sync_block R H c cache cl io1 header)" if "sh_number header \<noteq> 0"
      using u \<open>cl_header cl t = _\<close> by (intro keeps_sync_block that) (auto intro!: index_sound_register)
    show ?thesis using g b that(2,3) by (simp add: keeps_bind)
  qed
  show ?thesis
    unfolding sync_from_tips_def
  proof (intro keeps_bind_get keeps_bind_ret, split prod.split, intro allI impI)
    fix db x operating_header rest
    assume p: "pop_tips c cl db sync_from (rev tips) = Ok x" "x = (operating_header, rest)"
    show "?K (case operating_header of
         None \<Rightarrow>
           bind_st (map_err_st SE_Db (write_current_syncing_tips c (snd io) (rev rest))) (\<lambda>_. ret_st (Ok False))
       | Some header \<Rightarrow>
           if sh_number header = 0
           then
             bind_st (sync_genesis_block R H c cache (fst io) header) (\<lambda>_.
             bind_st (map_err_st SE_Db (write_current_syncing_tips c (snd io) (rev rest))) (\<lambda>_. ret_st (Ok True)))
           else
             bind_st (sync_block R H c cache cl (fst io) header) (\<lambda>_.
             bind_st (map_err_st SE_Db
               (write_current_syncing_tips c (snd io) (rev rest @ [sh_parent_hash header]))) (\<lambda>_. ret_st (Ok True))))"
    proof (cases operating_header)
      case None
      then show ?thesis by (simp add: keeps_bind keeps_map_err keeps_ret tips)
    next
      case (Some header)
      then obtain t where "cl_header cl t = Some (Some header)"
        using p pop_tips_SomeD [of cl db sync_from "rev tips" header rest] fetch_header_SomeD by blast
      then show ?thesis
        using Some by (simp only: option.case) (intro run keeps_bind keeps_map_err keeps_ret tips)
    qed
  qed
qed

lemma keeps_sync_blocks:
  assumes "client_of U cl"
  shows "keeps c (index_sound R H U) (sync_blocks R H c cache cl io limit sync_from synced)"
proof (induction limit arbitrary: synced)
  case (Suc limit)
  have "keeps c (index_sound R H U) (sync_one_block R H c cache cl i sync_from)" for i
    unfolding sync_one_block_def by (intro keeps_bind_get keeps_bind keeps_ret keeps_if keeps_sync_from_tips assms)
  then show ?case unfolding sync_blocks.simps by (intro keeps_bind keeps_if keeps_ret Suc)
qed (simp add: keeps_ret)

end

text \<open>
  The worker polled any number of times, with any answers of the client that are true of the chain,
  any commits failing, and any number of restarts.
\<close>

inductive indexing ::
    "('c, 'r, 'x, 'p) runtime \<Rightarrow> hasher \<Rightarrow> ('h, 'd, 'k) codecs \<Rightarrow> bool \<Rightarrow> ('h, 'p) chain
      \<Rightarrow> MappingSyncWorker \<times> store \<Rightarrow> bool"
  for R H c cache U where
  fresh: "indexing R H c cache U (worker_new retry_times sync_from, Map.empty)"
| restarted: "indexing R H c cache U (w, db) \<Longrightarrow> indexing R H c cache U (worker_new retry_times sync_from, db)"
| polled: "indexing R H c cache U (w, db) \<Longrightarrow> client_of U cl \<Longrightarrow>
    poll_next R H c cache cl io notified ended elapsed (w, db) = (r, w', db') \<Longrightarrow> indexing R H c cache U (w', db')"

lemma indexing_view:
  assumes "codec_laws c" "indexing R H c cache U s"
  shows "\<exists>v. represents c (snd s) v \<and> index_sound R H U v"
  using assms(2)
proof (induction rule: indexing.induct)
  case (fresh retry_times sync_from)
  show ?case
    by (rule exI [of _ view_empty]) (simp add: represents_def view_empty_def index_sound_def)
next
  case (polled w db cl io notified ended elapsed r w' db')
  have l: "codec_libs c" using assms(1) by unfold_locales
  have "db' = db \<or> db' = snd (sync_blocks R H c cache cl io (mw_retry_times w) (mw_sync_from w) False db)"
    using polled.hyps(3) unfolding poll_next_def
    by (cases "fst (sync_blocks R H c cache cl io (mw_retry_times w) (mw_sync_from w) False db)")
       (auto split: if_splits simp: Let_def case_prod_beta)
  then show ?case
    using polled.IH codec_libs.keeps_sync_blocks [OF l polled.hyps(2)] unfolding keeps_def by fastforce
qed simp

text \<open>
  C25. Along every run of the worker, whatever fails, the index tells the truth about the chain. A
  Substrate block listed under a Starknet block hash carries the Starknet block with that hash; the
  block listed for a transaction carries a transaction with that hash; the cached hashes of a block
  are those of its transactions; and a block marked as synced exists, is listed under the hash of the
  Starknet block it carries, and all its transactions are listed.
\<close>

theorem index_agrees_with_chain:
  assumes "codec_laws c" "indexing R H c cache U (w, db)"
  shows "(mapping_block_hash c f db = Ok (Some hs) \<longrightarrow>
      (\<forall>h\<in>set hs. \<exists>header ts. U h = Some header \<and> carries R H header f ts)) \<and>
    (block_hash_from_transaction_hash c t db = Ok (Some h) \<longrightarrow>
      (\<exists>header f ts. U h = Some header \<and> carries R H header f ts \<and> t \<in> set ts)) \<and>
    (cached_transaction_hashes_from_block_hash c True f db = Ok (Some ts) \<longrightarrow>
      (\<exists>h header. U h = Some header \<and> carries R H header f ts)) \<and>
    (is_synced c h db = Ok True \<longrightarrow> (\<exists>header. U h = Some header \<and> (\<forall>f ts. carries R H header f ts \<longrightarrow>
      (\<exists>hs. mapping_block_hash c f db = Ok (Some hs) \<and> h \<in> set hs) \<and>
      (\<forall>t\<in>set ts. \<exists>h'. block_hash_from_transaction_hash c t db = Ok (Some h')))))"
proof -
  have l: "codec_libs c" using assms(1) by unfold_locales
  obtain v where v: "represents c db v" "index_sound R H U v" using indexing_view [OF assms] by auto
  note q = codec_libs.represents_queries [OF l v(1)]
  show ?thesis
    using v(2) unfolding index_sound_def q by simp
qed

section \<open>The walk ends with every block indexed\<close>

text \<open>
  A client that keeps what it imported: the header of a known block, its state, and the header of its
  parent, one number below; leaves are known blocks.
\<close>

definition chain_kept :: "('h, 'c, 'p) client \<Rightarrow> bool" where
  "chain_kept cl \<longleftrightarrow>
     (\<forall>h header. cl_header cl h = Some (Some header) \<longrightarrow>
        sh_hash header = h \<and> cl_state_at cl h \<noteq> None \<and>
        (sh_number header \<noteq> 0 \<longrightarrow>
          (\<exists>p. cl_header cl (sh_parent_hash header) = Some (Some p) \<and> unat (sh_number header) = Suc (unat (sh_number p))))) \<and>
     (\<exists>ls. cl_leaves cl = Some ls \<and> (\<forall>l\<in>set ls. \<exists>header. cl_header cl l = Some (Some header)))"

text \<open>Every known block carries no Starknet block, or one whose hashes can be computed.\<close>

definition indexable :: "('c, 'r, 'x, 'p) runtime \<Rightarrow> hasher \<Rightarrow> ('h, 'c, 'p) client \<Rightarrow> bool" where
  "indexable R H cl \<longleftrightarrow>
     (\<forall>h header. cl_header cl h = Some (Some header) \<longrightarrow>
        find_starknet_block (rt_dg R) (sh_digest header) = Err NotLog \<or> (\<exists>f ts. carries R H header f ts))"

lemma indexable_plan:
  assumes "indexable R H cl" "cl_header cl h = Some (Some header)"
  obtains m where "block_plan R H header = Ok m"
proof -
  consider "find_starknet_block (rt_dg R) (sh_digest header) = Err NotLog" | f ts where "carries R H header f ts"
    using assms unfolding indexable_def by blast
  then show thesis
  proof cases
    case 2
    then show ?thesis
      using block_plan_Some [of R H header "\<lparr>mc_block_hash = sh_hash header, mc_starknet_block_hash = f,
        mc_starknet_transaction_hashes = ts\<rparr>"] that by simp
  qed (use that in \<open>simp add: block_plan_def\<close>)
qed

inductive on_chain :: "('h, 'c, 'p) client \<Rightarrow> 'h \<Rightarrow> bool" for cl where
  leaf: "cl_leaves cl = Some ls \<Longrightarrow> l \<in> set ls \<Longrightarrow> on_chain cl l"
| parent: "on_chain cl h \<Longrightarrow> cl_header cl h = Some (Some header) \<Longrightarrow> sh_number header \<noteq> 0 \<Longrightarrow>
    on_chain cl (sh_parent_hash header)"

definition visited :: "('h, 'c, 'p) client \<Rightarrow> u32 \<Rightarrow> 'h mapping_view \<Rightarrow> 'h \<Rightarrow> bool" where
  "visited cl sync_from v h \<longleftrightarrow>
     h \<in> mv_synced v \<or> (\<exists>header. cl_header cl h = Some (Some header) \<and> sh_number header < sync_from)"

text \<open>Parents of indexed blocks are indexed or among the blocks still to visit.\<close>

definition closed_up_to :: "('h, 'c, 'p) client \<Rightarrow> u32 \<Rightarrow> 'h mapping_view \<Rightarrow> 'h list \<Rightarrow> bool" where
  "closed_up_to cl sync_from v ts \<longleftrightarrow>
     (\<forall>h\<in>mv_synced v. \<forall>header. cl_header cl h = Some (Some header) \<longrightarrow> sh_number header \<noteq> 0 \<longrightarrow>
        visited cl sync_from v (sh_parent_hash header) \<or> sh_parent_hash header \<in> set ts)"

definition pending :: "('h, 'c, 'p) client \<Rightarrow> u32 \<Rightarrow> 'h mapping_view \<Rightarrow> 'h list \<Rightarrow> bool" where
  "pending cl sync_from v ts \<longleftrightarrow>
     closed_up_to cl sync_from v ts \<and>
     (\<forall>ls. cl_leaves cl = Some ls \<longrightarrow> (\<forall>l\<in>set ls. visited cl sync_from v l \<or> l \<in> set ts)) \<and>
     (\<forall>t\<in>set ts. \<exists>header. cl_header cl t = Some (Some header))"

definition depth :: "('h, 'c, 'p) client \<Rightarrow> 'h \<Rightarrow> nat" where
  "depth cl h = (case cl_header cl h of Some (Some header) \<Rightarrow> Suc (unat (sh_number header)) | _ \<Rightarrow> 0)"

abbreviation "work cl ts \<equiv> sum_list (map (depth cl) ts)"

lemma chain_kept_parent:
  assumes "chain_kept cl" "cl_header cl h = Some (Some header)" "sh_number header \<noteq> 0"
  obtains p where "cl_header cl (sh_parent_hash header) = Some (Some p)" "unat (sh_number header) = Suc (unat (sh_number p))"
  using assms unfolding chain_kept_def by blast

lemma visited_all:
  assumes "chain_kept cl" "pending cl sync_from v []" "on_chain cl h"
  shows "visited cl sync_from v h"
  using assms(3)
proof (induction rule: on_chain.induct)
  case (parent h header)
  obtain p where p: "cl_header cl (sh_parent_hash header) = Some (Some p)" "unat (sh_number header) = Suc (unat (sh_number p))"
    using chain_kept_parent [OF assms(1) parent.hyps(2,3)] .
  show ?case
  proof (cases "h \<in> mv_synced v")
    case False
    then have "sh_number header < sync_from" using parent.IH parent.hyps(2) by (auto simp: visited_def)
    then show ?thesis using p by (auto simp: visited_def word_less_nat_alt)
  qed (use assms(2) parent.hyps in \<open>auto simp: pending_def closed_up_to_def\<close>)
qed (use assms(2) in \<open>auto simp: pending_def\<close>)

lemma pending_done:
  assumes "pending cl sync_from v ts" "\<forall>t\<in>set ts. visited cl sync_from v t"
  shows "pending cl sync_from (v\<lparr>mv_tips := ts'\<rparr>) []"
proof -
  have "visited cl sync_from (v\<lparr>mv_tips := ts'\<rparr>) = visited cl sync_from v"
    by (simp add: visited_def fun_eq_iff)
  then show ?thesis using assms unfolding pending_def closed_up_to_def by simp blast
qed

lemma pending_step:
  assumes "chain_kept cl" "pending cl sync_from v (rev rest @ t # rev popped)" "\<forall>p\<in>set popped. visited cl sync_from v p"
    "cl_header cl t = Some (Some header)" "mv_synced v' = insert t (mv_synced v)"
  shows "pending cl sync_from v' (rev rest @ (if sh_number header = 0 then [] else [sh_parent_hash header]))"
    "work cl (rev rest @ (if sh_number header = 0 then [] else [sh_parent_hash header]))
      < work cl (rev rest @ t # rev popped)"
proof -
  let ?ts' = "rev rest @ (if sh_number header = 0 then [] else [sh_parent_hash header])"
  have up: "visited cl sync_from v' h \<or> h \<in> set ?ts'" if "visited cl sync_from v h \<or> h \<in> set (rev rest @ t # rev popped)" for h
    using that assms(3,5) by (auto simp: visited_def)
  have p: "\<exists>p. cl_header cl (sh_parent_hash header) = Some (Some p) \<and> unat (sh_number header) = Suc (unat (sh_number p))"
    if "sh_number header \<noteq> 0"
    using chain_kept_parent [OF assms(1,4) that] by blast
  have "closed_up_to cl sync_from v' ?ts'"
    unfolding closed_up_to_def
  proof (intro ballI allI impI)
    fix h header'
    assume h: "h \<in> mv_synced v'" "cl_header cl h = Some (Some header')" "sh_number header' \<noteq> 0"
    show "visited cl sync_from v' (sh_parent_hash header') \<or> sh_parent_hash header' \<in> set ?ts'"
    proof (cases "h = t")
      case False
      then have "h \<in> mv_synced v" using h(1) assms(5) by simp
      then show ?thesis using assms(2) h(2,3) by (intro up) (simp add: pending_def closed_up_to_def)
    qed (use h assms(4) in auto)
  qed
  moreover have "\<forall>ls. cl_leaves cl = Some ls \<longrightarrow> (\<forall>l\<in>set ls. visited cl sync_from v' l \<or> l \<in> set ?ts')"
    using assms(2) unfolding pending_def by (intro allI impI ballI up) blast
  moreover have "\<forall>t\<in>set ?ts'. \<exists>header. cl_header cl t = Some (Some header)"
    using assms(2) p by (auto simp: pending_def)
  ultimately show "pending cl sync_from v' ?ts'" unfolding pending_def by blast
  show "work cl ?ts' < work cl (rev rest @ t # rev popped)"
    using p assms(4) by (auto simp: depth_def)
qed

context codec_libs
begin

lemma pop_tips_total:
  "represents c db v \<Longrightarrow> \<forall>t\<in>set ts. \<exists>header. cl_header cl t = Some (Some header) \<Longrightarrow>
     \<exists>oh rest. pop_tips c cl db sync_from ts = Ok (oh, rest)"
  by (induction ts) (auto simp: fetch_header_def represents_queries split: option.split)

lemma fetch_header_visited:
  "represents c db v \<Longrightarrow> fetch_header c cl db t sync_from = Ok None \<Longrightarrow> visited cl sync_from v t"
  by (auto simp: fetch_header_def represents_queries visited_def not_le split: if_splits option.splits)

lemma write_tips_view:
  "represents c db v \<Longrightarrow>
     \<exists>db'. write_current_syncing_tips c True ts db = (Ok (), db') \<and> represents c db' (v\<lparr>mv_tips := ts\<rparr>)"
  using represents_writes(3) [of db v ts] by (simp add: write_current_syncing_tips_def)

lemma sync_header:
  assumes "chain_kept cl" "cl_header cl t = Some (Some header)" "block_plan R H header = Ok m" "represents c db v"
  shows "\<exists>db'. (if sh_number header = 0 then sync_genesis_block R H c cache True header
      else sync_block R H c cache cl True header) db = (Ok (), db') \<and> represents c db' (view_register cache t m v)"
proof -
  obtain s where t: "sh_hash header = t" "cl_state_at cl t = Some s"
    using assms(1,2) unfolding chain_kept_def by blast
  then show ?thesis
    using register_view [OF assms(4), of cache t m] assms(2,3) sync_genesis_block_plan [of header R H c cache True]
      sync_block_plan [of header cl s R H c cache True]
    by simp
qed

lemma sync_from_tips_step:
  assumes "chain_kept cl" "indexable R H cl"
    "represents c db v" "pending cl sync_from v ts"
  shows "(\<exists>db' v' ts'. sync_from_tips R H c cache cl (True, True) sync_from ts db = (Ok True, db') \<and>
      represents c db' v' \<and> mv_tips v' = ts' \<and> pending cl sync_from v' ts' \<and> work cl ts' < work cl ts) \<or>
    (\<exists>db' v'. sync_from_tips R H c cache cl (True, True) sync_from ts db = (Ok False, db') \<and>
      represents c db' v' \<and> mv_tips v' = [] \<and> pending cl sync_from v' [])"
proof -
  obtain oh rest where p: "pop_tips c cl db sync_from (rev ts) = Ok (oh, rest)"
    using pop_tips_total [OF assms(3), of "rev ts" cl sync_from] assms(4) by (auto simp: pending_def)
  show ?thesis
  proof (cases oh)
    case None
    then have r: "rest = []" "\<forall>t\<in>set ts. visited cl sync_from v t"
      using pop_tips_NoneD p fetch_header_visited [OF assms(3)] by fastforce+
    obtain db' where "write_current_syncing_tips c True [] db = (Ok (), db')" "represents c db' (v\<lparr>mv_tips := []\<rparr>)"
      using write_tips_view [OF assms(3)] by blast
    moreover have "pending cl sync_from (v\<lparr>mv_tips := []\<rparr>) []"
      by (rule pending_done [OF assms(4) r(2)])
    ultimately have "sync_from_tips R H c cache cl (True, True) sync_from ts db = (Ok False, db')"
        "represents c db' (v\<lparr>mv_tips := []\<rparr>)" "pending cl sync_from (v\<lparr>mv_tips := []\<rparr>) []"
      using p None r(1) by (simp_all add: sync_from_tips_def bind_st_Ok_iff map_err_st_Ok_iff)
    then show ?thesis by (intro disjI2 exI [of _ db'] exI [of _ "v\<lparr>mv_tips := []\<rparr>"]) simp
  next
    case (Some header)
    obtain popped t where pt: "rev ts = popped @ t # rest" "\<forall>p\<in>set popped. fetch_header c cl db p sync_from = Ok None"
        "fetch_header c cl db t sync_from = Ok (Some header)"
      using pop_tips_SomeD p Some by blast
    then have ts: "ts = rev rest @ t # rev popped" by (simp add: rev_swap)
    have hd: "cl_header cl t = Some (Some header)" using fetch_header_SomeD [OF pt(3)] by simp
    obtain m where m: "block_plan R H header = Ok m" using indexable_plan [OF assms(2) hd] .
    let ?ts' = "rev rest @ (if sh_number header = 0 then [] else [sh_parent_hash header])"
    let ?v' = "(view_register cache t m v)\<lparr>mv_tips := ?ts'\<rparr>"
    obtain db1 where db1: "(if sh_number header = 0 then sync_genesis_block R H c cache True header
        else sync_block R H c cache cl True header) db = (Ok (), db1)" "represents c db1 (view_register cache t m v)"
      using sync_header [OF assms(1) hd m assms(3)] by blast
    obtain db' where db': "write_current_syncing_tips c True ?ts' db1 = (Ok (), db')" "represents c db' ?v'"
      using write_tips_view [OF db1(2)] by blast
    have "sync_from_tips R H c cache cl (True, True) sync_from ts db = (Ok True, db')"
      using p Some db1(1) db'(1)
      by (cases "sh_number header = 0") (simp_all add: sync_from_tips_def bind_st_Ok_iff map_err_st_Ok_iff)
    moreover have y: "mv_synced ?v' = insert t (mv_synced v)"
      using m assms(1) hd by (auto simp: view_register_def view_seen_def view_commit_def Let_def chain_kept_def block_plan_Some split: option.split)
    have "\<forall>p\<in>set popped. visited cl sync_from v p" using pt(2) fetch_header_visited [OF assms(3)] by blast
    from pending_step [OF assms(1) assms(4) [unfolded ts] this hd y] have "pending cl sync_from ?v' ?ts'" "work cl ?ts' < work cl ts"
      unfolding ts by blast+
    moreover have "mv_tips ?v' = ?ts'" by simp
    ultimately show ?thesis using db'(2) by blast
  qed
qed

end

text \<open>The store after so many calls whose commits succeed.\<close>

fun store_after ::
    "('c, 'r, 'x, 'p) runtime \<Rightarrow> hasher \<Rightarrow> ('h, 'd, 'k) codecs \<Rightarrow> bool \<Rightarrow> ('h, 'c, 'p) client \<Rightarrow> u32 \<Rightarrow> nat \<Rightarrow> store \<Rightarrow> store" where
  "store_after R H c cache cl sync_from 0 db = db"
| "store_after R H c cache cl sync_from (Suc n) db =
     store_after R H c cache cl sync_from n (snd (sync_one_block R H c cache cl (True, True) sync_from db))"

context codec_libs
begin

lemma sync_one_block_tips:
  assumes "represents c db v" "cl_leaves cl = Some ls"
  shows "sync_one_block R H c cache cl io sync_from db =
    (if mv_tips v = [] \<and> ls = [] then (Ok False, db)
     else sync_from_tips R H c cache cl io sync_from (if mv_tips v = [] then ls else mv_tips v) db)"
  using represents_queries(5) [OF assms(1)] assms(2) by (simp add: sync_one_block_def ret_st_def)

lemma nothing_left:
  assumes "represents c db v" "mv_tips v = []" "cl_leaves cl = Some ls" "pending cl sync_from v []"
  shows "\<exists>db' v'. sync_one_block R H c cache cl (True, True) sync_from db = (Ok False, db') \<and>
    represents c db' v' \<and> mv_tips v' = [] \<and> pending cl sync_from v' []"
proof (cases "ls = []")
  case False
  have "pop_tips c cl db sync_from ts = Ok (None, [])" if "\<forall>t\<in>set ts. visited cl sync_from v t" for ts
    using that assms(1)
    by (induction ts) (auto simp: fetch_header_def represents_queries visited_def not_le)
  then have p: "pop_tips c cl db sync_from (rev ls) = Ok (None, [])"
    using assms(3,4) by (simp add: pending_def)
  obtain db' where "write_current_syncing_tips c True [] db = (Ok (), db')" "represents c db' (v\<lparr>mv_tips := []\<rparr>)"
    using write_tips_view [OF assms(1)] by blast
  moreover have "v\<lparr>mv_tips := []\<rparr> = v" using assms(2) by simp
  ultimately show ?thesis
    using False p assms sync_one_block_tips [OF assms(1,3), of R H cache "(True, True)" sync_from]
    by (intro exI [of _ db'] exI [of _ v]) (simp add: sync_from_tips_def bind_st_Ok_iff map_err_st_Ok_iff)
qed (use assms sync_one_block_tips [OF assms(1,3), of R H cache "(True, True)" sync_from] in auto)

lemma walk_ends:
  assumes "chain_kept cl" "indexable R H cl"
  shows "represents c db v \<Longrightarrow> cl_leaves cl = Some ls \<Longrightarrow> ts = (if mv_tips v = [] then ls else mv_tips v) \<Longrightarrow>
    pending cl sync_from v ts \<Longrightarrow>
    \<exists>n db' v'. n \<le> work cl ts \<and>
      (\<forall>k<n. fst (sync_one_block R H c cache cl (True, True) sync_from (store_after R H c cache cl sync_from k db)) = Ok True) \<and>
      sync_one_block R H c cache cl (True, True) sync_from (store_after R H c cache cl sync_from n db) = (Ok False, db') \<and>
      represents c db' v' \<and> mv_tips v' = [] \<and> pending cl sync_from v' []"
proof (induction "work cl ts" arbitrary: db v ts rule: less_induct)
  case less
  let ?one = "sync_one_block R H c cache cl (True, True) sync_from"
  show ?case
  proof (cases "ts = []")
    case True
    then have "?one db = (Ok False, db)" "mv_tips v = []"
      using sync_one_block_tips [OF less.prems(1,2)] less.prems(3) by (auto split: if_splits)
    then show ?thesis
      using less.prems True by (intro exI [of _ 0] exI [of _ db] exI [of _ v]) simp
  next
    case False
    then have one: "?one db = sync_from_tips R H c cache cl (True, True) sync_from ts db"
      using sync_one_block_tips [OF less.prems(1,2)] less.prems(3) by (auto split: if_splits)
    from sync_from_tips_step [OF assms less.prems(1,4), where cache = cache] show ?thesis
    proof (elim disjE exE conjE)
      fix db1 v1 ts1
      assume st: "sync_from_tips R H c cache cl (True, True) sync_from ts db = (Ok True, db1)" "represents c db1 v1"
        "mv_tips v1 = ts1" "pending cl sync_from v1 ts1" "work cl ts1 < work cl ts"
      have "\<exists>n db' v'. n \<le> work cl ts1 \<and> (\<forall>k<n. fst (?one (store_after R H c cache cl sync_from k db1)) = Ok True) \<and>
          ?one (store_after R H c cache cl sync_from n db1) = (Ok False, db') \<and>
          represents c db' v' \<and> mv_tips v' = [] \<and> pending cl sync_from v' []"
      proof (cases "ts1 = []")
        case True
        then obtain db' v' where "?one db1 = (Ok False, db')" "represents c db' v'" "mv_tips v' = []" "pending cl sync_from v' []"
          using nothing_left [OF st(2) _ less.prems(2), of sync_from R H cache] st(3,4) by blast
        then show ?thesis by (intro exI [of _ 0] exI [of _ db'] exI [of _ v']) simp
      qed (use less.hyps [OF st(5,2) less.prems(2)] st(3,4) in simp)
      then obtain n db' v' where n: "n \<le> work cl ts1" "\<forall>k<n. fst (?one (store_after R H c cache cl sync_from k db1)) = Ok True"
          "?one (store_after R H c cache cl sync_from n db1) = (Ok False, db')"
          "represents c db' v'" "mv_tips v' = []" "pending cl sync_from v' []"
        by blast
      have "\<forall>k<Suc n. fst (?one (store_after R H c cache cl sync_from k db)) = Ok True"
        using n(2) st(1) one by (auto simp: less_Suc_eq_0_disj)
      then show ?thesis
        using n st(1,5) one by (intro exI [of _ "Suc n"] exI [of _ db'] exI [of _ v']) simp
    next
      fix db' v'
      assume "sync_from_tips R H c cache cl (True, True) sync_from ts db = (Ok False, db')" "represents c db' v'"
        "mv_tips v' = []" "pending cl sync_from v' []"
      then show ?thesis
        using one by (intro exI [of _ 0] exI [of _ db'] exI [of _ v']) simp
    qed
  qed
qed

end

text \<open>
  C24. On a client that keeps its chain, with commits that succeed, the walk ends: after at most as
  many calls as there are blocks on the paths from the leaves to the genesis block, each of which
  indexed one block, the next call reports that nothing is left. Then every block from which a leaf
  descends is indexed, down to the number the worker was told to start from, and no tip is left, so
  that the walk can be repeated when the chain has grown.
\<close>

theorem walk_indexes_chain:
  assumes "codec_laws c" "chain_kept cl" "indexable R H cl" "represents c db v" "mv_tips v = []"
    "closed_up_to cl sync_from v []" "cl_leaves cl = Some leaves"
  shows "\<exists>n db' v'. n \<le> (\<Sum>l\<leftarrow>leaves. depth cl l) \<and>
    (\<forall>k<n. fst (sync_one_block R H c cache cl (True, True) sync_from (store_after R H c cache cl sync_from k db)) = Ok True) \<and>
    sync_one_block R H c cache cl (True, True) sync_from (store_after R H c cache cl sync_from n db) = (Ok False, db') \<and>
    (\<forall>h header. on_chain cl h \<longrightarrow> cl_header cl h = Some (Some header) \<longrightarrow> sync_from \<le> sh_number header \<longrightarrow>
      is_synced c h db' = Ok True) \<and>
    represents c db' v' \<and> mv_tips v' = [] \<and> closed_up_to cl sync_from v' []"
proof -
  have l: "codec_libs c" using assms(1) by unfold_locales
  have "\<forall>t\<in>set leaves. \<exists>header. cl_header cl t = Some (Some header)"
    using assms(2,7) unfolding chain_kept_def by auto
  then have "pending cl sync_from v leaves"
    using assms(6,7) unfolding pending_def closed_up_to_def by fastforce
  then obtain n db' v' where n: "n \<le> work cl leaves"
      "\<forall>k<n. fst (sync_one_block R H c cache cl (True, True) sync_from (store_after R H c cache cl sync_from k db)) = Ok True"
      "sync_one_block R H c cache cl (True, True) sync_from (store_after R H c cache cl sync_from n db) = (Ok False, db')"
      "represents c db' v'" "mv_tips v' = []" "pending cl sync_from v' []"
    using codec_libs.walk_ends [OF l assms(2,3,4,7), of leaves sync_from cache] assms(5) by auto
  have "is_synced c h db' = Ok True"
    if "on_chain cl h" "cl_header cl h = Some (Some header)" "sync_from \<le> sh_number header" for h header
    using visited_all [OF assms(2) n(6) that(1)] that(2,3) codec_libs.represents_queries(1) [OF l n(4), of h]
    by (auto simp: visited_def)
  then show ?thesis
    using n unfolding pending_def by blast
qed

subsection \<open>The sample chain\<close>

abbreviation "sample_hasher \<equiv> T_SystemHash runtime_ref"

lemma sample_carries:
  obtains f where "carries runtime_ref sample_hasher (the (sample_head 2)) f []"
    "header_hash ff_ref sample_hasher sample_header = (Ok (be_val f) :: (_, unit) result)" "length f = 32"
proof -
  let ?x = "compute_hash_on_wrappers sample_hasher (header_elements sample_header)"
  have "header_ok sample_header"
    using be_val_zeros [of 32 "[]"] by (simp add: header_ok_def sample_header_def header_new_def)
  then have h: "header_hash (rt_ff runtime_ref) sample_hasher sample_header = (Ok ?x :: (_, unit) result)"
    by (rule sample_chain.libs.header_hash_eq)
  have "?x < felt_prime"
    using sample_chain.hasher by (simp add: hasher_t_def)
  then have "felt_into (rt_ff runtime_ref) ?x = (Ok (be_bytes 32 ?x) :: (_, unit) result)" "be_val (be_bytes 32 ?x) = ?x"
    using sample_chain.libs.stark_felt_roundtrip [of ?x] felt_prime_le by (simp_all add: felt_into_def be_val_be_bytes)
  moreover have "find_starknet_block (rt_dg runtime_ref) (sh_digest (the (sample_head 2))) = Ok (block_new sample_header [])"
    by (simp add: find_starknet_block_def find_log_def find_log_in_def runtime_ref_def digest_ref_def)
  ultimately show thesis
    using h by (intro that [of "be_bytes 32 ?x"]) (auto simp: carries_def block_new_def runtime_ref_def)
qed

lemma sample_config:
  fixes s :: "(nat, Log) pallet"
  assumes "FeeTokenAddress s = felt_default"
  shows "\<exists>config. config_hash runtime_ref s = (Ok config :: (_, unit) result)"
proof -
  have "be_val SN_OS_CONFIG_HASH_VERSION < 256 ^ 17"
    using be_val_bound [of SN_OS_CONFIG_HASH_VERSION] by (simp add: SN_OS_CONFIG_HASH_VERSION_def ascii_def)
  then have v: "ff_from_byte_slice_be (rt_ff runtime_ref) SN_OS_CONFIG_HASH_VERSION = Ok (be_val SN_OS_CONFIG_HASH_VERSION)"
    using ff_ref_laws by (simp add: ff_laws_def runtime_ref_def felt_prime_def SN_OS_CONFIG_HASH_VERSION_def ascii_def)
  have "felt_from_stark_felt (rt_ff runtime_ref) felt_default = Ok 0"
    using sample_chain.libs.felt_from_stark_felt_eq [of felt_default] be_val_zeros [of 32 "[]"]
    by (simp add: felt_default_def)
  moreover have "compute_hash_on_elements sample_hasher xs < felt_prime" for xs
    using sample_chain.hasher by (simp add: hasher_t_def)
  ultimately show ?thesis
    using v assms by (simp add: config_hash_def felt_into_def sample_chain.libs.stark_felt_roundtrip(1))
qed

lemma sample_client_kept: "chain_kept sample_client" "indexable runtime_ref sample_hasher sample_client"
proof -
  show "chain_kept sample_client"
    unfolding chain_kept_def by (auto simp: sample_head_def split: if_splits)
  show "indexable runtime_ref sample_hasher sample_client"
    unfolding indexable_def
  proof (intro allI impI)
    fix h header
    assume "cl_header sample_client h = Some (Some header)"
    then have "sample_head h = Some header" by simp
    then consider "header = the (sample_head 1)" | "header = the (sample_head 2)"
      using sample_head_cases by fastforce
    then show "find_starknet_block (rt_dg runtime_ref) (sh_digest header) = Err NotLog \<or>
        (\<exists>f ts. carries runtime_ref sample_hasher header f ts)"
    proof cases
      case 2
      obtain f where "carries runtime_ref sample_hasher (the (sample_head 2)) f []" by (rule sample_carries)
      then show ?thesis using 2 by blast
    qed (simp add: find_starknet_block_def find_log_def find_log_in_def)
  qed
qed

theorem walk_indexes_chain_witness:
  "\<exists>n db'. n \<le> 2 \<and>
    sync_one_block runtime_ref sample_hasher codec_ref True sample_client (True, True) 0
      (store_after runtime_ref sample_hasher codec_ref True sample_client 0 n Map.empty) = (Ok False, db') \<and>
    is_synced codec_ref 1 db' = Ok True \<and> is_synced codec_ref 2 db' = Ok True"
proof -
  have on: "on_chain sample_client 2" by (rule on_chain.leaf [of _ "[2]"]) simp_all
  then have "on_chain sample_client 1"
    using on_chain.parent [OF on, of "the (sample_head 2)"] by simp
  moreover have e: "represents codec_ref Map.empty view_empty" "mv_tips view_empty = []"
      "closed_up_to sample_client 0 view_empty []"
    by (simp_all add: represents_def view_empty_def closed_up_to_def)
  moreover obtain n db' where n: "n \<le> (\<Sum>l\<leftarrow>[2]. depth sample_client l)"
      "sync_one_block runtime_ref sample_hasher codec_ref True sample_client (True, True) 0
        (store_after runtime_ref sample_hasher codec_ref True sample_client 0 n Map.empty) = (Ok False, db')"
      "\<forall>h header. on_chain sample_client h \<longrightarrow> cl_header sample_client h = Some (Some header) \<longrightarrow> 0 \<le> sh_number header \<longrightarrow>
        is_synced codec_ref h db' = Ok True"
    using walk_indexes_chain [OF codec_ref_laws sample_client_kept e sample_client_simps(4), of True] by blast
  ultimately have "is_synced codec_ref 1 db' = Ok True" "is_synced codec_ref 2 db' = Ok True"
    using on by simp_all
  then show ?thesis using n(1,2) by (intro exI [of _ n] exI [of _ db']) (simp add: depth_def)
qed

text \<open>The store after the child of the sample chain was indexed, and then the genesis block.\<close>

theorem index_agrees_with_chain_witness:
  "\<exists>f w db. carries runtime_ref sample_hasher (the (sample_head 2)) f [] \<and>
    indexing runtime_ref sample_hasher codec_ref True sample_head (w, db) \<and>
    (\<exists>hs. mapping_block_hash codec_ref f db = Ok (Some hs) \<and> 2 \<in> set hs)"
proof -
  let ?H = sample_hasher
  let ?poll = "poll_next runtime_ref ?H codec_ref True sample_client (\<lambda>_. (True, True)) 0 False False
    (worker_new 1 0, Map.empty)"
  obtain f where f: "carries runtime_ref ?H (the (sample_head 2)) f []" by (rule sample_carries)
  let ?m = "\<lparr>mc_block_hash = 2, mc_starknet_block_hash = f, mc_starknet_transaction_hashes = []\<rparr> :: byte MappingCommitment"
  have plan: "block_plan runtime_ref ?H (the (sample_head 2)) = Ok (Some ?m)"
    using f by (simp add: block_plan_Some)
  have e: "represents codec_ref Map.empty view_empty" by (simp add: represents_def view_empty_def)
  obtain db1 where db1: "sync_block runtime_ref ?H codec_ref True sample_client True (the (sample_head 2)) Map.empty = (Ok (), db1)"
      "represents codec_ref db1 (view_register True 2 (Some ?m) view_empty)"
    using sample_db.sync_header [OF sample_client_kept(1) _ plan e, of 2 True] by auto
  obtain db where db: "write_current_syncing_tips codec_ref True [1] db1 = (Ok (), db)"
      "represents codec_ref db ((view_register True 2 (Some ?m) view_empty)\<lparr>mv_tips := [1]\<rparr>)"
    using sample_db.write_tips_view [OF db1(2)] by blast
  have "sync_one_block runtime_ref ?H codec_ref True sample_client (True, True) 0 Map.empty = (Ok True, db)"
    using db1(1) db(1) by (simp add: sample_db.sync_one_block_tips [OF e] sync_from_tips_def bind_st_Ok_iff
        map_err_st_Ok_iff fetch_header_def is_synced_def view_empty_def)
  then obtain w where p: "?poll = (Ok PollReady, w, db)"
    by (simp add: poll_next_def worker_new_def numeral_eq_Suc bind_st_def ret_st_def)
  have "client_of sample_head sample_client" by (auto simp: client_of_def sample_head_def split: if_splits)
  then have i: "indexing runtime_ref ?H codec_ref True sample_head (w, db)"
    using indexing.polled [OF indexing.fresh _ p] by blast
  have "is_synced codec_ref 2 db = Ok True"
    using sample_db.represents_queries(1) [OF db(2), of 2] by (simp add: view_register_def view_commit_def Let_def)
  then have "\<exists>header. sample_head 2 = Some header \<and> (\<forall>f ts. carries runtime_ref ?H header f ts \<longrightarrow>
      (\<exists>hs. mapping_block_hash codec_ref f db = Ok (Some hs) \<and> 2 \<in> set hs) \<and>
      (\<forall>t\<in>set ts. \<exists>h'. block_hash_from_transaction_hash codec_ref t db = Ok (Some h')))"
    using index_agrees_with_chain [OF codec_ref_laws i, of f "[]" "[]" 2 "[]"] by blast
  then show ?thesis using f i by (intro exI [of _ f] exI [of _ w] exI [of _ db]) auto
qed

section \<open>Two consequences of the order of the steps\<close>

text \<open>
  However high the limit, a call of \<open>sync_blocks\<close> indexes one block: once a block is indexed the
  remaining iterations do nothing.
\<close>

lemma sync_blocks_once:
  assumes "sync_one_block R H c cache cl (io n) sync_from db = (Ok True, db')"
  shows "sync_blocks R H c cache cl io (Suc n) sync_from False db = (Ok True, db')"
proof -
  have "sync_blocks R H c cache cl io n sync_from True s = (Ok True, s)" for s
    by (induction n) (simp_all add: ret_st_def)
  then show ?thesis using assms by (simp add: bind_st_def)
qed

text \<open>
  A block is registered in one commit and its parent becomes a tip in the next. When the second
  commit fails, the block counts as synced and its parent is never visited: on the sample chain the
  worker then reports that nothing is left although the genesis block is not indexed.
\<close>

lemma failed_tips_commit_loses_ancestor:
  "\<exists>e db db'. sync_one_block runtime_ref sample_hasher codec_ref True sample_client (True, False) 0 Map.empty = (Err e, db) \<and>
     sync_one_block runtime_ref sample_hasher codec_ref True sample_client (True, True) 0 db = (Ok False, db') \<and>
     is_synced codec_ref 1 db' = Ok False"
proof -
  let ?v = "\<lambda>m. view_register True 2 m view_empty"
  have e: "represents codec_ref Map.empty view_empty" by (simp add: represents_def view_empty_def)
  obtain m where m: "block_plan runtime_ref sample_hasher (the (sample_head 2)) = Ok m"
    using indexable_plan [OF sample_client_kept(2), of 2 "the (sample_head 2)"] by auto
  obtain db where db: "sync_block runtime_ref sample_hasher codec_ref True sample_client True (the (sample_head 2)) Map.empty = (Ok (), db)"
      "represents codec_ref db (?v m)"
    using sample_db.sync_header [OF sample_client_kept(1) _ m e, of 2 True] by auto
  have 1: "sync_one_block runtime_ref sample_hasher codec_ref True sample_client (True, False) 0 Map.empty =
      (Err (SE_Db CommitError), db)"
    using db(1) by (simp add: sample_db.sync_one_block_tips [OF e] sync_from_tips_def bind_st_def ret_st_def
        fetch_header_def is_synced_def view_empty_def write_current_syncing_tips_def map_err_st_def get_st_def)
  have v: "mv_synced (?v m) = {2}" "mv_tips (?v m) = []"
    using m by (auto simp: view_register_def view_seen_def view_commit_def view_empty_def Let_def block_plan_Some split: option.split)
  obtain db' where db': "write_current_syncing_tips codec_ref True [] db = (Ok (), db')"
      "represents codec_ref db' ((?v m)\<lparr>mv_tips := []\<rparr>)"
    using sample_db.write_tips_view [OF db(2)] by blast
  have "is_synced codec_ref 2 db = Ok True" using sample_db.represents_queries(1) [OF db(2), of 2] v by simp
  then have "sync_one_block runtime_ref sample_hasher codec_ref True sample_client (True, True) 0 db = (Ok False, db')"
    using db'(1) v by (simp add: sample_db.sync_one_block_tips [OF db(2)] sync_from_tips_def bind_st_Ok_iff
        map_err_st_Ok_iff fetch_header_def)
  moreover have "is_synced codec_ref 1 db' = Ok False"
    using sample_db.represents_queries(1) [OF db'(2), of 1] v by simp
  ultimately show ?thesis using 1 by blast
qed

end
