(* ===== verification/Snos_Output.thy ===== *)
theory Snos_Output
  imports Messages
begin

text \<open>
  The Starknet OS output codec, \<^verbatim>\<open>crates/primitives/snos-output\<close>: the cursor
  \<open>FeltReader\<close> (\<^verbatim>\<open>felt_reader.rs\<close>), the trait \<open>SnosCodec\<close> with its implementations
  (\<^verbatim>\<open>codec.rs\<close>) and \<open>StarknetOsOutput\<close> (\<^verbatim>\<open>lib.rs\<close>). The trait is the locale
  \<open>snos_codec\<close>; every \<open>impl\<close> of the source is an instance of it, and the instance for
  \<open>Vec<T>\<close> is derived from the one for \<open>T\<close>.
\<close>

section \<open>The cursor\<close>

datatype FeltReaderError = OutOfBounds | InvalidCast

record FeltReader =
  fr_data :: "stark_felt list"
  fr_offset :: nat

definition reader_new :: "stark_felt list \<Rightarrow> FeltReader" where
  "reader_new d = \<lparr>fr_data = d, fr_offset = 0\<rparr>"

definition remaining_len :: "FeltReader \<Rightarrow> nat" where
  "remaining_len r = length (fr_data r) - fr_offset r"

definition reader_read :: "FeltReader \<Rightarrow> (stark_felt \<times> FeltReader, FeltReaderError) result" where
  "reader_read r =
     (if fr_offset r \<ge> length (fr_data r) then Err OutOfBounds
      else Ok (fr_data r ! fr_offset r, r\<lparr>fr_offset := fr_offset r + 1\<rparr>))"

text \<open>
  \<open>usize\<close> has 64 bits. Where \<open>start + segment_size\<close> overflows, a checked build panics at
  the addition; an unchecked one wraps to an end below \<open>start\<close>, passes the comparison, and
  panics at the slice \<open>data[start..end]\<close>. Both are \<open>Panic\<close>.
\<close>

definition read_segment ::
    "sf_api \<Rightarrow> FeltReader \<Rightarrow> (stark_felt list \<times> FeltReader, FeltReaderError) result" where
  "read_segment sf r =
     and_then (reader_read r) (\<lambda>(f, r).
       and_then (ok_or InvalidCast (sf_try_u64 sf f)) (\<lambda>w.
         (let segment_size = unat w; start = fr_offset r
          in if start + segment_size \<ge> 2 ^ 64 then Panic
             else if start + segment_size > length (fr_data r) then Err OutOfBounds
             else Ok (take segment_size (drop start (fr_data r)),
                      r\<lparr>fr_offset := fr_offset r + segment_size\<rparr>))))"

section \<open>The implementations of \<open>SnosCodec\<close>\<close>

type_synonym 'a encoder = "'a \<Rightarrow> stark_felt list \<Rightarrow> stark_felt list"
type_synonym 'a decoder = "FeltReader \<Rightarrow> ('a \<times> FeltReader, FeltReaderError) result"

definition felt_size_in_felts :: "stark_felt \<Rightarrow> nat" where
  "felt_size_in_felts f = 1"

definition felt_encode_to :: "stark_felt encoder" where
  "felt_encode_to f output = output @ [f]"

definition felt_decode :: "stark_felt decoder" where
  "felt_decode input = reader_read input"

definition contract_address_size_in_felts :: "contract_address \<Rightarrow> nat" where
  "contract_address_size_in_felts a = 1"

definition contract_address_encode_to :: "contract_address encoder" where
  "contract_address_encode_to a output = output @ [a]"

definition contract_address_decode :: "contract_address decoder" where
  "contract_address_decode input = and_then (felt_decode input) (\<lambda>(f, input). Ok (f, input))"

definition eth_address_size_in_felts :: "eth_address \<Rightarrow> nat" where
  "eth_address_size_in_felts a = 1"

definition eth_address_encode_to :: "eth_address encoder" where
  "eth_address_encode_to a output = output @ [eth_address_to_felt a]"

definition eth_address_decode :: "sf_api \<Rightarrow> eth_address decoder" where
  "eth_address_decode sf input =
     and_then (felt_decode input) (\<lambda>(f, input).
       and_then (ok_or InvalidCast (eth_address_try_from sf f)) (\<lambda>a. Ok (a, input)))"

definition nonce_size_in_felts :: "nonce \<Rightarrow> nat" where
  "nonce_size_in_felts n = 1"

definition nonce_encode_to :: "nonce encoder" where
  "nonce_encode_to n output = output @ [n]"

definition nonce_decode :: "nonce decoder" where
  "nonce_decode input = and_then (felt_decode input) (\<lambda>(f, input). Ok (f, input))"

text \<open>
  \<open>Vec<T>\<close>: a placeholder is pushed, the elements are appended, the placeholder is replaced by
  the number of felts they took.
\<close>

definition vec_size_in_felts :: "'a list \<Rightarrow> nat" where
  "vec_size_in_felts v = 1 + length v"

definition vec_encode_to :: "sf_api \<Rightarrow> 'a encoder \<Rightarrow> 'a list encoder" where
  "vec_encode_to sf elt_encode_to self output =
     (let output = output @ [sf_from_u8 sf 0];
          output_len_before = length output;
          output = fold elt_encode_to self output;
          added_data = length output - output_len_before
      in output[output_len_before - 1 := sf_from_u64 sf (word_of_nat added_data)])"

text \<open>
  The decoding loop runs while felts remain in the segment. Its first argument bounds the number
  of iterations: \<open>vec_decode\<close> gives it one more than the felts of the segment, and every
  element decoder of the trait consumes at least one felt, so the bound is never reached
  (\<open>vec_loop_fuel\<close> below: a larger bound gives the same result).
\<close>

fun vec_decode_loop ::
    "nat \<Rightarrow> 'a decoder \<Rightarrow> FeltReader \<Rightarrow> 'a list \<Rightarrow> ('a list, FeltReaderError) result" where
  "vec_decode_loop 0 elt_decode segment_reader elements = Panic"
| "vec_decode_loop (Suc n) elt_decode segment_reader elements =
     (if remaining_len segment_reader > 0 then
        and_then (elt_decode segment_reader) (\<lambda>(e, segment_reader).
          vec_decode_loop n elt_decode segment_reader (elements @ [e]))
      else Ok elements)"

definition vec_decode :: "sf_api \<Rightarrow> 'a decoder \<Rightarrow> 'a list decoder" where
  "vec_decode sf elt_decode input =
     and_then (read_segment sf input) (\<lambda>(seg, input).
       (let segment_reader = reader_new seg
        in and_then (vec_decode_loop (Suc (remaining_len segment_reader)) elt_decode segment_reader [])
             (\<lambda>elements. Ok (elements, input))))"

definition message_l2l1_size_in_felts :: "MessageL2ToL1 \<Rightarrow> nat" where
  "message_l2l1_size_in_felts m =
     contract_address_size_in_felts (l2l1_from_address m)
     + eth_address_size_in_felts (l2l1_to_address m) + vec_size_in_felts (l2l1_payload m)"

definition message_l2l1_encode_to :: "sf_api \<Rightarrow> MessageL2ToL1 encoder" where
  "message_l2l1_encode_to sf m output =
     (let output = contract_address_encode_to (l2l1_from_address m) output;
          output = eth_address_encode_to (l2l1_to_address m) output
      in vec_encode_to sf felt_encode_to (l2l1_payload m) output)"

definition message_l2l1_decode :: "sf_api \<Rightarrow> MessageL2ToL1 decoder" where
  "message_l2l1_decode sf input =
     and_then (contract_address_decode input) (\<lambda>(from, input).
     and_then (eth_address_decode sf input) (\<lambda>(to, input).
     and_then (vec_decode sf felt_decode input) (\<lambda>(payload, input).
       Ok (\<lparr>l2l1_from_address = from, l2l1_to_address = to, l2l1_payload = payload\<rparr>, input))))"

definition message_l1l2_size_in_felts :: "MessageL1ToL2 \<Rightarrow> nat" where
  "message_l1l2_size_in_felts m =
     contract_address_size_in_felts (l1l2_from_address m)
     + contract_address_size_in_felts (l1l2_to_address m)
     + nonce_size_in_felts (l1l2_nonce m)
     + felt_size_in_felts (l1l2_selector m) + vec_size_in_felts (l1l2_payload m)"

definition message_l1l2_encode_to :: "sf_api \<Rightarrow> MessageL1ToL2 encoder" where
  "message_l1l2_encode_to sf m output =
     (let output = contract_address_encode_to (l1l2_from_address m) output;
          output = contract_address_encode_to (l1l2_to_address m) output;
          output = nonce_encode_to (l1l2_nonce m) output;
          output = felt_encode_to (l1l2_selector m) output
      in vec_encode_to sf felt_encode_to (l1l2_payload m) output)"

definition message_l1l2_decode :: "sf_api \<Rightarrow> MessageL1ToL2 decoder" where
  "message_l1l2_decode sf input =
     and_then (contract_address_decode input) (\<lambda>(from, input).
     and_then (contract_address_decode input) (\<lambda>(to, input).
     and_then (nonce_decode input) (\<lambda>(n, input).
     and_then (felt_decode input) (\<lambda>(sel, input).
     and_then (vec_decode sf felt_decode input) (\<lambda>(payload, input).
       Ok (\<lparr>l1l2_from_address = from, l1l2_to_address = to, l1l2_nonce = n, l1l2_selector = sel,
            l1l2_payload = payload\<rparr>, input))))))"

record StarknetOsOutput =
  prev_state_root :: stark_felt
  new_state_root :: stark_felt
  os_block_number :: stark_felt
  os_block_hash :: stark_felt
  os_config_hash :: stark_felt
  messages_to_l1 :: "MessageL2ToL1 list"
  messages_to_l2 :: "MessageL1ToL2 list"

definition os_output_size_in_felts :: "StarknetOsOutput \<Rightarrow> nat" where
  "os_output_size_in_felts s =
     felt_size_in_felts (prev_state_root s) + felt_size_in_felts (new_state_root s)
     + felt_size_in_felts (os_block_number s) + felt_size_in_felts (os_block_hash s)
     + felt_size_in_felts (os_config_hash s)
     + vec_size_in_felts (messages_to_l1 s) + vec_size_in_felts (messages_to_l2 s)"

definition os_output_encode_to :: "sf_api \<Rightarrow> StarknetOsOutput encoder" where
  "os_output_encode_to sf s output =
     (let output = felt_encode_to (prev_state_root s) output;
          output = felt_encode_to (new_state_root s) output;
          output = felt_encode_to (os_block_number s) output;
          output = felt_encode_to (os_block_hash s) output;
          output = felt_encode_to (os_config_hash s) output;
          output = vec_encode_to sf (message_l2l1_encode_to sf) (messages_to_l1 s) output
      in vec_encode_to sf (message_l1l2_encode_to sf) (messages_to_l2 s) output)"

definition os_output_decode :: "sf_api \<Rightarrow> StarknetOsOutput decoder" where
  "os_output_decode sf input =
     and_then (felt_decode input) (\<lambda>(prev, input).
     and_then (felt_decode input) (\<lambda>(new, input).
     and_then (felt_decode input) (\<lambda>(bn, input).
     and_then (felt_decode input) (\<lambda>(bh, input).
     and_then (felt_decode input) (\<lambda>(ch, input).
     and_then (vec_decode sf (message_l2l1_decode sf) input) (\<lambda>(to_l1, input).
     and_then (vec_decode sf (message_l1l2_decode sf) input) (\<lambda>(to_l2, input).
       Ok (\<lparr>prev_state_root = prev, new_state_root = new, os_block_number = bn, os_block_hash = bh,
            os_config_hash = ch, messages_to_l1 = to_l1, messages_to_l2 = to_l2\<rparr>, input))))))))"

definition into_encoded_vec :: "'a encoder \<Rightarrow> 'a \<Rightarrow> stark_felt list" where
  "into_encoded_vec enc_to self = enc_to self []"

section \<open>The contract of the trait\<close>

text \<open>
  \<open>enc x\<close> is the sequence of felts that stands for \<open>x\<close>, \<open>wf x\<close> says that \<open>x\<close> is
  a value of the Rust type (32-byte felts, 20-byte addresses, vectors whose encoding has a
  64-bit length). Encoding appends \<open>enc x\<close>; decoding at a cursor that stands before
  \<open>enc x\<close> returns \<open>x\<close> and moves the cursor behind it; conversely, whatever decoding accepts
  is an encoding, so it has consumed at least one felt and stayed within the data.
\<close>

definition felts_ok :: "stark_felt list \<Rightarrow> bool" where
  "felts_ok d \<longleftrightarrow> (\<forall>f \<in> set d. length f = 32)"

definition reader_ok :: "FeltReader \<Rightarrow> bool" where
  "reader_ok r \<longleftrightarrow> felts_ok (fr_data r) \<and> fr_offset r \<le> length (fr_data r)"

abbreviation reader_at :: "stark_felt list \<Rightarrow> stark_felt list \<Rightarrow> stark_felt list \<Rightarrow> FeltReader" where
  "reader_at pre mid post \<equiv> \<lparr>fr_data = pre @ mid @ post, fr_offset = length pre\<rparr>"

abbreviation reader_behind :: "stark_felt list \<Rightarrow> stark_felt list \<Rightarrow> stark_felt list \<Rightarrow> FeltReader" where
  "reader_behind pre mid post \<equiv> \<lparr>fr_data = pre @ mid @ post, fr_offset = length pre + length mid\<rparr>"

text \<open>\<open>consumed r xs r'\<close>: moving the cursor from \<open>r\<close> to \<open>r'\<close> passes over \<open>xs\<close>.\<close>

definition consumed :: "FeltReader \<Rightarrow> stark_felt list \<Rightarrow> FeltReader \<Rightarrow> bool" where
  "consumed r xs r' \<longleftrightarrow>
     r' = \<lparr>fr_data = fr_data r, fr_offset = fr_offset r + length xs\<rparr> \<and> reader_ok r' \<and>
     drop (fr_offset r) (fr_data r) = xs @ drop (fr_offset r') (fr_data r)"

locale snos_codec = stark_felt_libs sf for sf :: sf_api +
  fixes size_in_felts :: "'a \<Rightarrow> nat"
    and encode_to :: "'a encoder"
    and decode :: "'a decoder"
    and enc :: "'a \<Rightarrow> stark_felt list"
    and wf :: "'a \<Rightarrow> bool"
  assumes encode_to_eq: "encode_to x out = out @ enc x"
    and size_le: "size_in_felts x \<le> length (enc x)"
    and enc_nonempty: "enc x \<noteq> []"
    and enc_felts: "wf x \<Longrightarrow> felts_ok (enc x)"
    and decode_enc: "wf x \<Longrightarrow> length (pre @ enc x @ post) < 2 ^ 64 \<Longrightarrow>
       decode (reader_at pre (enc x) post) = Ok (x, reader_behind pre (enc x) post)"
    and decode_sound: "reader_ok r \<Longrightarrow> decode r = Ok (x, r') \<Longrightarrow> wf x \<and> consumed r (enc x) r'"
begin

lemma into_encoded_vec_eq: "into_encoded_vec encode_to x = enc x"
  by (simp add: into_encoded_vec_def encode_to_eq)

lemma decode_at:
  assumes "wf x" "length d < 2 ^ 64" "take (length (enc x)) (drop n d) = enc x"
  shows "decode \<lparr>fr_data = d, fr_offset = n\<rparr> = Ok (x, \<lparr>fr_data = d, fr_offset = n + length (enc x)\<rparr>)"
proof -
  let ?post = "drop (length (enc x)) (drop n d)"
  have "drop n d \<noteq> []"
    using assms(3) enc_nonempty [of x] by auto
  moreover have "drop n d = enc x @ ?post"
    using append_take_drop_id [of "length (enc x)" "drop n d"] assms(3) by simp
  ultimately have "d = take n d @ enc x @ ?post" "n = length (take n d)"
    using append_take_drop_id [of n d] by auto
  then show ?thesis
    using decode_enc [OF assms(1), of "take n d" ?post] assms(2) by metis
qed

lemma decode_new_enc:
  "wf x \<Longrightarrow> length (enc x) < 2 ^ 64 \<Longrightarrow>
     decode (reader_new (into_encoded_vec encode_to x)) =
       Ok (x, \<lparr>fr_data = enc x, fr_offset = length (enc x)\<rparr>)"
  using decode_enc [of x "[]" "[]"] by (simp add: into_encoded_vec_eq reader_new_def)

lemma decode_new_sound:
  assumes "felts_ok d" "decode (reader_new d) = Ok (x, r')"
  shows "wf x \<and> d = into_encoded_vec encode_to x @ drop (fr_offset r') d"
  using decode_sound [OF _ assms(2)] assms(1)
  by (auto simp: reader_ok_def reader_new_def consumed_def into_encoded_vec_eq)

end

lemma felts_ok_simps [simp]:
  "felts_ok []" "felts_ok (f # d) \<longleftrightarrow> length f = 32 \<and> felts_ok d"
  "felts_ok (d @ e) \<longleftrightarrow> felts_ok d \<and> felts_ok e"
  by (auto simp: felts_ok_def)

lemma felts_ok_take_drop: "felts_ok d \<Longrightarrow> felts_ok (take n (drop m d))" "felts_ok d \<Longrightarrow> felts_ok (drop m d)"
  by (auto simp: felts_ok_def dest: in_set_takeD in_set_dropD)

lemma consumed_trans:
  assumes "consumed r xs r'" "consumed r' ys r''"
  shows "consumed r (xs @ ys) r''"
  using assms by (auto simp: consumed_def)

lemma consumed_reader_ok: "consumed r xs r' \<Longrightarrow> reader_ok r'"
  unfolding consumed_def by blast

lemma reader_read_at [simp]:
  "reader_read \<lparr>fr_data = pre @ f # post, fr_offset = length pre\<rparr> =
     Ok (f, \<lparr>fr_data = pre @ f # post, fr_offset = Suc (length pre)\<rparr>)"
  by (simp add: reader_read_def)

lemma reader_read_sound:
  assumes "reader_ok r" "reader_read r = Ok (f, r')"
  shows "length f = 32 \<and> consumed r [f] r'"
proof -
  from assms(2) have lt: "fr_offset r < length (fr_data r)"
    and f: "f = fr_data r ! fr_offset r" and r': "r' = r\<lparr>fr_offset := fr_offset r + 1\<rparr>"
    by (auto simp: reader_read_def split: if_splits)
  have "drop (fr_offset r) (fr_data r) = f # drop (Suc (fr_offset r)) (fr_data r)"
    using lt f by (simp add: Cons_nth_drop_Suc)
  then show ?thesis
    using assms(1) lt f r' by (auto simp: consumed_def reader_ok_def felts_ok_def)
qed

lemma read_segment_at:
  assumes "stark_felt_libs sf" "length seg < 2 ^ 64"
    and "length (pre @ (sf_from_u64 sf (word_of_nat (length seg)) # seg) @ post) < 2 ^ 64"
  shows "read_segment sf (reader_at pre (sf_from_u64 sf (word_of_nat (length seg)) # seg) post) =
     Ok (seg, reader_behind pre (sf_from_u64 sf (word_of_nat (length seg)) # seg) post)"
  using assms(2,3) stark_felt_libs.try_from_u64 [OF assms(1)]
  by (simp add: read_segment_def unat_of_nat Let_def)

lemma read_segment_sound:
  assumes "stark_felt_libs sf" "reader_ok r" "read_segment sf r = Ok (seg, r')"
  shows "length seg < 2 ^ 64 \<and> felts_ok seg \<and>
     consumed r (sf_from_u64 sf (word_of_nat (length seg)) # seg) r'"
proof -
  from assms(3) obtain f r1 w where rd: "reader_read r = Ok (f, r1)"
    and w: "sf_try_u64 sf f = Some w"
    and le: "fr_offset r1 + unat w \<le> length (fr_data r1)"
    and seg: "seg = take (unat w) (drop (fr_offset r1) (fr_data r1))"
    and r': "r' = r1\<lparr>fr_offset := fr_offset r1 + unat w\<rparr>"
    by (auto simp: read_segment_def Let_def split: if_splits)
  from reader_read_sound [OF assms(2) rd] have f: "length f = 32" and c1: "consumed r [f] r1" by auto
  have feq: "f = sf_from_u64 sf w"
    using stark_felt_libs.try_u64_Some [OF assms(1) f w] .
  have len: "length seg = unat w" using seg le by simp
  have "drop (fr_offset r1) (fr_data r1) = seg @ drop (fr_offset r1 + unat w) (fr_data r1)"
    using append_take_drop_id [of "unat w" "drop (fr_offset r1) (fr_data r1)"]
    by (simp add: seg add.commute)
  then have c2: "consumed r1 seg r'"
    using consumed_reader_ok [OF c1] r' len le by (simp add: consumed_def reader_ok_def)
  have "length seg < 2 ^ 64" using len unat_lt [of w] by simp
  moreover have "felts_ok seg"
    using consumed_reader_ok [OF c1] seg by (simp add: reader_ok_def felts_ok_take_drop)
  moreover have "consumed r (sf_from_u64 sf (word_of_nat (length seg)) # seg) r'"
    using consumed_trans [OF c1 c2] feq len by simp
  ultimately show ?thesis by blast
qed

section \<open>The scalar instances\<close>

text \<open>A felt, a contract address and a nonce are one felt; an Ethereum address is padded to one.\<close>

sublocale stark_felt_libs \<subseteq> felt: snos_codec sf felt_size_in_felts felt_encode_to felt_decode
    "\<lambda>f. [f]" "\<lambda>f. length f = 32"
  by unfold_locales
    (auto simp: felt_size_in_felts_def felt_encode_to_def felt_decode_def dest: reader_read_sound)

sublocale stark_felt_libs \<subseteq> address: snos_codec sf contract_address_size_in_felts
    contract_address_encode_to contract_address_decode "\<lambda>f. [f]" "\<lambda>f. length f = 32"
  by unfold_locales
    (auto simp: contract_address_size_in_felts_def contract_address_encode_to_def
      contract_address_decode_def felt_decode_def dest: reader_read_sound)

sublocale stark_felt_libs \<subseteq> nonce: snos_codec sf nonce_size_in_felts nonce_encode_to nonce_decode
    "\<lambda>f. [f]" "\<lambda>f. length f = 32"
  by unfold_locales
    (auto simp: nonce_size_in_felts_def nonce_encode_to_def nonce_decode_def felt_decode_def
      dest: reader_read_sound)

lemma eth_address_felt:
  assumes "stark_felt_libs sf"
  shows "length a = 20 \<Longrightarrow> eth_address_try_from sf (eth_address_to_felt a) = Some a"
    and "length f = 32 \<Longrightarrow> eth_address_try_from sf f = Some a \<Longrightarrow> length a = 20 \<and> f = eth_address_to_felt a"
proof -
  show "length a = 20 \<Longrightarrow> eth_address_try_from sf (eth_address_to_felt a) = Some a"
    by (simp add: stark_felt_libs.eth_try_from [OF assms] eth_address_to_felt_def)
  assume "length f = 32" "eth_address_try_from sf f = Some a"
  then have "take 12 f = replicate 12 0" "a = drop 12 f" "length a = 20"
    by (auto simp: stark_felt_libs.eth_try_from [OF assms] split: if_splits)
  then show "length a = 20 \<and> f = eth_address_to_felt a"
    using append_take_drop_id [of 12 f] by (simp add: eth_address_to_felt_def)
qed

sublocale stark_felt_libs \<subseteq> eth: snos_codec sf eth_address_size_in_felts eth_address_encode_to
    "eth_address_decode sf" "\<lambda>a. [eth_address_to_felt a]" "\<lambda>a. length a = 20"
proof unfold_locales
  note this_libs = stark_felt_libs_axioms
  show "length a = 20 \<Longrightarrow> felts_ok [eth_address_to_felt a]" for a
    by (simp add: eth_address_to_felt_def)
  show "length a = 20 \<Longrightarrow> length (pre @ [eth_address_to_felt a] @ post) < 2 ^ 64 \<Longrightarrow>
      eth_address_decode sf (reader_at pre [eth_address_to_felt a] post) =
        Ok (a, reader_behind pre [eth_address_to_felt a] post)" for a pre post
    by (simp add: eth_address_decode_def felt_decode_def eth_address_felt(1) [OF this_libs])
  show "reader_ok r \<Longrightarrow> eth_address_decode sf r = Ok (a, r') \<Longrightarrow>
      length a = 20 \<and> consumed r [eth_address_to_felt a] r'" for r r' a
    by (auto simp: eth_address_decode_def felt_decode_def
        dest!: reader_read_sound dest: eth_address_felt(2) [OF this_libs])
qed (simp_all add: eth_address_encode_to_def eth_address_size_in_felts_def)

section \<open>Vectors\<close>

definition vec_enc :: "sf_api \<Rightarrow> ('a \<Rightarrow> stark_felt list) \<Rightarrow> 'a list \<Rightarrow> stark_felt list" where
  "vec_enc sf enc v =
     sf_from_u64 sf (word_of_nat (length (concat (map enc v)))) # concat (map enc v)"

definition vec_wf :: "('a \<Rightarrow> stark_felt list) \<Rightarrow> ('a \<Rightarrow> bool) \<Rightarrow> 'a list \<Rightarrow> bool" where
  "vec_wf enc ok v \<longleftrightarrow> (\<forall>x \<in> set v. ok x) \<and> length (concat (map enc v)) < 2 ^ 64"

context snos_codec
begin

lemma fold_encode_to: "fold encode_to v out = out @ concat (map enc v)"
  by (induction v arbitrary: out) (auto simp: encode_to_eq)

lemma vec_encode_to_eq: "vec_encode_to sf encode_to v out = out @ vec_enc sf enc v"
  by (simp add: vec_encode_to_def Let_def fold_encode_to vec_enc_def list_update_append)

lemma length_le_concat: "length v \<le> length (concat (map enc v))"
proof (induction v)
  case (Cons x v)
  obtain f fs where "enc x = f # fs" using enc_nonempty [of x] by (cases "enc x") auto
  then show ?case using Cons by simp
qed simp

lemma concat_felts_ok: "(\<forall>x \<in> set v. wf x) \<Longrightarrow> felts_ok (concat (map enc v))"
  by (induction v) (auto simp: enc_felts)

lemma vec_loop_enc:
  assumes "\<forall>x \<in> set v. wf x" "length (pre @ concat (map enc v)) < 2 ^ 64"
    and "length (concat (map enc v)) < n"
  shows "vec_decode_loop n decode \<lparr>fr_data = pre @ concat (map enc v), fr_offset = length pre\<rparr> acc =
     Ok (acc @ v)"
  using assms
proof (induction v arbitrary: pre acc n)
  case Nil
  then show ?case by (cases n) (auto simp: remaining_len_def)
next
  case (Cons x v)
  from Cons.prems(3) obtain m where n: "n = Suc m" by (cases n) auto
  obtain f fs where pos: "enc x = f # fs" using enc_nonempty [of x] by (cases "enc x") auto
  have step: "decode (reader_at pre (enc x) (concat (map enc v))) =
      Ok (x, reader_behind pre (enc x) (concat (map enc v)))"
    using Cons.prems by (intro decode_enc) auto
  have "vec_decode_loop m decode
      \<lparr>fr_data = (pre @ enc x) @ concat (map enc v), fr_offset = length (pre @ enc x)\<rparr> (acc @ [x]) =
        Ok ((acc @ [x]) @ v)"
    using Cons.prems n pos by (intro Cons.IH) auto
  then show ?case
    using step n pos by (simp add: remaining_len_def)
qed

lemma vec_loop_sound:
  assumes "vec_decode_loop n decode r acc = Ok ys" "reader_ok r"
  shows "\<exists>v. ys = acc @ v \<and> (\<forall>x \<in> set v. wf x) \<and> drop (fr_offset r) (fr_data r) = concat (map enc v)"
  using assms
proof (induction n arbitrary: r acc)
  case 0
  then show ?case by simp
next
  case (Suc n)
  show ?case
  proof (cases "remaining_len r > 0")
    case False
    then show ?thesis using Suc.prems by (auto simp: remaining_len_def)
  next
    case True
    then obtain x r1 where d: "decode r = Ok (x, r1)"
      and rest: "vec_decode_loop n decode r1 (acc @ [x]) = Ok ys"
      using Suc.prems(1) by auto
    from decode_sound [OF Suc.prems(2) d] have wf: "wf x" and c: "consumed r (enc x) r1" by auto
    from Suc.IH [OF rest consumed_reader_ok [OF c]] obtain v where
      "ys = (acc @ [x]) @ v" "\<forall>y \<in> set v. wf y" "drop (fr_offset r1) (fr_data r1) = concat (map enc v)"
      by blast
    then show ?thesis
      using wf c by (intro exI [of _ "x # v"]) (auto simp: consumed_def)
  qed
qed

text \<open>The iteration bound of \<open>vec_decode\<close> is never reached: any larger one gives the same result.\<close>

lemma vec_loop_fuel:
  assumes "reader_ok r" "remaining_len r < n" "n \<le> m"
  shows "vec_decode_loop m decode r acc = vec_decode_loop n decode r acc"
  using assms
proof (induction n arbitrary: m r acc)
  case 0
  then show ?case by simp
next
  case (Suc n)
  then obtain k where m: "m = Suc k" by (cases m) auto
  show ?case
  proof (cases "remaining_len r > 0 \<and> (\<exists>x r1. decode r = Ok (x, r1))")
    case True
    then obtain x r1 where rem: "remaining_len r > 0" and d: "decode r = Ok (x, r1)" by auto
    from decode_sound [OF Suc.prems(1) d] have c: "consumed r (enc x) r1" by auto
    moreover obtain f fs where "enc x = f # fs" using enc_nonempty [of x] by (cases "enc x") auto
    ultimately have "remaining_len r1 < n"
      using Suc.prems(2) rem by (auto simp: consumed_def remaining_len_def)
    then show ?thesis
      using Suc.IH [OF consumed_reader_ok [OF c], of k] Suc.prems(3) m rem d by simp
  next
    case False
    then show ?thesis using m by (cases "decode r") auto
  qed
qed

end

text \<open>
  \<open>impl<T: SnosCodec> SnosCodec for Vec<T>\<close>. The instance lives in a copy of the locale, so that
  it is not applied to itself again.
\<close>

locale snos_vec_codec = snos_codec

sublocale snos_vec_codec \<subseteq> vec: snos_codec sf vec_size_in_felts "vec_encode_to sf encode_to"
    "vec_decode sf decode" "vec_enc sf enc" "vec_wf enc wf"
proof unfold_locales
  note this_libs = stark_felt_libs_axioms
  show "vec_encode_to sf encode_to x out = out @ vec_enc sf enc x" for x out
    by (rule vec_encode_to_eq)
  show "vec_size_in_felts x \<le> length (vec_enc sf enc x)" for x
    using length_le_concat [of x] by (simp add: vec_size_in_felts_def vec_enc_def)
  show "vec_enc sf enc x \<noteq> []" for x
    by (simp add: vec_enc_def)
  show "vec_wf enc wf x \<Longrightarrow> felts_ok (vec_enc sf enc x)" for x
    by (simp add: vec_enc_def vec_wf_def concat_felts_ok)
  show "vec_decode sf decode (reader_at pre (vec_enc sf enc x) post) =
      Ok (x, reader_behind pre (vec_enc sf enc x) post)"
    if "vec_wf enc wf x" "length (pre @ vec_enc sf enc x @ post) < 2 ^ 64" for x pre post
  proof -
    let ?c = "concat (map enc x)"
    have seg: "read_segment sf (reader_at pre (vec_enc sf enc x) post) =
        Ok (?c, reader_behind pre (vec_enc sf enc x) post)"
      using that unfolding vec_enc_def vec_wf_def by (intro read_segment_at [OF this_libs]) auto
    have "vec_decode_loop (Suc (length ?c)) decode \<lparr>fr_data = ?c, fr_offset = 0\<rparr> [] = Ok x"
      using vec_loop_enc [of x "[]" "Suc (length ?c)" "[]"] that(1)
      by (simp add: vec_wf_def del: vec_decode_loop.simps)
    then show ?thesis
      using seg by (simp add: vec_decode_def reader_new_def remaining_len_def del: vec_decode_loop.simps)
  qed
  show "vec_wf enc wf x \<and> consumed r (vec_enc sf enc x) r'"
    if "reader_ok r" "vec_decode sf decode r = Ok (x, r')" for r r' x
  proof -
    from that(2) obtain seg n where rs: "read_segment sf r = Ok (seg, r')"
      and loop: "vec_decode_loop n decode (reader_new seg) [] = Ok x"
      by (auto simp: vec_decode_def Let_def simp del: vec_decode_loop.simps)
    note sd = read_segment_sound [OF this_libs that(1) rs]
    with vec_loop_sound [OF loop] show ?thesis
      by (auto simp: reader_ok_def reader_new_def vec_wf_def vec_enc_def)
  qed
qed

section \<open>Messages and the program output\<close>

definition message_l2l1_enc :: "sf_api \<Rightarrow> MessageL2ToL1 \<Rightarrow> stark_felt list" where
  "message_l2l1_enc sf m =
     l2l1_from_address m # eth_address_to_felt (l2l1_to_address m)
     # vec_enc sf (\<lambda>f. [f]) (l2l1_payload m)"

definition message_l2l1_wf :: "MessageL2ToL1 \<Rightarrow> bool" where
  "message_l2l1_wf m \<longleftrightarrow> length (l2l1_from_address m) = 32 \<and> length (l2l1_to_address m) = 20 \<and>
     vec_wf (\<lambda>f. [f]) (\<lambda>f. length f = 32) (l2l1_payload m)"

definition message_l1l2_enc :: "sf_api \<Rightarrow> MessageL1ToL2 \<Rightarrow> stark_felt list" where
  "message_l1l2_enc sf m =
     l1l2_from_address m # l1l2_to_address m # l1l2_nonce m # l1l2_selector m
     # vec_enc sf (\<lambda>f. [f]) (l1l2_payload m)"

definition message_l1l2_wf :: "MessageL1ToL2 \<Rightarrow> bool" where
  "message_l1l2_wf m \<longleftrightarrow> length (l1l2_from_address m) = 32 \<and> length (l1l2_to_address m) = 32 \<and>
     length (l1l2_nonce m) = 32 \<and> length (l1l2_selector m) = 32 \<and>
     vec_wf (\<lambda>f. [f]) (\<lambda>f. length f = 32) (l1l2_payload m)"

definition os_output_enc :: "sf_api \<Rightarrow> StarknetOsOutput \<Rightarrow> stark_felt list" where
  "os_output_enc sf s =
     prev_state_root s # new_state_root s # os_block_number s # os_block_hash s # os_config_hash s
     # vec_enc sf (message_l2l1_enc sf) (messages_to_l1 s)
     @ vec_enc sf (message_l1l2_enc sf) (messages_to_l2 s)"

definition os_output_wf :: "sf_api \<Rightarrow> StarknetOsOutput \<Rightarrow> bool" where
  "os_output_wf sf s \<longleftrightarrow> length (prev_state_root s) = 32 \<and> length (new_state_root s) = 32 \<and>
     length (os_block_number s) = 32 \<and> length (os_block_hash s) = 32 \<and> length (os_config_hash s) = 32 \<and>
     vec_wf (message_l2l1_enc sf) message_l2l1_wf (messages_to_l1 s) \<and>
     vec_wf (message_l1l2_enc sf) message_l1l2_wf (messages_to_l2 s)"

sublocale stark_felt_libs \<subseteq> felts: snos_vec_codec sf felt_size_in_felts felt_encode_to felt_decode
    "\<lambda>f. [f]" "\<lambda>f. length f = 32"
  by (intro snos_vec_codec.intro) unfold_locales

lemma consumed_two:
  assumes "consumed r [a] r1" "consumed r1 xs r2" shows "consumed r (a # xs) r2"
  using consumed_trans [OF assms] by simp

sublocale stark_felt_libs \<subseteq> l2l1: snos_codec sf message_l2l1_size_in_felts
    "message_l2l1_encode_to sf" "message_l2l1_decode sf" "message_l2l1_enc sf" message_l2l1_wf
proof unfold_locales
  show "message_l2l1_encode_to sf m out = out @ message_l2l1_enc sf m" for m out
    by (simp add: message_l2l1_encode_to_def message_l2l1_enc_def address.encode_to_eq
        eth.encode_to_eq felts.vec.encode_to_eq)
  show "message_l2l1_size_in_felts m \<le> length (message_l2l1_enc sf m)" for m
    using felts.vec.size_le [of "l2l1_payload m"]
    by (simp add: message_l2l1_size_in_felts_def message_l2l1_enc_def
        contract_address_size_in_felts_def eth_address_size_in_felts_def)
  show "message_l2l1_wf m \<Longrightarrow> felts_ok (message_l2l1_enc sf m)" for m
    by (simp add: message_l2l1_wf_def message_l2l1_enc_def felts.vec.enc_felts eth.enc_felts
        eth_address_to_felt_def)
  show "message_l2l1_decode sf (reader_at pre (message_l2l1_enc sf m) post) =
      Ok (m, reader_behind pre (message_l2l1_enc sf m) post)"
    if "message_l2l1_wf m" "length (pre @ message_l2l1_enc sf m @ post) < 2 ^ 64" for m pre post
    using that
    by (simp add: message_l2l1_decode_def message_l2l1_enc_def message_l2l1_wf_def
        address.decode_at [of "l2l1_from_address m"] eth.decode_at [of "l2l1_to_address m"]
        felts.vec.decode_at [of "l2l1_payload m"])
  show "message_l2l1_wf m \<and> consumed r (message_l2l1_enc sf m) r'"
    if "reader_ok r" "message_l2l1_decode sf r = Ok (m, r')" for r r' m
  proof -
    from that(2) obtain r1 r2 where d1: "contract_address_decode r = Ok (l2l1_from_address m, r1)"
      and d2: "eth_address_decode sf r1 = Ok (l2l1_to_address m, r2)"
      and d3: "vec_decode sf felt_decode r2 = Ok (l2l1_payload m, r')"
      by (auto simp: message_l2l1_decode_def)
    note s1 = address.decode_sound [OF that(1) d1]
    note s2 = eth.decode_sound [OF consumed_reader_ok [OF conjunct2 [OF s1]] d2]
    note s3 = felts.vec.decode_sound [OF consumed_reader_ok [OF conjunct2 [OF s2]] d3]
    show ?thesis
      using s1 s2 s3 unfolding message_l2l1_wf_def message_l2l1_enc_def
      by (auto intro: consumed_two)
  qed
qed (simp add: message_l2l1_enc_def)

sublocale stark_felt_libs \<subseteq> l1l2: snos_codec sf message_l1l2_size_in_felts
    "message_l1l2_encode_to sf" "message_l1l2_decode sf" "message_l1l2_enc sf" message_l1l2_wf
proof unfold_locales
  show "message_l1l2_encode_to sf m out = out @ message_l1l2_enc sf m" for m out
    by (simp add: message_l1l2_encode_to_def message_l1l2_enc_def address.encode_to_eq
        nonce.encode_to_eq felt.encode_to_eq felts.vec.encode_to_eq)
  show "message_l1l2_size_in_felts m \<le> length (message_l1l2_enc sf m)" for m
    using felts.vec.size_le [of "l1l2_payload m"]
    by (simp add: message_l1l2_size_in_felts_def message_l1l2_enc_def
        contract_address_size_in_felts_def nonce_size_in_felts_def felt_size_in_felts_def)
  show "message_l1l2_wf m \<Longrightarrow> felts_ok (message_l1l2_enc sf m)" for m
    by (simp add: message_l1l2_wf_def message_l1l2_enc_def felts.vec.enc_felts)
  show "message_l1l2_decode sf (reader_at pre (message_l1l2_enc sf m) post) =
      Ok (m, reader_behind pre (message_l1l2_enc sf m) post)"
    if "message_l1l2_wf m" "length (pre @ message_l1l2_enc sf m @ post) < 2 ^ 64" for m pre post
    using that
    by (simp add: message_l1l2_decode_def message_l1l2_enc_def message_l1l2_wf_def
        address.decode_at [of "l1l2_from_address m"] address.decode_at [of "l1l2_to_address m"]
        nonce.decode_at [of "l1l2_nonce m"] felt.decode_at [of "l1l2_selector m"]
        felts.vec.decode_at [of "l1l2_payload m"])
  show "message_l1l2_wf m \<and> consumed r (message_l1l2_enc sf m) r'"
    if "reader_ok r" "message_l1l2_decode sf r = Ok (m, r')" for r r' m
  proof -
    from that(2) obtain r1 r2 r3 r4 where
      d1: "contract_address_decode r = Ok (l1l2_from_address m, r1)"
      and d2: "contract_address_decode r1 = Ok (l1l2_to_address m, r2)"
      and d3: "nonce_decode r2 = Ok (l1l2_nonce m, r3)"
      and d4: "felt_decode r3 = Ok (l1l2_selector m, r4)"
      and d5: "vec_decode sf felt_decode r4 = Ok (l1l2_payload m, r')"
      by (auto simp: message_l1l2_decode_def)
    note s1 = address.decode_sound [OF that(1) d1]
    note s2 = address.decode_sound [OF consumed_reader_ok [OF conjunct2 [OF s1]] d2]
    note s3 = nonce.decode_sound [OF consumed_reader_ok [OF conjunct2 [OF s2]] d3]
    note s4 = felt.decode_sound [OF consumed_reader_ok [OF conjunct2 [OF s3]] d4]
    note s5 = felts.vec.decode_sound [OF consumed_reader_ok [OF conjunct2 [OF s4]] d5]
    note c = s1 [THEN conjunct2] s2 [THEN conjunct2] s3 [THEN conjunct2] s4 [THEN conjunct2]
      s5 [THEN conjunct2]
    have "consumed r (message_l1l2_enc sf m) r'"
      unfolding message_l1l2_enc_def by (intro consumed_two [OF c(1)] consumed_two [OF c(2)]
          consumed_two [OF c(3)] consumed_two [OF c(4)] c(5))
    then show ?thesis
      using s1 s2 s3 s4 s5 by (simp add: message_l1l2_wf_def)
  qed
qed (simp add: message_l1l2_enc_def)

sublocale stark_felt_libs \<subseteq> to_l1: snos_vec_codec sf message_l2l1_size_in_felts
    "message_l2l1_encode_to sf" "message_l2l1_decode sf" "message_l2l1_enc sf" message_l2l1_wf
  by (intro snos_vec_codec.intro) unfold_locales

sublocale stark_felt_libs \<subseteq> to_l2: snos_vec_codec sf message_l1l2_size_in_felts
    "message_l1l2_encode_to sf" "message_l1l2_decode sf" "message_l1l2_enc sf" message_l1l2_wf
  by (intro snos_vec_codec.intro) unfold_locales

sublocale stark_felt_libs \<subseteq> os_output: snos_codec sf os_output_size_in_felts
    "os_output_encode_to sf" "os_output_decode sf" "os_output_enc sf" "os_output_wf sf"
proof unfold_locales
  show "os_output_encode_to sf s out = out @ os_output_enc sf s" for s out
    by (simp add: os_output_encode_to_def os_output_enc_def felt.encode_to_eq
        to_l1.vec.encode_to_eq to_l2.vec.encode_to_eq)
  show "os_output_size_in_felts s \<le> length (os_output_enc sf s)" for s
    using to_l1.vec.size_le [of "messages_to_l1 s"] to_l2.vec.size_le [of "messages_to_l2 s"]
    by (simp add: os_output_size_in_felts_def os_output_enc_def felt_size_in_felts_def)
  show "os_output_wf sf s \<Longrightarrow> felts_ok (os_output_enc sf s)" for s
    by (simp add: os_output_wf_def os_output_enc_def to_l1.vec.enc_felts to_l2.vec.enc_felts)
  show "os_output_decode sf (reader_at pre (os_output_enc sf s) post) =
      Ok (s, reader_behind pre (os_output_enc sf s) post)"
    if "os_output_wf sf s" "length (pre @ os_output_enc sf s @ post) < 2 ^ 64" for s pre post
    using that
    by (simp add: os_output_decode_def os_output_enc_def os_output_wf_def
        felt.decode_at [of "prev_state_root s"] felt.decode_at [of "new_state_root s"]
        felt.decode_at [of "os_block_number s"] felt.decode_at [of "os_block_hash s"]
        felt.decode_at [of "os_config_hash s"] to_l1.vec.decode_at [of "messages_to_l1 s"]
        to_l2.vec.decode_at [of "messages_to_l2 s"] Suc_diff_le)
  show "os_output_wf sf s \<and> consumed r (os_output_enc sf s) r'"
    if "reader_ok r" "os_output_decode sf r = Ok (s, r')" for r r' s
  proof -
    from that(2) obtain r1 r2 r3 r4 r5 r6 where
      d1: "felt_decode r = Ok (prev_state_root s, r1)"
      and d2: "felt_decode r1 = Ok (new_state_root s, r2)"
      and d3: "felt_decode r2 = Ok (os_block_number s, r3)"
      and d4: "felt_decode r3 = Ok (os_block_hash s, r4)"
      and d5: "felt_decode r4 = Ok (os_config_hash s, r5)"
      and d6: "vec_decode sf (message_l2l1_decode sf) r5 = Ok (messages_to_l1 s, r6)"
      and d7: "vec_decode sf (message_l1l2_decode sf) r6 = Ok (messages_to_l2 s, r')"
      by (auto simp: os_output_decode_def)
    note s1 = felt.decode_sound [OF that(1) d1]
    note s2 = felt.decode_sound [OF consumed_reader_ok [OF conjunct2 [OF s1]] d2]
    note s3 = felt.decode_sound [OF consumed_reader_ok [OF conjunct2 [OF s2]] d3]
    note s4 = felt.decode_sound [OF consumed_reader_ok [OF conjunct2 [OF s3]] d4]
    note s5 = felt.decode_sound [OF consumed_reader_ok [OF conjunct2 [OF s4]] d5]
    note s6 = to_l1.vec.decode_sound [OF consumed_reader_ok [OF conjunct2 [OF s5]] d6]
    note s7 = to_l2.vec.decode_sound [OF consumed_reader_ok [OF conjunct2 [OF s6]] d7]
    note c = s1 [THEN conjunct2] s2 [THEN conjunct2] s3 [THEN conjunct2] s4 [THEN conjunct2]
      s5 [THEN conjunct2] consumed_trans [OF s6 [THEN conjunct2] s7 [THEN conjunct2]]
    have "consumed r (os_output_enc sf s) r'"
      unfolding os_output_enc_def by (intro consumed_two [OF c(1)] consumed_two [OF c(2)]
          consumed_two [OF c(3)] consumed_two [OF c(4)] consumed_two [OF c(5)] c(6))
    then show ?thesis
      using s1 s2 s3 s4 s5 s6 s7 by (simp add: os_output_wf_def)
  qed
qed (simp add: os_output_enc_def)

section \<open>Properties\<close>

context snos_codec
begin

lemma decode_new_iff:
  assumes "felts_ok d" "length d < 2 ^ 64"
  shows "decode (reader_new d) = Ok (x, r') \<longleftrightarrow>
     wf x \<and> (\<exists>rest. d = into_encoded_vec encode_to x @ rest \<and>
       r' = \<lparr>fr_data = d, fr_offset = length (into_encoded_vec encode_to x)\<rparr>)"
proof
  assume a: "decode (reader_new d) = Ok (x, r')"
  then have "r' = \<lparr>fr_data = d, fr_offset = length (enc x)\<rparr>"
    using decode_sound [OF _ a] assms(1) by (simp add: reader_ok_def reader_new_def consumed_def)
  then show "wf x \<and> (\<exists>rest. d = into_encoded_vec encode_to x @ rest \<and>
       r' = \<lparr>fr_data = d, fr_offset = length (into_encoded_vec encode_to x)\<rparr>)"
    using decode_new_sound [OF assms(1) a] by (auto simp: into_encoded_vec_eq)
next
  assume "wf x \<and> (\<exists>rest. d = into_encoded_vec encode_to x @ rest \<and>
       r' = \<lparr>fr_data = d, fr_offset = length (into_encoded_vec encode_to x)\<rparr>)"
  then show "decode (reader_new d) = Ok (x, r')"
    using decode_enc [of x "[]"] assms(2) by (auto simp: into_encoded_vec_eq reader_new_def)
qed

end

context stark_felt_libs
begin

lemmas os_output_decode_iff = os_output.decode_new_iff

end

text \<open>
  C5. The codec of the program output is exact. Decoding an array of felts returns the output
  \<open>s\<close> precisely when \<open>s\<close> is a value of the type and the array starts with the encoding of
  \<open>s\<close>; the cursor then stands right behind that encoding. So decoding inverts encoding, two
  different outputs never share an encoding, and nothing but an encoding is accepted.
\<close>

theorem os_output_codec_exact:
  assumes "sf_laws sf" "felts_ok d" "length d < 2 ^ 64"
  shows "os_output_decode sf (reader_new d) = Ok (s, r') \<longleftrightarrow>
     os_output_wf sf s \<and> (\<exists>rest. d = into_encoded_vec (os_output_encode_to sf) s @ rest \<and>
       r' = \<lparr>fr_data = d, fr_offset = length (into_encoded_vec (os_output_encode_to sf) s)\<rparr>)"
proof -
  have "stark_felt_libs sf" using assms(1) by unfold_locales
  from stark_felt_libs.os_output_decode_iff [OF this assms(2,3)] show ?thesis .
qed

definition sample_felt :: "nat \<Rightarrow> stark_felt" where
  "sample_felt n = be_bytes 32 n"

definition sample_output :: StarknetOsOutput where
  "sample_output = \<lparr>prev_state_root = sample_felt 1, new_state_root = sample_felt 2,
     os_block_number = sample_felt 3, os_block_hash = sample_felt 4, os_config_hash = sample_felt 5,
     messages_to_l1 = [\<lparr>l2l1_from_address = sample_felt 6, l2l1_to_address = replicate 20 7,
       l2l1_payload = [sample_felt 8, sample_felt 9]\<rparr>],
     messages_to_l2 = [\<lparr>l1l2_from_address = sample_felt 10, l1l2_to_address = sample_felt 11,
       l1l2_nonce = sample_felt 12, l1l2_selector = sample_felt 13, l1l2_payload = []\<rparr>]\<rparr>"

lemma length_sample_felt [simp]: "length (sample_felt n) = 32"
  by (simp add: sample_felt_def)

lemma sample_output_encoding:
  "into_encoded_vec (os_output_encode_to sf_ref) sample_output =
     map sample_felt [1, 2, 3, 4, 5, 5, 6] @ [replicate 12 0 @ replicate 20 7]
     @ map sample_felt [2, 8, 9, 5, 10, 11, 12, 13, 0]"
  unfolding ref_sf.os_output.into_encoded_vec_eq
  by (simp add: os_output_enc_def sample_output_def vec_enc_def
      message_l2l1_enc_def message_l1l2_enc_def eth_address_to_felt_def sf_ref_def sample_felt_def)

lemma sample_output_wf: "os_output_wf sf_ref sample_output"
  by (simp add: os_output_wf_def sample_output_def vec_wf_def message_l2l1_wf_def message_l1l2_wf_def
      message_l2l1_enc_def message_l1l2_enc_def vec_enc_def)

theorem os_output_codec_exact_witness:
  "os_output_decode sf_ref (reader_new (map sample_felt [1, 2, 3, 4, 5, 5, 6]
       @ [replicate 12 0 @ replicate 20 7] @ map sample_felt [2, 8, 9, 5, 10, 11, 12, 13, 0])) =
     Ok (sample_output, \<lparr>fr_data = map sample_felt [1, 2, 3, 4, 5, 5, 6]
       @ [replicate 12 0 @ replicate 20 7] @ map sample_felt [2, 8, 9, 5, 10, 11, 12, 13, 0],
       fr_offset = 17\<rparr>)"
  using sample_output_wf
  by (subst os_output_codec_exact) (simp_all add: sf_ref_laws sample_output_encoding)

end
