(* ===== verification/Settlement.thy ===== *)
theory Settlement
  imports Mapping_Sync Snos_Output
begin

text \<open>
  Settlement of blocks on L1 (\<^verbatim>\<open>crates/client/settlement\<close>): the worker of
  \<^verbatim>\<open>sync_state.rs\<close>, the retry strategy, and the provider for the Ethereum core contract. What a
  provider does is a record of operations on the state \<open>'s\<close> of the settlement layer; the contract
  the Ethereum provider calls is a parameter of it. The worker's state is the layer's state and the
  outputs that were accepted so far.
\<close>

section \<open>Errors and providers\<close>

datatype 'h SettleError =
  SettleBlockchain | SettleStarknetApi | SettleDigestLog FindLogError | SettleRuntimeApi | SettleEthereumClient
| UnknownStarknetBlock u64 | UnknownSubstrateBlock 'h
| StateRootMismatch u64 stark_felt stark_felt
| ProgramHashMismatch stark_felt stark_felt
| ConfigHashMismatch stark_felt stark_felt
| StateNotInitialized

record StarknetSpec =
  spec_config_hash :: stark_felt
  spec_program_hash :: stark_felt

record StarknetState =
  ss_state_root :: stark_felt
  ss_block_number :: stark_felt

record ('h, 's) SettlementProvider =
  sp_is_initialized :: "'s \<Rightarrow> (bool, 'h SettleError) result"
  sp_get_chain_spec :: "'s \<Rightarrow> (StarknetSpec, 'h SettleError) result"
  sp_get_state :: "'s \<Rightarrow> (StarknetState, 'h SettleError) result"
  sp_update_state :: "StarknetOsOutput \<Rightarrow> (unit, 'h SettleError, 's) st"

fun can_retry :: "'d \<Rightarrow> 'h SettleError \<Rightarrow> 'd option" where
  "can_retry delay (StateRootMismatch _ _ _) = None"
| "can_retry delay (ConfigHashMismatch _ _) = None"
| "can_retry delay (ProgramHashMismatch _ _) = None"
| "can_retry delay _ = Some delay"

subsection \<open>The Ethereum core contract\<close>

text \<open>The calls of the contract; \<open>None\<close> is a failed call or a missing receipt.\<close>

record 's core_contract =
  cc_state_block_number :: "'s \<Rightarrow> u256 option"
  cc_state_root :: "'s \<Rightarrow> u256 option"
  cc_config_hash :: "'s \<Rightarrow> u256 option"
  cc_program_hash :: "'s \<Rightarrow> u256 option"
  cc_update_state :: "u256 list \<Rightarrow> 's \<Rightarrow> unit option \<times> 's"

definition convert_u256_to_felt :: "ff_api \<Rightarrow> u256 \<Rightarrow> (stark_felt, 'h SettleError) result" where
  "convert_u256_to_felt ff word = ok_or SettleStarknetApi (stark_felt_new ff (u256_to_big_endian ff word))"

definition convert_felt_to_u256 :: "ff_api \<Rightarrow> stark_felt \<Rightarrow> u256" where
  "convert_felt_to_u256 ff felt = u256_from_big_endian ff felt"

definition eth_is_initialized :: "'s core_contract \<Rightarrow> 's \<Rightarrow> (bool, 'h SettleError) result" where
  "eth_is_initialized cc s = map_ok (\<lambda>program_hash. 0 \<noteq> program_hash) (ok_or SettleEthereumClient (cc_program_hash cc s))"

definition eth_get_chain_spec :: "ff_api \<Rightarrow> 's core_contract \<Rightarrow> 's \<Rightarrow> (StarknetSpec, 'h SettleError) result" where
  "eth_get_chain_spec ff cc s =
     and_then (ok_or SettleEthereumClient (cc_program_hash cc s)) (\<lambda>p.
     and_then (convert_u256_to_felt ff p) (\<lambda>program_hash.
     and_then (ok_or SettleEthereumClient (cc_config_hash cc s)) (\<lambda>c.
     and_then (convert_u256_to_felt ff c) (\<lambda>config_hash.
       Ok \<lparr>spec_config_hash = config_hash, spec_program_hash = program_hash\<rparr>))))"

definition eth_get_state :: "ff_api \<Rightarrow> 's core_contract \<Rightarrow> 's \<Rightarrow> (StarknetState, 'h SettleError) result" where
  "eth_get_state ff cc s =
     and_then (ok_or SettleEthereumClient (cc_state_block_number cc s)) (\<lambda>n.
     and_then (convert_u256_to_felt ff n) (\<lambda>block_number.
     and_then (ok_or SettleEthereumClient (cc_state_root cc s)) (\<lambda>r.
     and_then (convert_u256_to_felt ff r) (\<lambda>state_root.
       Ok \<lparr>ss_state_root = state_root, ss_block_number = block_number\<rparr>))))"

definition eth_update_state ::
    "ff_api \<Rightarrow> sf_api \<Rightarrow> 's core_contract \<Rightarrow> StarknetOsOutput \<Rightarrow> (unit, 'h SettleError, 's) st" where
  "eth_update_state ff sf cc program_output s =
     (case cc_update_state cc (map (convert_felt_to_u256 ff) (into_encoded_vec (os_output_encode_to sf) program_output)) s of
        (Some _, s') \<Rightarrow> (Ok (), s')
      | (None, s') \<Rightarrow> (Err SettleEthereumClient, s'))"

definition ethereum_provider :: "ff_api \<Rightarrow> sf_api \<Rightarrow> 's core_contract \<Rightarrow> ('h, 's) SettlementProvider" where
  "ethereum_provider ff sf cc =
     \<lparr>sp_is_initialized = eth_is_initialized cc, sp_get_chain_spec = eth_get_chain_spec ff cc,
      sp_get_state = eth_get_state ff cc, sp_update_state = eth_update_state ff sf cc\<rparr>"

section \<open>The worker\<close>

definition get_starknet_block ::
    "'p digest_api \<Rightarrow> ('h, 'c, 'p) client \<Rightarrow> u64 \<Rightarrow> (Block \<times> 'h, 'h SettleError) result" where
  "get_starknet_block dg cl number =
     and_then (ok_or SettleBlockchain (cl_hash cl (saturate_u32 number))) (\<lambda>hash.
     and_then (ok_or (UnknownStarknetBlock number) hash) (\<lambda>substrate_block_hash.
     and_then (ok_or SettleBlockchain (cl_header cl substrate_block_hash)) (\<lambda>header.
     and_then (ok_or (UnknownSubstrateBlock substrate_block_hash) header) (\<lambda>substrate_block_header.
     and_then (map_err SettleDigestLog (find_starknet_block dg (sh_digest substrate_block_header))) (\<lambda>starknet_block.
       Ok (starknet_block, substrate_block_hash))))))"

definition verify_starknet_spec ::
    "('c, 'r, 'x, 'p) runtime \<Rightarrow> ('h, 'c, 'p) client \<Rightarrow> StarknetSpec \<Rightarrow> (unit, 'h SettleError) result" where
  "verify_starknet_spec R cl starknet_spec =
     (let substrate_hash = cl_best_hash cl
      in and_then (ok_or SettleRuntimeApi (api_program_hash R cl substrate_hash)) (\<lambda>p.
         and_then (felt_into (rt_ff R) p) (\<lambda>program_hash.
           if spec_program_hash starknet_spec \<noteq> program_hash
           then Err (ProgramHashMismatch program_hash (spec_program_hash starknet_spec))
           else
             and_then (ok_or SettleRuntimeApi (api_config_hash R cl substrate_hash)) (\<lambda>config_hash.
               if spec_config_hash starknet_spec \<noteq> config_hash
               then Err (ConfigHashMismatch config_hash (spec_config_hash starknet_spec))
               else Ok ()))))"

definition verify_starknet_state ::
    "('c, 'r, 'x, 'p) runtime \<Rightarrow> ('h, 'c, 'p) client \<Rightarrow> StarknetState \<Rightarrow> (unit, 'h SettleError) result" where
  "verify_starknet_state R cl state =
     and_then (ok_or SettleStarknetApi (sf_try_u64 (rt_sf R) (ss_block_number state))) (\<lambda>height.
       case get_starknet_block (rt_dg R) cl height of
         Ok _ \<Rightarrow>
           (let state_root = temporary_global_state_root_getter
            in if ss_state_root state \<noteq> state_root
               then Err (StateRootMismatch height state_root (ss_state_root state)) else Ok ())
       | Err (UnknownStarknetBlock _) \<Rightarrow> Ok ()
       | Err e \<Rightarrow> Err e
       | Panic \<Rightarrow> Panic)"

text \<open>The messages of the transactions of a block, to L1 and to L2.\<close>

fun block_messages ::
    "('c, 'r, 'x, 'p) runtime \<Rightarrow> hasher \<Rightarrow> ('h, 'c, 'p) client \<Rightarrow> 'h \<Rightarrow> felt252_wrapper \<Rightarrow> Transaction list
      \<Rightarrow> MessageL2ToL1 list \<Rightarrow> MessageL1ToL2 list
      \<Rightarrow> (MessageL2ToL1 list \<times> MessageL1ToL2 list, 'h SettleError) result" where
  "block_messages R H cl h chain [] to_l1 to_l2 = Ok (to_l1, to_l2)"
| "block_messages R H cl h chain (tx # txs) to_l1 to_l2 =
     and_then (case tx of
         TL1Handler l1_handler \<Rightarrow> map_ok (\<lambda>m. to_l2 @ [m]) (message_l1l2_from_tx (rt_ff R) (rt_sf R) l1_handler)
       | _ \<Rightarrow> Ok to_l2) (\<lambda>to_l2'.
     and_then (unwrap (tx_compute_hash (rt_ff R) (rt_cr R) H tx chain False)) (\<lambda>hash.
     and_then (felt_into (rt_ff R) hash) (\<lambda>tx_hash.
     and_then (ok_or SettleRuntimeApi (api_get_tx_messages_to_l1 cl h tx_hash)) (\<lambda>messages.
       block_messages R H cl h chain txs (to_l1 @ map message_l2l1_from messages) to_l2'))))"

definition program_output ::
    "('c, 'r, 'x, 'p) runtime \<Rightarrow> hasher \<Rightarrow> ('h, 'c, 'p) client \<Rightarrow> StarknetState \<Rightarrow> Block \<Rightarrow> 'h \<Rightarrow> stark_felt
      \<Rightarrow> (StarknetOsOutput, 'h SettleError) result" where
  "program_output R H cl prev_state next_block substrate_block_hash config =
     and_then (ok_or SettleRuntimeApi (api_chain_id R cl substrate_block_hash)) (\<lambda>chain.
     and_then (block_messages R H cl substrate_block_hash chain (blk_transactions next_block) [] []) (\<lambda>(to_l1, to_l2).
     and_then (header_hash (rt_ff R) H (blk_header next_block)) (\<lambda>hash.
     and_then (felt_into (rt_ff R) hash) (\<lambda>block_hash.
       Ok \<lparr>prev_state_root = ss_state_root prev_state, new_state_root = temporary_global_state_root_getter,
           os_block_number = sf_from_u64 (rt_sf R) (hd_block_number (blk_header next_block)),
           os_block_hash = block_hash, os_config_hash = config,
           messages_to_l1 = to_l1, messages_to_l2 = to_l2\<rparr>))))"

definition submit :: "('h, 's) SettlementProvider \<Rightarrow> StarknetOsOutput \<Rightarrow> (unit, 'h SettleError, 's \<times> StarknetOsOutput list) st" where
  "submit P out = (\<lambda>(s, accepted).
     case sp_update_state P out s of
       (Ok _, s') \<Rightarrow> (Ok (), s', accepted @ [out])
     | (Err e, s') \<Rightarrow> (Err e, s', accepted)
     | (Panic, s') \<Rightarrow> (Panic, s', accepted))"

definition update_starknet_state ::
    "('c, 'r, 'x, 'p) runtime \<Rightarrow> hasher \<Rightarrow> ('h, 's) SettlementProvider \<Rightarrow> ('h, 'c, 'p) client
      \<Rightarrow> StarknetState \<Rightarrow> Block \<Rightarrow> 'h \<Rightarrow> stark_felt
      \<Rightarrow> (StarknetState, 'h SettleError, 's \<times> StarknetOsOutput list) st" where
  "update_starknet_state R H P cl prev_state next_block substrate_block_hash config =
     bind_st (ret_st (program_output R H cl prev_state next_block substrate_block_hash config)) (\<lambda>out.
     bind_st (submit P out) (\<lambda>_.
       ret_st (Ok \<lparr>ss_state_root = new_state_root out, ss_block_number = os_block_number out\<rparr>)))"

lemma unat_Suc_below: "(x :: u64) < y \<Longrightarrow> unat (x + 1) = Suc (unat x)"
  using unat_lt [of y] by (simp add: word_less_nat_alt unat_word_ariths(1))

lemma unat_below_step: "(x :: u64) < y \<Longrightarrow> unat y - unat (x + 1) < unat y - unat x"
  by (simp add: unat_Suc_below) (simp add: word_less_nat_alt)

text \<open>The inner loop, \<open>while sync_from < sync_to\<close>; it ends because \<open>sync_from\<close> grows.\<close>

function settle_blocks ::
    "('c, 'r, 'x, 'p) runtime \<Rightarrow> hasher \<Rightarrow> ('h, 's) SettlementProvider \<Rightarrow> ('h, 'c, 'p) client
      \<Rightarrow> stark_felt \<Rightarrow> Block \<Rightarrow> 'h \<Rightarrow> u64 \<Rightarrow> u64 \<Rightarrow> StarknetState
      \<Rightarrow> (u64 \<times> StarknetState, 'h SettleError, 's \<times> StarknetOsOutput list) st" where
  "settle_blocks R H P cl config block notified_hash sync_from sync_to last_settled_state =
     (if sync_from < sync_to
      then
        bind_st (ret_st (if sync_from + 1 = sync_to then Ok (block, notified_hash)
                         else get_starknet_block (rt_dg R) cl (sync_from + 1))) (\<lambda>(next_block, substrate_block_hash).
        bind_st (update_starknet_state R H P cl last_settled_state next_block substrate_block_hash config) (\<lambda>new_state.
          settle_blocks R H P cl config block notified_hash (sync_from + 1) sync_to new_state))
      else ret_st (Ok (sync_from, last_settled_state)))"
  by pat_completeness auto
termination
  by (relation "measure (\<lambda>(_, _, _, _, _, _, _, sync_from, sync_to, _). unat sync_to - unat sync_from)")
     (auto intro: unat_below_step)

declare settle_blocks.simps [simp del]

text \<open>
  A finality notification: the header, its hash, and what the client answers while it is handled.
\<close>

type_synonym ('h, 'c, 'p) notification = "('h, 'p) sub_header \<times> 'h \<times> ('h, 'c, 'p) client"

fun settle_notifications ::
    "('c, 'r, 'x, 'p) runtime \<Rightarrow> hasher \<Rightarrow> ('h, 's) SettlementProvider \<Rightarrow> stark_felt
      \<Rightarrow> ('h, 'c, 'p) notification list \<Rightarrow> u64 \<Rightarrow> StarknetState
      \<Rightarrow> (unit, 'h SettleError, 's \<times> StarknetOsOutput list) st" where
  "settle_notifications R H P config [] sync_from last_settled_state = ret_st (Ok ())"
| "settle_notifications R H P config ((header, hash, cl) # notifications) sync_from last_settled_state =
     bind_st (ret_st (map_err SettleDigestLog (find_starknet_block (rt_dg R) (sh_digest header)))) (\<lambda>block.
     (let sync_to = hd_block_number (blk_header block)
      in if sync_to < sync_from then settle_notifications R H P config notifications sync_from last_settled_state
         else if sync_from = sync_to
         then bind_st (ret_st (verify_starknet_state R cl last_settled_state)) (\<lambda>_.
                settle_notifications R H P config notifications sync_from last_settled_state)
         else bind_st (settle_blocks R H P cl config block hash sync_from sync_to last_settled_state) (\<lambda>(sync_from', new_state).
                settle_notifications R H P config notifications sync_from' new_state)))"

definition sync_state_loop ::
    "('c, 'r, 'x, 'p) runtime \<Rightarrow> hasher \<Rightarrow> ('h, 's) SettlementProvider \<Rightarrow> ('h, 'c, 'p) client
      \<Rightarrow> ('h, 'c, 'p) notification list \<Rightarrow> (unit, 'h SettleError, 's \<times> StarknetOsOutput list) st" where
  "sync_state_loop R H P cl notifications =
     bind_st get_st (\<lambda>(s, _).
     bind_st (ret_st (sp_is_initialized P s)) (\<lambda>initialized.
       if \<not> initialized then ret_st (Err StateNotInitialized)
       else
         bind_st (ret_st (sp_get_chain_spec P s)) (\<lambda>starknet_spec.
         bind_st (ret_st (verify_starknet_spec R cl starknet_spec)) (\<lambda>_.
         bind_st (ret_st (sp_get_state P s)) (\<lambda>last_settled_state.
         bind_st (ret_st (verify_starknet_state R cl last_settled_state)) (\<lambda>_.
         bind_st (ret_st (ok_or SettleStarknetApi (sf_try_u64 (rt_sf R) (ss_block_number last_settled_state)))) (\<lambda>sync_from.
           settle_notifications R H P (spec_config_hash starknet_spec) notifications sync_from last_settled_state)))))))"

text \<open>
  The outer loop over the runs of the inner one, each with its client and its stream of
  notifications; \<open>None\<close> while it waits for the next run. An error that cannot be retried panics.
\<close>

fun sync_state ::
    "('c, 'r, 'x, 'p) runtime \<Rightarrow> hasher \<Rightarrow> ('h, 's) SettlementProvider \<Rightarrow> 'd
      \<Rightarrow> (('h, 'c, 'p) client \<times> ('h, 'c, 'p) notification list) list
      \<Rightarrow> 's \<times> StarknetOsOutput list \<Rightarrow> (unit, unit) result option \<times> 's \<times> StarknetOsOutput list" where
  "sync_state R H P delay [] st = (None, st)"
| "sync_state R H P delay ((cl, notifications) # runs) st =
     (case sync_state_loop R H P cl notifications st of
        (Ok _, st') \<Rightarrow> (Some (Ok ()), st')
      | (Err e, st') \<Rightarrow>
          (case can_retry delay e of
             Some _ \<Rightarrow> sync_state R H P delay runs st'
           | None \<Rightarrow> (Some Panic, st'))
      | (Panic, st') \<Rightarrow> (Some Panic, st'))"

section \<open>Blocks are settled in order\<close>

text \<open>The outputs continue the settled state: one block after the other, each from the root the one before left.\<close>

fun continues ::
    "('c, 'r, 'x, 'p) runtime \<Rightarrow> hasher \<Rightarrow> ('h, 'c, 'p) client set \<Rightarrow> stark_felt \<Rightarrow> StarknetState \<Rightarrow> u64
      \<Rightarrow> StarknetOsOutput list \<Rightarrow> bool" where
  "continues R H cls config prev n [] \<longleftrightarrow> True"
| "continues R H cls config prev n (out # outs) \<longleftrightarrow>
     prev_state_root out = ss_state_root prev \<and> os_block_number out = sf_from_u64 (rt_sf R) (n + 1) \<and>
     (\<exists>cl\<in>cls. \<exists>b h. hd_block_number (blk_header b) = n + 1 \<and> program_output R H cl prev b h config = Ok out) \<and>
     continues R H cls config \<lparr>ss_state_root = new_state_root out, ss_block_number = os_block_number out\<rparr> (n + 1) outs"

fun settled_after :: "StarknetState \<Rightarrow> StarknetOsOutput list \<Rightarrow> StarknetState" where
  "settled_after prev [] = prev"
| "settled_after prev (out # outs) =
     settled_after \<lparr>ss_state_root = new_state_root out, ss_block_number = os_block_number out\<rparr> outs"

lemma continues_append:
  "continues R H cls config prev n (xs @ ys) \<longleftrightarrow>
     continues R H cls config prev n xs \<and> continues R H cls config (settled_after prev xs) (n + of_nat (length xs)) ys"
  by (induction xs arbitrary: prev n) (auto simp: add_ac)

definition blocks_numbered :: "'p digest_api \<Rightarrow> ('h, 'c, 'p) client \<Rightarrow> bool" where
  "blocks_numbered dg cl \<longleftrightarrow>
     (\<forall>n h header b. cl_hash cl n = Some (Some h) \<longrightarrow> cl_header cl h = Some (Some header) \<longrightarrow>
        find_starknet_block dg (sh_digest header) = Ok b \<longrightarrow> hd_block_number (blk_header b) = ucast n)"

lemma get_starknet_block_number:
  assumes "blocks_numbered dg cl" "get_starknet_block dg cl n = Ok (b, h)" "unat n < 2 ^ 32"
  shows "hd_block_number (blk_header b) = n"
proof -
  obtain header where "cl_hash cl (saturate_u32 n) = Some (Some h)" "cl_header cl h = Some (Some header)"
      "find_starknet_block dg (sh_digest header) = Ok b"
    using assms(2) by (auto simp: get_starknet_block_def)
  then have "hd_block_number (blk_header b) = ucast (saturate_u32 n)"
    using assms(1) unfolding blocks_numbered_def by blast
  moreover have "ucast (ucast n :: u32) = n"
    using assms(3) by (simp add: unat_eq_iff [symmetric] unsigned_ucast_eq take_bit_eq_mod unat_mod)
  ultimately show ?thesis using assms(3) by (simp add: saturate_u32_def)
qed

lemma bind_ret_run:
  "bind_st (ret_st r) k st = (x, st') \<Longrightarrow> st' \<noteq> st \<Longrightarrow> \<exists>v. r = Ok v \<and> k v st = (x, st')"
  by (cases r) (simp_all add: ret_st_def)

lemma submit_cases:
  assumes "submit P out (s, acc) = (r, s', acc')"
  shows "(r = Ok () \<and> acc' = acc @ [out]) \<or> (r \<noteq> Ok () \<and> acc' = acc)"
proof -
  obtain r1 s1 where "sp_update_state P out s = (r1, s1)" by (rule prod.exhaust)
  then show ?thesis using assms by (cases r1) (auto simp: submit_def)
qed

lemma settle_one:
  assumes "update_starknet_state R H P cl prev b h config (s, acc) = (r, s', acc')"
  shows "(\<exists>out. program_output R H cl prev b h config = Ok out \<and> acc' = acc @ [out] \<and>
      r = Ok \<lparr>ss_state_root = new_state_root out, ss_block_number = os_block_number out\<rparr>) \<or>
    (acc' = acc \<and> (\<forall>new. r \<noteq> Ok new))"
proof (cases "program_output R H cl prev b h config")
  case (Ok out)
  obtain r1 s1 acc1 where st: "submit P out (s, acc) = (r1, s1, acc1)" by (metis prod_cases3)
  then show ?thesis
    using assms Ok submit_cases [OF st]
    by (cases r1) (auto simp: update_starknet_state_def bind_st_def ret_st_def)
qed (use assms in \<open>auto simp: update_starknet_state_def bind_st_def ret_st_def\<close>)

lemma settle_blocks_continues:
  assumes "cl \<in> cls" "blocks_numbered (rt_dg R) cl" "hd_block_number (blk_header block) = sync_to" "unat sync_to < 2 ^ 32"
  shows "settle_blocks R H P cl config block hash sync_from sync_to prev (s, acc) = (r, s', acc') \<Longrightarrow> sync_from \<le> sync_to \<Longrightarrow>
    \<exists>outs. acc' = acc @ outs \<and> continues R H cls config prev sync_from outs \<and>
      (\<forall>sync_from' new. r = Ok (sync_from', new) \<longrightarrow>
        sync_from' = sync_from + of_nat (length outs) \<and> new = settled_after prev outs)"
proof (induction "unat sync_to - unat sync_from" arbitrary: sync_from prev s acc rule: less_induct)
  case less
  show ?case
  proof (cases "sync_from < sync_to")
    case False
    then show ?thesis
      using less.prems(1) by (intro exI [of _ "[]"]) (auto simp: settle_blocks.simps ret_st_def)
  next
    case True
    define nb where "nb = (if sync_from + 1 = sync_to then Ok (block, hash) else get_starknet_block (rt_dg R) cl (sync_from + 1))"
    note run = less.prems(1) [unfolded settle_blocks.simps [of _ _ _ _ _ _ _ sync_from] if_P [OF True] nb_def [symmetric]]
    show ?thesis
    proof (cases nb)
      case (Ok x)
      then obtain b h where b: "nb = Ok (b, h)" by (cases x) auto
      have le: "unat (sync_from + 1) \<le> unat sync_to" "unat (sync_from + 1) = Suc (unat sync_from)"
        using True unat_Suc_below [OF True] by (simp_all add: word_less_nat_alt)
      then have num: "hd_block_number (blk_header b) = sync_from + 1"
        using b assms(3,4) get_starknet_block_number [OF assms(2), of "sync_from + 1" b h]
        by (auto simp: nb_def split: if_splits)
      obtain r1 s1 acc1 where u: "update_starknet_state R H P cl prev b h config (s, acc) = (r1, s1, acc1)"
        by (metis prod_cases3)
      from settle_one [OF u] show ?thesis
      proof (elim disjE exE conjE)
        fix out
        assume out: "program_output R H cl prev b h config = Ok out" "acc1 = acc @ [out]"
          "r1 = Ok \<lparr>ss_state_root = new_state_root out, ss_block_number = os_block_number out\<rparr>"
        let ?new = "\<lparr>ss_state_root = new_state_root out, ss_block_number = os_block_number out\<rparr>"
        have "settle_blocks R H P cl config block hash (sync_from + 1) sync_to ?new (s1, acc1) = (r, s', acc')"
          using run b u out(3) by (simp add: bind_st_def)
        moreover have "sync_from + 1 \<le> sync_to" using le(1) by (simp add: word_le_nat_alt)
        ultimately obtain outs where outs: "acc' = acc1 @ outs" "continues R H cls config ?new (sync_from + 1) outs"
            "\<forall>sync_from' new. r = Ok (sync_from', new) \<longrightarrow>
              sync_from' = sync_from + 1 + of_nat (length outs) \<and> new = settled_after ?new outs"
          using less.hyps [OF unat_below_step [OF True]] by blast
        have "prev_state_root out = ss_state_root prev" "os_block_number out = sf_from_u64 (rt_sf R) (sync_from + 1)"
          using out(1) num by (auto simp: program_output_def)
        then show ?thesis
          using outs out(1,2) num assms(1)
          by (intro exI [of _ "out # outs"]) (auto simp: add_ac)
      next
        assume "acc1 = acc" "\<forall>new. r1 \<noteq> Ok new"
        then show ?thesis
          using run b u by (intro exI [of _ "[]"]) (cases r1, auto simp: bind_st_def)
      qed
    qed (use run in \<open>auto simp: ret_st_def\<close>)
  qed
qed

lemma settle_notifications_continues:
  assumes "\<forall>(header, hash, cl)\<in>set ns. cl \<in> cls \<and> blocks_numbered (rt_dg R) cl \<and>
    (\<forall>b. find_starknet_block (rt_dg R) (sh_digest header) = Ok b \<longrightarrow> unat (hd_block_number (blk_header b)) < 2 ^ 32)"
  shows "settle_notifications R H P config ns sync_from prev (s, acc) = (r, s', acc') \<Longrightarrow>
    \<exists>outs. acc' = acc @ outs \<and> continues R H cls config prev sync_from outs"
  using assms
proof (induction ns arbitrary: sync_from prev s acc)
  case (Cons n ns)
  obtain header hash cl where n: "n = (header, hash, cl)" by (cases n) auto
  have ns: "\<forall>(header, hash, cl)\<in>set ns. cl \<in> cls \<and> blocks_numbered (rt_dg R) cl \<and>
      (\<forall>b. find_starknet_block (rt_dg R) (sh_digest header) = Ok b \<longrightarrow> unat (hd_block_number (blk_header b)) < 2 ^ 32)"
    using Cons.prems(2) by simp
  note rest = Cons.IH [OF _ ns]
  show ?case
  proof (cases "find_starknet_block (rt_dg R) (sh_digest header)")
    case (Ok block)
    let ?to = "hd_block_number (blk_header block)"
    have cl: "cl \<in> cls" "blocks_numbered (rt_dg R) cl" "unat ?to < 2 ^ 32" using Cons.prems(2) n Ok by auto
    consider "?to < sync_from" | "sync_from = ?to" | "sync_from < ?to" by force
    then show ?thesis
    proof cases
      case 1
      then show ?thesis using Cons.prems(1) n Ok rest by (simp add: Let_def)
    next
      case 2
      then show ?thesis
        using Cons.prems(1) n Ok rest
        by (cases "verify_starknet_state R cl prev") (auto simp: ret_st_def Let_def)
    next
      case 3
      obtain r1 s1 acc1 where b: "settle_blocks R H P cl config block hash sync_from ?to prev (s, acc) = (r1, s1, acc1)"
        by (metis prod_cases3)
      obtain outs where outs: "acc1 = acc @ outs" "continues R H cls config prev sync_from outs"
          "\<forall>sync_from' new. r1 = Ok (sync_from', new) \<longrightarrow>
            sync_from' = sync_from + of_nat (length outs) \<and> new = settled_after prev outs"
        using settle_blocks_continues [OF cl(1,2) refl cl(3) b] 3 by (auto simp: order.strict_implies_order)
      have run: "(case r1 of Ok (sync_from', new) \<Rightarrow> settle_notifications R H P config ns sync_from' new (s1, acc1)
          | Err e \<Rightarrow> (Err e, s1, acc1) | Panic \<Rightarrow> (Panic, s1, acc1)) = (r, s', acc')"
        using Cons.prems(1) n Ok 3 order_less_not_sym [OF 3] less_imp_neq [OF 3] b
        by (auto simp: bind_st_def Let_def split: result.split)
      show ?thesis
      proof (cases r1)
        case (Ok x)
        then have "settle_notifications R H P config ns (sync_from + of_nat (length outs)) (settled_after prev outs) (s1, acc1) = (r, s', acc')"
          using run outs(3) by (cases x) auto
        then obtain more where "acc' = acc1 @ more"
            "continues R H cls config (settled_after prev outs) (sync_from + of_nat (length outs)) more"
          using rest by blast
        then show ?thesis using outs by (intro exI [of _ "outs @ more"]) (simp add: continues_append)
      qed (use run outs in auto)
    qed
  qed (use Cons.prems(1) n in \<open>auto simp: ret_st_def\<close>)
qed (auto simp: ret_st_def)

text \<open>
  C23. Blocks are settled in order. Whatever a run of the worker meets, an error of the provider in
  the middle included, the outputs it got accepted continue the state it found on the settlement
  layer: their block numbers follow each other without a gap from the settled one, each starts from
  the state root the one before left, and each is the output of the block with its number. The run
  submits nothing unless the layer is initialised and its program and configuration hashes are those
  of the chain.
\<close>

theorem settlement_in_order:
  fixes P :: "('h, 's) SettlementProvider"
  assumes "sync_state_loop R H P cl ns (s, acc) = (r, s', acc')"
    and "\<forall>(header, hash, cl')\<in>set ns. blocks_numbered (rt_dg R) cl' \<and>
      (\<forall>b. find_starknet_block (rt_dg R) (sh_digest header) = Ok b \<longrightarrow> unat (hd_block_number (blk_header b)) < 2 ^ 32)"
  shows "\<exists>outs. acc' = acc @ outs \<and> (outs \<noteq> [] \<longrightarrow>
    (\<exists>spec prev n p. sp_is_initialized P s = Ok True \<and> sp_get_chain_spec P s = Ok spec \<and> sp_get_state P s = Ok prev \<and>
       api_program_hash R cl (cl_best_hash cl) = Some p \<and> felt_into (rt_ff R) p = (Ok (spec_program_hash spec) :: (_, unit) result) \<and>
       api_config_hash R cl (cl_best_hash cl) = Some (spec_config_hash spec) \<and>
       sf_try_u64 (rt_sf R) (ss_block_number prev) = Some n \<and>
       continues R H ((\<lambda>(_, _, cl). cl) ` set ns) (spec_config_hash spec) prev n outs))"
proof (cases "acc' = acc")
  case False
  then have changed: "(s', acc') \<noteq> (s, acc)" by simp
  obtain spec prev n where run: "sp_is_initialized P s = Ok True" "sp_get_chain_spec P s = Ok spec"
      "verify_starknet_spec R cl spec = Ok ()" "sp_get_state P s = Ok prev"
      "sf_try_u64 (rt_sf R) (ss_block_number prev) = Some n"
      "settle_notifications R H P (spec_config_hash spec) ns n prev (s, acc) = (r, s', acc')"
    using assms(1) unfolding sync_state_loop_def
    by (auto dest!: bind_ret_run [OF _ changed] split: if_splits) (use changed in \<open>simp add: ret_st_def\<close>)
  have "\<forall>(header, hash, cl')\<in>set ns. cl' \<in> (\<lambda>(_, _, cl). cl) ` set ns \<and> blocks_numbered (rt_dg R) cl' \<and>
      (\<forall>b. find_starknet_block (rt_dg R) (sh_digest header) = Ok b \<longrightarrow> unat (hd_block_number (blk_header b)) < 2 ^ 32)"
  proof (intro ballI, clarify)
    fix header hash cl'
    assume n: "(header, hash, cl') \<in> set ns"
    show "cl' \<in> (\<lambda>(_, _, cl). cl) ` set ns \<and> blocks_numbered (rt_dg R) cl' \<and>
      (\<forall>b. find_starknet_block (rt_dg R) (sh_digest header) = Ok b \<longrightarrow> unat (hd_block_number (blk_header b)) < 2 ^ 32)"
      using bspec [OF assms(2) n] image_eqI [OF _ n, of cl' "\<lambda>(_, _, cl). cl"] by simp
  qed
  from settle_notifications_continues [OF this run(6)]
  obtain outs where outs: "acc' = acc @ outs"
      "continues R H ((\<lambda>(_, _, cl). cl) ` set ns) (spec_config_hash spec) prev n outs"
    by (elim exE conjE)
  obtain p where p: "api_program_hash R cl (cl_best_hash cl) = Some p"
      "felt_into (rt_ff R) p = (Ok (spec_program_hash spec) :: (_, 'h SettleError) result)"
      "api_config_hash R cl (cl_best_hash cl) = Some (spec_config_hash spec)"
    using run(3) by (auto simp: verify_starknet_spec_def Let_def split: if_splits)
  show ?thesis
    using run(1,2,4,5) outs p(1,3) felt_into_retype [THEN iffD1, OF p(2)]
    by (intro exI [of _ outs] conjI impI exI [of _ spec] exI [of _ prev] exI [of _ n] exI [of _ p]) simp_all
qed simp

subsection \<open>A sample settlement\<close>

text \<open>The sample chain before its first block is known under its number, and a layer that accepts outputs.\<close>

definition settling_client :: "(byte, nat, Log) client" where
  "settling_client = sample_client\<lparr>cl_hash := (\<lambda>n. Some (if n = 1 then Some 2 else None))\<rparr>"

definition provider_ref :: "stark_felt \<Rightarrow> (byte, StarknetState) SettlementProvider" where
  "provider_ref config = \<lparr>sp_is_initialized = (\<lambda>_. Ok True),
     sp_get_chain_spec = (\<lambda>_. Ok \<lparr>spec_config_hash = config, spec_program_hash = be_bytes 32 0\<rparr>),
     sp_get_state = Ok,
     sp_update_state = (\<lambda>out _. (Ok (), \<lparr>ss_state_root = new_state_root out, ss_block_number = os_block_number out\<rparr>))\<rparr>"

lemma provider_ref_simps [simp]:
  "sp_is_initialized (provider_ref config) s = Ok True" "sp_get_state (provider_ref config) s = Ok s"
  "sp_get_chain_spec (provider_ref config) s = Ok \<lparr>spec_config_hash = config, spec_program_hash = be_bytes 32 0\<rparr>"
  by (simp_all add: provider_ref_def)

lemma settling_client_simps [simp]:
  "cl_best_hash settling_client = 2" "cl_header settling_client h = Some (sample_head h)"
  "cl_hash settling_client n = Some (if n = 1 then Some 2 else None)"
  "cl_state_at settling_client h = map_option (\<lambda>_. empty_pallet 0) (sample_head h)"
  by (simp_all add: settling_client_def)

lemma sample_config_hash: obtains config where "api_config_hash runtime_ref settling_client 2 = Some config"
  using sample_config [of "empty_pallet 0"] that by (auto simp: api_config_hash_def empty_pallet_def)

theorem settlement_in_order_witness:
  "\<exists>config s' out. sync_state_loop runtime_ref sample_hasher (provider_ref config) settling_client
      [(the (sample_head 2), 2, settling_client)]
      (\<lparr>ss_state_root = be_bytes 32 0, ss_block_number = be_bytes 32 0\<rparr>, []) = (Ok (), s', [out]) \<and>
    os_block_number out = be_bytes 32 1 \<and> prev_state_root out = be_bytes 32 0"
proof -
  let ?s = "\<lparr>ss_state_root = be_bytes 32 0, ss_block_number = be_bytes 32 0\<rparr>"
  let ?ns = "[(the (sample_head 2), 2, settling_client)]"
  obtain config where c: "api_config_hash runtime_ref settling_client 2 = Some config" by (rule sample_config_hash)
  let ?P = "provider_ref config"
  have find: "find_starknet_block (rt_dg runtime_ref) (sh_digest (the (sample_head 2))) = Ok (block_new sample_header [])"
    by (simp add: find_starknet_block_def find_log_def find_log_in_def runtime_ref_def digest_ref_def)
  obtain f where "carries runtime_ref sample_hasher (the (sample_head 2)) f []" by (rule sample_carries)
  then obtain x where x: "header_hash (rt_ff runtime_ref) sample_hasher sample_header = (Ok x :: (_, unit) result)"
      "felt_into (rt_ff runtime_ref) x = (Ok f :: (_, unit) result)"
    using find by (auto simp: carries_def block_new_def)
  let ?out = "\<lparr>prev_state_root = be_bytes 32 0, new_state_root = temporary_global_state_root_getter,
    os_block_number = sf_from_u64 (rt_sf runtime_ref) 1, os_block_hash = f, os_config_hash = config,
    messages_to_l1 = [], messages_to_l2 = []\<rparr>"
  have "program_output runtime_ref sample_hasher settling_client ?s (block_new sample_header []) 2 config = Ok ?out"
    using x by (simp add: program_output_def api_chain_id_def api_call_def block_new_def
        header_hash_retype [where 'e = "byte SettleError" and 'f = unit]
        felt_into_retype [where 'e = "byte SettleError" and 'f = unit] sample_header_def header_new_def)
  then have "update_starknet_state runtime_ref sample_hasher ?P settling_client ?s (block_new sample_header []) 2 config (?s, []) =
      (Ok \<lparr>ss_state_root = new_state_root ?out, ss_block_number = os_block_number ?out\<rparr>,
       \<lparr>ss_state_root = new_state_root ?out, ss_block_number = os_block_number ?out\<rparr>, [?out])"
    by (simp add: update_starknet_state_def submit_def provider_ref_def bind_st_def ret_st_def)
  then have "settle_blocks runtime_ref sample_hasher ?P settling_client config (block_new sample_header []) 2 0 1 ?s (?s, []) =
      (Ok (1, \<lparr>ss_state_root = new_state_root ?out, ss_block_number = os_block_number ?out\<rparr>),
       \<lparr>ss_state_root = new_state_root ?out, ss_block_number = os_block_number ?out\<rparr>, [?out])"
    by (simp add: settle_blocks.simps bind_st_def ret_st_def)
  then have "settle_notifications runtime_ref sample_hasher ?P config ?ns 0 ?s (?s, []) =
      (Ok (), \<lparr>ss_state_root = new_state_root ?out, ss_block_number = os_block_number ?out\<rparr>, [?out])"
    using find by (simp add: Let_def bind_st_def ret_st_def block_new_def sample_header_def header_new_def)
  moreover have "sf_try_u64 (rt_sf runtime_ref) (be_bytes 32 0) = Some 0"
    by (simp add: runtime_ref_def sf_ref_def be_val_be_bytes)
  moreover have "verify_starknet_spec runtime_ref settling_client \<lparr>spec_config_hash = config, spec_program_hash = be_bytes 32 0\<rparr> = Ok ()"
    using c sample_chain.libs.stark_felt_roundtrip(1) [of 0]
    by (simp add: verify_starknet_spec_def Let_def api_program_hash_def api_call_def program_hash_def runtime_ref_def felt_into_def)
  ultimately have run: "sync_state_loop runtime_ref sample_hasher ?P settling_client ?ns (?s, []) =
      (Ok (), \<lparr>ss_state_root = new_state_root ?out, ss_block_number = os_block_number ?out\<rparr>, [?out])"
    by (simp add: sync_state_loop_def verify_starknet_state_def get_starknet_block_def saturate_u32_def
        del: settle_notifications.simps)
  have "blocks_numbered (rt_dg runtime_ref) settling_client"
    unfolding blocks_numbered_def using find by (auto simp: block_new_def sample_header_def header_new_def split: if_splits)
  then obtain n where "continues runtime_ref sample_hasher {settling_client} config ?s n [?out]"
      "sf_try_u64 (rt_sf runtime_ref) (be_bytes 32 0) = Some n"
    using settlement_in_order [OF run] find by (auto simp: provider_ref_def block_new_def sample_header_def header_new_def)
  then have "prev_state_root ?out = be_bytes 32 0" "os_block_number ?out = be_bytes 32 1"
    by (auto simp: runtime_ref_def sf_ref_def be_val_be_bytes)
  then show ?thesis using run by blast
qed

end
