(* ===== verification/Storage_Override.thy ===== *)
theory Storage_Override
  imports Client
begin

text \<open>
  Reading contract state from outside the runtime (\<^verbatim>\<open>crates/client/storage\<close> and the key
  constants of \<^verbatim>\<open>crates/primitives/storage\<close>). A node reads the pallet's maps either directly from
  the raw key-value storage of a block, when the storage carries a known schema version, or through
  the runtime API. Both readers implement the trait \<open>StorageOverride\<close>; the locale of that name states
  what its clients rely on for deployed contracts, and both readers are interpretations of it.
\<close>

section \<open>Raw storage\<close>

text \<open>
  What the code uses of Substrate: the 128 bit hash of storage names, and the SCALE codecs of field
  elements and contract classes.
\<close>

record 'c raw_api =
  twox_128 :: "bytes \<Rightarrow> bytes"
  scale_felt :: "stark_felt \<Rightarrow> bytes"
  unscale_felt :: "bytes \<Rightarrow> stark_felt option"
  scale_class :: "'c \<Rightarrow> bytes"
  unscale_class :: "bytes \<Rightarrow> 'c option"

definition PALLET_STARKNET_SCHEMA :: bytes where "PALLET_STARKNET_SCHEMA = ascii '':starknet_schema''"

definition PALLET_STARKNET :: bytes where "PALLET_STARKNET = ascii ''Starknet''"

definition STARKNET_CONTRACT_CLASS_HASH :: bytes where "STARKNET_CONTRACT_CLASS_HASH = ascii ''ContractClassHashes''"

definition STARKNET_CONTRACT_CLASS :: bytes where "STARKNET_CONTRACT_CLASS = ascii ''ContractClasses''"

definition STARKNET_NONCE :: bytes where "STARKNET_NONCE = ascii ''Nonces''"

definition STARKNET_STORAGE :: bytes where "STARKNET_STORAGE = ascii ''StorageView''"

definition STARKNET_COMPILED_CLASS_HASH :: bytes where "STARKNET_COMPILED_CLASS_HASH = ascii ''CompiledClassHashes''"

lemmas storage_names = STARKNET_CONTRACT_CLASS_HASH_def STARKNET_CONTRACT_CLASS_def STARKNET_NONCE_def
  STARKNET_STORAGE_def STARKNET_COMPILED_CLASS_HASH_def

definition storage_prefix_build :: "'c raw_api \<Rightarrow> bytes \<Rightarrow> bytes \<Rightarrow> bytes" where
  "storage_prefix_build A module storage = twox_128 A module @ twox_128 A storage"

text \<open>The hasher \<open>Identity\<close> returns the key it is given.\<close>

definition storage_key_build :: "bytes \<Rightarrow> bytes \<Rightarrow> bytes" where
  "storage_key_build prefix key = prefix @ key"

definition SN_NONCE_PREFIX :: "'c raw_api \<Rightarrow> bytes" where
  "SN_NONCE_PREFIX A = twox_128 A PALLET_STARKNET @ twox_128 A STARKNET_NONCE"

definition SN_CONTRACT_CLASS_HASH_PREFIX :: "'c raw_api \<Rightarrow> bytes" where
  "SN_CONTRACT_CLASS_HASH_PREFIX A = twox_128 A PALLET_STARKNET @ twox_128 A STARKNET_CONTRACT_CLASS_HASH"

definition SN_STORAGE_PREFIX :: "'c raw_api \<Rightarrow> bytes" where
  "SN_STORAGE_PREFIX A = twox_128 A PALLET_STARKNET @ twox_128 A STARKNET_STORAGE"

definition SN_COMPILED_CLASS_HASH_PREFIX :: "'c raw_api \<Rightarrow> bytes" where
  "SN_COMPILED_CLASS_HASH_PREFIX A = twox_128 A PALLET_STARKNET @ twox_128 A STARKNET_COMPILED_CLASS_HASH"

lemmas sn_prefixes = SN_NONCE_PREFIX_def SN_CONTRACT_CLASS_HASH_PREFIX_def SN_STORAGE_PREFIX_def
  SN_COMPILED_CLASS_HASH_PREFIX_def

text \<open>The derived codec of a field-less enumeration: one byte, the position of the variant.\<close>

fun schema_encode :: "StarknetStorageSchemaVersion \<Rightarrow> bytes" where
  "schema_encode UndefinedSchema = [0]"
| "schema_encode SchemaV1 = [1]"

fun schema_decode :: "bytes \<Rightarrow> StarknetStorageSchemaVersion option" where
  "schema_decode [] = None"
| "schema_decode (b # raw) =
     (if b = 0 then Some UndefinedSchema else if b = 1 then Some SchemaV1 else None)"

section \<open>The readers\<close>

record ('h, 'c) StorageOverride =
  so_get_storage_by_storage_key :: "'h \<Rightarrow> contract_address \<Rightarrow> storage_key \<Rightarrow> stark_felt option"
  so_contract_class_hash_by_address :: "'h \<Rightarrow> contract_address \<Rightarrow> class_hash option"
  so_contract_class_by_address :: "'h \<Rightarrow> contract_address \<Rightarrow> 'c option"
  so_contract_class_by_class_hash :: "'h \<Rightarrow> class_hash \<Rightarrow> 'c option"
  so_nonce :: "'h \<Rightarrow> contract_address \<Rightarrow> nonce option"

subsection \<open>Reading the raw storage\<close>

definition query_storage :: "(bytes \<Rightarrow> 'a option) \<Rightarrow> ('h, 'c, 'p) client \<Rightarrow> 'h \<Rightarrow> bytes \<Rightarrow> 'a option" where
  "query_storage decode cl h key =
     (case cl_storage cl h key of
        Some (Some data) \<Rightarrow> decode data
      | _ \<Rightarrow> None)"

definition v1_contract_class_hash_by_address ::
    "'c raw_api \<Rightarrow> ('h, 'c, 'p) client \<Rightarrow> 'h \<Rightarrow> contract_address \<Rightarrow> class_hash option" where
  "v1_contract_class_hash_by_address A cl h address =
     query_storage (unscale_felt A) cl h
       (storage_key_build (storage_prefix_build A PALLET_STARKNET STARKNET_CONTRACT_CLASS_HASH)
         (scale_felt A address))"

definition v1_get_storage_by_storage_key ::
    "'c raw_api \<Rightarrow> ('h, 'c, 'p) client \<Rightarrow> 'h \<Rightarrow> contract_address \<Rightarrow> storage_key \<Rightarrow> stark_felt option" where
  "v1_get_storage_by_storage_key A cl h address key =
     (case v1_contract_class_hash_by_address A cl h address of
        None \<Rightarrow> None
      | Some _ \<Rightarrow>
          Some (unwrap_or_default (query_storage (unscale_felt A) cl h
            (storage_key_build (storage_prefix_build A PALLET_STARKNET STARKNET_STORAGE)
              (scale_felt A address @ scale_felt A key)))))"

definition v1_contract_class_by_class_hash ::
    "'c raw_api \<Rightarrow> ('h, 'c, 'p) client \<Rightarrow> 'h \<Rightarrow> class_hash \<Rightarrow> 'c option" where
  "v1_contract_class_by_class_hash A cl h contract_class_hash =
     query_storage (unscale_class A) cl h
       (storage_key_build (storage_prefix_build A PALLET_STARKNET STARKNET_CONTRACT_CLASS)
         (scale_felt A contract_class_hash))"

definition v1_contract_class_by_address ::
    "'c raw_api \<Rightarrow> ('h, 'c, 'p) client \<Rightarrow> 'h \<Rightarrow> contract_address \<Rightarrow> 'c option" where
  "v1_contract_class_by_address A cl h address =
     Option.bind (v1_contract_class_hash_by_address A cl h address)
       (v1_contract_class_by_class_hash A cl h)"

definition v1_nonce :: "'c raw_api \<Rightarrow> ('h, 'c, 'p) client \<Rightarrow> 'h \<Rightarrow> contract_address \<Rightarrow> nonce option" where
  "v1_nonce A cl h address =
     Option.bind (v1_contract_class_hash_by_address A cl h address) (\<lambda>_.
       Some (unwrap_or_default (query_storage (unscale_felt A) cl h
         (storage_key_build (storage_prefix_build A PALLET_STARKNET STARKNET_NONCE) (scale_felt A address)))))"

definition SchemaV1Override :: "'c raw_api \<Rightarrow> ('h, 'c, 'p) client \<Rightarrow> ('h, 'c) StorageOverride" where
  "SchemaV1Override A cl =
     \<lparr>so_get_storage_by_storage_key = v1_get_storage_by_storage_key A cl,
      so_contract_class_hash_by_address = v1_contract_class_hash_by_address A cl,
      so_contract_class_by_address = v1_contract_class_by_address A cl,
      so_contract_class_by_class_hash = v1_contract_class_by_class_hash A cl,
      so_nonce = v1_nonce A cl\<rparr>"

subsection \<open>Reading through the runtime API\<close>

definition api_get_storage_by_storage_key ::
    "('h, 'c, 'p) client \<Rightarrow> 'h \<Rightarrow> contract_address \<Rightarrow> storage_key \<Rightarrow> stark_felt option" where
  "api_get_storage_by_storage_key cl h address key =
     (case api_get_storage_at cl h address key of
        Some (Ok storage) \<Rightarrow> Some storage
      | _ \<Rightarrow> None)"

definition api_contract_class_by_address :: "('h, 'c, 'p) client \<Rightarrow> 'h \<Rightarrow> contract_address \<Rightarrow> 'c option" where
  "api_contract_class_by_address cl h address =
     Option.bind (api_contract_class_hash_by_address cl h address) (\<lambda>contract_class_hash.
       Option.bind (api_contract_class_by_class_hash cl h contract_class_hash) (\<lambda>c. c))"

definition api_class_by_class_hash :: "('h, 'c, 'p) client \<Rightarrow> 'h \<Rightarrow> class_hash \<Rightarrow> 'c option" where
  "api_class_by_class_hash cl h contract_class_hash =
     Option.bind (api_contract_class_by_class_hash cl h contract_class_hash) (\<lambda>c. c)"

definition RuntimeApiStorageOverride :: "('h, 'c, 'p) client \<Rightarrow> ('h, 'c) StorageOverride" where
  "RuntimeApiStorageOverride cl =
     \<lparr>so_get_storage_by_storage_key = api_get_storage_by_storage_key cl,
      so_contract_class_hash_by_address = api_contract_class_hash_by_address cl,
      so_contract_class_by_address = api_contract_class_by_address cl,
      so_contract_class_by_class_hash = api_class_by_class_hash cl,
      so_nonce = api_nonce cl\<rparr>"

subsection \<open>Choosing a reader\<close>

record ('h, 'c) OverrideHandle =
  schemas :: "StarknetStorageSchemaVersion \<rightharpoonup> ('h, 'c) StorageOverride"
  fallback :: "('h, 'c) StorageOverride"

definition overrides_handle :: "'c raw_api \<Rightarrow> ('h, 'c, 'p) client \<Rightarrow> ('h, 'c) OverrideHandle" where
  "overrides_handle A cl =
     \<lparr>schemas = [SchemaV1 \<mapsto> SchemaV1Override A cl], fallback = RuntimeApiStorageOverride cl\<rparr>"

definition onchain_storage_schema :: "('h, 'c, 'p) client \<Rightarrow> 'h \<Rightarrow> StarknetStorageSchemaVersion" where
  "onchain_storage_schema cl h =
     (case cl_storage cl h PALLET_STARKNET_SCHEMA of
        Some (Some raw) \<Rightarrow> (case schema_decode raw of Some v \<Rightarrow> v | None \<Rightarrow> UndefinedSchema)
      | _ \<Rightarrow> UndefinedSchema)"

definition for_schema_version :: "('h, 'c) OverrideHandle \<Rightarrow> StarknetStorageSchemaVersion \<Rightarrow> ('h, 'c) StorageOverride" where
  "for_schema_version self version =
     (case schemas self version of Some storage_override \<Rightarrow> storage_override | None \<Rightarrow> fallback self)"

definition for_block_hash :: "('h, 'c) OverrideHandle \<Rightarrow> ('h, 'c, 'p) client \<Rightarrow> 'h \<Rightarrow> ('h, 'c) StorageOverride" where
  "for_block_hash self cl h = for_schema_version self (onchain_storage_schema cl h)"

section \<open>What raw storage holds\<close>

text \<open>
  FRAME stores an item of a map under the hashes of the pallet's and the map's name followed by the
  hashed key. \<open>raw_storage\<close> is that layout for the maps that hold the contract state.
\<close>

definition raw_storage :: "'c raw_api \<Rightarrow> 'c contract_storage \<Rightarrow> bytes \<Rightarrow> bytes option" where
  "raw_storage A p k =
     (let prefix = take 32 k; key = drop 32 k
      in if prefix = SN_NONCE_PREFIX A then map_option (scale_felt A) (Nonces p key)
         else if prefix = SN_CONTRACT_CLASS_HASH_PREFIX A then map_option (scale_felt A) (ContractClassHashes p key)
         else if prefix = SN_STORAGE_PREFIX A then map_option (scale_felt A) (StorageView p (take 32 key, drop 32 key))
         else if prefix = SN_COMPILED_CLASS_HASH_PREFIX A then map_option (scale_felt A) (CompiledClassHashes p key)
         else if prefix = storage_prefix_build A PALLET_STARKNET STARKNET_CONTRACT_CLASS
         then map_option (scale_class A) (ContractClasses p key)
         else None)"

text \<open>
  The hash has 16 bytes and separates the names of the five maps; a field element is a wrapped array
  of 32 bytes, which SCALE encodes as these bytes; classes decode from their encoding.
\<close>

definition raw_laws :: "'c raw_api \<Rightarrow> bool" where
  "raw_laws A \<longleftrightarrow>
     (\<forall>x. length (twox_128 A x) = 16) \<and>
     distinct (map (twox_128 A) [STARKNET_NONCE, STARKNET_CONTRACT_CLASS_HASH, STARKNET_STORAGE,
       STARKNET_COMPILED_CLASS_HASH, STARKNET_CONTRACT_CLASS]) \<and>
     (\<forall>f. length f = 32 \<longrightarrow> scale_felt A f = f \<and> unscale_felt A f = Some f) \<and>
     (\<forall>c. unscale_class A (scale_class A c) = Some c)"

text \<open>Every stored key and value is an array of 32 bytes.\<close>

definition wf_contracts :: "'c contract_storage \<Rightarrow> bool" where
  "wf_contracts p \<longleftrightarrow>
     (\<forall>a n. Nonces p a = Some n \<longrightarrow> length a = 32 \<and> length n = 32) \<and>
     (\<forall>a h. ContractClassHashes p a = Some h \<longrightarrow> length a = 32 \<and> length h = 32) \<and>
     (\<forall>a k v. StorageView p (a, k) = Some v \<longrightarrow> length a = 32 \<and> length k = 32 \<and> length v = 32) \<and>
     (\<forall>h v. CompiledClassHashes p h = Some v \<longrightarrow> length h = 32 \<and> length v = 32) \<and>
     (\<forall>h c. ContractClasses p h = Some c \<longrightarrow> length h = 32)"

locale raw_libs =
  fixes A :: "'c raw_api"
  assumes laws: "raw_laws A"
begin

lemma length_twox [simp]: "length (twox_128 A x) = 16"
  using laws by (simp add: raw_laws_def)

lemma scale_felt_eq [simp]: "length f = 32 \<Longrightarrow> scale_felt A f = f" "length f = 32 \<Longrightarrow> unscale_felt A f = Some f"
  using laws by (simp_all add: raw_laws_def)

lemma unscale_scale_class [simp]: "unscale_class A (scale_class A c) = Some c"
  using laws by (simp add: raw_laws_def)

lemma length_prefixes [simp]:
  "length (SN_NONCE_PREFIX A) = 32" "length (SN_CONTRACT_CLASS_HASH_PREFIX A) = 32"
  "length (SN_STORAGE_PREFIX A) = 32" "length (SN_COMPILED_CLASS_HASH_PREFIX A) = 32"
  "length (storage_prefix_build A PALLET_STARKNET STARKNET_CONTRACT_CLASS) = 32"
  by (simp_all add: sn_prefixes storage_prefix_build_def)

lemma distinct_prefixes:
  "distinct [SN_NONCE_PREFIX A, SN_CONTRACT_CLASS_HASH_PREFIX A, SN_STORAGE_PREFIX A,
     SN_COMPILED_CLASS_HASH_PREFIX A, storage_prefix_build A PALLET_STARKNET STARKNET_CONTRACT_CLASS]"
  using laws by (simp add: raw_laws_def sn_prefixes storage_prefix_build_def)

lemma raw_storage_items:
  "raw_storage A p (SN_NONCE_PREFIX A @ a) = map_option (scale_felt A) (Nonces p a)"
  "raw_storage A p (SN_CONTRACT_CLASS_HASH_PREFIX A @ a) = map_option (scale_felt A) (ContractClassHashes p a)"
  "raw_storage A p (SN_STORAGE_PREFIX A @ a) = map_option (scale_felt A) (StorageView p (take 32 a, drop 32 a))"
  "raw_storage A p (SN_COMPILED_CLASS_HASH_PREFIX A @ a) = map_option (scale_felt A) (CompiledClassHashes p a)"
  "raw_storage A p (storage_prefix_build A PALLET_STARKNET STARKNET_CONTRACT_CLASS @ a) =
     map_option (scale_class A) (ContractClasses p a)"
  using distinct_prefixes by (auto simp: raw_storage_def Let_def)

end

section \<open>The contract of the readers\<close>

text \<open>
  What a client of a reader relies on at a block whose contract state is \<open>p\<close>: the reads of a deployed
  contract are those of the state, an undeployed contract has no storage, and a class is read under
  its hash.
\<close>

locale storage_override =
  fixes so :: "('h, 'c) StorageOverride" and h :: 'h and p :: "'c contract_storage"
  assumes deployed_storage: "length a = 32 \<Longrightarrow> length k = 32 \<Longrightarrow> ContractClassHashes p a \<noteq> None \<Longrightarrow>
      so_get_storage_by_storage_key so h a k = Some (pallet_storage p (a, k))"
    and undeployed_storage: "length a = 32 \<Longrightarrow> length k = 32 \<Longrightarrow> ContractClassHashes p a = None \<Longrightarrow>
      so_get_storage_by_storage_key so h a k = None"
    and deployed_nonce: "length a = 32 \<Longrightarrow> ContractClassHashes p a \<noteq> None \<Longrightarrow> so_nonce so h a = Some (pallet_nonce p a)"
    and deployed_class_hash: "length a = 32 \<Longrightarrow> ContractClassHashes p a = Some c \<Longrightarrow>
      so_contract_class_hash_by_address so h a = Some c"
    and deployed_class: "length a = 32 \<Longrightarrow> ContractClassHashes p a = Some c \<Longrightarrow>
      so_contract_class_by_address so h a = ContractClasses p c"
    and class_by_hash: "length c = 32 \<Longrightarrow> so_contract_class_by_class_hash so h c = ContractClasses p c"
begin

lemmas laws = class_by_hash deployed_storage undeployed_storage deployed_nonce deployed_class_hash deployed_class

end

text \<open>A block of a client whose raw storage holds the contract state its runtime works on.\<close>

locale raw_block = raw_libs A for A :: "'c raw_api" +
  fixes cl :: "('h, 'c, 'p) client" and h :: 'h and s :: "('c, 'p) pallet"
  assumes state: "cl_state_at cl h = Some s" and wf: "wf_contracts (Contracts s)"
    and raw: "\<And>k. 32 \<le> length k \<Longrightarrow> cl_storage cl h k = Some (raw_storage A (Contracts s) k)"
begin

lemma wf_lengths:
  "Nonces (Contracts s) a = Some n \<Longrightarrow> length n = 32"
  "ContractClassHashes (Contracts s) a = Some c \<Longrightarrow> length c = 32"
  "StorageView (Contracts s) (a, k) = Some v \<Longrightarrow> length v = 32"
  using wf by (simp_all add: wf_contracts_def)

lemma v1_class_hash:
  assumes "length a = 32"
  shows "v1_contract_class_hash_by_address A cl h a = ContractClassHashes (Contracts s) a"
  using assms raw_storage_items(2) [of "Contracts s" a]
  by (simp add: v1_contract_class_hash_by_address_def query_storage_def storage_key_build_def
      raw storage_prefix_build_def sn_prefixes wf_lengths split: option.split)

lemma v1_class:
  assumes "length c = 32"
  shows "v1_contract_class_by_class_hash A cl h c = ContractClasses (Contracts s) c"
  using assms
  by (simp add: v1_contract_class_by_class_hash_def query_storage_def storage_key_build_def
      raw raw_storage_items split: option.split)

end

sublocale raw_block \<subseteq> v1: storage_override "SchemaV1Override A cl" h "Contracts s"
proof
  fix a c k :: bytes
  show "so_get_storage_by_storage_key (SchemaV1Override A cl) h a k = Some (pallet_storage (Contracts s) (a, k))"
    if "length a = 32" "length k = 32" "ContractClassHashes (Contracts s) a \<noteq> None"
  proof -
    have "query_storage (unscale_felt A) cl h (SN_STORAGE_PREFIX A @ (a @ k)) = StorageView (Contracts s) (a, k)"
      unfolding query_storage_def using that by (simp add: raw raw_storage_items wf_lengths split: option.split)
    then show ?thesis
      using that by (auto simp: SchemaV1Override_def v1_get_storage_by_storage_key_def v1_class_hash
          storage_key_build_def storage_prefix_build_def SN_STORAGE_PREFIX_def pallet_storage_def)
  qed
  show "so_get_storage_by_storage_key (SchemaV1Override A cl) h a k = None"
    if "length a = 32" "length k = 32" "ContractClassHashes (Contracts s) a = None"
    using that by (simp add: SchemaV1Override_def v1_get_storage_by_storage_key_def v1_class_hash)
  show "so_nonce (SchemaV1Override A cl) h a = Some (pallet_nonce (Contracts s) a)"
    if "length a = 32" "ContractClassHashes (Contracts s) a \<noteq> None"
  proof -
    have "query_storage (unscale_felt A) cl h (SN_NONCE_PREFIX A @ a) = Nonces (Contracts s) a"
      unfolding query_storage_def using that by (simp add: raw raw_storage_items wf_lengths split: option.split)
    then show ?thesis
      using that by (auto simp: SchemaV1Override_def v1_nonce_def v1_class_hash
          storage_key_build_def storage_prefix_build_def SN_NONCE_PREFIX_def pallet_nonce_def)
  qed
  show "so_contract_class_hash_by_address (SchemaV1Override A cl) h a = Some c"
    if "length a = 32" "ContractClassHashes (Contracts s) a = Some c"
    using that by (simp add: SchemaV1Override_def v1_class_hash)
  show "so_contract_class_by_address (SchemaV1Override A cl) h a = ContractClasses (Contracts s) c"
    if "length a = 32" "ContractClassHashes (Contracts s) a = Some c"
    using that by (simp add: SchemaV1Override_def v1_contract_class_by_address_def v1_class_hash v1_class wf_lengths)
  show "so_contract_class_by_class_hash (SchemaV1Override A cl) h c = ContractClasses (Contracts s) c"
    if "length c = 32"
    using that by (simp add: SchemaV1Override_def v1_class)
qed

sublocale raw_block \<subseteq> api: storage_override "RuntimeApiStorageOverride cl" h "Contracts s"
  by unfold_locales
    (auto simp: RuntimeApiStorageOverride_def api_get_storage_by_storage_key_def api_get_storage_at_def api_try_def
      pallet_get_storage_at_def api_nonce_def api_contract_class_hash_by_address_def api_call_def
      contract_class_hash_by_address_def unwrap_or_default_def api_contract_class_by_address_def
      api_contract_class_by_class_hash_def api_class_by_class_hash_def state)

context raw_block
begin

lemma readers:
  "storage_override (SchemaV1Override A cl) h (Contracts s)" "storage_override (RuntimeApiStorageOverride cl) h (Contracts s)"
  by (rule v1.storage_override_axioms, rule api.storage_override_axioms)

end

section \<open>The readers agree\<close>

lemma schema_decode_encode [simp]: "schema_decode (schema_encode v) = Some v"
  by (cases v) simp_all

lemma for_block_hash_cases:
  assumes "cl_storage cl h PALLET_STARKNET_SCHEMA = Some (map_option schema_encode (schema_version s))"
  shows "for_block_hash (overrides_handle A cl) cl h =
    (if schema_version s = Some SchemaV1 then SchemaV1Override A cl else RuntimeApiStorageOverride cl)"
  using assms
  by (cases "schema_version s"; cases "the (schema_version s)")
    (simp_all add: for_block_hash_def for_schema_version_def overrides_handle_def onchain_storage_schema_def)

text \<open>
  C30. Whichever reader the schema version of a block selects, the storage, the nonce, the class hash
  and the class of a deployed contract, and the class under a hash, are those of the state the runtime
  works on at that block, and an undeployed contract has no storage. The readers differ on undeployed
  contracts only: the raw reader finds neither nonce nor class hash, the runtime API answers with the
  default of the storage item.
\<close>

theorem overrides_agree:
  fixes A :: "'c raw_api" and cl :: "('h, 'c, 'p) client" and s :: "('c, 'p) pallet"
  assumes "raw_laws A" "wf_contracts (Contracts s)" "cl_state_at cl h = Some s"
    and "\<And>key. 32 \<le> length key \<Longrightarrow> cl_storage cl h key = Some (raw_storage A (Contracts s) key)"
    and schema: "cl_storage cl h PALLET_STARKNET_SCHEMA = Some (map_option schema_encode (schema_version s))"
    and len: "length a = 32" "length k = 32" "length c = 32"
  shows "let so = for_block_hash (overrides_handle A cl) cl h; p = Contracts s in
    so_contract_class_by_class_hash so h c = ContractClasses p c \<and>
    (case ContractClassHashes p a of
       Some class_hash \<Rightarrow>
         so_get_storage_by_storage_key so h a k = Some (pallet_storage p (a, k)) \<and>
         so_nonce so h a = Some (pallet_nonce p a) \<and>
         so_contract_class_hash_by_address so h a = Some class_hash \<and>
         so_contract_class_by_address so h a = ContractClasses p class_hash
     | None \<Rightarrow>
         so_get_storage_by_storage_key so h a k = None \<and>
         so_nonce so h a = (if schema_version s = Some SchemaV1 then None else Some (pallet_nonce p a)) \<and>
         so_contract_class_hash_by_address so h a =
           (if schema_version s = Some SchemaV1 then None else Some felt_default) \<and>
         so_contract_class_by_address so h a =
           (if schema_version s = Some SchemaV1 then None else ContractClasses p felt_default))"
proof -
  have rb: "raw_block A cl h s"
    by (intro raw_block.intro raw_libs.intro raw_block_axioms.intro) fact+
  note v1 = storage_override.laws [OF raw_block.readers(1) [OF rb]]
  note api = storage_override.laws [OF raw_block.readers(2) [OF rb]]
  show ?thesis
  proof (cases "ContractClassHashes (Contracts s) a")
    case (Some class_hash)
    show ?thesis
      using len Some v1 api by (simp add: for_block_hash_cases [OF schema])
  next
    case None
    have absent: "v1_contract_class_hash_by_address A cl h a = None"
      using raw_block.v1_class_hash [OF rb len(1)] None by simp
    show ?thesis
      using len None absent v1(1,3) api(1,3) assms(3)
      by (simp add: for_block_hash_cases [OF schema] SchemaV1Override_def RuntimeApiStorageOverride_def v1_nonce_def
          v1_contract_class_by_address_def api_nonce_def api_call_def api_contract_class_hash_by_address_def
          contract_class_hash_by_address_def unwrap_or_default_def api_contract_class_by_address_def
          api_contract_class_by_class_hash_def)
  qed
qed

section \<open>A sample block\<close>

definition raw_ref :: "nat raw_api" where
  "raw_ref = \<lparr>twox_128 = (\<lambda>x. take 16 (rev x @ replicate 16 0)), scale_felt = (\<lambda>f. f),
     unscale_felt = (\<lambda>raw. if 32 \<le> length raw then Some (take 32 raw) else None),
     scale_class = (\<lambda>c. replicate c 1), unscale_class = (\<lambda>raw. Some (length raw))\<rparr>"

lemma raw_ref_laws: "raw_laws raw_ref"
  by (auto simp: raw_laws_def raw_ref_def storage_names ascii_def min_def)

interpretation sample_raw: raw_libs raw_ref
  by unfold_locales (rule raw_ref_laws)

text \<open>One contract with a class, a nonce and a storage slot.\<close>

definition sample_contracts :: "nat contract_storage" where
  "sample_contracts = \<lparr>StorageView = [(replicate 32 7, replicate 32 1) \<mapsto> replicate 32 9],
     Nonces = [replicate 32 7 \<mapsto> replicate 32 4], ContractClassHashes = [replicate 32 7 \<mapsto> replicate 32 3],
     ContractClasses = [replicate 32 3 \<mapsto> 5], CompiledClassHashes = [replicate 32 3 \<mapsto> replicate 32 2]\<rparr>"

definition sample_pallet :: "(nat, Log) pallet" where
  "sample_pallet = (empty_pallet 0)\<lparr>Contracts := sample_contracts, schema_version := Some SchemaV1\<rparr>"

definition raw_client :: "(byte, nat, Log) client" where
  "raw_client = sample_client\<lparr>cl_state_at := (\<lambda>h. Some sample_pallet),
     cl_storage := (\<lambda>h k. Some (if length k < 32 then Some [1] else raw_storage raw_ref sample_contracts k))\<rparr>"

lemma sample_contracts_wf: "wf_contracts sample_contracts"
  by (auto simp: wf_contracts_def sample_contracts_def split: if_splits)

lemma sample_pallet_simps [simp]:
  "Contracts sample_pallet = sample_contracts" "schema_version sample_pallet = Some SchemaV1"
  by (simp_all add: sample_pallet_def)

lemma sample_contracts_simps [simp]:
  "ContractClassHashes sample_contracts = [replicate 32 7 \<mapsto> replicate 32 3]"
  "Nonces sample_contracts = [replicate 32 7 \<mapsto> replicate 32 4]"
  "StorageView sample_contracts = [(replicate 32 7, replicate 32 1) \<mapsto> replicate 32 9]"
  "ContractClasses sample_contracts = [replicate 32 3 \<mapsto> 5]"
  "CompiledClassHashes sample_contracts = [replicate 32 3 \<mapsto> replicate 32 2]"
  by (simp_all add: sample_contracts_def)

lemma length_schema_key: "length PALLET_STARKNET_SCHEMA = 16"
  by (simp add: PALLET_STARKNET_SCHEMA_def ascii_def)

interpretation sample_raw_block: raw_block raw_ref raw_client 2 sample_pallet
  by unfold_locales (simp_all add: raw_client_def sample_contracts_wf)

theorem overrides_agree_witness:
  "so_nonce (for_block_hash (overrides_handle raw_ref raw_client) raw_client 2) 2 (replicate 32 7) = Some (replicate 32 4) \<and>
   so_nonce (for_block_hash (overrides_handle raw_ref raw_client) raw_client 2) 2 (replicate 32 8) = None"
proof -
  have schema: "cl_storage raw_client 2 PALLET_STARKNET_SCHEMA = Some (map_option schema_encode (schema_version sample_pallet))"
    by (simp add: raw_client_def length_schema_key)
  note agree = overrides_agree [OF raw_ref_laws _ sample_raw_block.state sample_raw_block.raw schema, of _ "replicate 32 1"
      "replicate 32 3"]
  show ?thesis
    using agree [of "replicate 32 7"] agree [of "replicate 32 8"]
    by (simp add: Let_def sample_contracts_wf pallet_nonce_def unwrap_or_default_def)
qed

end
