(* ===== verification/State_Diff.thy ===== *)
theory State_Diff
  imports Storage_Override Mapping_Sync "HOL-Library.Countable"
begin

text \<open>
  State differences of imported blocks (\<^verbatim>\<open>crates/client/commitment-state-diff\<close>). For every block
  the client notifies the worker of the raw storage keys that changed; the worker turns the keys of the
  pallet's contract maps into a \<open>ThinStateDiff\<close> and sends it, with the block it belongs to, over a
  bounded channel. An \<open>IndexMap\<close> is an association list in insertion order.
\<close>

section \<open>Building the difference\<close>

record ThinStateDiff =
  deployed_contracts :: "(contract_address \<times> class_hash) list"
  storage_diffs :: "(contract_address \<times> (storage_key \<times> stark_felt) list) list"
  declared_classes :: "(class_hash \<times> compiled_class_hash) list"
  deprecated_declared_classes :: "class_hash list"
  nonces :: "(contract_address \<times> nonce) list"
  replaced_classes :: "(contract_address \<times> class_hash) list"

record BlockDAData =
  da_block_hash :: stark_felt
  da_state_diff :: ThinStateDiff
  num_addr_accessed :: nat
  da_block_number :: u64
  da_config_hash :: stark_felt
  new_state_root :: stark_felt
  previous_state_root :: stark_felt

datatype BuildCommitmentStateDiffError =
  SubstrateHeaderBackend | BCS_BlockNotFound | DigestLogNotFound FindLogError | FailedToGetConfigHash

text \<open>A notification: the block and its changes; a removed entry has no value.\<close>

record 'h StorageNotification =
  sn_block :: 'h
  sn_changes :: "(bytes \<times> bytes option) list"

text \<open>\<open>try_into().unwrap()\<close> to an array of 32 bytes, \<open>unwrap\<close> of a change, insertion into a set.\<close>

definition to_array32 :: "bytes \<Rightarrow> (stark_felt, 'e) result" where
  "to_array32 raw = (if length raw = 32 then Ok raw else Panic)"

definition changed_felt :: "bytes option \<Rightarrow> (stark_felt, 'e) result" where
  "changed_felt change = and_then (unwrap_opt change) to_array32"

definition index_insert :: "'a \<Rightarrow> 'a list \<Rightarrow> 'a list" where
  "index_insert x xs = (if x \<in> set xs then xs else xs @ [x])"

definition record_change ::
    "'c raw_api \<Rightarrow> ('h, 'c, 'p) client \<Rightarrow> bytes \<times> bytes option \<Rightarrow> ThinStateDiff \<times> contract_address list
      \<Rightarrow> (ThinStateDiff \<times> contract_address list, 'e) result" where
  "record_change A cl = (\<lambda>(key, change) (d, accessed_addrs).
     if length key < 32 then Ok (d, accessed_addrs)
     else
       (let prefix = take 32 key
        in if prefix = SN_NONCE_PREFIX A
           then
             and_then (to_array32 (drop 32 key)) (\<lambda>contract_address.
             and_then (changed_felt change) (\<lambda>nonce.
               Ok (d\<lparr>nonces := AList.update contract_address nonce (nonces d)\<rparr>,
                   index_insert contract_address accessed_addrs)))
           else if prefix = SN_STORAGE_PREFIX A
           then
             (if length key < 64 then Panic
              else
                and_then (to_array32 (take 32 (drop 32 key))) (\<lambda>contract_address.
                and_then (to_array32 (drop 64 key)) (\<lambda>storage_key.
                and_then (changed_felt change) (\<lambda>v.
                  Ok (d\<lparr>storage_diffs := AList.update contract_address
                          (case map_of (storage_diffs d) contract_address of
                             Some contract_storage \<Rightarrow> AList.update storage_key v contract_storage
                           | None \<Rightarrow> [(storage_key, v)]) (storage_diffs d)\<rparr>,
                      index_insert contract_address accessed_addrs)))))
           else if prefix = SN_CONTRACT_CLASS_HASH_PREFIX A
           then
             and_then (to_array32 (drop 32 key)) (\<lambda>contract_address.
             and_then (changed_felt change) (\<lambda>class_hash.
               (let contract_exists = api_contract_class_by_class_hash cl (cl_best_hash cl) class_hash \<noteq> None
                in Ok (if contract_exists
                       then d\<lparr>replaced_classes := AList.update contract_address class_hash (replaced_classes d)\<rparr>
                       else d\<lparr>deployed_contracts := AList.update contract_address class_hash (deployed_contracts d)\<rparr>,
                       index_insert contract_address accessed_addrs))))
           else if prefix = SN_COMPILED_CLASS_HASH_PREFIX A
           then
             and_then (to_array32 (drop 32 key)) (\<lambda>class_hash.
             and_then (case change of Some data \<Rightarrow> to_array32 data | None \<Rightarrow> Ok felt_default) (\<lambda>compiled_class_hash.
               Ok (d\<lparr>declared_classes := AList.update class_hash compiled_class_hash (declared_classes d)\<rparr>,
                   accessed_addrs)))
           else Ok (d, accessed_addrs)))"

fun record_changes ::
    "'c raw_api \<Rightarrow> ('h, 'c, 'p) client \<Rightarrow> (bytes \<times> bytes option) list \<Rightarrow> ThinStateDiff \<times> contract_address list
      \<Rightarrow> (ThinStateDiff \<times> contract_address list, 'e) result" where
  "record_changes A cl [] acc = Ok acc"
| "record_changes A cl (ch # chs) acc = and_then (record_change A cl ch acc) (record_changes A cl chs)"

definition empty_diff :: ThinStateDiff where
  "empty_diff = \<lparr>deployed_contracts = [], storage_diffs = [], declared_classes = [],
     deprecated_declared_classes = [], nonces = [], replaced_classes = []\<rparr>"

definition build_commitment_state_diff ::
    "('c, 'r, 'x, 'p) runtime \<Rightarrow> hasher \<Rightarrow> 'c raw_api \<Rightarrow> ('h, 'c, 'p) client \<Rightarrow> 'h StorageNotification
      \<Rightarrow> (BlockDAData, BuildCommitmentStateDiffError) result" where
  "build_commitment_state_diff R H A cl storage_notification =
     and_then (record_changes A cl (sn_changes storage_notification) (empty_diff, [])) (\<lambda>(diff, accessed_addrs).
     and_then (ok_or SubstrateHeaderBackend (cl_header cl (sn_block storage_notification))) (\<lambda>header.
     and_then (ok_or BCS_BlockNotFound header) (\<lambda>header.
     and_then (map_err DigestLogNotFound (find_starknet_block (rt_dg R) (sh_digest header))) (\<lambda>current_block.
     and_then (ok_or FailedToGetConfigHash (api_config_hash R cl (sn_block storage_notification))) (\<lambda>config_hash.
     and_then (header_hash (rt_ff R) H (blk_header current_block)) (\<lambda>hash.
     and_then (felt_into (rt_ff R) hash) (\<lambda>hash.
       Ok \<lparr>da_block_hash = hash, da_state_diff = diff, num_addr_accessed = length accessed_addrs,
           da_block_number = hd_block_number (blk_header current_block), da_config_hash = config_hash,
           new_state_root = temporary_global_state_root_getter,
           previous_state_root = temporary_global_state_root_getter\<rparr>)))))))"

section \<open>The worker\<close>

text \<open>
  The worker holds a message it could not send yet. A poll is answered by the notification stream and
  by the channel; what it sends is its last result.
\<close>

record CommitmentStateDiffWorker =
  cw_msg :: "BlockDAData option"

datatype 'n stream_poll = StreamPending | StreamReady 'n | StreamClosed

datatype channel_poll = ChannelReady | ChannelFull | ChannelDropped

definition send_message ::
    "channel_poll \<Rightarrow> CommitmentStateDiffWorker \<Rightarrow> (poll, unit) result \<times> CommitmentStateDiffWorker \<times> BlockDAData option" where
  "send_message channel w =
     (case channel of
        ChannelReady \<Rightarrow>
          (case cw_msg w of
             Some msg \<Rightarrow> (Ok PollReady, w\<lparr>cw_msg := None\<rparr>, Some msg)
           | None \<Rightarrow> (Panic, w, None))
      | ChannelFull \<Rightarrow> (Ok PollPending, w, None)
      | ChannelDropped \<Rightarrow> (Ok PollEnd, w, None))"

definition state_diff_poll_next ::
    "('c, 'r, 'x, 'p) runtime \<Rightarrow> hasher \<Rightarrow> 'c raw_api \<Rightarrow> ('h, 'c, 'p) client \<Rightarrow> 'h StorageNotification stream_poll
      \<Rightarrow> channel_poll \<Rightarrow> CommitmentStateDiffWorker
      \<Rightarrow> (poll, unit) result \<times> CommitmentStateDiffWorker \<times> BlockDAData option" where
  "state_diff_poll_next R H A cl stream channel w =
     (if cw_msg w = None
      then
        (case stream of
           StreamPending \<Rightarrow> (Ok PollPending, w, None)
         | StreamReady storage_notification \<Rightarrow>
             (case build_commitment_state_diff R H A cl storage_notification of
                Ok msg \<Rightarrow> send_message channel (w\<lparr>cw_msg := Some msg\<rparr>)
              | Err _ \<Rightarrow> (Ok PollPending, w, None)
              | Panic \<Rightarrow> (Panic, w, None))
         | StreamClosed \<Rightarrow> (Ok PollEnd, w, None))
      else send_message channel w)"

section \<open>What a difference says\<close>

text \<open>The state a difference leads to from a given one.\<close>

definition apply_diff :: "ThinStateDiff \<Rightarrow> 'c contract_storage \<Rightarrow> 'c contract_storage" where
  "apply_diff d p =
     p\<lparr>Nonces := Nonces p ++ map_of (nonces d),
       ContractClassHashes := ContractClassHashes p ++ map_of (replaced_classes d) ++ map_of (deployed_contracts d),
       StorageView := (\<lambda>(a, k).
         case Option.bind (map_of (storage_diffs d) a) (\<lambda>m. map_of m k) of
           Some v \<Rightarrow> Some v | None \<Rightarrow> StorageView p (a, k)),
       CompiledClassHashes := CompiledClassHashes p ++ map_of (declared_classes d)\<rparr>"

text \<open>\<open>q\<close> with the entries under the raw keys \<open>K\<close> replaced by those of \<open>p'\<close>.\<close>

definition overlay :: "'c raw_api \<Rightarrow> bytes set \<Rightarrow> 'c contract_storage \<Rightarrow> 'c contract_storage \<Rightarrow> 'c contract_storage" where
  "overlay A K p' q =
     q\<lparr>Nonces := (\<lambda>a. if SN_NONCE_PREFIX A @ a \<in> K then Nonces p' a else Nonces q a),
       ContractClassHashes := (\<lambda>a. if SN_CONTRACT_CLASS_HASH_PREFIX A @ a \<in> K then ContractClassHashes p' a
         else ContractClassHashes q a),
       StorageView := (\<lambda>(a, k). if length a = 32 \<and> SN_STORAGE_PREFIX A @ a @ k \<in> K then StorageView p' (a, k)
         else StorageView q (a, k)),
       CompiledClassHashes := (\<lambda>h. if SN_COMPILED_CLASS_HASH_PREFIX A @ h \<in> K then CompiledClassHashes p' h
         else CompiledClassHashes q h)\<rparr>"

definition contract_prefixes :: "'c raw_api \<Rightarrow> bytes set" where
  "contract_prefixes A = {SN_NONCE_PREFIX A, SN_CONTRACT_CLASS_HASH_PREFIX A, SN_STORAGE_PREFIX A,
     SN_COMPILED_CLASS_HASH_PREFIX A}"

text \<open>
  The changes lead to \<open>p'\<close>: those of contract keys carry the values of \<open>p'\<close>, and none of them
  removes an entry.
\<close>

definition changes_to :: "'c raw_api \<Rightarrow> 'c contract_storage \<Rightarrow> (bytes \<times> bytes option) list \<Rightarrow> bool" where
  "changes_to A p' chs \<longleftrightarrow> list_all (\<lambda>(key, change).
     take 32 key \<in> contract_prefixes A \<longrightarrow> change \<noteq> None \<and> change = raw_storage A p' key) chs"

text \<open>The contract a raw key belongs to.\<close>

definition touched :: "'c raw_api \<Rightarrow> bytes \<Rightarrow> contract_address set" where
  "touched A key =
     (if take 32 key \<in> {SN_NONCE_PREFIX A, SN_CONTRACT_CLASS_HASH_PREFIX A, SN_STORAGE_PREFIX A}
      then {take 32 (drop 32 key)} else {})"

text \<open>Class changes are all recorded as replacements, or all as deployments.\<close>

definition one_kind :: "('h, 'c, 'p) client \<Rightarrow> ThinStateDiff \<Rightarrow> bool" where
  "one_kind cl d \<longleftrightarrow> (if cl_state_at cl (cl_best_hash cl) = None then replaced_classes d = [] else deployed_contracts d = [])"

lemma wf_values:
  "wf_contracts p \<Longrightarrow> Nonces p a = Some n \<Longrightarrow> length n = 32"
  "wf_contracts p \<Longrightarrow> ContractClassHashes p a = Some c \<Longrightarrow> length c = 32"
  "wf_contracts p \<Longrightarrow> CompiledClassHashes p c = Some v \<Longrightarrow> length v = 32"
  "wf_contracts p \<Longrightarrow> StorageView p (a, k) = Some v \<Longrightarrow> length v = 32"
  "wf_contracts p \<Longrightarrow> StorageView p (a, k) = Some v \<Longrightarrow> length a = 32"
  by (auto simp: wf_contracts_def)

lemma contract_exists_iff:
  "api_contract_class_by_class_hash cl h c = None \<longleftrightarrow> cl_state_at cl h = None"
  by (simp add: api_contract_class_by_class_hash_def api_call_def split: option.split)

lemma overlay_overlay: "overlay A K p' (overlay A K' p' q) = overlay A (K \<union> K') p' q"
  by (rule contract_storage.equality) (auto simp: overlay_def fun_eq_iff)

lemma overlay_empty [simp]: "overlay A {} p' q = q"
  by (simp add: overlay_def fun_eq_iff)

lemma index_insert_set [simp]: "set (index_insert x xs) = insert x (set xs)" "distinct (index_insert x xs) \<longleftrightarrow> distinct xs"
  by (auto simp: index_insert_def)

context raw_libs
begin

lemma prefix_neq [simp]:
  "SN_NONCE_PREFIX A \<noteq> SN_STORAGE_PREFIX A" "SN_NONCE_PREFIX A \<noteq> SN_CONTRACT_CLASS_HASH_PREFIX A"
  "SN_NONCE_PREFIX A \<noteq> SN_COMPILED_CLASS_HASH_PREFIX A" "SN_STORAGE_PREFIX A \<noteq> SN_NONCE_PREFIX A"
  "SN_STORAGE_PREFIX A \<noteq> SN_CONTRACT_CLASS_HASH_PREFIX A" "SN_STORAGE_PREFIX A \<noteq> SN_COMPILED_CLASS_HASH_PREFIX A"
  "SN_CONTRACT_CLASS_HASH_PREFIX A \<noteq> SN_NONCE_PREFIX A" "SN_CONTRACT_CLASS_HASH_PREFIX A \<noteq> SN_STORAGE_PREFIX A"
  "SN_CONTRACT_CLASS_HASH_PREFIX A \<noteq> SN_COMPILED_CLASS_HASH_PREFIX A"
  "SN_COMPILED_CLASS_HASH_PREFIX A \<noteq> SN_NONCE_PREFIX A" "SN_COMPILED_CLASS_HASH_PREFIX A \<noteq> SN_STORAGE_PREFIX A"
  "SN_COMPILED_CLASS_HASH_PREFIX A \<noteq> SN_CONTRACT_CLASS_HASH_PREFIX A"
  using distinct_prefixes by auto

lemma key_split: "32 \<le> length key \<Longrightarrow> take 32 key = x \<Longrightarrow> key = x @ drop 32 key"
  by (metis append_take_drop_id)

lemma record_change_replays:
  assumes p': "wf_contracts p'" and k: "one_kind cl d"
    and v: "take 32 key \<in> contract_prefixes A \<Longrightarrow> change \<noteq> None \<and> change = raw_storage A p' key"
  shows "\<exists>d' acc'. record_change A cl (key, change) (d, acc) = Ok (d', acc') \<and> one_kind cl d' \<and>
    apply_diff d' p = overlay A {key} p' (apply_diff d p) \<and>
    set acc' = set acc \<union> touched A key \<and> (distinct acc \<longrightarrow> distinct acc')"
proof -
  note d = distinct_prefixes
  consider (short) "length key < 32" | (nonce) a where "key = SN_NONCE_PREFIX A @ a"
    | (storage) a where "key = SN_STORAGE_PREFIX A @ a"
    | (class_hash) a where "key = SN_CONTRACT_CLASS_HASH_PREFIX A @ a"
    | (compiled) a where "key = SN_COMPILED_CLASS_HASH_PREFIX A @ a"
    | (other) "32 \<le> length key" "take 32 key \<notin> contract_prefixes A"
    using key_split [of key] unfolding contract_prefixes_def by (metis insertE singletonD not_less)
  then show ?thesis
  proof cases
    case short
    then have "overlay A {key} p' q = q" for q
      by (rule_tac contract_storage.equality) (auto simp: overlay_def fun_eq_iff)
    then show ?thesis using short k length_prefixes by (auto simp: record_change_def touched_def)
  next
    case other
    then have "overlay A {key} p' q = q" for q
      by (rule_tac contract_storage.equality) (auto simp: overlay_def fun_eq_iff contract_prefixes_def)
    then show ?thesis using other k by (simp add: record_change_def contract_prefixes_def touched_def)
  next
    case (nonce a)
    then obtain n where n: "Nonces p' a = Some n" "change = Some n" "length a = 32" "length n = 32"
      using v p' by (auto simp: contract_prefixes_def raw_storage_items wf_contracts_def)
    have "apply_diff (d\<lparr>nonces := AList.update a n (nonces d)\<rparr>) p = overlay A {key} p' (apply_diff d p)"
      by (rule contract_storage.equality) (auto simp: overlay_def apply_diff_def fun_eq_iff update_conv' n nonce)
    then show ?thesis using n nonce k
      by (simp add: record_change_def to_array32_def changed_felt_def one_kind_def touched_def)
  next
    case (storage a')
    define a b where ab: "a = take 32 a'" "b = drop 32 a'"
    obtain z where z: "change = Some (scale_felt A z)" "StorageView p' (a, b) = Some z"
      using v storage ab by (auto simp: contract_prefixes_def raw_storage_items)
    then obtain n where n: "StorageView p' (a, b) = Some n" "change = Some n" "length a = 32" "length b = 32" "length n = 32"
      using p' by (simp add: wf_contracts_def)
    have key: "key = SN_STORAGE_PREFIX A @ a @ b" using storage ab by simp
    let ?m = "case map_of (storage_diffs d) a of Some m \<Rightarrow> AList.update b n m | None \<Rightarrow> [(b, n)]"
    have "apply_diff (d\<lparr>storage_diffs := AList.update a ?m (storage_diffs d)\<rparr>) p = overlay A {key} p' (apply_diff d p)"
      by (rule contract_storage.equality)
        (auto simp: overlay_def apply_diff_def fun_eq_iff update_conv' n key split: option.split)
    then show ?thesis using n key k
      by (simp add: record_change_def to_array32_def changed_felt_def one_kind_def touched_def)
  next
    case (class_hash a)
    then obtain n where n: "ContractClassHashes p' a = Some n" "change = Some n" "length a = 32" "length n = 32"
      using v p' by (auto simp: contract_prefixes_def raw_storage_items wf_contracts_def)
    let ?rep = "d\<lparr>replaced_classes := AList.update a n (replaced_classes d)\<rparr>"
    let ?dep = "d\<lparr>deployed_contracts := AList.update a n (deployed_contracts d)\<rparr>"
    have "apply_diff ?dep p = overlay A {key} p' (apply_diff d p)"
      by (rule contract_storage.equality)
        (auto simp: overlay_def apply_diff_def fun_eq_iff update_conv' n class_hash map_add_def)
    moreover have "apply_diff ?rep p = overlay A {key} p' (apply_diff d p)" if "deployed_contracts d = []"
      using that by (intro contract_storage.equality)
        (auto simp: overlay_def apply_diff_def fun_eq_iff update_conv' n class_hash map_add_def)
    ultimately show ?thesis using n class_hash k
      by (auto simp: record_change_def to_array32_def changed_felt_def one_kind_def touched_def contract_exists_iff)
  next
    case (compiled a)
    then obtain n where n: "CompiledClassHashes p' a = Some n" "change = Some n" "length a = 32" "length n = 32"
      using v p' by (auto simp: contract_prefixes_def raw_storage_items wf_contracts_def)
    have "apply_diff (d\<lparr>declared_classes := AList.update a n (declared_classes d)\<rparr>) p = overlay A {key} p' (apply_diff d p)"
      by (rule contract_storage.equality) (auto simp: overlay_def apply_diff_def fun_eq_iff update_conv' n compiled)
    then show ?thesis using n compiled k
      by (simp add: record_change_def to_array32_def one_kind_def touched_def)
  qed
qed

lemma record_changes_replays:
  assumes "wf_contracts p'" "one_kind cl d" "distinct acc" "changes_to A p' chs"
  shows "\<exists>d' acc'. record_changes A cl chs (d, acc) = (Ok (d', acc') :: (_, 'e) result) \<and> one_kind cl d' \<and>
    apply_diff d' p = overlay A (fst ` set chs) p' (apply_diff d p) \<and>
    set acc' = set acc \<union> \<Union> (touched A ` fst ` set chs) \<and> distinct acc'"
  using assms
proof (induction chs arbitrary: d acc)
  case (Cons ch chs)
  obtain key change where ch: "ch = (key, change)" by force
  have v: "change \<noteq> None \<and> change = raw_storage A p' key" if "take 32 key \<in> contract_prefixes A"
    using Cons.prems(4) that unfolding changes_to_def ch by (fastforce dest: sym)
  have rest: "changes_to A p' chs" using Cons.prems(4) by (simp add: changes_to_def)
  obtain d1 acc1 where 1: "record_change A cl (key, change) (d, acc) = (Ok (d1, acc1) :: (_, 'e) result)" "one_kind cl d1"
      "apply_diff d1 p = overlay A {key} p' (apply_diff d p)"
      "set acc1 = set acc \<union> touched A key" "distinct acc1"
    using record_change_replays [OF Cons.prems(1,2) v, of acc p] Cons.prems(3) by blast
  obtain d' acc' where 2: "record_changes A cl chs (d1, acc1) = (Ok (d', acc') :: (_, 'e) result)" "one_kind cl d'"
      "apply_diff d' p = overlay A (fst ` set chs) p' (apply_diff d1 p)"
      "set acc' = set acc1 \<union> \<Union> (touched A ` fst ` set chs)" "distinct acc'"
    using Cons.IH [OF Cons.prems(1) 1(2,5) rest] by blast
  show ?case
    using 1 2 ch by (intro exI [of _ d'] exI [of _ acc'])
      (auto simp: overlay_overlay Un_commute split: if_splits)
qed simp

lemma overlay_reaches:
  assumes "wf_contracts p" "wf_contracts p'"
    and unchanged: "\<And>key. take 32 key \<in> contract_prefixes A \<Longrightarrow> key \<notin> K \<Longrightarrow> raw_storage A p' key = raw_storage A p key"
  shows "(overlay A K p' p)\<lparr>ContractClasses := ContractClasses p'\<rparr> = p'"
proof -
  have same: "map_option (scale_felt A) x = map_option (scale_felt A) y \<Longrightarrow> x = y"
    if "\<And>v. x = Some v \<Longrightarrow> length v = 32" "\<And>v. y = Some v \<Longrightarrow> length v = 32" for x y
    using that by (cases x; cases y) auto
  have raw: "raw_storage A p' (x @ y) = raw_storage A p (x @ y)" if "x @ y \<notin> K" "x \<in> contract_prefixes A" for x y
    by (rule unchanged) (use that in \<open>auto simp: contract_prefixes_def\<close>)
  have "Nonces p' a = Nonces p a" if "SN_NONCE_PREFIX A @ a \<notin> K" for a
    by (rule same) (use raw [OF that] assms(1,2) in \<open>simp_all add: wf_values contract_prefixes_def raw_storage_items\<close>)
  moreover have "ContractClassHashes p' a = ContractClassHashes p a" if "SN_CONTRACT_CLASS_HASH_PREFIX A @ a \<notin> K" for a
    by (rule same) (use raw [OF that] assms(1,2) in \<open>simp_all add: wf_values contract_prefixes_def raw_storage_items\<close>)
  moreover have "CompiledClassHashes p' a = CompiledClassHashes p a" if "SN_COMPILED_CLASS_HASH_PREFIX A @ a \<notin> K" for a
    by (rule same) (use raw [OF that] assms(1,2) in \<open>simp_all add: wf_values contract_prefixes_def raw_storage_items\<close>)
  moreover have "StorageView p (a, k) = StorageView p' (a, k)" if "length a = 32 \<longrightarrow> SN_STORAGE_PREFIX A @ a @ k \<notin> K" for a k
  proof (cases "length a = 32")
    case True
    then have "raw_storage A p' (SN_STORAGE_PREFIX A @ a @ k) = raw_storage A p (SN_STORAGE_PREFIX A @ a @ k)"
      using that raw [of "SN_STORAGE_PREFIX A" "a @ k"] by (simp add: contract_prefixes_def)
    then have eq: "map_option (scale_felt A) (StorageView p (a, k)) = map_option (scale_felt A) (StorageView p' (a, k))"
      using True raw_storage_items(3) [of _ "a @ k"] by simp
    show ?thesis
      by (rule same) (use eq assms(1,2) wf_values(4) in blast)+
  next
    case False
    then have "StorageView p' (a, k) = None" "StorageView p (a, k) = None"
      using assms(1,2) [THEN wf_values(5)] by (meson not_None_eq)+
    then show ?thesis by simp
  qed
  ultimately show ?thesis
    by (intro contract_storage.equality) (auto simp: overlay_def fun_eq_iff)
qed

end

text \<open>
  C31. When the changes of a block are those from a contract state to another, and none removes an
  entry, the difference is built without a panic, it belongs to the block, applying it to the state
  before gives the state after, and the number of accessed addresses is the number of contracts whose
  nonce, class or storage changed. Classes are recorded as replaced, even those of new contracts, as
  long as the best block has a state.
\<close>

theorem state_diff_replays:
  fixes R :: "('c, 'r, 'x, 'p) runtime"
  assumes laws: "raw_laws A" and wf: "wf_contracts p" "wf_contracts p'"
    and to: "changes_to A p' (sn_changes n)"
    and unchanged: "\<And>key. take 32 key \<in> contract_prefixes A \<Longrightarrow> key \<notin> fst ` set (sn_changes n) \<Longrightarrow>
      raw_storage A p' key = raw_storage A p key"
    and header: "cl_header cl (sn_block n) = Some (Some header)" and carries: "carries R H header f ts"
    and config: "api_config_hash R cl (sn_block n) = Some config"
  shows "\<exists>d. build_commitment_state_diff R H A cl n = Ok d \<and> da_block_hash d = f \<and> da_config_hash d = config \<and>
    (apply_diff (da_state_diff d) p)\<lparr>ContractClasses := ContractClasses p'\<rparr> = p' \<and>
    num_addr_accessed d = card (\<Union> (touched A ` fst ` set (sn_changes n))) \<and>
    (cl_state_at cl (cl_best_hash cl) \<noteq> None \<longrightarrow> deployed_contracts (da_state_diff d) = [])"
proof -
  have libs: "raw_libs A" by (rule raw_libs.intro) (rule laws)
  have k: "one_kind cl empty_diff" by (simp add: one_kind_def empty_diff_def)
  have e: "apply_diff empty_diff p = p"
    by (intro contract_storage.equality) (auto simp: apply_diff_def empty_diff_def fun_eq_iff)
  obtain d acc where d: "record_changes A cl (sn_changes n) (empty_diff, []) = (Ok (d, acc) :: (_, BuildCommitmentStateDiffError) result)"
      "one_kind cl d" "apply_diff d p = overlay A (fst ` set (sn_changes n)) p' p"
      "set acc = \<Union> (touched A ` fst ` set (sn_changes n))" "distinct acc"
    using raw_libs.record_changes_replays [OF libs wf(2) k _ to, of "[]" p] e by auto
  obtain b x where b: "find_starknet_block (rt_dg R) (sh_digest header) = Ok b"
      "header_hash (rt_ff R) H (blk_header b) = (Ok x :: (_, unit) result)" "felt_into (rt_ff R) x = (Ok f :: (_, unit) result)"
    using carries by (auto simp: carries_def)
  have h: "header_hash (rt_ff R) H (blk_header b) = (Ok x :: (_, BuildCommitmentStateDiffError) result)"
    "felt_into (rt_ff R) x = (Ok f :: (_, BuildCommitmentStateDiffError) result)"
    using b(2,3) header_hash_retype [where 'e = unit and 'f = BuildCommitmentStateDiffError]
      felt_into_retype [where 'e = unit and 'f = BuildCommitmentStateDiffError] by blast+
  have "card (set acc) = length acc" using d(5) by (rule distinct_card)
  then show ?thesis
    using d b(1) h header config raw_libs.overlay_reaches [OF libs wf unchanged]
    by (simp add: build_commitment_state_diff_def one_kind_def)
qed

section \<open>A sample notification\<close>

text \<open>A contract is deployed with a nonce and a storage slot; two other keys change as well.\<close>

definition sample_notification :: "byte StorageNotification" where
  "sample_notification = \<lparr>sn_block = 2, sn_changes =
     [(SN_NONCE_PREFIX raw_ref @ replicate 32 7, Some (replicate 32 4)), ([1, 2], None), (replicate 40 1, Some [3]),
      (SN_STORAGE_PREFIX raw_ref @ replicate 32 7 @ replicate 32 1, Some (replicate 32 9)),
      (SN_CONTRACT_CLASS_HASH_PREFIX raw_ref @ replicate 32 7, Some (replicate 32 3)),
      (SN_COMPILED_CLASS_HASH_PREFIX raw_ref @ replicate 32 3, Some (replicate 32 2))]\<rparr>"

definition no_contracts :: "nat contract_storage" where
  "no_contracts = \<lparr>StorageView = Map.empty, Nonces = Map.empty, ContractClassHashes = Map.empty,
     ContractClasses = Map.empty, CompiledClassHashes = Map.empty\<rparr>"

lemma sample_changes_to: "changes_to raw_ref sample_contracts (sn_changes sample_notification)"
proof -
  have hd: "hd x = 116" if "x \<in> contract_prefixes raw_ref" for x
  proof -
    have "twox_128 raw_ref PALLET_STARKNET = 116 # tl (twox_128 raw_ref PALLET_STARKNET)"
      by (simp add: raw_ref_def PALLET_STARKNET_def ascii_def)
    then have "hd (twox_128 raw_ref PALLET_STARKNET @ y) = 116" for y
      by (metis append_Cons list.sel(1))
    then show ?thesis using that by (auto simp: contract_prefixes_def sn_prefixes)
  qed
  have "replicate 32 1 \<notin> contract_prefixes raw_ref" "[1, 2] \<notin> contract_prefixes raw_ref"
    using hd [of "replicate 32 1"] hd [of "[1, 2]"] by auto
  then show ?thesis
    by (simp add: changes_to_def sample_notification_def sample_raw.raw_storage_items)
qed

lemma sample_unchanged:
  assumes "take 32 key \<in> contract_prefixes raw_ref" "key \<notin> fst ` set (sn_changes sample_notification)"
  shows "raw_storage raw_ref sample_contracts key = raw_storage raw_ref no_contracts key"
proof -
  define k where "k = drop 32 key"
  have key: "key = take 32 key @ k" by (simp add: k_def)
  have "take 32 k = replicate 32 7 \<Longrightarrow> drop 32 k = replicate 32 1 \<Longrightarrow> k = replicate 32 7 @ replicate 32 1"
    by (metis append_take_drop_id)
  then show ?thesis
    using assms key unfolding contract_prefixes_def
    by (auto simp: sample_notification_def sample_raw.raw_storage_items no_contracts_def)
qed

theorem state_diff_replays_witness:
  "\<exists>d. build_commitment_state_diff runtime_ref sample_hasher raw_ref raw_client sample_notification = Ok d \<and>
     (apply_diff (da_state_diff d) no_contracts)\<lparr>ContractClasses := ContractClasses sample_contracts\<rparr> = sample_contracts \<and>
     deployed_contracts (da_state_diff d) = []"
proof -
  obtain config where "config_hash runtime_ref sample_pallet = (Ok config :: (_, unit) result)"
    using sample_config [of sample_pallet] by (auto simp: sample_pallet_def empty_pallet_def)
  then have config: "api_config_hash runtime_ref raw_client (sn_block sample_notification) = Some config"
    by (simp add: api_config_hash_def raw_client_def)
  obtain f where f: "carries runtime_ref sample_hasher (the (sample_head 2)) f []" by (rule sample_carries)
  have header: "cl_header raw_client (sn_block sample_notification) = Some (Some (the (sample_head 2)))"
    by (simp add: raw_client_def sample_notification_def)
  have wf: "wf_contracts no_contracts" by (simp add: wf_contracts_def no_contracts_def)
  show ?thesis
    using state_diff_replays [OF raw_ref_laws wf sample_contracts_wf sample_changes_to sample_unchanged header f config]
    by (auto simp: raw_client_def)
qed

section \<open>What the worker sends\<close>

text \<open>
  A message the channel cannot take is kept, and the next notification is not taken from the stream
  before it is sent: over any run of polls the messages sent are the differences built, in order, except
  for a last one that may still be waiting.
\<close>

fun run_polls ::
    "('c, 'r, 'x, 'p) runtime \<Rightarrow> hasher \<Rightarrow> 'c raw_api \<Rightarrow> ('h, 'c, 'p) client
      \<Rightarrow> ('h StorageNotification stream_poll \<times> channel_poll) list \<Rightarrow> CommitmentStateDiffWorker
      \<Rightarrow> CommitmentStateDiffWorker \<times> BlockDAData list" where
  "run_polls R H A cl [] w = (w, [])"
| "run_polls R H A cl ((stream, channel) # polls) w =
     (case state_diff_poll_next R H A cl stream channel w of
        (_, w', sent) \<Rightarrow>
          (case run_polls R H A cl polls w' of (w'', sents) \<Rightarrow> (w'', (case sent of Some m \<Rightarrow> [m] | None \<Rightarrow> []) @ sents)))"

text \<open>The differences of the notifications a run takes from the stream.\<close>

fun built ::
    "('c, 'r, 'x, 'p) runtime \<Rightarrow> hasher \<Rightarrow> 'c raw_api \<Rightarrow> ('h, 'c, 'p) client
      \<Rightarrow> ('h StorageNotification stream_poll \<times> channel_poll) list \<Rightarrow> CommitmentStateDiffWorker \<Rightarrow> BlockDAData list" where
  "built R H A cl [] w = []"
| "built R H A cl ((stream, channel) # polls) w =
     (case stream of
        StreamReady n \<Rightarrow>
          (if cw_msg w = None
           then case build_commitment_state_diff R H A cl n of Ok m \<Rightarrow> [m] | _ \<Rightarrow> []
           else [])
      | _ \<Rightarrow> []) @ built R H A cl polls (fst (snd (state_diff_poll_next R H A cl stream channel w)))"

lemma worker_sends_in_order:
  "run_polls R H A cl polls w = (w', sents) \<Longrightarrow>
     (case cw_msg w of Some m \<Rightarrow> [m] | None \<Rightarrow> []) @ built R H A cl polls w =
     sents @ (case cw_msg w' of Some m \<Rightarrow> [m] | None \<Rightarrow> [])"
proof (induction polls arbitrary: w sents)
  case (Cons sc polls)
  obtain stream channel where sc: "sc = (stream, channel)" by force
  obtain r w1 sent where 1: "state_diff_poll_next R H A cl stream channel w = (r, w1, sent)" by (cases "state_diff_poll_next R H A cl stream channel w")
  obtain w2 sents2 where 2: "run_polls R H A cl polls w1 = (w2, sents2)" by force
  have s: "w2 = w'" "sents = (case sent of Some m \<Rightarrow> [m] | None \<Rightarrow> []) @ sents2" using Cons.prems sc 1 2 by auto
  have "(case cw_msg w of Some m \<Rightarrow> [m] | None \<Rightarrow> []) @
      (case stream of
        StreamReady n \<Rightarrow>
          (if cw_msg w = None
           then case build_commitment_state_diff R H A cl n of Ok m \<Rightarrow> [m] | _ \<Rightarrow> []
           else [])
      | _ \<Rightarrow> []) = (case sent of Some m \<Rightarrow> [m] | None \<Rightarrow> []) @ (case cw_msg w1 of Some m \<Rightarrow> [m] | None \<Rightarrow> [])"
    using 1 by (auto simp: state_diff_poll_next_def send_message_def split: option.splits stream_poll.splits
        result.splits channel_poll.splits if_splits)
  then show ?case using Cons.IH [of w1 sents2] 2 sc s 1 by simp (metis append.assoc)
qed simp

text \<open>A codec for state differences: they are countable.\<close>

instance ThinStateDiff_ext :: (countable) countable
  by (rule countable_classI [of "\<lambda>d. to_nat (deployed_contracts d, storage_diffs d, declared_classes d,
      deprecated_declared_classes d, nonces d, replaced_classes d, ThinStateDiff.more d)"])
    (auto intro: ThinStateDiff.equality)

definition diff_codec :: "(byte, ThinStateDiff, bytes) codecs" where
  "diff_codec = \<lparr>enc_bool = enc_bool codec_ref, dec_bool = dec_bool codec_ref, enc_hash = enc_hash codec_ref,
     dec_hash = dec_hash codec_ref, enc_hashes = enc_hashes codec_ref, dec_hashes = dec_hashes codec_ref,
     enc_felt = enc_felt codec_ref, dec_felt = dec_felt codec_ref, enc_felts = enc_felts codec_ref,
     dec_felts = dec_felts codec_ref, enc_diff = (\<lambda>d. replicate (to_nat d) 0), dec_diff = (\<lambda>raw. Some (from_nat (length raw))),
     enc_event_block = enc_event_block codec_ref, dec_event_block = dec_event_block codec_ref,
     enc_class = enc_class codec_ref, dec_class = dec_class codec_ref, uuid_from_slice = uuid_from_slice codec_ref\<rparr>"

lemma diff_codec_laws: "codec_laws diff_codec"
  using codec_ref_laws by (simp add: codec_laws_def diff_codec_def)

end
