(* ===== verification/Data_Availability.thy ===== *)
theory Data_Availability
  imports State_Diff
begin

text \<open>
  Publishing state differences (\<^verbatim>\<open>crates/client/data-availability\<close>): the encoding of a block's
  difference as a vector of 256 bit words, and the worker, which stores the difference of every block
  it receives and, in sovereign mode, publishes its encoding. The data availability layer is the
  record \<open>DaClient\<close>.
\<close>

section \<open>Encoding\<close>

definition CLASS_FLAG_TRUE :: u256 where "CLASS_FLAG_TRUE = 0x100000000000000000000000000000001"

definition NONCE_BASE :: u256 where "NONCE_BASE = 0xFFFFFFFFFFFFFFFF"

text \<open>The addition of the words, which panics on overflow, and their big-endian bytes.\<close>

definition u256_add :: "u256 \<Rightarrow> u256 \<Rightarrow> (u256, 'e) result" where
  "u256_add a b = (if unat a + unat b < 2 ^ 256 then Ok (a + b) else Panic)"

definition from_big_endian :: "bytes \<Rightarrow> u256" where
  "from_big_endian raw = word_of_nat (be_val raw)"

definition da_word :: "bool \<Rightarrow> nonce option \<Rightarrow> u64 \<Rightarrow> (u256, 'e) result" where
  "da_word class_flag nonce_change num_changes =
     and_then (if class_flag then u256_add 0 CLASS_FLAG_TRUE else Ok 0) (\<lambda>word.
     and_then (case nonce_change of
                 Some new_nonce \<Rightarrow> and_then (u256_add (from_big_endian new_nonce) NONCE_BASE) (u256_add word)
               | None \<Rightarrow> Ok word) (\<lambda>word.
       u256_add word (ucast num_changes)))"







definition get_bytes_from_state_diff :: "u256 list \<Rightarrow> bytes" where
  "get_bytes_from_state_diff words = concat (map (\<lambda>item. be_bytes 32 (unat item)) words)"

section \<open>Helpers for storage job_keys\<close>

definition safe_split :: "bytes \<Rightarrow> bytes \<times> bytes option" where
  "safe_split key =
     (if 16 < length key \<and> length key \<le> 32 then (drop 16 key @ replicate (32 - length key) 0, None)
      else if 32 < length key then (take 16 (drop 16 key), Some (drop 32 key))
      else (replicate 16 0, None))"

text \<open>\<open>StarkFelt::new\<close> refuses values that are not below the field's modulus.\<close>

definition bytes_to_felt :: "bytes \<Rightarrow> (stark_felt, 'e) result" where
  "bytes_to_felt raw =
     (let buf = (if length raw < 32 then replicate (32 - length raw) 0 @ raw else take 32 raw)
      in if be_val buf < felt_prime then Ok buf else Panic)"

text \<open>The scheme of an endpoint is what the URL library finds.\<close>

definition is_valid_ws_endpoint :: "(string \<Rightarrow> string option) \<Rightarrow> string \<Rightarrow> bool" where
  "is_valid_ws_endpoint scheme endpoint =
     (case scheme endpoint of Some s \<Rightarrow> s = ''ws'' \<or> s = ''wss'' | None \<Rightarrow> False)"

definition is_valid_http_endpoint :: "(string \<Rightarrow> string option) \<Rightarrow> string \<Rightarrow> bool" where
  "is_valid_http_endpoint scheme endpoint =
     (case scheme endpoint of Some s \<Rightarrow> s = ''http'' \<or> s = ''https'' | None \<Rightarrow> False)"

section \<open>The worker\<close>

datatype DaMode = Validity | Volition | Sovereign










section \<open>What is stored and published\<close>

text \<open>Both constants of the encoding overlap its low bits, so that different changes have one word.\<close>

lemma da_word_collision:
  "da_word True None 0 = (Ok CLASS_FLAG_TRUE :: (_, unit) result)"
  "da_word False (Some (be_bytes 32 2)) 0 = (da_word False (Some (be_bytes 32 1)) 1 :: (_, unit) result)"
  by (simp_all add: da_word_def u256_add_def CLASS_FLAG_TRUE_def NONCE_BASE_def from_big_endian_def be_val_be_bytes)
















end
