(* ===== verification/L1_Messages.thy ===== *)
theory L1_Messages
  imports Client Db
begin

text \<open>
  The worker that turns messages sent on L1 into transactions (\<^verbatim>\<open>crates/client/l1-messages\<close>).
  It follows the \<open>LogMessageToL2\<close> events of the core contract from the last block it has seen, converts
  each into an L1 handler transaction, and submits those whose nonce is unused to the transaction pool.
  The Ethereum client and the pool are inputs: the stream of events and, for every event, the state of
  the chain, the answer of the pool and that of the database.
\<close>

section \<open>Events\<close>

record LogMessageToL2Filter =
  ev_from_address :: eth_address
  ev_to_address :: u256
  ev_selector :: u256
  ev_payload :: "u256 list"
  ev_nonce :: u256
  ev_fee :: u256

datatype L1EventToTransactionError =
  InvalidCalldata Felt252WrapperError | InvalidContractAddress Felt252WrapperError
| InvalidEntryPointSelector Felt252WrapperError | InvalidFromAddress Felt252WrapperError
| InvalidNonce Felt252WrapperError

definition parse_handle_l1_message_transaction ::
    "ff_api \<Rightarrow> LogMessageToL2Filter \<Rightarrow> (HandleL1MessageTransaction, L1EventToTransactionError) result" where
  "parse_handle_l1_message_transaction ff event =
     and_then (map_err InvalidFromAddress
       (felt_try_from_u256 ff (u256_from_big_endian ff (ev_from_address event)))) (\<lambda>from_address.
     and_then (map_err InvalidContractAddress (felt_try_from_u256 ff (ev_to_address event))) (\<lambda>contract_address.
     and_then (map_err InvalidEntryPointSelector (felt_try_from_u256 ff (ev_selector event))) (\<lambda>entry_point_selector.
     and_then (map_err InvalidNonce
       (and_then (felt_try_from_u256 ff (ev_nonce event)) (u64_try_from_felt ff))) (\<lambda>nonce.
     and_then (map_err InvalidCalldata
       (collect_results (felt_try_from_u256 ff) (ev_payload event))) (\<lambda>event_payload.
       Ok \<lparr>l1_nonce = nonce, l1_contract_address = contract_address,
           l1_entry_point_selector = entry_point_selector, l1_calldata = from_address # event_payload\<rparr>)))))"

section \<open>The worker\<close>

datatype L1MessagesWorkerError =
  ConvertTransactionRuntimeApiError | L1DatabaseError DbError | L1RuntimeApiError | SubmitTxError | ToFeeError
| ToTransactionError L1EventToTransactionError

text \<open>What the worker changes: the database and the extrinsics it handed to the pool.\<close>

type_synonym 'c l1_state = "store \<times> 'c RuntimeCall list"

text \<open>
  An item of the stream: an error of the provider, or an event with its block and its index there;
  the client when it is processed, whether the pool takes the extrinsic, and whether the database
  commits.
\<close>

record ('h, 'c, 'p) l1_item =
  it_event :: "(LogMessageToL2Filter \<times> u64 \<times> u256) option"
  it_client :: "('h, 'c, 'p) client"
  it_pool :: bool
  it_io :: bool

definition process_l1_message ::
    "ff_api \<Rightarrow> sf_api \<Rightarrow> ('h, 'd, 'k) codecs \<Rightarrow> ('h, 'c, 'p) l1_item \<Rightarrow> LogMessageToL2Filter \<Rightarrow> u64 \<Rightarrow> u64
      \<Rightarrow> (bool, L1MessagesWorkerError, 'c l1_state) st" where
  "process_l1_message ff sf c it event l1_block_number event_index =
     (let cl = it_client it; best_block_hash = cl_best_hash cl
      in if 2 ^ 128 \<le> unat (ev_fee event) then ret_st (Err ToFeeError)
         else
           bind_st (ret_st (map_err ToTransactionError (parse_handle_l1_message_transaction ff event))) (\<lambda>transaction.
             case api_l1_nonce_unused cl best_block_hash (sf_from_u64 sf (l1_nonce transaction)) of
               None \<Rightarrow> ret_st (Err L1RuntimeApiError)
             | Some False \<Rightarrow> ret_st (Ok False)
             | Some True \<Rightarrow>
                 bind_st (ret_st (ok_or ConvertTransactionRuntimeApiError
                   (api_call cl best_block_hash (\<lambda>_. Ok (convert_l1_transaction transaction (ucast (ev_fee event))))))) (\<lambda>extrinsic.
                 bind_st (\<lambda>(db, out). if it_pool it then (Ok (), db, out @ [extrinsic]) else (Err SubmitTxError, db, out)) (\<lambda>_.
                 bind_st (\<lambda>(db, out).
                   (let (r, db') = update_last_synced_l1_block_with_event c (it_io it)
                          \<lparr>lse_block_number = l1_block_number, lse_event_index = event_index\<rparr> db
                    in (map_err L1DatabaseError r, db', out))) (\<lambda>_.
                   ret_st (Ok True))))))"

text \<open>
  The loop over the stream: items that are errors are skipped, failed events are logged. Reading an
  index that does not fit 64 bits panics.
\<close>

fun process_events ::
    "ff_api \<Rightarrow> sf_api \<Rightarrow> ('h, 'd, 'k) codecs \<Rightarrow> ('h, 'c, 'p) l1_item list \<Rightarrow> (unit, unit, 'c l1_state) st" where
  "process_events ff sf c [] s = (Ok (), s)"
| "process_events ff sf c (it # items) s =
     (case it_event it of
        None \<Rightarrow> process_events ff sf c items s
      | Some (event, l1_block, log_index) \<Rightarrow>
          if 2 ^ 64 \<le> unat log_index then (Panic, s)
          else
            (case process_l1_message ff sf c it event l1_block (ucast log_index) s of
               (Panic, s') \<Rightarrow> (Panic, s')
             | (_, s') \<Rightarrow> process_events ff sf c items s'))"

text \<open>The events are those of the contract from a block on; opening their stream may fail.\<close>

definition run_worker ::
    "ff_api \<Rightarrow> sf_api \<Rightarrow> ('h, 'd, 'k) codecs \<Rightarrow> (u64 \<Rightarrow> ('h, 'c, 'p) l1_item list option)
      \<Rightarrow> (unit, unit, 'c l1_state) st" where
  "run_worker ff sf c events_from = (\<lambda>(db, out).
     case last_synced_l1_block_with_event c db of
       Ok last_synced_event_block \<Rightarrow>
         (case events_from (lse_block_number last_synced_event_block) of
            Some items \<Rightarrow> process_events ff sf c items (db, out)
          | None \<Rightarrow> (Ok (), db, out))
     | Err _ \<Rightarrow> (Ok (), db, out)
     | Panic \<Rightarrow> (Panic, db, out))"

section \<open>What is submitted\<close>

text \<open>An event has a transaction when its numbers are field elements, its nonce a \<open>u64\<close> and its fee a \<open>u128\<close>.\<close>

definition representable :: "LogMessageToL2Filter \<Rightarrow> bool" where
  "representable e \<longleftrightarrow> unat (ev_fee e) < 2 ^ 128 \<and> unat (ev_nonce e) < 2 ^ 64 \<and> unat (ev_to_address e) < felt_prime \<and>
     unat (ev_selector e) < felt_prime \<and> list_all (\<lambda>p. unat p < felt_prime) (ev_payload e)"

definition transaction_of :: "LogMessageToL2Filter \<Rightarrow> HandleL1MessageTransaction" where
  "transaction_of e = \<lparr>l1_nonce = ucast (ev_nonce e), l1_contract_address = unat (ev_to_address e),
     l1_entry_point_selector = unat (ev_selector e), l1_calldata = be_val (ev_from_address e) # map unat (ev_payload e)\<rparr>"

text \<open>The items whose event is submitted, and where the last of them stands.\<close>

definition submitted :: "sf_api \<Rightarrow> ('h, 'c, 'p) l1_item \<Rightarrow> bool" where
  "submitted sf it =
     (case it_event it of
        None \<Rightarrow> False
      | Some (e, _, _) \<Rightarrow>
          representable e \<and> it_pool it \<and>
          (case cl_state_at (it_client it) (cl_best_hash (it_client it)) of
             Some s \<Rightarrow> sf_from_u64 sf (ucast (ev_nonce e)) \<notin> L1Messages s | None \<Rightarrow> False))"

definition extrinsic_of :: "('h, 'c, 'p) l1_item \<Rightarrow> 'c RuntimeCall" where
  "extrinsic_of it =
     (case it_event it of
        Some (e, _, _) \<Rightarrow> Starknet_call (Call_consume_l1_message (transaction_of e) (ucast (ev_fee e)))
      | None \<Rightarrow> Other_call)"

definition position_of :: "('h, 'c, 'p) l1_item \<Rightarrow> LastSyncedEventBlock" where
  "position_of it =
     (case it_event it of
        Some (_, b, i) \<Rightarrow> \<lparr>lse_block_number = b, lse_event_index = ucast i\<rparr>
      | None \<Rightarrow> \<lparr>lse_block_number = 0, lse_event_index = 0\<rparr>)"

definition well_formed_item :: "('h, 'c, 'p) l1_item \<Rightarrow> bool" where
  "well_formed_item it \<longleftrightarrow>
     (case it_event it of None \<Rightarrow> True | Some (e, _, i) \<Rightarrow> length (ev_from_address e) = 20 \<and> unat i < 2 ^ 64)"

text \<open>A well-formed L1 handler transaction: what its conversion and execution rely on.\<close>

definition wf_l1_transaction :: "HandleL1MessageTransaction \<Rightarrow> bool" where
  "wf_l1_transaction tx \<longleftrightarrow> l1_canonical tx \<and> l1_calldata tx \<noteq> [] \<and> hd (l1_calldata tx) < 2 ^ 160"

context field_libs
begin

lemma collect_payload:
  "collect_results (felt_try_from_u256 ff) ps =
     (if list_all (\<lambda>p. unat p < felt_prime) ps then Ok (map unat ps) else Err FromArrayError)"
  by (induction ps) (simp_all add: try_from_u256_eq)

lemma parse_event:
  assumes "length (ev_from_address e) = 20"
  shows "parse_handle_l1_message_transaction ff e \<noteq> Panic"
    "representable e \<Longrightarrow> parse_handle_l1_message_transaction ff e = Ok (transaction_of e)"
    "parse_handle_l1_message_transaction ff e = Ok tx \<Longrightarrow> unat (ev_fee e) < 2 ^ 128 \<Longrightarrow> representable e"
proof -
  have "be_val (ev_from_address e) < 2 ^ 160" using be_val_bound [of "ev_from_address e"] assms by simp
  then have from_address: "felt_try_from_u256 ff (u256_from_big_endian ff (ev_from_address e)) = Ok (be_val (ev_from_address e))"
    using assms by (simp add: try_from_u256_eq u256_bytes unat_of_nat felt_prime_def)
  have nonce: "and_then (felt_try_from_u256 ff (ev_nonce e)) (u64_try_from_felt ff) =
      (if unat (ev_nonce e) < 2 ^ 64 then Ok (ucast (ev_nonce e))
       else if unat (ev_nonce e) < felt_prime then Err ValueTooLarge else Err FromArrayError)"
    using felt_prime_def by (simp add: try_from_u256_eq u64_try_from_felt_def try_words)
  note parse = parse_handle_l1_message_transaction_def from_address nonce
  show "parse_handle_l1_message_transaction ff e \<noteq> Panic"
    unfolding parse by (simp add: try_from_u256_eq collect_payload)
  show "parse_handle_l1_message_transaction ff e = Ok (transaction_of e)" if "representable e"
    unfolding parse using that by (simp add: try_from_u256_eq collect_payload representable_def transaction_of_def)
  show "representable e" if "parse_handle_l1_message_transaction ff e = Ok tx" "unat (ev_fee e) < 2 ^ 128"
    using that unfolding parse by (auto simp: try_from_u256_eq collect_payload representable_def split: if_splits)
qed

lemma process_item:
  assumes "length (ev_from_address e) = 20" "it_event it = Some (e, b, i)"
  shows "\<exists>r db'. process_l1_message ff sf c it e b k (db, out) =
      (r, db', out @ (if submitted sf it then [extrinsic_of it] else [])) \<and> r \<noteq> Panic \<and>
    (it_io it \<longrightarrow> db' = (if submitted sf it then snd (update_last_synced_l1_block_with_event c True
       \<lparr>lse_block_number = b, lse_event_index = k\<rparr> db) else db))"
proof (cases "representable e")
  case True
  then have p: "parse_handle_l1_message_transaction ff e = Ok (transaction_of e)" "unat (ev_fee e) < 2 ^ 128"
    using parse_event(2) [OF assms(1)] by (simp_all add: representable_def)
  show ?thesis
    using True p assms(2)
    by (cases "cl_state_at (it_client it) (cl_best_hash (it_client it))"; cases "it_io it")
      (auto simp: submitted_def process_l1_message_def Let_def bind_st_def ret_st_def api_l1_nonce_unused_def api_call_def
        ensure_l1_message_not_executed_def extrinsic_of_def convert_l1_transaction_def transaction_of_def
        update_last_synced_l1_block_with_event_def)
next
  case False
  show ?thesis
  proof (cases "parse_handle_l1_message_transaction ff e")
    case (Ok tx)
    then have "\<not> unat (ev_fee e) < 2 ^ 128" using parse_event(3) [OF assms(1)] False by blast
    then show ?thesis using False assms(2) by (simp add: submitted_def process_l1_message_def Let_def ret_st_def)
  next
    case (Err x)
    then show ?thesis using False assms(2) by (simp add: submitted_def process_l1_message_def Let_def ret_st_def bind_st_def)
  qed (use parse_event(1) [OF assms(1)] in simp)
qed

lemma process_events_submits:
  assumes "list_all well_formed_item items"
  shows "\<exists>db'. process_events ff sf c items (db, out) = (Ok (), db', out @ map extrinsic_of (filter (submitted sf) items)) \<and>
    (list_all it_io items \<longrightarrow> db' = fold (\<lambda>it db. snd (update_last_synced_l1_block_with_event c True (position_of it) db))
      (filter (submitted sf) items) db)"
  using assms
proof (induction items arbitrary: db out)
  case (Cons it items)
  show ?case
  proof (cases "it_event it")
    case None
    then show ?thesis using Cons by (auto simp: submitted_def)
  next
    case (Some ebi)
    then obtain e b i where it: "it_event it = Some (e, b, i)" by (cases ebi) auto
    then have wf: "length (ev_from_address e) = 20" "unat i < 2 ^ 64" using Cons.prems by (auto simp: well_formed_item_def)
    obtain r db1 where 1: "process_l1_message ff sf c it e b (ucast i) (db, out) =
        (r, db1, out @ (if submitted sf it then [extrinsic_of it] else []))" "r \<noteq> Panic"
        "it_io it \<Longrightarrow> db1 = (if submitted sf it then snd (update_last_synced_l1_block_with_event c True
          \<lparr>lse_block_number = b, lse_event_index = ucast i\<rparr> db) else db)"
      using process_item [OF wf(1) it] by blast
    obtain db' where 2: "process_events ff sf c items (db1, out @ (if submitted sf it then [extrinsic_of it] else [])) =
        (Ok (), db', (out @ (if submitted sf it then [extrinsic_of it] else [])) @ map extrinsic_of (filter (submitted sf) items))"
        "list_all it_io items \<longrightarrow> db' = fold (\<lambda>it db. snd (update_last_synced_l1_block_with_event c True (position_of it) db))
          (filter (submitted sf) items) db1"
      using Cons.IH [of db1 "out @ (if submitted sf it then [extrinsic_of it] else [])"] Cons.prems by (simp only: list.pred_inject) blast
    have "process_events ff sf c (it # items) (db, out) =
        process_events ff sf c items (db1, out @ (if submitted sf it then [extrinsic_of it] else []))"
      using it wf 1(1,2) by (cases r) auto
    then show ?thesis
      using 1(3) 2 it by (intro exI [of _ db']) (auto simp: position_of_def)
  qed
qed simp

end

lemma transaction_of_wf:
  assumes "representable e" "length (ev_from_address e) = 20"
  shows "wf_l1_transaction (transaction_of e)"
proof -
  have "be_val (ev_from_address e) < 2 ^ 160" using be_val_bound [of "ev_from_address e"] assms(2) by simp
  then show ?thesis
    using assms(1) by (auto simp: wf_l1_transaction_def l1_canonical_def felts_canonical_def transaction_of_def representable_def felt_prime_def
        list_all_iff)
qed

lemma l1_executable_total:
  assumes "ff_laws ff" "hasher_t H" "wf_l1_transaction tx" "canonical chain"
  shows "\<exists>x. l1_into_executable ff cr sf H tx chain fee off = (Ok x :: (_, 'e) result) \<and>
    sl1_calldata (bl_tx x) = map sfelt (l1_calldata tx) \<and> bl_paid_fee_on_l1 x = fee"
proof -
  have libs: "field_libs ff" by (rule field_libs.intro) (rule assms(1))
  have "canonical (be_val L1_HANDLER_PREFIX)" by (simp add: felt_prime_def)
  then have pfx: "ff_from_byte_slice_be ff L1_HANDLER_PREFIX = Ok (be_val L1_HANDLER_PREFIX)"
    using field_libs.from_byte_slice_be [OF libs, of L1_HANDLER_PREFIX] by simp
  show ?thesis
    using assms(3) pfx hasher_t.elements_canonical [OF assms(2)]
    by (simp add: l1_into_executable_def l1_compute_hash_def Let_def field_libs.felt_into_eq [OF libs]
        field_libs.felts_into_eq [OF libs] wf_l1_transaction_def l1_canonical_def)
qed

lemma last_synced_updated:
  assumes "codec_laws c"
  shows "last_synced_l1_block_with_event c (fold (\<lambda>it db. snd (update_last_synced_l1_block_with_event c True (position_of it) db)) items db) =
    (if items = [] then last_synced_l1_block_with_event c db else Ok (position_of (List.last items)))"
proof (induction items rule: rev_induct)
  case (snoc it items)
  then show ?case
    using assms by (simp add: update_last_synced_l1_block_with_event_def last_synced_l1_block_with_event_def decoded_def codec_laws_def)
qed simp

text \<open>
  C32. From a database that holds a position, the worker submits, in the order of the events from there
  on, exactly the events whose numbers fit a transaction, whose nonce is unused at the best block and
  which the pool takes. Every transaction it submits is well formed: its numbers are field elements, its
  calldata starts with the L1 sender, a value of 160 bits, and continues with the payload, and the
  conversion to an executable transaction succeeds with this calldata and the fee paid on L1. Whatever
  the events are, the worker does not panic. The position stored at the end is that of the last event
  submitted.
\<close>

theorem l1_worker_submits_wellformed:
  fixes c :: "('h, 'd, 'k) codecs" and items :: "('h, 'c, 'p) l1_item list" and out :: "'c RuntimeCall list"
  assumes "ff_laws ff" "codec_laws c" "hasher_t H" "canonical chain"
    and "last_synced_l1_block_with_event c db = Ok pos" "events_from (lse_block_number pos) = Some items"
    and "list_all well_formed_item items"
  shows "\<exists>db'. run_worker ff sf c events_from (db, out) =
      (Ok (), db', out @ map extrinsic_of (filter (submitted sf) items)) \<and>
    (\<forall>it \<in> set (filter (submitted sf) items). \<exists>e b i. it_event it = Some (e, b, i) \<and>
       wf_l1_transaction (transaction_of e) \<and>
       (\<exists>x. l1_into_executable ff cr sf H (transaction_of e) chain (ucast (ev_fee e)) False = (Ok x :: (_, unit) result) \<and>
          sl1_calldata (bl_tx x) = sfelt (be_val (ev_from_address e)) # map (\<lambda>p. sfelt (unat p)) (ev_payload e) \<and>
          unat (bl_paid_fee_on_l1 x) = unat (ev_fee e))) \<and>
    (list_all it_io items \<longrightarrow> last_synced_l1_block_with_event c db' =
       Ok (if filter (submitted sf) items = [] then pos else position_of (List.last (filter (submitted sf) items))))"
proof -
  have libs: "field_libs ff" by (rule field_libs.intro) (rule assms(1))
  obtain db' where 1: "process_events ff sf c items (db, out) = (Ok (), db', out @ map extrinsic_of (filter (submitted sf) items))"
      "list_all it_io items \<longrightarrow> db' = fold (\<lambda>it db. snd (update_last_synced_l1_block_with_event c True (position_of it) db))
        (filter (submitted sf) items) db"
    using field_libs.process_events_submits [OF libs assms(7)] by blast
  have "\<exists>e b i. it_event it = Some (e, b, i) \<and> wf_l1_transaction (transaction_of e) \<and>
       (\<exists>x. l1_into_executable ff cr sf H (transaction_of e) chain (ucast (ev_fee e)) False = (Ok x :: (_, unit) result) \<and>
          sl1_calldata (bl_tx x) = sfelt (be_val (ev_from_address e)) # map (\<lambda>p. sfelt (unat p)) (ev_payload e) \<and>
          unat (bl_paid_fee_on_l1 x) = unat (ev_fee e))"
    if it: "it \<in> set (filter (submitted sf) items)" for it
  proof -
    obtain e b i where e: "it_event it = Some (e, b, i)" "representable e"
      using it by (auto simp: submitted_def split: option.splits)
    then have "length (ev_from_address e) = 20"
      using assms(7) it by (fastforce simp: list_all_iff well_formed_item_def)
    with e(2) have wf: "wf_l1_transaction (transaction_of e)" by (rule transaction_of_wf)
    have fee: "unat (ucast (ev_fee e) :: u128) = unat (ev_fee e)"
      using e(2) by (simp add: representable_def unsigned_ucast_eq take_bit_eq_mod)
    show ?thesis
      using e(1) wf fee l1_executable_total [OF assms(1,3) wf assms(4), of cr sf "ucast (ev_fee e)" False]
      by (auto simp: transaction_of_def comp_def)
  qed
  then show ?thesis
    using 1 assms(5,6) last_synced_updated [OF assms(2), of "filter (submitted sf) items" db]
    by (simp add: run_worker_def)
qed

section \<open>A sample stream\<close>

text \<open>An event with an unused nonce, an error of the provider, and an event whose fee is too large.\<close>

definition sample_event :: LogMessageToL2Filter where
  "sample_event = \<lparr>ev_from_address = replicate 20 1, ev_to_address = 7, ev_selector = 8, ev_payload = [9],
     ev_nonce = 3, ev_fee = 1000\<rparr>"

definition sample_stream :: "(byte, nat, Log) l1_item list" where
  "sample_stream = [
     \<lparr>it_event = Some (sample_event, 12, 4), it_client = sample_client, it_pool = True, it_io = True\<rparr>,
     \<lparr>it_event = None, it_client = sample_client, it_pool = True, it_io = True\<rparr>,
     \<lparr>it_event = Some (sample_event\<lparr>ev_fee := 340282366920938463463374607431768211456\<rparr>, 13, 0), it_client = sample_client, it_pool = True, it_io = True\<rparr>]"

lemma sample_stream_submitted: "filter (submitted sf) sample_stream = [hd sample_stream]"
  by (simp add: sample_stream_def submitted_def representable_def sample_event_def felt_prime_def empty_pallet_def)

theorem l1_worker_submits_wellformed_witness:
  "\<exists>db'. run_worker ff_ref sf_ref codec_ref (\<lambda>n. if n = 0 then Some sample_stream else None) (Map.empty, []) =
     (Ok (), db', [Starknet_call (Call_consume_l1_message (transaction_of sample_event) 1000)]) \<and>
   last_synced_l1_block_with_event codec_ref db' = Ok \<lparr>lse_block_number = 12, lse_event_index = 4\<rparr>"
proof -
  have wf: "list_all well_formed_item sample_stream" and io: "list_all it_io sample_stream"
    and hd: "extrinsic_of (hd sample_stream) = Starknet_call (Call_consume_l1_message (transaction_of sample_event) 1000)"
      "position_of (hd sample_stream) = \<lparr>lse_block_number = 12, lse_event_index = 4\<rparr>"
    by (simp_all add: sample_stream_def well_formed_item_def sample_event_def extrinsic_of_def position_of_def)
  have "last_synced_l1_block_with_event codec_ref Map.empty = Ok \<lparr>lse_block_number = 0, lse_event_index = 0\<rparr>"
    by (simp add: last_synced_l1_block_with_event_def)
  from l1_worker_submits_wellformed [OF ff_ref_laws codec_ref_laws sample_chain.hasher felt_prime_pos this _ wf,
      of "\<lambda>n. if n = 0 then Some sample_stream else None" sf_ref "[]" crypto_ref]
  show ?thesis using io hd by (auto simp: sample_stream_submitted)
qed

end
