(* ===== verification/Rpc.thy ===== *)
theory Rpc
  imports State_Diff Broadcast
begin

text \<open>
  The JSON-RPC server: resolution of block identifiers and the methods that read blocks, transactions
  and receipts (\<^verbatim>\<open>crates/client/rpc/src/lib.rs\<close>, \<^verbatim>\<open>madara_backend_client.rs\<close>,
  \<^verbatim>\<open>errors.rs\<close>). The record \<open>Starknet\<close> holds what a method reads: the client, the runtime whose API the
  client serves, the backend's database with the index of \<open>Mapping_Sync\<close>, and the storage readers.
\<close>

section \<open>Errors\<close>

datatype StarknetRpcApiError =
  FailedToReceiveTxn | RpcContractNotFound | BlockNotFound | InvalidTxnIndex | ClassHashNotFound | TxnHashNotFound
| PageSizeTooBig | NoBlocks | InvalidContinuationToken | TooManyKeysInFilter | FailedToFetchPendingTransactions
| RpcContractError | RpcInvalidContractClass | ClassAlreadyDeclared | ValidationFailure | UnsupportedTxVersion
| InternalServerError | UnimplementedMethod | ProofLimitExceeded

fun error_code :: "StarknetRpcApiError \<Rightarrow> nat" where
  "error_code FailedToReceiveTxn = 1"
| "error_code RpcContractNotFound = 20"
| "error_code BlockNotFound = 24"
| "error_code InvalidTxnIndex = 27"
| "error_code ClassHashNotFound = 28"
| "error_code TxnHashNotFound = 29"
| "error_code PageSizeTooBig = 31"
| "error_code NoBlocks = 32"
| "error_code InvalidContinuationToken = 33"
| "error_code TooManyKeysInFilter = 34"
| "error_code FailedToFetchPendingTransactions = 38"
| "error_code RpcContractError = 40"
| "error_code RpcInvalidContractClass = 50"
| "error_code ClassAlreadyDeclared = 51"
| "error_code ValidationFailure = 55"
| "error_code UnsupportedTxVersion = 61"
| "error_code InternalServerError = 500"
| "error_code UnimplementedMethod = 501"
| "error_code ProofLimitExceeded = 10000"

fun rpc_error_from :: "StarknetTransactionExecutionError \<Rightarrow> StarknetRpcApiError" where
  "rpc_error_from STE_ContractNotFound = RpcContractNotFound"
| "rpc_error_from STE_ClassAlreadyDeclared = ClassAlreadyDeclared"
| "rpc_error_from STE_ClassHashNotFound = ClassHashNotFound"
| "rpc_error_from STE_InvalidContractClass = RpcInvalidContractClass"
| "rpc_error_from STE_ContractError = RpcContractError"

text \<open>What a method fails with: an error of the specification, or another one, sent as its text.\<close>

datatype RpcError = Custom nat | Failed

definition custom :: "StarknetRpcApiError \<Rightarrow> RpcError" where
  "custom e = Custom (error_code e)"

section \<open>The server\<close>

record ('h, 'c, 'r, 'x, 'p, 'k) Starknet =
  s_runtime :: "('c, 'r, 'x, 'p) runtime"
  s_hasher :: hasher
  s_codecs :: "('h, ThinStateDiff, 'k) codecs"
  s_cache :: bool
  s_client :: "('h, 'c, 'p) client"
  s_backend :: store
  s_overrides :: "('h, 'c) OverrideHandle"
  s_best_seen_block :: "u32 option option"
  s_starting_block :: u32
  s_overflow_checks :: bool

abbreviation s_ff :: "('h, 'c, 'r, 'x, 'p, 'k) Starknet \<Rightarrow> ff_api" where
  "s_ff s \<equiv> rt_ff (s_runtime s)"

text \<open>The conversions between \<open>FieldElement\<close> and \<open>StarkFelt\<close>, which panic out of range.\<close>

definition stark_from_field :: "ff_api \<Rightarrow> felt \<Rightarrow> (stark_felt, 'e) result" where
  "stark_from_field ff x = unwrap_opt (stark_felt_new ff (ff_to_bytes_be ff x))"

definition field_from_stark :: "ff_api \<Rightarrow> stark_felt \<Rightarrow> (felt, 'e) result" where
  "field_from_stark ff v = unwrap_opt (ff_from_bytes_be ff v)"

definition wrapper_from_stark :: "ff_api \<Rightarrow> stark_felt \<Rightarrow> (felt252_wrapper, 'e) result" where
  "wrapper_from_stark ff v = unwrap (felt_from_stark_felt ff v)"

text \<open>The Starknet block of a Substrate block, its hash, and the hash of a transaction.\<close>

definition read_block :: "('h, 'c, 'r, 'x, 'p, 'k) Starknet \<Rightarrow> 'h \<Rightarrow> (Block, RpcError) result" where
  "read_block s h = map_err (\<lambda>_. Failed) (get_block_by_block_hash (rt_dg (s_runtime s)) (s_client s) h)"

definition starknet_hash :: "('h, 'c, 'r, 'x, 'p, 'k) Starknet \<Rightarrow> Block \<Rightarrow> (felt252_wrapper, 'e) result" where
  "starknet_hash s b = header_hash (s_ff s) (s_hasher s) (blk_header b)"

definition compute_tx_hash ::
    "('h, 'c, 'r, 'x, 'p, 'k) Starknet \<Rightarrow> felt252_wrapper \<Rightarrow> Transaction \<Rightarrow> (felt252_wrapper, 'e) result" where
  "compute_tx_hash s chain tx =
     unwrap (tx_compute_hash (s_ff s) (rt_cr (s_runtime s)) (s_hasher s) tx chain False)"

subsection \<open>Block identifiers\<close>

definition is_canon :: "('h, 'c, 'p) client \<Rightarrow> 'h \<Rightarrow> bool" where
  "is_canon cl target_hash =
     (case cl_number cl target_hash of
        Some (Some number) \<Rightarrow>
          (case cl_hash cl number of Some (Some hash) \<Rightarrow> hash = target_hash | _ \<Rightarrow> False)
      | _ \<Rightarrow> False)"

definition load_hash ::
    "('h, ThinStateDiff, 'k) codecs \<Rightarrow> ('h, 'c, 'p) client \<Rightarrow> store \<Rightarrow> stark_felt \<Rightarrow> ('h option, DbError) result" where
  "load_hash c cl db hash =
     and_then (mapping_block_hash c hash db) (\<lambda>substrate_hashes.
       Ok (Option.bind substrate_hashes (List.find (is_canon cl))))"

text \<open>\<open>derive(Default)\<close> of blocks and headers.\<close>

definition block_default :: Block where
  "block_default = \<lparr>blk_header = header_new felt_default 0 felt_default 0 0 0 0
     \<lparr>price_in_strk = None, price_in_wei = 0\<rparr> None, blk_transactions = []\<rparr>"

definition starknet_block_from_substrate_hash ::
    "'p digest_api \<Rightarrow> ('h, 'c, 'p) client \<Rightarrow> u32 \<Rightarrow> (Block, StarknetRpcApiError) result" where
  "starknet_block_from_substrate_hash dg cl target_number =
     (case cl_hash cl target_number of
        Some (Some h) \<Rightarrow>
          (case get_block_by_block_hash dg cl h of Ok block \<Rightarrow> Ok block | Err _ \<Rightarrow> Ok block_default | Panic \<Rightarrow> Panic)
      | _ \<Rightarrow> Err BlockNotFound)"

definition current_block_number :: "('h, 'c, 'r, 'x, 'p, 'k) Starknet \<Rightarrow> u64" where
  "current_block_number s = ucast (cl_best_number (s_client s))"

definition current_spec_version :: string where
  "current_spec_version = ''0.4.0''"

definition current_block_hash :: "('h, 'c, 'r, 'x, 'p, 'k) Starknet \<Rightarrow> (h256, StarknetRpcApiError) result" where
  "current_block_hash s =
     and_then (map_err (\<lambda>_. BlockNotFound)
       (get_block_by_block_hash (rt_dg (s_runtime s)) (s_client s) (cl_best_hash (s_client s)))) (\<lambda>starknet_block.
       map_ok (h256_from_felt (s_ff s)) (starknet_hash s starknet_block))"

definition substrate_block_hash_from_starknet_block ::
    "('h, 'c, 'r, 'x, 'p, 'k) Starknet \<Rightarrow> BlockId \<Rightarrow> ('h, StarknetRpcApiError) result" where
  "substrate_block_hash_from_starknet_block s block_id =
     and_then
       (case block_id of
          BlockHashId h \<Rightarrow>
            and_then (stark_from_field (s_ff s) h) (\<lambda>h.
              map_err (\<lambda>_. BlockNotFound) (load_hash (s_codecs s) (s_client s) (s_backend s) h))
        | BlockNumberId n \<Rightarrow> ok_or BlockNotFound (cl_hash (s_client s) (saturate_u32 n))
        | BlockTagId _ \<Rightarrow> Ok (Some (cl_best_hash (s_client s))))
       (ok_or BlockNotFound)"

definition substrate_block_number_from_starknet_block ::
    "('h, 'c, 'r, 'x, 'p, 'k) Starknet \<Rightarrow> BlockId \<Rightarrow> (u64, StarknetRpcApiError) result" where
  "substrate_block_number_from_starknet_block s block_id =
     (case block_id of
        BlockNumberId x \<Rightarrow> Ok x
      | _ \<Rightarrow>
          and_then (substrate_block_hash_from_starknet_block s block_id) (\<lambda>h.
          and_then (map_err (\<lambda>_. BlockNotFound)
            (get_block_by_block_hash (rt_dg (s_runtime s)) (s_client s) h)) (\<lambda>starknet_block.
            Ok (hd_block_number (blk_header starknet_block)))))"

text \<open>The first lines of most methods.\<close>

definition block_of_id :: "('h, 'c, 'r, 'x, 'p, 'k) Starknet \<Rightarrow> BlockId \<Rightarrow> ('h, RpcError) result" where
  "block_of_id s block_id = map_err (\<lambda>_. custom BlockNotFound) (substrate_block_hash_from_starknet_block s block_id)"

subsection \<open>Hashes of transactions\<close>

definition get_cached_transaction_hashes ::
    "('h, 'c, 'r, 'x, 'p, 'k) Starknet \<Rightarrow> stark_felt \<Rightarrow> stark_felt list option" where
  "get_cached_transaction_hashes s hash =
     (case cached_transaction_hashes_from_block_hash (s_codecs s) (s_cache s) hash (s_backend s) of
        Ok hashes \<Rightarrow> hashes | _ \<Rightarrow> None)"

definition try_txn_hash_from_cache ::
    "('h, 'c, 'r, 'x, 'p, 'k) Starknet \<Rightarrow> nat \<Rightarrow> stark_felt list option \<Rightarrow> Transaction list \<Rightarrow> felt252_wrapper
      \<Rightarrow> (felt252_wrapper, StarknetRpcApiError) result" where
  "try_txn_hash_from_cache s tx_index cached_transactions transactions chain =
     (case cached_transactions of
        Some txn_hashes \<Rightarrow>
          (if tx_index < length txn_hashes
           then map_err (\<lambda>_. InternalServerError) (felt_try_from_array (s_ff s) (txn_hashes ! tx_index))
           else Err InternalServerError)
      | None \<Rightarrow>
          (if tx_index < length transactions
           then compute_tx_hash s chain (transactions ! tx_index)
           else Err InternalServerError))"

section \<open>Methods\<close>

definition spec_version :: string where
  "spec_version = current_spec_version"

definition rpc_block_number :: "('h, 'c, 'r, 'x, 'p, 'k) Starknet \<Rightarrow> (u64, RpcError) result" where
  "rpc_block_number s = Ok (current_block_number s)"

definition block_hash_and_number :: "('h, 'c, 'r, 'x, 'p, 'k) Starknet \<Rightarrow> (felt \<times> u64, RpcError) result" where
  "block_hash_and_number s =
     and_then (map_err (\<lambda>_. custom NoBlocks) (current_block_hash s)) (\<lambda>hash.
       map_ok (\<lambda>h. (h, current_block_number s)) (unwrap (ff_from_byte_slice_be (s_ff s) hash)))"

definition get_block_transaction_count :: "('h, 'c, 'r, 'x, 'p, 'k) Starknet \<Rightarrow> BlockId \<Rightarrow> (u128, RpcError) result" where
  "get_block_transaction_count s block_id =
     and_then (block_of_id s block_id) (\<lambda>h.
       map_ok (\<lambda>starknet_block. hd_transaction_count (blk_header starknet_block)) (read_block s h))"

definition rpc_chain_id :: "('h, 'c, 'r, 'x, 'p, 'k) Starknet \<Rightarrow> (felt, RpcError) result" where
  "rpc_chain_id s =
     ok_or (custom InternalServerError) (api_chain_id (s_runtime s) (s_client s) (cl_best_hash (s_client s)))"

text \<open>The transaction of a block under a hash, from the cached hashes or by hashing every transaction.\<close>

fun find_computed ::
    "('h, 'c, 'r, 'x, 'p, 'k) Starknet \<Rightarrow> felt252_wrapper \<Rightarrow> felt \<Rightarrow> Transaction list \<Rightarrow> (Transaction option, 'e) result" where
  "find_computed s chain transaction_hash [] = Ok None"
| "find_computed s chain transaction_hash (tx # txs) =
     and_then (compute_tx_hash s chain tx) (\<lambda>hash.
       if hash = transaction_hash then Ok (Some tx) else find_computed s chain transaction_hash txs)"

definition find_transaction ::
    "('h, 'c, 'r, 'x, 'p, 'k) Starknet \<Rightarrow> felt252_wrapper \<Rightarrow> Block \<Rightarrow> felt \<Rightarrow> (core_Transaction option, 'e) result" where
  "find_transaction s chain starknet_block transaction_hash =
     and_then (starknet_hash s starknet_block) (\<lambda>hash.
     and_then (felt_into (s_ff s) hash) (\<lambda>hash.
     and_then (felt_into (s_ff s) transaction_hash) (\<lambda>wanted.
       map_ok (map_option (\<lambda>tx. to_starknet_core_tx (s_ff s) tx transaction_hash))
         (case get_cached_transaction_hashes s hash of
            Some tx_hashes \<Rightarrow>
              Ok (map_option snd (List.find (\<lambda>(tx_hash, _). tx_hash = wanted)
                (zip tx_hashes (blk_transactions starknet_block))))
          | None \<Rightarrow> find_computed s chain transaction_hash (blk_transactions starknet_block)))))"

definition get_transaction_by_hash ::
    "('h, 'c, 'r, 'x, 'p, 'k) Starknet \<Rightarrow> felt \<Rightarrow> (core_Transaction, RpcError) result" where
  "get_transaction_by_hash s transaction_hash =
     and_then (stark_from_field (s_ff s) transaction_hash) (\<lambda>key.
     and_then (map_err (\<lambda>_. custom TxnHashNotFound)
       (block_hash_from_transaction_hash (s_codecs s) key (s_backend s))) (\<lambda>substrate_block_hash_from_db.
     and_then (ok_or (custom TxnHashNotFound) substrate_block_hash_from_db) (\<lambda>h.
     and_then (read_block s h) (\<lambda>starknet_block.
     and_then (rpc_chain_id s) (\<lambda>chain.
     and_then (find_transaction s chain starknet_block transaction_hash) (\<lambda>find_tx.
       ok_or (custom TxnHashNotFound) find_tx))))))"

datatype TransactionExecutionStatus = Succeeded | Reverted

definition get_transaction_status ::
    "('h, 'c, 'r, 'x, 'p, 'k) Starknet \<Rightarrow> felt \<Rightarrow> (TransactionExecutionStatus, RpcError) result" where
  "get_transaction_status s transaction_hash =
     and_then (felt_into (s_ff s) transaction_hash) (\<lambda>key.
     and_then (map_err (\<lambda>_. custom TxnHashNotFound)
       (block_hash_from_transaction_hash (s_codecs s) key (s_backend s))) (\<lambda>substrate_block_hash.
     and_then (ok_or (custom TxnHashNotFound) substrate_block_hash) (\<lambda>h.
     and_then (read_block s h) (\<lambda>starknet_block.
     and_then (rpc_chain_id s) (\<lambda>chain.
     and_then (find_transaction s chain starknet_block transaction_hash) (\<lambda>starknet_tx.
     and_then (ok_or (custom InternalServerError) (api_get_tx_execution_outcome (s_client s) h key)) (\<lambda>revert_error.
       Ok (if revert_error = None then Succeeded else Reverted))))))))"

definition get_transaction_by_block_id_and_index ::
    "('h, 'c, 'r, 'x, 'p, 'k) Starknet \<Rightarrow> BlockId \<Rightarrow> u64 \<Rightarrow> (core_Transaction, RpcError) result" where
  "get_transaction_by_block_id_and_index s block_id index =
     and_then (block_of_id s block_id) (\<lambda>h.
     and_then (read_block s h) (\<lambda>starknet_block.
       if length (blk_transactions starknet_block) \<le> unat index then Err (custom InvalidTxnIndex)
       else
         (let transaction = blk_transactions starknet_block ! unat index
          in and_then (rpc_chain_id s) (\<lambda>chain.
             and_then (starknet_hash s starknet_block) (\<lambda>hash.
             and_then (felt_into (s_ff s) hash) (\<lambda>hash.
             and_then
               (case get_cached_transaction_hashes s hash of
                  Some cached_tx_hashes \<Rightarrow>
                    (if unat index < length cached_tx_hashes
                     then field_from_stark (s_ff s) (cached_tx_hashes ! unat index) else Err Failed)
                | None \<Rightarrow> compute_tx_hash s chain transaction) (\<lambda>transaction_hash.
               Ok (to_starknet_core_tx (s_ff s) transaction transaction_hash))))))))"

subsection \<open>Blocks\<close>

datatype BlockStatus = PendingStatus | AcceptedOnL2 | AcceptedOnL1 | Rejected

text \<open>The header part that both block methods return, and the two kinds of blocks.\<close>

record 'tx RpcBlock =
  rb_status :: BlockStatus
  rb_block_hash :: felt
  rb_parent_hash :: felt
  rb_block_number :: u64
  rb_new_root :: felt
  rb_timestamp :: u64
  rb_sequencer_address :: felt
  rb_transactions :: "'tx list"
  rb_l1_gas_price :: CoreResourcePrice
  rb_starknet_version :: string

definition rpc_block ::
    "('h, 'c, 'r, 'x, 'p, 'k) Starknet \<Rightarrow> Block \<Rightarrow> felt \<Rightarrow> BlockStatus \<Rightarrow> 'tx list \<Rightarrow> ('tx RpcBlock, RpcError) result" where
  "rpc_block s starknet_block hash status transactions =
     (let header = blk_header starknet_block
      in and_then (wrapper_from_stark (s_ff s) (hd_parent_block_hash header)) (\<lambda>parent_hash.
         and_then (wrapper_from_stark (s_ff s) temporary_global_state_root_getter) (\<lambda>new_root.
         and_then (wrapper_from_stark (s_ff s) (hd_sequencer_address header)) (\<lambda>sequencer_address.
           Ok \<lparr>rb_status = status, rb_block_hash = hash, rb_parent_hash = parent_hash,
               rb_block_number = hd_block_number header, rb_new_root = new_root,
               rb_timestamp = hd_block_timestamp header, rb_sequencer_address = sequencer_address,
               rb_transactions = transactions, rb_l1_gas_price = core_resource_price_from (hd_l1_gas_price header),
               rb_starknet_version = decimal (unat (hd_protocol_version header))\<rparr>))))"

definition get_block_with_tx_hashes ::
    "('h, 'c, 'r, 'x, 'p, 'k) Starknet \<Rightarrow> BlockId \<Rightarrow> (felt RpcBlock, RpcError) result" where
  "get_block_with_tx_hashes s block_id =
     and_then (block_of_id s block_id) (\<lambda>h.
     and_then (read_block s h) (\<lambda>starknet_block.
     and_then (rpc_chain_id s) (\<lambda>chain.
     and_then (starknet_hash s starknet_block) (\<lambda>hash.
     and_then (felt_into (s_ff s) hash) (\<lambda>key.
     and_then
       (case get_cached_transaction_hashes s key of
          Some tx_hashes \<Rightarrow> collect_results (field_from_stark (s_ff s)) tx_hashes
        | None \<Rightarrow> collect_results (\<lambda>r. r)
            (transactions_hashes (s_ff s) (rt_cr (s_runtime s)) (s_hasher s) starknet_block chain)) (\<lambda>transaction_hashes.
     and_then (map_err (\<lambda>_. custom InternalServerError) (last_synced_l1_block_with_event (s_codecs s) (s_backend s))) (\<lambda>l1_block.
       rpc_block s starknet_block hash
         (if hd_block_number (blk_header starknet_block) \<le> lse_block_number l1_block then AcceptedOnL1 else AcceptedOnL2)
         transaction_hashes)))))))"

fun block_core_transactions ::
    "('h, 'c, 'r, 'x, 'p, 'k) Starknet \<Rightarrow> felt252_wrapper \<Rightarrow> stark_felt list option \<Rightarrow> nat \<Rightarrow> Transaction list
      \<Rightarrow> (core_Transaction list, RpcError) result" where
  "block_core_transactions s chain opt_cached index [] = Ok []"
| "block_core_transactions s chain opt_cached index (tx # txs) =
     and_then
       (case opt_cached of
          Some cached_tx_hashes \<Rightarrow>
            (if index < length cached_tx_hashes
             then field_from_stark (s_ff s) (cached_tx_hashes ! index) else Err Failed)
        | None \<Rightarrow> compute_tx_hash s chain tx) (\<lambda>tx_hash.
       map_ok (\<lambda>rest. to_starknet_core_tx (s_ff s) tx tx_hash # rest)
         (block_core_transactions s chain opt_cached (Suc index) txs))"

definition get_block_with_txs ::
    "('h, 'c, 'r, 'x, 'p, 'k) Starknet \<Rightarrow> BlockId \<Rightarrow> (core_Transaction RpcBlock, RpcError) result" where
  "get_block_with_txs s block_id =
     and_then (block_of_id s block_id) (\<lambda>h.
     and_then (read_block s h) (\<lambda>starknet_block.
     and_then (starknet_hash s starknet_block) (\<lambda>hash.
     and_then (rpc_chain_id s) (\<lambda>chain.
     and_then (felt_into (s_ff s) hash) (\<lambda>key.
     and_then (block_core_transactions s chain (get_cached_transaction_hashes s key) 0
         (blk_transactions starknet_block)) (\<lambda>transactions.
       rpc_block s starknet_block hash AcceptedOnL2 transactions))))))"

subsection \<open>Receipts\<close>

record core_Event =
  ce_from_address :: felt
  ce_keys :: "felt list"
  ce_data :: "felt list"

record MsgToL1 =
  msl_from_address :: felt
  msl_to_address :: felt
  msl_payload :: "felt list"

datatype ExecutionResult = ExecSucceeded | ExecReverted string

record TransactionReceipt =
  tr_transaction_hash :: felt
  tr_actual_fee :: felt
  tr_finality_status :: BlockStatus
  tr_block_hash :: felt
  tr_block_number :: u64
  tr_messages_sent :: "MsgToL1 list"
  tr_events :: "core_Event list"
  tr_execution_result :: ExecutionResult

datatype MaybePendingTransactionReceipt =
  DeclareReceipt TransactionReceipt | DeployAccountReceipt TransactionReceipt felt
| InvokeReceipt TransactionReceipt | L1HandlerReceipt TransactionReceipt bytes

definition event_conversion :: "ff_api \<Rightarrow> StarknetEvent \<Rightarrow> (core_Event, 'e) result" where
  "event_conversion ff event =
     and_then (wrapper_from_stark ff (se_from_address event)) (\<lambda>from_address.
     and_then (collect_results (wrapper_from_stark ff) (ec_keys (se_content event))) (\<lambda>event_keys.
     and_then (collect_results (wrapper_from_stark ff) (ec_data (se_content event))) (\<lambda>data.
       Ok \<lparr>ce_from_address = from_address, ce_keys = event_keys, ce_data = data\<rparr>)))"

definition message_conversion :: "ff_api \<Rightarrow> MessageToL1 \<Rightarrow> (MsgToL1, 'e) result" where
  "message_conversion ff message =
     and_then (wrapper_from_stark ff (ml1_from_address message)) (\<lambda>from_address.
     and_then (unwrap_opt (ff_from_bytes_be ff (replicate 12 0 @ ml1_to_address message))) (\<lambda>to_address.
     and_then (collect_results (wrapper_from_stark ff) (ml1_payload message)) (\<lambda>payload.
       Ok \<lparr>msl_from_address = from_address, msl_to_address = to_address, msl_payload = payload\<rparr>)))"

text \<open>The search for the transaction: its index among the Starknet transactions of the block.\<close>

fun find_index_from ::
    "('h, 'c, 'r, 'x, 'p, 'k) Starknet \<Rightarrow> stark_felt list option \<Rightarrow> Transaction list \<Rightarrow> felt252_wrapper \<Rightarrow> felt
      \<Rightarrow> nat \<Rightarrow> nat \<Rightarrow> (nat option, StarknetRpcApiError) result" where
  "find_index_from s txn_hashes transactions chain transaction_hash index 0 = Ok None"
| "find_index_from s txn_hashes transactions chain transaction_hash index (Suc n) =
     and_then (try_txn_hash_from_cache s index txn_hashes transactions chain) (\<lambda>tx_hash.
       if tx_hash = transaction_hash then Ok (Some index)
       else find_index_from s txn_hashes transactions chain transaction_hash (Suc index) n)"

text \<open>The fee is the amount of the last event, the transfer to the sequencer.\<close>

definition actual_fee_of :: "bool \<Rightarrow> core_Event list \<Rightarrow> (felt, 'e) result" where
  "actual_fee_of fee_disabled events =
     (if fee_disabled then Ok 0
      else if events = [] \<or> length (ce_data (List.last events)) \<le> 2 then Panic
      else Ok (ce_data (List.last events) ! 2))"

definition receipt_of :: "ff_api \<Rightarrow> crypto_api \<Rightarrow> Transaction \<Rightarrow> TransactionReceipt \<Rightarrow> MaybePendingTransactionReceipt" where
  "receipt_of ff cr transaction receipt =
     (case transaction of
        TDeclare _ \<Rightarrow> DeclareReceipt receipt
      | TDeployAccount tx \<Rightarrow> DeployAccountReceipt receipt (get_account_address ff cr tx)
      | TInvoke _ \<Rightarrow> InvokeReceipt receipt
      | TL1Handler _ \<Rightarrow> L1HandlerReceipt receipt (replicate 32 0))"

definition get_transaction_receipt ::
    "('h, 'c, 'r, 'x, 'p, 'k) Starknet \<Rightarrow> felt \<Rightarrow> (MaybePendingTransactionReceipt, RpcError) result" where
  "get_transaction_receipt s transaction_hash =
     (let R = s_runtime s; cl = s_client s; ff = s_ff s in
     and_then (stark_from_field ff transaction_hash) (\<lambda>key.
     and_then (map_err (\<lambda>_. custom InternalServerError)
       (block_hash_from_transaction_hash (s_codecs s) key (s_backend s))) (\<lambda>substrate_block_hash.
     and_then (ok_or (custom TxnHashNotFound) substrate_block_hash) (\<lambda>h.
     and_then (read_block s h) (\<lambda>starknet_block.
     and_then (starknet_hash s starknet_block) (\<lambda>hash.
     and_then (ok_or (custom InternalServerError) (cl_block_body cl h)) (\<lambda>body.
     and_then (ok_or (custom BlockNotFound) body) (\<lambda>block_extrinsics.
     and_then (rpc_chain_id s) (\<lambda>chain.
     and_then (ok_or (custom InternalServerError) (api_is_transaction_fee_disabled R cl h)) (\<lambda>fee_disabled.
     and_then (ok_or (custom InternalServerError)
       (api_call cl h (\<lambda>_. Ok (extrinsic_filter block_extrinsics)))) (\<lambda>transactions.
     and_then (felt_into ff hash) (\<lambda>hash_key.
     and_then (map_err custom (find_index_from s (get_cached_transaction_hashes s hash_key) transactions chain
         transaction_hash 0 (length transactions))) (\<lambda>found.
     and_then (ok_or (custom InternalServerError) found) (\<lambda>index.
     and_then (ok_or (custom InternalServerError) (api_call cl h (\<lambda>_.
         get_events_for_tx_by_index (cl_events_at cl h)
           (word_of_nat (index + length block_extrinsics - length transactions))))) (\<lambda>events.
     and_then (felt_into ff transaction_hash) (\<lambda>tx_key.
     and_then (ok_or (custom InternalServerError) (api_get_tx_execution_outcome cl h tx_key)) (\<lambda>revert_error.
     and_then (collect_results (event_conversion ff) events) (\<lambda>events_converted.
     and_then (actual_fee_of fee_disabled events_converted) (\<lambda>actual_fee.
     and_then (ok_or (custom InternalServerError) (api_get_tx_messages_to_l1 cl h tx_key)) (\<lambda>messages.
     and_then (collect_results (message_conversion ff) messages) (\<lambda>messages_sent.
       Ok (receipt_of ff (rt_cr R) (transactions ! index)
         \<lparr>tr_transaction_hash = transaction_hash, tr_actual_fee = actual_fee, tr_finality_status = AcceptedOnL2,
          tr_block_hash = hash, tr_block_number = hd_block_number (blk_header starknet_block),
          tr_messages_sent = messages_sent, tr_events = events_converted,
          tr_execution_result = (case revert_error of None \<Rightarrow> ExecSucceeded | Some message \<Rightarrow> ExecReverted message)\<rparr>))))))))))))))))))))))"

subsection \<open>Synchronisation\<close>

record SyncStatus =
  ss_starting_block_num :: u64
  ss_starting_block_hash :: felt
  ss_current_block_num :: u64
  ss_current_block_hash :: felt
  ss_highest_block_num :: u64
  ss_highest_block_hash :: felt

datatype SyncStatusType = Syncing SyncStatus | NotSyncing

definition syncing :: "('h, 'c, 'r, 'x, 'p, 'k) Starknet \<Rightarrow> (SyncStatusType, RpcError) result" where
  "syncing s =
     (case s_best_seen_block s of
        Some best_seen_block \<Rightarrow>
          (let cl = s_client s; dg = rt_dg (s_runtime s); best_number = cl_best_number cl;
               highest_number = (case best_seen_block of Some n \<Rightarrow> n | None \<Rightarrow> best_number)
           in case (starknet_block_from_substrate_hash dg cl (s_starting_block s),
                    starknet_block_from_substrate_hash dg cl best_number,
                    starknet_block_from_substrate_hash dg cl highest_number) of
                (Ok starting, Ok current, Ok highest) \<Rightarrow>
                  and_then (starknet_hash s starting) (\<lambda>starting_hash.
                  and_then (starknet_hash s current) (\<lambda>current_hash.
                  and_then (starknet_hash s highest) (\<lambda>highest_hash.
                    Ok (Syncing
                      \<lparr>ss_starting_block_num = ucast (s_starting_block s), ss_starting_block_hash = starting_hash,
                       ss_current_block_num = ucast best_number, ss_current_block_hash = current_hash,
                       ss_highest_block_num = ucast highest_number, ss_highest_block_hash = highest_hash\<rparr>))))
              | (r1, r2, r3) \<Rightarrow> if r1 = Panic \<or> r2 = Panic \<or> r3 = Panic then Panic else Ok NotSyncing)
      | None \<Rightarrow> Ok NotSyncing)"


end
