(* ===== verification/Rpc_Transactions.thy ===== *)
theory Rpc_Transactions
  imports Rpc
begin

text \<open>
  Transactions through the RPC server: what \<open>get_transaction_by_hash\<close> answers on a database the
  indexing worker has built, which puts the digest logs of the pallet's blocks, the index and the server
  together.
\<close>

section \<open>Reading indexed transactions\<close>

text \<open>A block of the chain has a transaction with the hash \<open>t\<close>.\<close>

definition included ::
    "('c, 'r, 'x, 'p) runtime \<Rightarrow> hasher \<Rightarrow> ('h, 'p) chain \<Rightarrow> felt \<Rightarrow> 'h \<Rightarrow> Transaction \<Rightarrow> bool" where
  "included R H U t h tx \<longleftrightarrow>
     (\<exists>header b f ts. U h = Some header \<and> carries R H header f ts \<and> sfelt t \<in> set ts \<and>
        find_starknet_block (rt_dg R) (sh_digest header) = Ok b \<and> tx \<in> set (blk_transactions b) \<and>
        tx_compute_hash (rt_ff R) (rt_cr R) H tx (chain_id R) False = Ok t)"

text \<open>A server on a database and a client that knows every block of the chain and can reach the runtime.\<close>

definition serves :: "('h, 'p) chain \<Rightarrow> ('h, 'c, 'r, 'x, 'p, 'k) Starknet \<Rightarrow> bool" where
  "serves U s \<longleftrightarrow>
     (\<forall>h header. U h = Some header \<longrightarrow> cl_header (s_client s) h = Some (Some header)) \<and>
     cl_state_at (s_client s) (cl_best_hash (s_client s)) \<noteq> None"

text \<open>
  Where the cache is on, the hashes of the transactions of a block are cached under the Starknet hash of the
  block. That hash covers the number of transactions and not the transactions: two blocks of the chain (on
  two forks) can have one hash and different transactions. The cache is unambiguous when the chain has no
  such blocks.
\<close>

definition cache_unambiguous :: "('h, 'p) chain \<Rightarrow> ('h, 'c, 'r, 'x, 'p, 'k) Starknet \<Rightarrow> bool" where
  "cache_unambiguous U s \<longleftrightarrow> (s_cache s \<longrightarrow>
     (\<forall>h header h' header' f ts ts'. U h = Some header \<longrightarrow> U h' = Some header' \<longrightarrow>
        carries (s_runtime s) (s_hasher s) header f ts \<longrightarrow> carries (s_runtime s) (s_hasher s) header' f ts' \<longrightarrow> ts = ts'))"

lemma find_zip:
  assumes "list_all2 P xs ts"
  shows "case List.find (\<lambda>(t', _). t' = t) (zip ts xs) of
      Some (t', x) \<Rightarrow> t' = t \<and> x \<in> set xs \<and> P x t | None \<Rightarrow> t \<notin> set ts"
  using assms by (induction rule: list_all2_induct) (auto split: option.splits)

locale rpc_libs =
  fixes s :: "('h, 'c, 'r, 'x, 'p, 'k) Starknet"
  assumes ff: "ff_laws (rt_ff (s_runtime s))" and hasher: "hasher_t (s_hasher s)"
begin

lemma libs: "field_libs (s_ff s)"
  by (rule field_libs.intro) (rule ff)

lemma tx_hash_total:
  obtains y where "canonical y" "tx_compute_hash (s_ff s) (rt_cr (s_runtime s)) (s_hasher s) tx chain False = Ok y"
    "compute_tx_hash s chain tx = Ok y"
proof -
  let ?y = "compute_hash_on_elements (s_hasher s) (tx_preimage (s_ff s) (rt_cr (s_runtime s)) tx chain False)"
  have "tx_compute_hash (s_ff s) (rt_cr (s_runtime s)) (s_hasher s) tx chain False = Ok ?y"
    using field_libs.tx_compute_hash_preimage [OF libs] by blast
  then show thesis
    using that [of ?y] hasher_t.elements_canonical [OF hasher] by (simp add: compute_tx_hash_def)
qed

lemma felt_into_iff: "canonical y \<Longrightarrow> canonical t \<Longrightarrow> felt_into (s_ff s) y = Ok (sfelt t) \<longleftrightarrow> y = t"
  using sfelt_inj [of y t] by (auto simp: field_libs.felt_into_eq [OF libs])

lemma find_computed_spec:
  "case (find_computed s chain t txs :: (_, 'e) result) of
     Ok (Some tx) \<Rightarrow> tx \<in> set txs \<and> tx_compute_hash (s_ff s) (rt_cr (s_runtime s)) (s_hasher s) tx chain False = Ok t
   | Ok None \<Rightarrow> (\<forall>tx \<in> set txs. tx_compute_hash (s_ff s) (rt_cr (s_runtime s)) (s_hasher s) tx chain False \<noteq> Ok t)
   | _ \<Rightarrow> False"
proof (induction txs)
  case (Cons tx txs)
  obtain y where y: "tx_compute_hash (s_ff s) (rt_cr (s_runtime s)) (s_hasher s) tx chain False = Ok y"
      "compute_tx_hash s chain tx = (Ok y :: (_, 'e) result)"
    by (rule tx_hash_total)
  then show ?case using Cons by (auto split: result.splits option.splits)
qed simp

lemma find_transaction_spec:
  fixes U :: "('h, 'p) chain"
  assumes laws: "codec_laws (s_codecs s)" and v: "represents (s_codecs s) (s_backend s) v"
      "index_sound (s_runtime s) (s_hasher s) U v"
    and cache: "cache_unambiguous U s" and t: "canonical t"
    and h: "U h = Some header" "carries (s_runtime s) (s_hasher s) header f ts" "sfelt t \<in> set ts"
    and b: "find_starknet_block (rt_dg (s_runtime s)) (sh_digest header) = Ok b"
  shows "\<exists>tx. find_transaction s (chain_id (s_runtime s)) b t = (Ok (Some (to_starknet_core_tx (s_ff s) tx t)) :: (_, 'e) result) \<and>
    tx \<in> set (blk_transactions b) \<and>
    tx_compute_hash (s_ff s) (rt_cr (s_runtime s)) (s_hasher s) tx (chain_id (s_runtime s)) False = Ok t"
proof -
  let ?P = "\<lambda>tx t. \<exists>y. tx_compute_hash (s_ff s) (rt_cr (s_runtime s)) (s_hasher s) tx (chain_id (s_runtime s)) False = Ok y \<and>
    felt_into (s_ff s) y = (Ok t :: (_, unit) result)"
  obtain x where x: "header_hash (s_ff s) (s_hasher s) (blk_header b) = (Ok x :: (_, unit) result)"
      "felt_into (s_ff s) x = (Ok f :: (_, unit) result)" and ts: "list_all2 ?P (blk_transactions b) ts"
    using h(2,3) b by (auto simp: carries_def split: if_splits)
  have x': "starknet_hash s b = (Ok x :: (_, 'e) result)" "felt_into (s_ff s) x = (Ok f :: (_, 'e) result)"
    using x header_hash_retype [where 'e = unit and 'f = 'e] felt_into_retype [where 'e = unit and 'f = 'e]
    unfolding starknet_hash_def by blast+
  have P: "tx_compute_hash (s_ff s) (rt_cr (s_runtime s)) (s_hasher s) tx (chain_id (s_runtime s)) False = Ok t" if "?P tx (sfelt t)" for tx
  proof -
    obtain y where "canonical y" "tx_compute_hash (s_ff s) (rt_cr (s_runtime s)) (s_hasher s) tx (chain_id (s_runtime s)) False = Ok y"
      by (rule tx_hash_total)
    with that show ?thesis using felt_into_iff [of y t] t by auto
  qed
  have wanted: "felt_into (s_ff s) t = (Ok (sfelt t) :: (_, 'e) result)"
    using field_libs.felt_into_eq [OF libs t] .
  show ?thesis
  proof (cases "get_cached_transaction_hashes s f")
    case None
    obtain tx where "tx \<in> set (blk_transactions b)" "?P tx (sfelt t)"
      using find_zip [OF ts, of "sfelt t"] h(3) by (auto split: option.splits)
    then have "\<exists>tx \<in> set (blk_transactions b). tx_compute_hash (s_ff s) (rt_cr (s_runtime s)) (s_hasher s) tx (chain_id (s_runtime s)) False = Ok t"
      using P by blast
    then obtain tx where "find_computed s (chain_id (s_runtime s)) t (blk_transactions b) = (Ok (Some tx) :: (_, 'e) result)"
        "tx \<in> set (blk_transactions b)" "tx_compute_hash (s_ff s) (rt_cr (s_runtime s)) (s_hasher s) tx (chain_id (s_runtime s)) False = Ok t"
      using find_computed_spec [where chain = "chain_id (s_runtime s)" and t = t and txs = "blk_transactions b" and 'e = 'e] by (auto split: result.splits option.splits)
    then show ?thesis using None x' wanted by (intro exI [of _ tx]) (simp add: find_transaction_def)
  next
    case (Some ts')
    have l: "codec_libs (s_codecs s)" using laws by unfold_locales
    have "mv_cache v f = Some ts'" "s_cache s"
      using Some codec_libs.represents_queries [OF l v(1)]
      by (auto simp: get_cached_transaction_hashes_def cached_transaction_hashes_from_block_hash_def split: if_splits)
    then obtain h' header' where "U h' = Some header'" "carries (s_runtime s) (s_hasher s) header' f ts'"
      using v(2) unfolding index_sound_def by blast
    then have "ts' = ts" using cache \<open>s_cache s\<close> h(1,2) unfolding cache_unambiguous_def by blast
    moreover obtain tx where "List.find (\<lambda>(t', _). t' = sfelt t) (zip ts (blk_transactions b)) = Some (sfelt t, tx)"
        "tx \<in> set (blk_transactions b)" "?P tx (sfelt t)"
      using find_zip [OF ts, of "sfelt t"] h(3) by (auto split: option.splits)
    ultimately show ?thesis using Some x' wanted P by (auto simp: find_transaction_def)
  qed
qed

text \<open>
  Why the condition is there: when the hashes cached under the hash of a block are those of another block,
  a transaction of the block is not found.
\<close>

lemma ambiguous_cache_hides:
  assumes "starknet_hash s b = (Ok x :: (_, 'e) result)" "felt_into (s_ff s) x = (Ok f :: (_, 'e) result)" "canonical t"
    and "get_cached_transaction_hashes s f = Some ts'" "sfelt t \<notin> set ts'"
  shows "find_transaction s chain b t = (Ok None :: (_, 'e) result)"
proof -
  have "List.find (\<lambda>(t', _). t' = sfelt t) (zip ts' txs) = None" for txs :: "Transaction list"
    using assms(5) by (auto simp: find_None_iff dest: set_zip_leftD)
  then show ?thesis
    using assms field_libs.felt_into_eq [OF libs assms(3), where 'a = 'e] by (simp add: find_transaction_def)
qed

lemma get_transaction_by_hash_Some:
  fixes U :: "('h, 'p) chain"
  assumes laws: "codec_laws (s_codecs s)" and v: "represents (s_codecs s) (s_backend s) v"
      "index_sound (s_runtime s) (s_hasher s) U v"
    and srv: "serves U s" and cache: "cache_unambiguous U s" and t: "canonical t" and h: "mv_txs v (sfelt t) = Some h"
  shows "\<exists>tx. get_transaction_by_hash s t = Ok (to_starknet_core_tx (s_ff s) tx t) \<and>
    included (s_runtime s) (s_hasher s) U t h tx"
proof -
  obtain header f ts where U: "U h = Some header" "carries (s_runtime s) (s_hasher s) header f ts" "sfelt t \<in> set ts"
    using v(2) h unfolding index_sound_def by blast
  then obtain b where b: "find_starknet_block (rt_dg (s_runtime s)) (sh_digest header) = Ok b"
    unfolding carries_def by blast
  obtain tx where tx: "find_transaction s (chain_id (s_runtime s)) b t =
        (Ok (Some (to_starknet_core_tx (s_ff s) tx t)) :: (_, RpcError) result)" "tx \<in> set (blk_transactions b)"
      "tx_compute_hash (s_ff s) (rt_cr (s_runtime s)) (s_hasher s) tx (chain_id (s_runtime s)) False = Ok t"
    using find_transaction_spec [OF laws v cache t U b] by blast
  have l: "codec_libs (s_codecs s)" using laws by unfold_locales
  have key: "stark_from_field (s_ff s) t = (Ok (sfelt t) :: (_, RpcError) result)"
    using t field_libs.stark_felt_new_eq [OF libs, of "sfelt t"] field_libs.to_bytes_be_eq [OF libs t] felt_prime_le
    by (simp add: stark_from_field_def be_val_be_bytes)
  have db: "block_hash_from_transaction_hash (s_codecs s) (sfelt t) (s_backend s) = Ok (Some h)"
    using codec_libs.represents_queries [OF l v(1)] h by simp
  have block: "read_block s h = Ok b"
    using srv U(1) b unfolding serves_def read_block_def get_block_by_block_hash_def by simp
  have chain: "rpc_chain_id s = Ok (chain_id (s_runtime s))"
    using srv unfolding serves_def rpc_chain_id_def api_chain_id_def api_call_def by auto
  have "get_transaction_by_hash s t = Ok (to_starknet_core_tx (s_ff s) tx t)"
    unfolding get_transaction_by_hash_def by (simp add: key db block chain tx(1))
  then show ?thesis using U b tx unfolding included_def by blast
qed

lemma get_transaction_by_hash_None:
  assumes laws: "codec_laws (s_codecs s)" and v: "represents (s_codecs s) (s_backend s) v"
    and t: "canonical t" and h: "mv_txs v (sfelt t) = None"
  shows "get_transaction_by_hash s t = Err (custom TxnHashNotFound)"
proof -
  have l: "codec_libs (s_codecs s)" using laws by unfold_locales
  have key: "stark_from_field (s_ff s) t = (Ok (sfelt t) :: (_, RpcError) result)"
    using t field_libs.stark_felt_new_eq [OF libs, of "sfelt t"] field_libs.to_bytes_be_eq [OF libs t] felt_prime_le
    by (simp add: stark_from_field_def be_val_be_bytes)
  show ?thesis
    using codec_libs.represents_queries [OF l v] h by (simp add: get_transaction_by_hash_def key)
qed

end

text \<open>
  C26. On the database of any run of the indexing worker, \<open>get_transaction_by_hash\<close> answers with a
  transaction of the chain that has the requested hash, or with \<open>TxnHashNotFound\<close>, and never panics.
  It does not miss a transaction of a block that the worker has synced. With the cache of transaction
  hashes on, this is under the condition that no two blocks of the chain have one Starknet hash and
  different transactions; with the cache off there is no such condition.
\<close>

theorem indexed_transactions_served:
  assumes "ff_laws (rt_ff (s_runtime s))" "hasher_t (s_hasher s)" and laws: "codec_laws (s_codecs s)"
    and run: "indexing (s_runtime s) (s_hasher s) (s_codecs s) cache U (w, s_backend s)"
    and srv: "serves U s" and unambiguous: "cache_unambiguous U s" and t: "canonical t"
  shows "case get_transaction_by_hash s t of
      Ok ct \<Rightarrow> \<exists>h tx. included (s_runtime s) (s_hasher s) U t h tx \<and> ct = to_starknet_core_tx (rt_ff (s_runtime s)) tx t
    | Err e \<Rightarrow> e = custom TxnHashNotFound \<and>
        (\<forall>h tx. included (s_runtime s) (s_hasher s) U t h tx \<longrightarrow> is_synced (s_codecs s) h (s_backend s) = Ok False)
    | Panic \<Rightarrow> False"
proof -
  have libs: "rpc_libs s" by (rule rpc_libs.intro) fact+
  have l: "codec_libs (s_codecs s)" using laws by unfold_locales
  obtain v where v: "represents (s_codecs s) (s_backend s) v" "index_sound (s_runtime s) (s_hasher s) U v"
    using indexing_view [OF laws run] by auto
  show ?thesis
  proof (cases "mv_txs v (sfelt t)")
    case (Some h)
    then show ?thesis
      using rpc_libs.get_transaction_by_hash_Some [OF libs laws v srv unambiguous t] by fastforce
  next
    case None
    have "h \<notin> mv_synced v" if "included (s_runtime s) (s_hasher s) U t h tx" for h tx
    proof
      assume "h \<in> mv_synced v"
      then show False
        using v(2) that None unfolding index_sound_def included_def by fastforce
    qed
    then show ?thesis
      using rpc_libs.get_transaction_by_hash_None [OF libs laws v(1) t None] codec_libs.represents_queries [OF l v(1)]
      by auto
  qed
qed

section \<open>A sample server\<close>

interpretation sample_rpc_db: codec_libs diff_codec
  by unfold_locales (rule diff_codec_laws)

context codec_libs
begin

lemma first_poll_indexes_leaf:
  assumes "chain_kept cl" "cl_leaves cl = Some [h]" "cl_header cl h = Some (Some header)" "sh_number header \<noteq> 0"
    and "carries R H header f ts"
  shows "\<exists>w db. poll_next R H c cache cl (\<lambda>_. (True, True)) 0 False False (worker_new 1 0, Map.empty) = (Ok PollReady, w, db) \<and>
    represents c db ((view_register cache h (Some \<lparr>mc_block_hash = h, mc_starknet_block_hash = f,
      mc_starknet_transaction_hashes = ts\<rparr>) view_empty)\<lparr>mv_tips := [sh_parent_hash header]\<rparr>)"
proof -
  let ?m = "\<lparr>mc_block_hash = h, mc_starknet_block_hash = f, mc_starknet_transaction_hashes = ts\<rparr>"
  have h: "sh_hash header = h" using assms(1,3) unfolding chain_kept_def by blast
  have plan: "block_plan R H header = Ok (Some ?m)"
    using assms(5) h by (simp add: block_plan_Some)
  have e: "represents c Map.empty view_empty" by (simp add: represents_def view_empty_def)
  obtain db1 where db1: "sync_block R H c cache cl True header Map.empty = (Ok (), db1)"
      "represents c db1 (view_register cache h (Some ?m) view_empty)"
    using sync_header [OF assms(1,3) plan e, of cache] assms(4) by auto
  obtain db where db: "write_current_syncing_tips c True [sh_parent_hash header] db1 = (Ok (), db)"
      "represents c db ((view_register cache h (Some ?m) view_empty)\<lparr>mv_tips := [sh_parent_hash header]\<rparr>)"
    using write_tips_view [OF db1(2)] by blast
  have "sync_one_block R H c cache cl (True, True) 0 Map.empty = (Ok True, db)"
    using db1(1) db(1) assms(3,4) by (simp add: sync_one_block_tips [OF e assms(2)] sync_from_tips_def bind_st_Ok_iff
        map_err_st_Ok_iff fetch_header_def is_synced_def view_empty_def)
  then show ?thesis
    using db(2) by (simp add: poll_next_def worker_new_def numeral_eq_Suc bind_st_def ret_st_def)
qed

end

text \<open>A block with one transaction on top of the genesis block, and a server that has indexed it.\<close>

definition tx_head :: "byte \<rightharpoonup> (byte, Log) sub_header" where
  "tx_head = sample_head(2 \<mapsto> \<lparr>sh_hash = 2, sh_number = 1, sh_parent_hash = 1,
     sh_digest = [Consensus MADARA_ENGINE_ID (LogBlock (block_new sample_header [TInvoke (InvokeV1 (sample_invoke []))]))]\<rparr>)"

definition tx_client :: "(byte, nat, Log) client" where
  "tx_client = sample_client\<lparr>cl_header := (\<lambda>h. Some (tx_head h))\<rparr>"

definition tx_server :: "store \<Rightarrow> (byte, nat, unit, unit, Log, bytes) Starknet" where
  "tx_server db = \<lparr>s_runtime = runtime_ref, s_hasher = sample_hasher, s_codecs = diff_codec, s_cache = True,
     s_client = tx_client, s_backend = db, s_overrides = overrides_handle raw_ref tx_client,
     s_best_seen_block = Some None, s_starting_block = 0, s_overflow_checks = False\<rparr>"

lemma tx_server_simps [simp]:
  "s_runtime (tx_server db) = runtime_ref" "s_hasher (tx_server db) = sample_hasher" "s_codecs (tx_server db) = diff_codec"
  "s_client (tx_server db) = tx_client" "s_backend (tx_server db) = db"
  by (simp_all add: tx_server_def)

interpretation sample_server: rpc_libs "tx_server db" for db
  by (rule rpc_libs.intro) (simp_all only: tx_server_simps sample_chain.ff sample_chain.hasher)

lemma tx_head_simps [simp]:
  "tx_head 1 = sample_head 1"
  "tx_head 2 = Some \<lparr>sh_hash = 2, sh_number = 1, sh_parent_hash = 1,
     sh_digest = [Consensus MADARA_ENGINE_ID (LogBlock (block_new sample_header [TInvoke (InvokeV1 (sample_invoke []))]))]\<rparr>"
  by (simp_all add: tx_head_def)

lemma tx_head_cases: "tx_head h = Some header \<Longrightarrow> h = 1 \<or> h = 2"
  by (auto simp: tx_head_def sample_head_def split: if_splits)

lemma tx_client_kept: "chain_kept tx_client" "client_of tx_head tx_client"
  by (auto simp: chain_kept_def client_of_def tx_client_def tx_head_def sample_head_def split: if_splits)

lemma tx_carries:
  obtains f t where "carries runtime_ref sample_hasher (the (tx_head 2)) f [sfelt t]" "canonical t"
    "tx_compute_hash (rt_ff runtime_ref) (rt_cr runtime_ref) sample_hasher (TInvoke (InvokeV1 (sample_invoke [])))
      (chain_id runtime_ref) False = Ok t"
proof -
  obtain t where t: "canonical t" "tx_compute_hash (rt_ff runtime_ref) (rt_cr runtime_ref) sample_hasher
      (TInvoke (InvokeV1 (sample_invoke []))) (chain_id runtime_ref) False = Ok t"
    using sample_server.tx_hash_total [of Map.empty] by (metis tx_server_simps(1,2))
  have f0: "find_starknet_block (rt_dg runtime_ref) (sh_digest (the (sample_head 2))) = Ok (block_new sample_header [])"
    "find_starknet_block (rt_dg runtime_ref) (sh_digest (the (tx_head 2))) =
      Ok (block_new sample_header [TInvoke (InvokeV1 (sample_invoke []))])"
    by (simp_all add: find_starknet_block_def find_log_def find_log_in_def runtime_ref_def digest_ref_def)
  obtain f where "carries runtime_ref sample_hasher (the (sample_head 2)) f []" by (rule sample_carries)
  then obtain x where "header_hash (rt_ff runtime_ref) sample_hasher sample_header = (Ok x :: (_, unit) result)"
      "felt_into (rt_ff runtime_ref) x = (Ok f :: (_, unit) result)"
    using f0(1) by (auto simp: carries_def block_new_def)
  then have "carries runtime_ref sample_hasher (the (tx_head 2)) f [sfelt t]"
    using f0(2) t sample_chain.libs.felt_into_eq [OF t(1)] by (simp add: carries_def block_new_def)
  then show thesis using t that by blast
qed

lemma tx_server_serves: "serves tx_head (tx_server db)"
  by (auto simp: serves_def tx_client_def)

lemma tx_server_unambiguous: "cache_unambiguous tx_head (tx_server db)"
proof -
  have none: "\<not> carries runtime_ref sample_hasher (the (sample_head 1)) f ts" for f ts
    by (simp add: carries_def find_starknet_block_def find_log_def find_log_in_def)
  show ?thesis
    unfolding cache_unambiguous_def
  proof (intro allI impI)
    fix h header h' header' f ts ts'
    assume a: "tx_head h = Some header" "tx_head h' = Some header'"
      "carries (s_runtime (tx_server db)) (s_hasher (tx_server db)) header f ts"
      "carries (s_runtime (tx_server db)) (s_hasher (tx_server db)) header' f ts'"
    then have "h = 2" "h' = 2" using tx_head_cases [of h header] tx_head_cases [of h' header'] none by auto
    then have "header = header'" using a by simp
    then show "ts = ts'" using carries_unique a(3,4) by blast
  qed
qed

theorem indexed_transactions_served_witness:
  "\<exists>w db t h tx. indexing runtime_ref sample_hasher diff_codec True tx_head (w, db) \<and>
     get_transaction_by_hash (tx_server db) t = Ok (to_starknet_core_tx ff_ref tx t) \<and>
     included runtime_ref sample_hasher tx_head t h tx"
proof -
  obtain f t where f: "carries runtime_ref sample_hasher (the (tx_head 2)) f [sfelt t]" "canonical t"
    and tx: "tx_compute_hash (rt_ff runtime_ref) (rt_cr runtime_ref) sample_hasher (TInvoke (InvokeV1 (sample_invoke [])))
      (chain_id runtime_ref) False = Ok t"
    by (rule tx_carries)
  have leaf: "cl_leaves tx_client = Some [2]" "cl_header tx_client 2 = Some (Some (the (tx_head 2)))" "sh_number (the (tx_head 2)) \<noteq> 0"
    by (simp_all add: tx_client_def)
  obtain w db where p: "poll_next runtime_ref sample_hasher diff_codec True tx_client (\<lambda>_. (True, True)) 0 False False
        (worker_new 1 0, Map.empty) = (Ok PollReady, w, db)"
      and v: "represents diff_codec db ((view_register True 2 (Some \<lparr>mc_block_hash = 2, mc_starknet_block_hash = f,
        mc_starknet_transaction_hashes = [sfelt t]\<rparr>) view_empty)\<lparr>mv_tips := [sh_parent_hash (the (tx_head 2))]\<rparr>)"
    using sample_rpc_db.first_poll_indexes_leaf [OF tx_client_kept(1) leaf f(1), of True] by blast
  have i: "indexing runtime_ref sample_hasher diff_codec True tx_head (w, db)"
    by (rule indexing.polled [OF indexing.fresh tx_client_kept(2) p])
  have synced: "is_synced diff_codec 2 db = Ok True"
    using sample_rpc_db.represents_queries(1) [OF v, of 2] by (simp add: view_register_def view_commit_def Let_def)
  have inc: "included runtime_ref sample_hasher tx_head t 2 (TInvoke (InvokeV1 (sample_invoke [])))"
    using f(1) tx unfolding included_def
    by (intro exI [of _ "the (tx_head 2)"] exI [of _ "block_new sample_header [TInvoke (InvokeV1 (sample_invoke []))]"]
        exI [of _ f] exI [of _ "[sfelt t]"])
      (simp add: find_starknet_block_def find_log_def find_log_in_def runtime_ref_def digest_ref_def block_new_def)
  have "case get_transaction_by_hash (tx_server db) t of
      Ok ct \<Rightarrow> \<exists>h tx. included runtime_ref sample_hasher tx_head t h tx \<and> ct = to_starknet_core_tx (rt_ff runtime_ref) tx t
    | Err e \<Rightarrow> e = custom TxnHashNotFound \<and>
        (\<forall>h tx. included runtime_ref sample_hasher tx_head t h tx \<longrightarrow> is_synced diff_codec h db = Ok False)
    | Panic \<Rightarrow> False"
    using indexed_transactions_served [where s = "tx_server db" and cache = True and U = tx_head and w = w and t = t,
        unfolded tx_server_simps, OF sample_chain.ff sample_chain.hasher diff_codec_laws i tx_server_serves
          tx_server_unambiguous f(2)] .
  then obtain h tx where "get_transaction_by_hash (tx_server db) t = Ok (to_starknet_core_tx (rt_ff runtime_ref) tx t)"
      "included runtime_ref sample_hasher tx_head t h tx"
    using inc synced by (auto split: result.splits)
  moreover have "rt_ff runtime_ref = ff_ref" by (simp add: runtime_ref_def)
  ultimately show ?thesis using i by (metis (no_types))
qed

end
