(* ===== verification/Rpc_Events.thy ===== *)
theory Rpc_Events
  imports Rpc_Transactions
begin

text \<open>
  Events through the RPC server (\<^verbatim>\<open>crates/client/rpc/src/events/mod.rs\<close>,
  \<^verbatim>\<open>types.rs\<close> and \<open>get_events\<close> of \<^verbatim>\<open>lib.rs\<close>): the continuation tokens with
  their text form, the events of a block, the filter and the pages.
\<close>

section \<open>Continuation tokens\<close>

definition MAX_EVENTS_KEYS :: nat where "MAX_EVENTS_KEYS = 100"

definition MAX_EVENTS_CHUNK_SIZE :: nat where "MAX_EVENTS_CHUNK_SIZE = 1000"

record ContinuationToken =
  block_n :: u64
  event_n :: u64

datatype ParseIntError = EmptyInt | InvalidDigit | PosOverflow

datatype ParseTokenError = WrongToken | ParseFailed ParseIntError

text \<open>The format \<open>{:x}\<close> and its reading by \<open>u64::from_str_radix\<close>, which takes digits of either case and a leading plus.\<close>

definition hex_digit :: "nat \<Rightarrow> char" where
  "hex_digit d = char_of (if d < 10 then 48 + d else 87 + d)"

fun lower_hex :: "nat \<Rightarrow> string" where
  "lower_hex n = (if n < 16 then [hex_digit n] else lower_hex (n div 16) @ [hex_digit (n mod 16)])"

declare lower_hex.simps [simp del]

definition to_digit :: "char \<Rightarrow> nat option" where
  "to_digit c =
     (let n = of_char c :: nat
      in if 48 \<le> n \<and> n \<le> 57 then Some (n - 48)
         else if 97 \<le> n \<and> n \<le> 102 then Some (n - 87)
         else if 65 \<le> n \<and> n \<le> 70 then Some (n - 55) else None)"

fun parse_digits :: "nat \<Rightarrow> string \<Rightarrow> (nat, ParseIntError) result" where
  "parse_digits acc [] = Ok acc"
| "parse_digits acc (c # cs) =
     (case to_digit c of
        None \<Rightarrow> Err InvalidDigit
      | Some d \<Rightarrow> if 2 ^ 64 \<le> acc * 16 + d then Err PosOverflow else parse_digits (acc * 16 + d) cs)"

definition from_str_radix_16 :: "string \<Rightarrow> (u64, ParseIntError) result" where
  "from_str_radix_16 src =
     (if src = [] then Err EmptyInt
      else if src = ''+'' \<or> src = ''-'' then Err InvalidDigit
      else map_ok word_of_nat (parse_digits 0 (if hd src = CHR ''+'' then tl src else src)))"

fun split_commas :: "string \<Rightarrow> string list" where
  "split_commas [] = [[]]"
| "split_commas (c # cs) =
     (if c = CHR '','' then [] # split_commas cs
      else case split_commas cs of part # parts \<Rightarrow> (c # part) # parts | [] \<Rightarrow> [[c]])"

definition token_to_string :: "ContinuationToken \<Rightarrow> string" where
  "token_to_string t = lower_hex (unat (block_n t)) @ '','' @ lower_hex (unat (event_n t))"

definition token_parse :: "string \<Rightarrow> (ContinuationToken, ParseTokenError) result" where
  "token_parse token =
     (case split_commas token of
        [a, b] \<Rightarrow>
          and_then (map_err ParseFailed (from_str_radix_16 a)) (\<lambda>block_n.
          and_then (map_err ParseFailed (from_str_radix_16 b)) (\<lambda>event_n.
            Ok \<lparr>block_n = block_n, event_n = event_n\<rparr>))
      | _ \<Rightarrow> Err WrongToken)"

definition token_default :: ContinuationToken where
  "token_default = \<lparr>block_n = 0, event_n = 0\<rparr>"

section \<open>The events of a block\<close>

record EmittedEvent =
  ee_from_address :: felt
  ee_keys :: "felt list"
  ee_data :: "felt list"
  ee_block_hash :: felt
  ee_block_number :: u64
  ee_transaction_hash :: felt

fun attach_tx_hashes ::
    "('h, 'c, 'r, 'x, 'p, 'k) Starknet \<Rightarrow> stark_felt list option \<Rightarrow> Transaction list \<Rightarrow> felt252_wrapper \<Rightarrow> nat
      \<Rightarrow> (u32 \<times> StarknetEvent) list \<Rightarrow> ((felt252_wrapper \<times> StarknetEvent) list, StarknetRpcApiError) result" where
  "attach_tx_hashes s txn_hashes starknet_txs chain inherent_count [] = Ok []"
| "attach_tx_hashes s txn_hashes starknet_txs chain inherent_count ((index, event) # rest) =
     and_then (machine_int (s_overflow_checks s) 64 (int (unat index) - int inherent_count)) (\<lambda>tx_index.
     and_then (try_txn_hash_from_cache s tx_index txn_hashes starknet_txs chain) (\<lambda>tx_hash.
       map_ok (\<lambda>hashed. (tx_hash, event) # hashed)
         (attach_tx_hashes s txn_hashes starknet_txs chain inherent_count rest)))"

definition emitted_event ::
    "ff_api \<Rightarrow> felt \<Rightarrow> u64 \<Rightarrow> felt252_wrapper \<times> StarknetEvent \<Rightarrow> (EmittedEvent, 'e) result" where
  "emitted_event ff hash n = (\<lambda>(tx_hash, event).
     map_ok (\<lambda>e. \<lparr>ee_from_address = ce_from_address e, ee_keys = ce_keys e, ee_data = ce_data e,
         ee_block_hash = hash, ee_block_number = n, ee_transaction_hash = tx_hash\<rparr>)
       (event_conversion ff event))"

definition get_block_events ::
    "('h, 'c, 'r, 'x, 'p, 'k) Starknet \<Rightarrow> u64 \<Rightarrow> (EmittedEvent list, StarknetRpcApiError) result" where
  "get_block_events s n =
     (let cl = s_client s; ff = s_ff s; read = get_block_by_block_hash (rt_dg (s_runtime s)) cl in
     and_then (map_err (\<lambda>_. BlockNotFound) (substrate_block_hash_from_starknet_block s (BlockNumberId n))) (\<lambda>h.
     and_then (ok_or InternalServerError (cl_block_body cl h)) (\<lambda>body.
     and_then (ok_or BlockNotFound body) (\<lambda>block_extrinsics.
     and_then (ok_or InternalServerError (api_chain_id (s_runtime s) cl h)) (\<lambda>chain.
     and_then (ok_or InternalServerError (api_call cl h (\<lambda>_.
         Ok (get_starknet_events_and_their_associated_tx_index (cl_events_at cl h))))) (\<lambda>index_and_events.
     and_then (map_err (\<lambda>_. InternalServerError) (read h)) (\<lambda>starknet_block.
     and_then (starknet_hash s starknet_block) (\<lambda>hash.
     and_then (felt_into ff hash) (\<lambda>key.
     and_then (ok_or InternalServerError (api_call cl h (\<lambda>_. Ok (extrinsic_filter block_extrinsics)))) (\<lambda>starknet_txs.
     and_then (attach_tx_hashes s (get_cached_transaction_hashes s key) starknet_txs chain
         (length block_extrinsics - length starknet_txs) index_and_events) (\<lambda>tx_hash_and_events.
     and_then (map_err (\<lambda>_. BlockNotFound) (read h)) (\<lambda>starknet_block.
     and_then (starknet_hash s starknet_block) (\<lambda>hash.
       collect_results (emitted_event ff hash n) tx_hash_and_events)))))))))))))"

section \<open>Filter and pages\<close>

definition event_matches :: "felt option \<Rightarrow> felt list list \<Rightarrow> EmittedEvent \<Rightarrow> bool" where
  "event_matches address filter_keys event \<longleftrightarrow>
     (case address of Some addr \<Rightarrow> addr = ee_from_address event | None \<Rightarrow> True) \<and>
     list_all (\<lambda>(i, ks). i < length (ee_keys event) \<and> (ks = [] \<or> ee_keys event ! i \<in> set ks))
       (enumerate 0 filter_keys)"

text \<open>The events found, at most \<open>max_results\<close> and at least one if one matches, and the number of events visited.\<close>

fun filter_loop :: "(EmittedEvent \<Rightarrow> bool) \<Rightarrow> nat \<Rightarrow> EmittedEvent list \<Rightarrow> EmittedEvent list \<Rightarrow> nat \<Rightarrow> EmittedEvent list \<times> nat" where
  "filter_loop m max_results [] found n_visited = (found, n_visited)"
| "filter_loop m max_results (event # events) found n_visited =
     (if m event
      then if max_results \<le> length (found @ [event]) then (found @ [event], Suc n_visited)
           else filter_loop m max_results events (found @ [event]) (Suc n_visited)
      else filter_loop m max_results events found (Suc n_visited))"

definition filter_events_by_params ::
    "EmittedEvent list \<Rightarrow> felt option \<Rightarrow> felt list list \<Rightarrow> nat \<Rightarrow> EmittedEvent list \<times> nat" where
  "filter_events_by_params events address filter_keys max_results =
     filter_loop (event_matches address filter_keys) max_results events [] 0"

record RpcEventFilter =
  ef_from_block :: u64
  ef_to_block :: u64
  ef_from_address :: "felt option"
  ef_keys :: "felt list list"
  ef_chunk_size :: u64
  ef_continuation_token :: ContinuationToken

record EventsPage =
  ep_events :: "EmittedEvent list"
  ep_continuation_token :: "string option"

lemma unat_next: "(c :: u64) \<noteq> - 1 \<Longrightarrow> unat (c + 1) = Suc (unat c)"
  using unatSuc [of c] by (metis add.commute add_eq_0_iff)

text \<open>
  One round of the loop over the blocks: the page, or the next block and the events found so far. A build with
  overflow checks panics where an operation leaves its type, another one wraps around: the words do so by
  themselves, and \<open>machine_int\<close> is the difference on \<open>usize\<close>.
\<close>

definition filter_block ::
    "('h, 'c, 'r, 'x, 'p, 'k) Starknet \<Rightarrow> RpcEventFilter \<Rightarrow> u64 \<Rightarrow> u64 \<Rightarrow> EmittedEvent list
      \<Rightarrow> (EventsPage + u64 \<times> EmittedEvent list, RpcError) result" where
  "filter_block s f from_block current_block filtered_events =
     and_then (map_err custom (get_block_events s current_block)) (\<lambda>emitted_events.
       let token = ef_continuation_token f; chunk_size = unat (ef_chunk_size f);
           skipped = (if current_block = from_block then unat (event_n token) else 0)
       in if length emitted_events < skipped then Err (custom InvalidContinuationToken)
          else
            and_then (machine_int (s_overflow_checks s) 64 (int chunk_size - int (length filtered_events))) (\<lambda>max_results.
              let unchecked_events = length emitted_events - skipped;
                  (found, n_visited) = filter_events_by_params (drop skipped emitted_events) (ef_from_address f)
                    (ef_keys f) max_results;
                  filtered_events = filtered_events @ found
              in if length filtered_events = chunk_size
                 then if current_block < ef_to_block f \<or> n_visited < unchecked_events
                      then
                        (let event_n' = n_visited + (if block_n token = current_block then unat (event_n token) else 0)
                         in if s_overflow_checks s \<and> 2 ^ 64 \<le> event_n' then Panic
                            else Ok (Inl \<lparr>ep_events = filtered_events, ep_continuation_token = Some (token_to_string
                              \<lparr>block_n = current_block - from_block, event_n = word_of_nat event_n'\<rparr>)\<rparr>))
                      else Ok (Inl \<lparr>ep_events = filtered_events, ep_continuation_token = None\<rparr>)
                 else if s_overflow_checks s \<and> current_block = - 1 then Panic
                 else Ok (Inr (current_block + 1, filtered_events))))"

text \<open>
  The loop. Without overflow checks the number of the last possible block is followed by zero, so a search up to
  that block need not end: \<open>None\<close> is a search that does not return.
\<close>

partial_function (option) filter_blocks ::
    "('h, 'c, 'r, 'x, 'p, 'k) Starknet \<Rightarrow> RpcEventFilter \<Rightarrow> u64 \<Rightarrow> u64 \<Rightarrow> EmittedEvent list
      \<Rightarrow> (EventsPage, RpcError) result option" where
  "filter_blocks s f from_block current_block filtered_events =
     (if current_block \<le> ef_to_block f
      then
        (case filter_block s f from_block current_block filtered_events of
           Ok (Inl page) \<Rightarrow> Some (Ok page)
         | Ok (Inr (next_block, found)) \<Rightarrow> filter_blocks s f from_block next_block found
         | Err e \<Rightarrow> Some (Err e)
         | Panic \<Rightarrow> Some Panic)
      else Some (Ok \<lparr>ep_events = filtered_events, ep_continuation_token = None\<rparr>))"

definition filter_events ::
    "('h, 'c, 'r, 'x, 'p, 'k) Starknet \<Rightarrow> RpcEventFilter \<Rightarrow> (EventsPage, RpcError) result option" where
  "filter_events s f =
     (if s_overflow_checks s \<and> 2 ^ 64 \<le> unat (ef_from_block f) + unat (block_n (ef_continuation_token f)) then Some Panic
      else let from_block = ef_from_block f + block_n (ef_continuation_token f)
           in filter_blocks s f from_block from_block [])"

record EventFilterWithPage =
  efp_from_block :: "BlockId option"
  efp_to_block :: "BlockId option"
  efp_address :: "felt option"
  efp_keys :: "felt list list option"
  efp_continuation_token :: "string option"
  efp_chunk_size :: u64

text \<open>\<open>?\<close> before a call that may not return.\<close>

fun and_then_search :: "('a, 'e) result \<Rightarrow> ('a \<Rightarrow> ('b, 'e) result option) \<Rightarrow> ('b, 'e) result option" where
  "and_then_search (Ok x) k = k x"
| "and_then_search (Err e) k = Some (Err e)"
| "and_then_search Panic k = Some Panic"

definition get_events ::
    "('h, 'c, 'r, 'x, 'p, 'k) Starknet \<Rightarrow> EventFilterWithPage \<Rightarrow> (EventsPage, RpcError) result option" where
  "get_events s f =
     (let filter_keys = (case efp_keys f of Some ks \<Rightarrow> ks | None \<Rightarrow> []);
          number = (\<lambda>block_id. map_err (\<lambda>_. custom BlockNotFound) (substrate_block_number_from_starknet_block s block_id)) in
     and_then_search (case efp_continuation_token f of
         Some token \<Rightarrow> map_err (\<lambda>_. custom InvalidContinuationToken) (token_parse token)
       | None \<Rightarrow> Ok token_default) (\<lambda>continuation_token.
     if MAX_EVENTS_KEYS < length filter_keys then Some (Err (custom TooManyKeysInFilter))
     else if MAX_EVENTS_CHUNK_SIZE < unat (efp_chunk_size f) then Some (Err (custom PageSizeTooBig))
     else
       and_then_search (number (BlockTagId Latest)) (\<lambda>latest_block.
       and_then_search (number (case efp_from_block f of Some b \<Rightarrow> b | None \<Rightarrow> BlockNumberId 0)) (\<lambda>from_block.
       and_then_search (number (case efp_to_block f of Some b \<Rightarrow> b | None \<Rightarrow> BlockTagId Latest)) (\<lambda>to_block.
         if to_block < from_block then Some (Ok \<lparr>ep_events = [], ep_continuation_token = None\<rparr>)
         else
           filter_events s \<lparr>ef_from_block = from_block,
             ef_to_block = (if to_block < latest_block then to_block else latest_block),
             ef_from_address = efp_address f, ef_keys = filter_keys, ef_chunk_size = efp_chunk_size f,
             ef_continuation_token = continuation_token\<rparr>)))))"

section \<open>The text form of tokens\<close>

lemma to_digit_hex_digit: "d < 16 \<Longrightarrow> to_digit (hex_digit d) = Some d"
  by (simp add: to_digit_def hex_digit_def Let_def)

lemma hex_digit_neq: "d < 16 \<Longrightarrow> hex_digit d \<noteq> CHR '','' \<and> hex_digit d \<noteq> CHR ''+'' \<and> hex_digit d \<noteq> CHR ''-''"
  using to_digit_hex_digit [of d] by (auto simp: to_digit_def)

lemma parse_digits_snoc:
  "parse_digits acc (cs @ [c]) = and_then (parse_digits acc cs) (\<lambda>n. parse_digits n [c])"
  by (induction cs arbitrary: acc) (auto split: option.split)

lemma parse_lower_hex: "n < 2 ^ 64 \<Longrightarrow> parse_digits 0 (lower_hex n) = Ok n"
proof (induction n rule: lower_hex.induct)
  case (1 n)
  then show ?case
    by (cases "n < 16") (simp_all add: lower_hex.simps [of n] parse_digits_snoc to_digit_hex_digit)
qed

lemma lower_hex_chars: "c \<in> set (lower_hex n) \<Longrightarrow> c \<noteq> CHR '','' \<and> c \<noteq> CHR ''+'' \<and> c \<noteq> CHR ''-''"
proof (induction n rule: lower_hex.induct)
  case (1 n)
  then show ?case
    using hex_digit_neq [of n] hex_digit_neq [of "n mod 16"] by (auto simp: lower_hex.simps [of n] split: if_splits)
qed

lemma lower_hex_nonempty: "lower_hex n \<noteq> []"
  by (simp add: lower_hex.simps [of n])

lemma from_str_radix_lower_hex: "from_str_radix_16 (lower_hex (unat w)) = Ok w"
proof -
  have "hd (lower_hex (unat w)) \<noteq> CHR ''+''" "lower_hex (unat w) \<noteq> ''+''" "lower_hex (unat w) \<noteq> ''-''"
    using lower_hex_chars [of _ "unat w"] hd_in_set [OF lower_hex_nonempty [of "unat w"]] by force+
  then show ?thesis
    using unat_lt [of w] by (simp add: from_str_radix_16_def lower_hex_nonempty parse_lower_hex)
qed

lemma split_commas_no_comma: "CHR '','' \<notin> set cs \<Longrightarrow> split_commas cs = [cs]"
  by (induction cs) auto

lemma split_commas_append: "CHR '','' \<notin> set cs \<Longrightarrow> split_commas (cs @ CHR '','' # ds) = cs # split_commas ds"
  by (induction cs) auto

lemma token_roundtrip: "token_parse (token_to_string t) = Ok t"
proof -
  have "CHR '','' \<notin> set (lower_hex n)" for n using lower_hex_chars by blast
  then show ?thesis
    by (simp add: token_parse_def token_to_string_def split_commas_append split_commas_no_comma from_str_radix_lower_hex)
qed

section \<open>What a page holds\<close>

text \<open>The search stops after the event that completes the page, or has visited everything.\<close>

lemma filter_loop_visits:
  assumes "length found < k"
  shows "\<exists>n \<le> length evs. filter_loop m k evs found v = (found @ filter m (take n evs), v + n) \<and>
    (length (found @ filter m (take n evs)) = k \<or> n = length evs \<and> length (found @ filter m evs) < k)"
  using assms
proof (induction evs arbitrary: found v)
  case (Cons e evs)
  show ?case
  proof (cases "m e \<and> k \<le> Suc (length found)")
    case True
    then show ?thesis using Cons.prems by (intro exI [of _ 1]) auto
  next
    case False
    let ?found = "if m e then found @ [e] else found"
    have "length ?found < k" using False Cons.prems by auto
    from Cons.IH [OF this, of "Suc v"] obtain n where n: "n \<le> length evs"
        "filter_loop m k evs ?found (Suc v) = (?found @ filter m (take n evs), Suc v + n)"
        "length (?found @ filter m (take n evs)) = k \<or> n = length evs \<and> length (?found @ filter m evs) < k"
      by blast
    then show ?thesis using False by (intro exI [of _ "Suc n"]) (auto split: if_splits)
  qed
qed simp

text \<open>The events of the blocks of a range, in their order.\<close>

definition blocks_between :: "u64 \<Rightarrow> u64 \<Rightarrow> u64 list" where
  "blocks_between c t = map word_of_nat [unat c..<Suc (unat t)]"

definition events_between :: "(u64 \<Rightarrow> EmittedEvent list) \<Rightarrow> u64 \<Rightarrow> u64 \<Rightarrow> EmittedEvent list" where
  "events_between E c t = concat (map E (blocks_between c t))"

lemma blocks_between_step: "c \<le> t \<Longrightarrow> c \<noteq> - 1 \<Longrightarrow> blocks_between c t = c # blocks_between (c + 1) t"
  by (simp add: blocks_between_def unat_next word_le_nat_alt upt_conv_Cons del: upt_Suc)

lemma events_between_step: "c \<le> t \<Longrightarrow> c \<noteq> - 1 \<Longrightarrow> events_between E c t = E c @ events_between E (c + 1) t"
  by (simp add: events_between_def blocks_between_step)

lemma events_between_empty: "t < c \<Longrightarrow> events_between E c t = []"
  by (simp add: events_between_def blocks_between_def word_less_nat_alt)

text \<open>
  A page of the events \<open>evs\<close>: it holds the first of them, it has no token only if it holds all, and
  a token of a page that was not itself resumed leads to the rest.
\<close>

definition page_of ::
    "(u64 \<Rightarrow> EmittedEvent list) \<Rightarrow> RpcEventFilter \<Rightarrow> u64 \<Rightarrow> EmittedEvent list \<Rightarrow> EventsPage \<Rightarrow> bool" where
  "page_of E f from_block evs p \<longleftrightarrow>
     ep_events p = take (unat (ef_chunk_size f)) evs \<and>
     (case ep_continuation_token p of
        None \<Rightarrow> length evs \<le> unat (ef_chunk_size f)
      | Some tk \<Rightarrow> event_n (ef_continuation_token f) = 0 \<longrightarrow>
          (\<exists>c n. tk = token_to_string \<lparr>block_n = c - from_block, event_n = word_of_nat n\<rparr> \<and>
             from_block \<le> c \<and> c \<le> ef_to_block f \<and> n \<le> length (E c) \<and> n < 2 ^ 64 \<and>
             filter (event_matches (ef_from_address f) (ef_keys f)) (drop n (events_between E c (ef_to_block f))) =
               drop (unat (ef_chunk_size f)) evs))"

text \<open>What is left of the range when the loop is at a block.\<close>

definition pending_events :: "(u64 \<Rightarrow> EmittedEvent list) \<Rightarrow> RpcEventFilter \<Rightarrow> u64 \<Rightarrow> u64 \<Rightarrow> EmittedEvent list" where
  "pending_events E f from_block c =
     filter (event_matches (ef_from_address f) (ef_keys f))
       (drop (if c = from_block then unat (event_n (ef_continuation_token f)) else 0) (events_between E c (ef_to_block f)))"

definition readable :: "('h, 'c, 'r, 'x, 'p, 'k) Starknet \<Rightarrow> (u64 \<Rightarrow> EmittedEvent list) \<Rightarrow> u64 \<Rightarrow> u64 \<Rightarrow> bool" where
  "readable s E c t \<longleftrightarrow> (\<forall>b. c \<le> b \<longrightarrow> b \<le> t \<longrightarrow> get_block_events s b = Ok (E b) \<and> length (E b) < 2 ^ 64)"

lemma filter_blocks_end:
  "ef_to_block f < cur \<Longrightarrow> filter_blocks s f from_block cur found = Some (Ok \<lparr>ep_events = found, ep_continuation_token = None\<rparr>)"
  by (simp add: filter_blocks.simps [of s f from_block cur found] flip: not_le)

lemma filter_blocks_step:
  assumes "cur \<le> ef_to_block f" "get_block_events s cur = Ok es" "length found < unat (ef_chunk_size f)" "skip \<le> length es"
    and "skip = (if cur = from_block then unat (event_n (ef_continuation_token f)) else 0)"
    and "filter_events_by_params (drop skip es) (ef_from_address f) (ef_keys f) (unat (ef_chunk_size f) - length found) = (fnd, n)"
    and "extra = (if block_n (ef_continuation_token f) = cur then unat (event_n (ef_continuation_token f)) else 0)"
    and "n + extra < 2 ^ 64" "cur \<noteq> - 1"
  shows "filter_blocks s f from_block cur found =
    (if length (found @ fnd) = unat (ef_chunk_size f)
     then Some (Ok \<lparr>ep_events = found @ fnd, ep_continuation_token =
       (if cur < ef_to_block f \<or> n < length es - skip
        then Some (token_to_string \<lparr>block_n = cur - from_block, event_n = word_of_nat (n + extra)\<rparr>) else None)\<rparr>)
     else filter_blocks s f from_block (cur + 1) (found @ fnd))"
proof -
  have "machine_int (s_overflow_checks s) 64 (int (unat (ef_chunk_size f)) - int (length found)) =
      (Ok (unat (ef_chunk_size f) - length found) :: (nat, RpcError) result)"
    by (rule machine_int_diff) (use assms(3) unat_lt [of "ef_chunk_size f"] in simp_all)
  then show ?thesis
    using assms(1,2,4,6,8,9)
    by (simp add: filter_blocks.simps [of s f from_block cur found] filter_block_def Let_def flip: assms(5,7))
qed



lemma filter_blocks_page:
  assumes E: "readable s E from_block (ef_to_block f)" and t: "ef_to_block f \<noteq> - 1"
    and tok: "block_n (ef_continuation_token f) \<le> from_block"
    and skip: "from_block \<le> ef_to_block f \<Longrightarrow> unat (event_n (ef_continuation_token f)) \<le> length (E from_block)"
    and "from_block \<le> cur" "length found < unat (ef_chunk_size f)"
  shows "\<exists>p. filter_blocks s f from_block cur found = Some (Ok p) \<and> page_of E f from_block (found @ pending_events E f from_block cur) p"
  using assms(5,6)
proof (induction "Suc (unat (ef_to_block f)) - unat cur" arbitrary: cur found rule: less_induct)
  case less
  let ?k = "unat (ef_chunk_size f)" and ?tok = "ef_continuation_token f" and ?t = "ef_to_block f"
  let ?m = "event_matches (ef_from_address f) (ef_keys f)"
  let ?extra = "if block_n ?tok = cur then unat (event_n ?tok) else 0"
  define skip where "skip = (if cur = from_block then unat (event_n ?tok) else 0)"
  show ?case
  proof (cases "cur \<le> ?t")
    case False
    then show ?thesis
      using less.prems by (simp add: filter_blocks_end page_of_def pending_events_def events_between_empty)
  next
    case True
    have e: "get_block_events s cur = Ok (E cur)" "length (E cur) < 2 ^ 64" and sk: "skip \<le> length (E cur)"
      using E less.prems True assms(4) by (auto simp: readable_def skip_def)
    have cur: "cur \<noteq> - 1" using True t word_order.extremum_uniqueI [of ?t] by auto
    let ?rem = "drop skip (E cur)" and ?rest = "events_between E (cur + 1) ?t"
    have pend: "pending_events E f from_block cur = filter ?m (?rem @ ?rest)"
      using sk by (simp add: pending_events_def events_between_step [OF True cur] flip: skip_def)
    obtain n where n: "n \<le> length ?rem"
        "filter_events_by_params ?rem (ef_from_address f) (ef_keys f) (?k - length found) = (filter ?m (take n ?rem), n)"
        "length (filter ?m (take n ?rem)) = ?k - length found \<or> n = length ?rem \<and> length (filter ?m ?rem) < ?k - length found"
      using filter_loop_visits [of "[]" "?k - length found" ?rem ?m 0] less.prems by (auto simp: filter_events_by_params_def)
    have "?extra \<le> skip" using tok less.prems(1) by (auto simp: skip_def)
    then have "n + ?extra < 2 ^ 64" using n(1) sk e(2) by simp
    note step = filter_blocks_step [OF True e(1) less.prems(2) sk skip_def n(2) refl this cur]
    have split: "filter ?m (?rem @ ?rest) = filter ?m (take n ?rem) @ filter ?m (drop n ?rem @ ?rest)"
      by (metis append_assoc append_take_drop_id filter_append)
    show ?thesis
    proof (cases "length (filter ?m (take n ?rem)) = ?k - length found")
      case full: True
      let ?A = "found @ filter ?m (take n ?rem)" and ?B = "filter ?m (drop n ?rem @ ?rest)"
      let ?c = "cur < ?t \<or> n < length (E cur) - skip"
      have A: "length ?A = ?k" using full less.prems(2) by simp
      have evs: "found @ pending_events E f from_block cur = ?A @ ?B" using pend split by simp
      have "?B = []" if "\<not> ?c"
        using that True n(1) events_between_empty [of ?t "cur + 1" E] by (auto simp: not_less word_less_nat_alt unat_next [OF cur])
      moreover have "skip = 0" "?extra = 0" "drop n (events_between E cur ?t) = drop n ?rem @ ?rest" if "event_n ?tok = 0"
        using that n(1) by (simp_all add: events_between_step [OF True cur] skip_def)
      ultimately show ?thesis
        unfolding step evs if_P [OF A] page_of_def using A less.prems(1) True n(1) e(2)
        by (auto intro!: exI [of _ cur] exI [of _ n])
    next
      case False
      then have small: "n = length ?rem" "length (found @ filter ?m ?rem) < ?k" using n(3) less.prems(2) by auto
      have succ: "unat (cur + 1) = Suc (unat cur)" by (rule unat_next [OF cur])
      then have le: "from_block \<le> cur + 1" "cur + 1 \<noteq> from_block"
        using less.prems(1) by (auto simp: word_le_nat_alt)
      have "\<exists>p. filter_blocks s f from_block (cur + 1) (found @ filter ?m ?rem) = Some (Ok p) \<and>
          page_of E f from_block ((found @ filter ?m ?rem) @ pending_events E f from_block (cur + 1)) p"
        by (rule less.hyps) (use le small(2) succ True in \<open>auto simp: word_le_nat_alt\<close>)
      moreover have "pending_events E f from_block (cur + 1) = filter ?m ?rest"
        using le(2) by (simp add: pending_events_def)
      ultimately show ?thesis
        using small by (simp add: step pend)
    qed
  qed
qed

lemma filter_events_page:
  assumes "readable s E from_block (ef_to_block f)" "ef_to_block f \<noteq> - 1" "ef_chunk_size f \<noteq> 0"
    and sum: "unat (ef_from_block f) + unat (block_n (ef_continuation_token f)) < 2 ^ 64"
      "from_block = ef_from_block f + block_n (ef_continuation_token f)"
    and "from_block \<le> ef_to_block f \<Longrightarrow> unat (event_n (ef_continuation_token f)) \<le> length (E from_block)"
  shows "\<exists>p. filter_events s f = Some (Ok p) \<and> page_of E f from_block (pending_events E f from_block from_block) p"
proof -
  have "block_n (ef_continuation_token f) \<le> from_block"
    using sum unat_add_lem [of "ef_from_block f" "block_n (ef_continuation_token f)"] by (simp add: word_le_nat_alt)
  then show ?thesis
    using filter_blocks_page [OF assms(1,2) _ assms(6) order_refl, of "[]"] assms(3) sum
    by (simp add: filter_events_def unat_gt_0 Let_def)
qed

text \<open>The token of a fresh page, read back from its text, starts the page of what is left.\<close>

lemma filter_events_resume:
  assumes E: "readable s E (ef_from_block f) (ef_to_block f)" and t: "ef_to_block f \<noteq> - 1" "ef_chunk_size f \<noteq> 0"
    and tok: "ef_continuation_token f = token_default"
    and p: "page_of E f (ef_from_block f) evs p" "ep_continuation_token p = Some tk"
  shows "\<exists>tok c p'. token_parse tk = Ok tok \<and> filter_events s (f\<lparr>ef_continuation_token := tok\<rparr>) = Some (Ok p') \<and>
    page_of E (f\<lparr>ef_continuation_token := tok\<rparr>) c (drop (unat (ef_chunk_size f)) evs) p'"
proof -
  let ?a = "ef_from_block f"
  obtain c n where c: "tk = token_to_string \<lparr>block_n = c - ?a, event_n = word_of_nat n\<rparr>" "?a \<le> c"
      "c \<le> ef_to_block f" "n \<le> length (E c)" "n < 2 ^ 64"
      "filter (event_matches (ef_from_address f) (ef_keys f)) (drop n (events_between E c (ef_to_block f))) =
        drop (unat (ef_chunk_size f)) evs"
    using p tok by (auto simp: page_of_def token_default_def)
  let ?f = "f\<lparr>ef_continuation_token := \<lparr>block_n = c - ?a, event_n = word_of_nat n\<rparr>\<rparr>"
  have n: "unat (word_of_nat n :: u64) = n" using c(5) by (simp add: unsigned_of_nat take_bit_eq_mod)
  have "unat ?a + unat (c - ?a) < 2 ^ 64" using c(2) unat_lt [of c] by (simp add: unat_sub word_le_nat_alt)
  moreover have "readable s E c (ef_to_block f)" using E c(2) by (meson order_trans readable_def)
  ultimately obtain p' where "filter_events s ?f = Some (Ok p')" "page_of E ?f c (drop (unat (ef_chunk_size f)) evs) p'"
    using filter_events_page [of s E c ?f] t c(4,6) by (auto simp: pending_events_def n)
  then show ?thesis using token_roundtrip c(1) by blast
qed

lemma get_events_filter:
  fixes s :: "('h, 'c, 'r, 'x, 'p, 'k) Starknet"
  assumes "substrate_block_number_from_starknet_block s (BlockTagId Latest) = Ok latest"
    and "substrate_block_number_from_starknet_block s (case efp_from_block f of Some b \<Rightarrow> b | None \<Rightarrow> BlockNumberId 0) = Ok from_block"
    and "substrate_block_number_from_starknet_block s (case efp_to_block f of Some b \<Rightarrow> b | None \<Rightarrow> BlockTagId Latest) = Ok to_block"
    and "length (case efp_keys f of Some ks \<Rightarrow> ks | None \<Rightarrow> []) \<le> 100" "unat (efp_chunk_size f) \<le> 1000"
  shows "get_events s (f\<lparr>efp_continuation_token := tok\<rparr>) =
    and_then_search (case tok of Some x \<Rightarrow> map_err (\<lambda>_. custom InvalidContinuationToken) (token_parse x) | None \<Rightarrow> Ok token_default)
      (\<lambda>tok. if to_block < from_block then Some (Ok \<lparr>ep_events = [], ep_continuation_token = None\<rparr>)
        else filter_events s \<lparr>ef_from_block = from_block, ef_to_block = min to_block latest, ef_from_address = efp_address f,
          ef_keys = (case efp_keys f of Some ks \<Rightarrow> ks | None \<Rightarrow> []), ef_chunk_size = efp_chunk_size f,
          ef_continuation_token = tok\<rparr>)"
proof -
  have min: "(if to_block < latest then to_block else latest) = min to_block latest" by (auto simp: min_def)
  show ?thesis
    using assms by (simp add: get_events_def min MAX_EVENTS_KEYS_def MAX_EVENTS_CHUNK_SIZE_def not_less [symmetric]
        split del: if_split cong: if_cong)
qed




text \<open>
  C27. What a page of \<open>get_events\<close> holds, when the blocks of the range can be read, the page size is not zero
  and the request, if it has a continuation token, has one that lies in the range (its event within its block).
  The page holds the first events that match address and keys, from the position of the token on (from the start
  of the range without one), as many as the page size allows, in the order of the chain. A page without a token is
  the last: it holds all of them. The token of the first page, sent back as the string it is, returns the events
  that follow it, none skipped and none repeated. (The token of a later page need not, see
  \<open>resumed_page_repeats\<close> below.)
\<close>

theorem events_paginated:
  fixes s :: "('h, 'c, 'r, 'x, 'p, 'k) Starknet"
  defines "block_number_of \<equiv> substrate_block_number_from_starknet_block s"
  assumes latest: "block_number_of (BlockTagId Latest) = Ok latest" "latest \<noteq> - 1"
    and from_to: "block_number_of (case efp_from_block f of Some b \<Rightarrow> b | None \<Rightarrow> BlockNumberId 0) = Ok from_block"
      "block_number_of (case efp_to_block f of Some b \<Rightarrow> b | None \<Rightarrow> BlockTagId Latest) = Ok to_block"
    and E: "\<And>b. from_block \<le> b \<Longrightarrow> b \<le> min to_block latest \<Longrightarrow> get_block_events s b = Ok (E b) \<and> length (E b) < 2 ^ 64"
    and limits: "length (case efp_keys f of Some ks \<Rightarrow> ks | None \<Rightarrow> []) \<le> 100"
      "efp_chunk_size f \<noteq> 0" "unat (efp_chunk_size f) \<le> 1000"
    and token: "(case efp_continuation_token f of Some t \<Rightarrow> token_parse t | None \<Rightarrow> Ok token_default) = Ok tok"
      "unat from_block + unat (block_n tok) < 2 ^ 64"
      "from_block + block_n tok \<le> min to_block latest \<Longrightarrow> unat (event_n tok) \<le> length (E (from_block + block_n tok))"
  shows "let chunk = unat (efp_chunk_size f);
             wanted = filter (event_matches (efp_address f) (case efp_keys f of Some ks \<Rightarrow> ks | None \<Rightarrow> []))
               (drop (unat (event_n tok)) (events_between E (from_block + block_n tok) (min to_block latest)))
    in \<exists>p. get_events s f = Some (Ok p) \<and> ep_events p = take chunk wanted \<and>
      (ep_continuation_token p = None \<longrightarrow> length wanted \<le> chunk) \<and>
      (\<forall>t. tok = token_default \<longrightarrow> ep_continuation_token p = Some t \<longrightarrow>
         (\<exists>p'. get_events s (f\<lparr>efp_continuation_token := Some t\<rparr>) = Some (Ok p') \<and>
           ep_events p' = take chunk (drop chunk wanted) \<and>
           (ep_continuation_token p' = None \<longrightarrow> length wanted \<le> 2 * chunk)))"
proof -
  let ?t = "min to_block latest" and ?ks = "case efp_keys f of Some ks \<Rightarrow> ks | None \<Rightarrow> []" and ?k = "unat (efp_chunk_size f)"
  let ?a = "from_block + block_n tok"
  let ?w = "filter (event_matches (efp_address f) ?ks) (drop (unat (event_n tok)) (events_between E ?a ?t))"
  define F where "F tok = \<lparr>ef_from_block = from_block, ef_to_block = ?t, ef_from_address = efp_address f, ef_keys = ?ks,
    ef_chunk_size = efp_chunk_size f, ef_continuation_token = tok\<rparr>" for tok
  have t: "?t \<noteq> - 1" using latest(2) word_order.extremum_uniqueI [of latest] by (auto simp: min_def)
  note get = get_events_filter [OF latest(1) [unfolded block_number_of_def] from_to [unfolded block_number_of_def] limits(1,3)]
  have g0: "get_events s f = (if to_block < from_block then Some (Ok \<lparr>ep_events = [], ep_continuation_token = None\<rparr>)
      else filter_events s (F tok))"
    using get [of "efp_continuation_token f"] token(1) by (simp add: F_def split: option.splits)
  have rd: "readable s E c ?t" if "from_block \<le> c" for c
    using E that by (meson order_trans readable_def)
  have a: "from_block \<le> ?a"
    using token(2) by (simp add: word_le_nat_alt unat_word_ariths)
  show ?thesis
  proof (cases "from_block \<le> to_block")
    case False
    moreover have "events_between E ?a ?t = []"
      using False a by (intro events_between_empty) (auto simp: not_le min_less_iff_disj intro: less_le_trans)
    ultimately show ?thesis using g0 by (simp add: not_le)
  next
    case True
    have F: "(F token_default)\<lparr>ef_continuation_token := tok\<rparr> = F tok" "ef_from_block (F tok) = from_block"
        "ef_to_block (F tok) = ?t" "ef_chunk_size (F tok) = efp_chunk_size f" "ef_continuation_token (F tok) = tok" for tok
      by (simp_all add: F_def)
    have "pending_events E (F tok) ?a ?a = ?w"
      by (simp add: pending_events_def F_def)
    then obtain p where p: "filter_events s (F tok) = Some (Ok p)" "page_of E (F tok) ?a ?w p"
      using filter_events_page [of s E ?a "F tok", unfolded F, OF rd [OF a] t limits(2) token(2) refl token(3)] by auto
    have g: "get_events s f = Some (Ok p)" using g0 True p(1) by (simp add: not_le)
    have resume: "\<exists>p'. get_events s (f\<lparr>efp_continuation_token := Some tk\<rparr>) = Some (Ok p') \<and>
        ep_events p' = take ?k (drop ?k ?w) \<and> (ep_continuation_token p' = None \<longrightarrow> length ?w \<le> 2 * ?k)"
      if d: "tok = token_default" and tk: "ep_continuation_token p = Some tk" for tk
    proof -
      have p0: "page_of E (F token_default) from_block ?w p" using p(2) d by (simp add: token_default_def)
      obtain tok' c p' where p': "token_parse tk = Ok tok'" "filter_events s (F tok') = Some (Ok p')"
          "page_of E (F tok') c (drop ?k ?w) p'"
        using filter_events_resume [of s E "F token_default" ?w p tk, unfolded F,
            OF rd [OF order_refl] t limits(2) refl p0 tk] by blast
      have "get_events s (f\<lparr>efp_continuation_token := Some tk\<rparr>) = Some (Ok p')"
        using get [of "Some tk"] True p'(1,2) by (simp add: not_le F_def)
      then show ?thesis using p'(3) by (auto simp: page_of_def F_def)
    qed
    show ?thesis
      unfolding Let_def using g p(2) resume by (auto simp: page_of_def F_def split: option.splits)
  qed
qed

text \<open>
  The token counts blocks from the start of the page, which for a resumed page is not the start of the
  range. With one matching event per block and pages of one event, the third page has the token it was
  asked with: following the tokens returns the same page for ever.
\<close>

lemma resumed_page_repeats:
  assumes f: "ef_from_block f = 0" "ef_chunk_size f = 1" "2 < ef_to_block f"
      "ef_continuation_token f = \<lparr>block_n = 1, event_n = 1\<rparr>"
    and e: "get_block_events s 1 = Ok [e\<^sub>1]" "get_block_events s 2 = Ok [e\<^sub>2]" "event_matches (ef_from_address f) (ef_keys f) e\<^sub>2"
  shows "filter_events s f = Some (Ok \<lparr>ep_events = [e\<^sub>2], ep_continuation_token = Some (token_to_string (ef_continuation_token f))\<rparr>)"
proof -
  have t: "(1 :: u64) \<le> ef_to_block f" "(2 :: u64) \<le> ef_to_block f"
    using f(3) by (simp_all add: word_le_nat_alt word_less_nat_alt)
  have "filter_blocks s f 1 2 [] = Some (Ok \<lparr>ep_events = [e\<^sub>2], ep_continuation_token = Some (token_to_string \<lparr>block_n = 1, event_n = 1\<rparr>)\<rparr>)"
    using f e(3) by (subst filter_blocks_step [OF t(2) e(2), where skip = 0 and n = 1 and fnd = "[e\<^sub>2]" and extra = 0])
      (simp_all add: filter_events_by_params_def)
  then have "filter_blocks s f 1 1 [] = Some (Ok \<lparr>ep_events = [e\<^sub>2], ep_continuation_token = Some (token_to_string \<lparr>block_n = 1, event_n = 1\<rparr>)\<rparr>)"
    using f by (subst filter_blocks_step [OF t(1) e(1), where skip = 1 and n = 0 and fnd = "[]" and extra = 1])
      (simp_all add: filter_events_by_params_def)
  then show ?thesis using f by (simp add: filter_events_def Let_def)
qed

text \<open>A block with two events, read in pages of one.\<close>

definition ev_client :: "(byte, nat, Log) client" where
  "ev_client = tx_client\<lparr>cl_block_body := (\<lambda>h. Some (Some [Starknet_call (Call_invoke (InvokeV1 (sample_invoke [])))])),
     cl_events_at := (\<lambda>h. map (\<lambda>k. (ApplyExtrinsic 0, Starknet_event (StarknetEventEv
       \<lparr>se_from_address = sfelt 7, se_content = \<lparr>ec_keys = [sfelt k], ec_data = []\<rparr>\<rparr>))) [5, 6])\<rparr>"

definition ev_server :: "(byte, nat, unit, unit, Log, bytes) Starknet" where
  "ev_server = (tx_server Map.empty)\<lparr>s_client := ev_client\<rparr>"

definition ev_filter :: EventFilterWithPage where
  "ev_filter = \<lparr>efp_from_block = Some (BlockNumberId 1), efp_to_block = None, efp_address = Some 7, efp_keys = Some [[]],
     efp_continuation_token = None, efp_chunk_size = 1\<rparr>"

lemma ev_server_simps [simp]:
  "s_runtime ev_server = runtime_ref" "s_hasher ev_server = sample_hasher" "s_codecs ev_server = diff_codec"
  "s_client ev_server = ev_client" "s_backend ev_server = Map.empty"
  by (simp_all add: ev_server_def)

interpretation events_server: rpc_libs ev_server
  by (rule rpc_libs.intro) (simp_all only: ev_server_simps sample_chain.ff sample_chain.hasher)

lemma ev_client_simps [simp]:
  "cl_best_hash ev_client = 2" "cl_header ev_client h = Some (tx_head h)"
  "cl_hash ev_client n = Some (if n = 0 then Some 1 else if n = 1 then Some 2 else None)"
  "cl_state_at ev_client 2 = Some (empty_pallet 0)"
  by (simp_all add: ev_client_def tx_client_def sample_client_def)

lemma ev_block:
  "get_block_by_block_hash (rt_dg runtime_ref) ev_client 2 = Ok (block_new sample_header [TInvoke (InvokeV1 (sample_invoke []))])"
  by (simp add: get_block_by_block_hash_def find_starknet_block_def find_log_def find_log_in_def runtime_ref_def digest_ref_def)

lemma ev_latest: "substrate_block_number_from_starknet_block ev_server (BlockTagId Latest) = Ok 1"
  by (simp add: substrate_block_number_from_starknet_block_def substrate_block_hash_from_starknet_block_def ev_block
      block_new_def sample_header_def header_new_def)

lemma ev_hash: "\<exists>x f. starknet_hash ev_server (block_new sample_header txs) = (Ok x :: (_, 'e) result) \<and>
    felt_into (rt_ff runtime_ref) x = (Ok f :: (_, 'e) result)"
proof -
  obtain f t where "carries runtime_ref sample_hasher (the (tx_head 2)) f [sfelt t]" by (rule tx_carries)
  then obtain x where "header_hash (rt_ff runtime_ref) sample_hasher sample_header = (Ok x :: (_, unit) result)"
      "felt_into (rt_ff runtime_ref) x = (Ok f :: (_, unit) result)"
    by (auto simp: carries_def block_new_def find_starknet_block_def find_log_def find_log_in_def runtime_ref_def digest_ref_def)
  then show ?thesis
    using header_hash_retype [where 'e = unit and 'f = 'e] felt_into_retype [where 'e = unit and 'f = 'e]
    unfolding starknet_hash_def by (auto simp: block_new_def)
qed

lemma ev_block_events:
  "\<exists>x t. get_block_events ev_server 1 = Ok (map (\<lambda>k. \<lparr>ee_from_address = 7, ee_keys = [k], ee_data = [], ee_block_hash = x,
     ee_block_number = 1, ee_transaction_hash = t\<rparr>) [5, 6])"
proof -
  let ?tx = "TInvoke (InvokeV1 (sample_invoke []))"
  obtain x f where x: "starknet_hash ev_server (block_new sample_header [?tx]) = (Ok x :: (_, StarknetRpcApiError) result)"
      "felt_into (rt_ff runtime_ref) x = (Ok f :: (_, StarknetRpcApiError) result)"
    using ev_hash by blast
  obtain t where t: "compute_tx_hash ev_server (chain_id runtime_ref) ?tx = (Ok t :: (_, StarknetRpcApiError) result)"
    by (rule events_server.tx_hash_total)
  have body: "cl_block_body ev_client 2 = Some (Some [Starknet_call (Call_invoke (InvokeV1 (sample_invoke [])))])"
    by (simp add: ev_client_def)
  have evs: "get_starknet_events_and_their_associated_tx_index (cl_events_at ev_client 2) =
      map (\<lambda>k. (0, \<lparr>se_from_address = sfelt 7, se_content = \<lparr>ec_keys = [sfelt k], ec_data = []\<rparr>\<rparr>)) [5, 6]"
    by (simp add: ev_client_def get_starknet_events_and_their_associated_tx_index_def)
  have conv: "event_conversion (rt_ff runtime_ref) \<lparr>se_from_address = sfelt 7, se_content = \<lparr>ec_keys = [sfelt k], ec_data = []\<rparr>\<rparr> =
      (Ok \<lparr>ce_from_address = 7, ce_keys = [k], ce_data = []\<rparr> :: (_, StarknetRpcApiError) result)" if "k < 10" for k
    using that sample_chain.libs.stark_felt_roundtrip(2) [of k] sample_chain.libs.stark_felt_roundtrip(2) [of 7]
    by (simp add: event_conversion_def wrapper_from_stark_def felt_prime_def)
  have hash: "substrate_block_hash_from_starknet_block ev_server (BlockNumberId 1) = Ok 2"
    by (simp add: substrate_block_hash_from_starknet_block_def saturate_u32_def)
  have "get_cached_transaction_hashes ev_server f = None"
    by (simp add: get_cached_transaction_hashes_def cached_transaction_hashes_from_block_hash_def)
  then show ?thesis
    using x t
    by (simp add: get_block_events_def hash body evs ev_block api_chain_id_def api_call_def extrinsic_filter_def
        try_txn_hash_from_cache_def emitted_event_def conv)
qed

theorem events_paginated_witness:
  "\<exists>p p' t. get_events ev_server ev_filter = Some (Ok p) \<and> map ee_keys (ep_events p) = [[5]] \<and>
     ep_continuation_token p = Some t \<and>
     get_events ev_server (ev_filter\<lparr>efp_continuation_token := Some t\<rparr>) = Some (Ok p') \<and> map ee_keys (ep_events p') = [[6]]"
proof -
  obtain x t where e: "get_block_events ev_server 1 = Ok (map (\<lambda>k. \<lparr>ee_from_address = 7, ee_keys = [k], ee_data = [],
      ee_block_hash = x, ee_block_number = 1, ee_transaction_hash = t\<rparr>) [5, 6])" (is "_ = Ok ?es")
    using ev_block_events by blast
  have b: "b = 1" if "1 \<le> b" "b \<le> 1" for b :: u64 using that by simp
  have "blocks_between 1 1 = [1]" by (simp add: blocks_between_def)
  then have w: "events_between (\<lambda>_. ?es) 1 1 = ?es" by (simp add: events_between_def)
  have m: "filter (event_matches (Some 7) [[]]) ?es = ?es" by (simp add: event_matches_def)
  have f: "efp_from_block ev_filter = Some (BlockNumberId 1)" "efp_to_block ev_filter = None" "efp_address ev_filter = Some 7"
      "efp_keys ev_filter = Some [[]]" "efp_continuation_token ev_filter = None" "efp_chunk_size ev_filter = 1"
    by (simp_all add: ev_filter_def)
  have n: "substrate_block_number_from_starknet_block ev_server (BlockNumberId 1) = Ok 1"
    by (simp add: substrate_block_number_from_starknet_block_def)
  have z: "block_n token_default = 0" "event_n token_default = 0" by (simp_all add: token_default_def)
  have E: "get_block_events ev_server b = Ok ?es \<and> length ?es < 2 ^ 64" if "1 \<le> b" "b \<le> min 1 1" for b
    using e b that by simp
  have "\<exists>p. get_events ev_server ev_filter = Some (Ok p) \<and> ep_events p = take (unat (1 :: u64)) ?es \<and>
      (ep_continuation_token p = None \<longrightarrow> length ?es \<le> unat (1 :: u64)) \<and>
      (\<forall>t. token_default = token_default \<longrightarrow> ep_continuation_token p = Some t \<longrightarrow>
         (\<exists>p'. get_events ev_server (ev_filter\<lparr>efp_continuation_token := Some t\<rparr>) = Some (Ok p') \<and>
           ep_events p' = take (unat (1 :: u64)) (drop (unat (1 :: u64)) ?es) \<and>
           (ep_continuation_token p' = None \<longrightarrow> length ?es \<le> 2 * unat (1 :: u64))))"
    by (rule events_paginated [of ev_server 1 ev_filter 1 1 "\<lambda>_. ?es" token_default, unfolded f option.case z add_0_right
          unat_0 drop_0 Let_def w min.idem m, OF ev_latest _ n ev_latest E]) simp_all
  then show ?thesis by (auto split: option.splits)
qed


end
