(* ===== verification/Spec2Isabelle.thy ===== *)
theory Spec2Isabelle
  imports Broadcast Settlement Data_Availability L1_Messages Rpc_Events
begin

text \<open>
  A verification development of Madara, a Starknet sequencer built on Substrate. File names below are
  relative to \<^verbatim>\<open>src/\<close>.

  \<^bold>\<open>The program.\<close> Users send Starknet transactions to the JSON-RPC server
  (\<^verbatim>\<open>crates/client/rpc\<close>), which converts them and hands them to Substrate's pool. The pool asks the
  Starknet pallet (\<^verbatim>\<open>crates/pallets/starknet\<close>) whether they are admissible. A block author runs a
  block of them through the pallet: each call executes a transaction
  (\<^verbatim>\<open>crates/primitives/transactions\<close>) with blockifier on the pallet's storage, charges the fee
  (\<^verbatim>\<open>crates/primitives/fee\<close>) and records events and messages; the hook at the end of the block puts
  the Starknet block (\<^verbatim>\<open>crates/primitives/block\<close>) into the digest of the Substrate header. Workers
  then follow the chain: the index of Starknet blocks and transactions (\<^verbatim>\<open>crates/client/mapping-sync\<close>
  on \<^verbatim>\<open>crates/client/db\<close>), state differences and their publication
  (\<^verbatim>\<open>crates/client/commitment-state-diff\<close>, \<^verbatim>\<open>crates/client/data-availability\<close>), settlement on
  L1 (\<^verbatim>\<open>crates/client/settlement\<close> with the output codec \<^verbatim>\<open>crates/primitives/snos-output\<close>) and the
  messages from L1 (\<^verbatim>\<open>crates/client/l1-messages\<close>). The RPC server answers from the index, the headers
  and the state of blocks (\<^verbatim>\<open>crates/client/storage\<close>).

  \<^bold>\<open>Conventions.\<close> Rust structs are records, enums are datatypes, fixed-width integers are words,
  felts are natural numbers below the field prime (or 32 bytes, where the source has a \<open>StarkFelt\<close>).
  A function that can fail returns \<open>result\<close>: \<open>Ok\<close>, \<open>Err\<close> or \<open>Panic\<close>. Where \<open>+\<close> or
  \<open>-\<close> on unsigned integers can leave the type, the outcome depends on the build, which is a parameter: with
  overflow checks it is \<open>Panic\<close>, without them (the profile \<^verbatim>\<open>release\<close>) the value wraps around. These
  places are \<open>l1_handle_fee\<close> (the field \<open>rt_build\<close> of the runtime, which also has the width of
  \<open>usize\<close>), and \<open>attach_tx_hashes\<close>, \<open>filter_block\<close>, \<open>filter_blocks\<close> and \<open>filter_events\<close>
  (the field \<open>s_overflow_checks\<close> of the server); \<open>read_segment\<close> panics in both builds. Elsewhere a guard
  of the code or the length of a vector in memory keeps the value in range, and the 256 bit words of
  \<open>u256_add\<close> panic in every build. Code that changes storage is a function of type \<open>st\<close>,
  from a state to a result and a state. Libraries outside the repository (field arithmetic, hash
  functions, blockifier, SCALE codecs, the Substrate client, the Ethereum client, the data availability
  layer) are records of functions; what the code relies on are their laws (\<open>ff_laws\<close>,
  \<open>bf_laws\<close>, \<open>bf_keeps_nonces\<close>, \<open>codec_laws\<close>, \<open>raw_laws\<close> and others), collected in a locale for each library
  and interpreted on a reference instance, which the witnesses evaluate. Commits of the database either
  happen as a whole or fail without effect; whether one fails is an input.

  \<^bold>\<open>Primitives.\<close>
  \<^item> \<^verbatim>\<open>Prelude\<close>: results, the state monad, byte strings, words.
  \<^item> \<^verbatim>\<open>Felt\<close> (\<^verbatim>\<open>crates/primitives/felt\<close>): the wrapper and its conversions. They are exact: they
    return the value, or fail exactly out of range; decoding succeeds exactly on encodings.
  \<^item> \<^verbatim>\<open>Constants\<close> (\<^verbatim>\<open>chain-id\<close>, \<^verbatim>\<open>program-hash\<close>): the Montgomery limbs stand for the
    documented values.
  \<^item> \<^verbatim>\<open>Hashers\<close> (\<^verbatim>\<open>crates/primitives/hashers\<close>): both hashers, and byte hashing as the hash of
    the 31 byte chunks. The locale \<open>hasher_t\<close> is the trait; both implementations are sublocales.
  \<^item> \<^verbatim>\<open>Messages\<close>, \<^verbatim>\<open>Snos_Output\<close> (\<^verbatim>\<open>messages\<close>, \<^verbatim>\<open>snos-output\<close>): the felt codec of the
    Starknet OS output. The locale \<open>snos_codec\<close> is the trait, with a sublocale for every implementation;
    decoding returns a value exactly when the input starts with its encoding. The loop over the elements of
    a vector is bounded by the length of the input, and \<open>vec_loop_fuel\<close> shows that a larger bound gives
    the same result.
  \<^item> \<^verbatim>\<open>Transactions\<close>, \<^verbatim>\<open>Conversions\<close>, \<^verbatim>\<open>Broadcast\<close> (\<^verbatim>\<open>crates/primitives/transactions\<close>):
    the types, hashes, addresses and conversions, from the transactions a user broadcasts to those blockifier
    executes and back to those the RPC server reports. The hash binds what the protocol binds; conversions
    keep every field.
  \<^item> \<^verbatim>\<open>Block\<close> (\<^verbatim>\<open>block\<close>, \<^verbatim>\<open>digest-log\<close>, \<^verbatim>\<open>sequencer-address\<close>): headers, blocks, the log in
    the digest. A block is read back exactly when the digest holds exactly one Madara log; the header hash
    covers every field but gas price and extra data, and of the transactions only their number.

  \<^bold>\<open>The pallet.\<close>
  \<^item> \<^verbatim>\<open>Blockifier\<close>: the types and functions of blockifier that the sources use. \<^verbatim>\<open>State\<close>
    (\<^verbatim>\<open>state\<close>, \<^verbatim>\<open>blockifier_state_adapter.rs\<close>): contract storage and the adapter, which refines
    it and counts changes; the locales \<open>state_reader\<close> and \<open>state_writer\<close> are blockifier's traits,
    interpreted on the adapter and on the dictionary reader.
  \<^item> \<^verbatim>\<open>Fee\<close>, \<^verbatim>\<open>Execution\<close> (\<^verbatim>\<open>fee\<close>, \<^verbatim>\<open>transactions/src/execution.rs\<close>): the price of a
    transaction, validation, nonces, execution, revert and fee transfer for each kind. Nonces protect against
    replay, from the first check to the state a transaction of any kind leaves; fees stay below their maximum; an
    accepted transaction whose run failed keeps the writes of that run.
  \<^item> \<^verbatim>\<open>Call_Events\<close>, \<^verbatim>\<open>Pallet\<close> (\<^verbatim>\<open>crates/pallets/starknet/src/lib.rs\<close>): storage, genesis,
    calls and hooks. \<^verbatim>\<open>Chain\<close> runs them as a step relation with its invariant, and
    \<^verbatim>\<open>Chain_Properties\<close> derives that blocks close and the chain can always go on, that messages from L1
    are consumed once, that the sequencer address is set once in every block after the first, that events keep the order of emission,
    and what genesis builds.
  \<^item> \<^verbatim>\<open>Validation\<close> (\<^verbatim>\<open>transaction_validation.rs\<close>): admission and ordering in the pool.
    \<^verbatim>\<open>Simulations\<close> (\<^verbatim>\<open>simulations.rs\<close>): estimates and simulations leave storage alone, and
    re-execution reproduces the block.

  \<^bold>\<open>The node.\<close>
  \<^item> \<^verbatim>\<open>Client\<close> (\<^verbatim>\<open>crates/runtime/src/lib.rs\<close>): the Substrate client as a record of its answers, and
    the runtime API. \<^verbatim>\<open>Db\<close> (\<^verbatim>\<open>crates/client/db\<close>): the databases, which refine the index of the
    chain (\<open>represents\<close>).
  \<^item> \<^verbatim>\<open>Mapping_Sync\<close>: the indexing worker. Its runs are the relation \<open>indexing\<close>, in which commits
    may fail at any point. The index never says anything false about the chain, and the walk ends with
    everything indexed when commits succeed; the number of steps needed is part of the statement.
  \<^item> \<^verbatim>\<open>Settlement\<close>: accepted outputs continue the settled state without a gap.
  \<^item> \<^verbatim>\<open>Storage_Override\<close> (\<^verbatim>\<open>crates/client/storage\<close>): both readers of contract storage satisfy the
    contract \<open>storage_override\<close> and agree on deployed contracts. \<^verbatim>\<open>State_Diff\<close>: the difference of
    a block, applied to the state before it, gives the state after it. \<^verbatim>\<open>Data_Availability\<close>: its
    encoding does not panic when nonces are field elements, and with a working layer every block is stored and,
    in sovereign mode, published.
  \<^item> \<^verbatim>\<open>L1_Messages\<close>: the worker submits exactly the well-formed new events and never panics.
  \<^item> \<^verbatim>\<open>Rpc\<close>, \<^verbatim>\<open>Rpc_Transactions\<close>, \<^verbatim>\<open>Rpc_Events\<close> (\<^verbatim>\<open>crates/client/rpc\<close>): blocks,
    transactions, receipts, synchronisation state and events. On the database of any run of the indexing
    worker a request by hash returns a transaction of the chain with that hash and misses none of a synced block
    (where the cache is on, provided no two blocks of one Starknet hash have different transactions,
    \<open>cache_unambiguous\<close>); a page of events holds what follows the position of its token, the second page
    continues the first, and a request for events returns. Tokens of later pages can lead back
    (\<open>resumed_page_repeats\<close>).

  \<^bold>\<open>Loops.\<close> Every loop but one is a terminating function. The loop over the tips in
  \<^verbatim>\<open>Mapping_Sync\<close> recurses on the list of tips, \<open>settle_blocks\<close> on the distance to the last block. The
  search \<open>filter_blocks\<close> is a partial function, since without overflow checks the block numbers wrap around;
  \<open>filter_blocks_return\<close> shows that it ends in every other case. The loops of the workers over their streams on the list of what the stream
  yields. Unbounded worker loops appear as sequences of steps of any length.

  \<^bold>\<open>Not modelled.\<close> Command line, service wiring, file downloads, metrics and the network clients
  of the data availability layers, which are input and output; serde glue and the genesis file; the RPC
  methods that read contract state, estimate fees, submit transactions or trace blocks; the inside of
  libraries. Tasks that the data availability worker spawns run one after the other, in any order of the
  blocks given. The contract class of blockifier is a type parameter wherever the code only passes it on.
\<close>

end
